(* ===== verification/Prelude.thy ===== *)
theory Prelude
  imports Main "HOL-Library.AList" "HOL-Library.List_Lexorder" "HOL-Library.Char_ord"
begin

text \<open>
  Shared vocabulary of the development: instants and durations as integer microseconds
  (Python's datetime resolution), insertion-ordered dictionaries as association lists, the
  "newest row per key" loop that several jobs of the program contain, the stable
  first-maximum / first-minimum selections of Python's max and min, and generic lemmas on
  lists and maps.
\<close>

named_theorems ordered_dict_laws \<open>lookup and key laws of insertion-ordered dictionaries\<close>
named_theorems selection_laws \<open>laws of first-maximum and first-minimum selection\<close>

section \<open>Time\<close>

type_synonym instant = int
type_synonym duration = int

definition seconds :: "int \<Rightarrow> duration" where
  "seconds n = n * 1000000"

definition minutes :: "int \<Rightarrow> duration" where
  "minutes n = n * 60000000"

definition hours :: "int \<Rightarrow> duration" where
  "hours n = n * 3600000000"

definition days :: "int \<Rightarrow> duration" where
  "days n = n * 86400000000"

lemma minutes_pos [simp]: "0 < minutes n \<longleftrightarrow> 0 < n"
  by (simp add: minutes_def)

lemma hours_pos [simp]: "0 < hours n \<longleftrightarrow> 0 < n"
  by (simp add: hours_def)

lemma days_pos [simp]: "0 < days n \<longleftrightarrow> 0 < n"
  by (simp add: days_def)

section \<open>Insertion-ordered dictionaries\<close>

text \<open>A Python dict is an association list with distinct keys: reading is
  \<open>map_of\<close>, \<open>d[k] = v\<close> is \<open>AList.update\<close> (in place, or appended at the end),
  \<open>d.pop(k, None)\<close> is \<open>AList.delete\<close>.\<close>

type_synonym ('k, 'v) dict = "('k \<times> 'v) list"

abbreviation dget :: "('k, 'v) dict \<Rightarrow> 'k \<Rightarrow> 'v option" where
  "dget \<equiv> map_of"

abbreviation dset :: "'k \<Rightarrow> 'v \<Rightarrow> ('k, 'v) dict \<Rightarrow> ('k, 'v) dict" where
  "dset \<equiv> AList.update"

abbreviation dpop :: "'k \<Rightarrow> ('k, 'v) dict \<Rightarrow> ('k, 'v) dict" where
  "dpop \<equiv> AList.delete"

abbreviation dkeys :: "('k, 'v) dict \<Rightarrow> 'k list" where
  "dkeys d \<equiv> map fst d"

abbreviation dvalues :: "('k, 'v) dict \<Rightarrow> 'v list" where
  "dvalues d \<equiv> map snd d"

definition wf_dict :: "('k, 'v) dict \<Rightarrow> bool" where
  "wf_dict d \<longleftrightarrow> distinct (dkeys d)"

lemma wf_dict_Nil [simp]: "wf_dict []"
  by (simp add: wf_dict_def)

lemma dget_dset [simp, ordered_dict_laws]: "dget (dset k v d) k' = (if k' = k then Some v else dget d k')"
  by (simp add: update_conv')

lemma dget_dpop [simp, ordered_dict_laws]: "dget (dpop k d) k' = (if k' = k then None else dget d k')"
  by (simp add: delete_conv')

lemma wf_dset [simp, ordered_dict_laws]: "wf_dict d \<Longrightarrow> wf_dict (dset k v d)"
  by (simp add: wf_dict_def distinct_update)

lemma wf_dpop [simp, ordered_dict_laws]: "wf_dict d \<Longrightarrow> wf_dict (dpop k d)"
  by (simp add: wf_dict_def distinct_delete)

lemma dkeys_dset [simp]: "set (dkeys (dset k v d)) = insert k (set (dkeys d))"
proof -
  have "dom (map_of (dset k v d)) = insert k (dom (map_of d))"
    by (auto simp: update_conv' split: if_splits)
  then show ?thesis
    by (simp add: dom_map_of_conv_image_fst)
qed

lemma dget_None_iff: "dget d k = None \<longleftrightarrow> k \<notin> set (dkeys d)"
  by (simp add: map_of_eq_None_iff)

lemma dget_SomeD: "dget d k = Some v \<Longrightarrow> k \<in> set (dkeys d)"
  by (metis dget_None_iff option.distinct(1))

lemma wf_dict_mem_iff: "wf_dict d \<Longrightarrow> (k, v) \<in> set d \<longleftrightarrow> dget d k = Some v"
  by (simp add: wf_dict_def)

lemma wf_dict_value_iff:
  "wf_dict d \<Longrightarrow> v \<in> set (dvalues d) \<longleftrightarrow> (\<exists>k. dget d k = Some v)"
  by (force simp: wf_dict_def image_iff)

definition restrict_keys :: "'k list \<Rightarrow> ('k, 'v) dict \<Rightarrow> ('k, 'v) dict" where
  "restrict_keys ks d = filter (\<lambda>p. fst p \<in> set ks) d"

lemma dget_restrict_keys [simp, ordered_dict_laws]:
  "dget (restrict_keys ks d) k = (if k \<in> set ks then dget d k else None)"
  by (induction d) (auto simp: restrict_keys_def)

lemma wf_restrict_keys [simp]: "wf_dict d \<Longrightarrow> wf_dict (restrict_keys ks d)"
  by (induction d) (auto simp: wf_dict_def restrict_keys_def)

section \<open>The newest row per key\<close>

text \<open>The loop \<open>prev = latest.get(key(x)); if prev is None or ts(x) > ts(prev): latest[key(x)] = x\<close>,
  with its strict comparison (the first of several equally new rows stays).\<close>

definition newest_step :: "('a \<Rightarrow> 'k) \<Rightarrow> ('a \<Rightarrow> 't::linorder) \<Rightarrow> ('k, 'a) dict \<Rightarrow> 'a \<Rightarrow> ('k, 'a) dict" where
  "newest_step key ts d x =
     (case dget d (key x) of
        None \<Rightarrow> dset (key x) x d
      | Some y \<Rightarrow> if ts x > ts y then dset (key x) x d else d)"

primrec newest_by :: "('a \<Rightarrow> 'k) \<Rightarrow> ('a \<Rightarrow> 't::linorder) \<Rightarrow> ('k, 'a) dict \<Rightarrow> 'a list \<Rightarrow> ('k, 'a) dict" where
  "newest_by key ts d [] = d"
| "newest_by key ts d (x # xs) = newest_by key ts (newest_step key ts d x) xs"

lemma dget_newest_step [ordered_dict_laws]:
  "dget (newest_step key ts d x) k =
     (if k = key x
      then Some (case dget d k of None \<Rightarrow> x | Some y \<Rightarrow> if ts x > ts y then x else y)
      else dget d k)"
  by (simp add: newest_step_def split: option.split)

definition keyed :: "('a \<Rightarrow> 'k) \<Rightarrow> ('k, 'a) dict \<Rightarrow> bool" where
  "keyed key d \<longleftrightarrow> wf_dict d \<and> (\<forall>k v. dget d k = Some v \<longrightarrow> key v = k)"

lemma keyed_Nil [simp]: "keyed key []"
  by (simp add: keyed_def)

lemma keyed_dset [simp]: "keyed key d \<Longrightarrow> keyed key (dset (key x) x d)"
  by (auto simp: keyed_def split: if_splits)

lemma keyed_newest_step [simp]: "keyed key d \<Longrightarrow> keyed key (newest_step key ts d x)"
  by (simp add: newest_step_def split: option.split)

lemma newest_by_keyed: "keyed key d \<Longrightarrow> keyed key (newest_by key ts d xs)"
  by (induction xs arbitrary: d) simp_all

lemma keyed_keys: "keyed key d \<Longrightarrow> map key (dvalues d) = dkeys d"
proof -
  assume k: "keyed key d"
  have "key (snd e) = fst e" if "e \<in> set d" for e
    using k that wf_dict_mem_iff[of d "fst e" "snd e"] by (simp add: keyed_def)
  then show ?thesis by simp
qed

lemma newest_by_append:
  "newest_by key ts d (xs @ ys) = newest_by key ts (newest_by key ts d xs) ys"
  by (induction xs arbitrary: d) simp_all

lemma newest_by_dom_acc:
  "dget (newest_by key ts d xs) k = None \<longleftrightarrow> dget d k = None \<and> k \<notin> key ` set xs"
  by (induction xs arbitrary: d) (auto simp: dget_newest_step)

lemma newest_by_sound:
  "dget (newest_by key ts d xs) k = Some v \<Longrightarrow> dget d k = Some v \<or> (v \<in> set xs \<and> key v = k)"
proof (induction xs arbitrary: d)
  case (Cons x xs)
  from Cons.IH[of "newest_step key ts d x"] Cons.prems
  have "dget (newest_step key ts d x) k = Some v \<or> (v \<in> set xs \<and> key v = k)" by simp
  then show ?case by (auto simp: dget_newest_step split: option.splits if_splits)
qed simp

lemma newest_by_newest_acc:
  "dget d k = Some v \<Longrightarrow> \<exists>w. dget (newest_by key ts d xs) k = Some w \<and> ts v \<le> ts w"
proof (induction xs arbitrary: d v)
  case (Cons x xs)
  then have "\<exists>w. dget (newest_step key ts d x) k = Some w \<and> ts v \<le> ts w"
    by (auto simp: dget_newest_step)
  then show ?case using Cons.IH by (fastforce dest: order.trans)
qed simp

lemma newest_by_newest:
  "x \<in> set xs \<Longrightarrow> \<exists>w. dget (newest_by key ts d xs) (key x) = Some w \<and> ts x \<le> ts w"
proof (induction xs arbitrary: d)
  case (Cons y ys)
  have "\<exists>w. dget (newest_step key ts d y) (key y) = Some w \<and> ts y \<le> ts w"
    by (auto simp: dget_newest_step split: option.split)
  then have "\<exists>w. dget (newest_by key ts d (y # ys)) (key y) = Some w \<and> ts y \<le> ts w"
    using newest_by_newest_acc[of "newest_step key ts d y" "key y" _ key ts ys]
    by (fastforce dest: order.trans)
  then show ?case using Cons by auto
qed simp

text \<open>The three laws together, for a loop that starts from the empty dictionary.\<close>

lemma newest_by_lookup:
  assumes "dget (newest_by key ts [] xs) k = Some v"
  shows "v \<in> set xs" "key v = k" "\<And>x. x \<in> set xs \<Longrightarrow> key x = k \<Longrightarrow> ts x \<le> ts v"
proof -
  show "v \<in> set xs" "key v = k"
    using newest_by_sound[OF assms] by simp_all
  fix x assume "x \<in> set xs" "key x = k"
  with newest_by_newest[of x xs key ts "[]"] assms show "ts x \<le> ts v" by auto
qed

lemma newest_by_dom: "dget (newest_by key ts [] xs) k = None \<longleftrightarrow> k \<notin> key ` set xs"
  by (simp add: newest_by_dom_acc)

lemma newest_by_wf: "wf_dict (newest_by key ts [] xs)"
  using newest_by_keyed[of key "[]" ts xs] by (simp add: keyed_def)

section \<open>First maximum and first minimum\<close>

text \<open>Python's \<open>max(xs, key=f)\<close> and \<open>min(xs, key=f)\<close>: the first element with an extreme key.\<close>

primrec first_max :: "('a \<Rightarrow> 't::linorder) \<Rightarrow> 'a \<Rightarrow> 'a list \<Rightarrow> 'a" where
  "first_max f best [] = best"
| "first_max f best (x # xs) = first_max f (if f x > f best then x else best) xs"

primrec first_min :: "('a \<Rightarrow> 't::linorder) \<Rightarrow> 'a \<Rightarrow> 'a list \<Rightarrow> 'a" where
  "first_min f best [] = best"
| "first_min f best (x # xs) = first_min f (if f x < f best then x else best) xs"

lemma first_max_mem [selection_laws]: "first_max f b xs \<in> insert b (set xs)"
  by (induction xs arbitrary: b) (simp, fastforce)

lemma first_min_mem [selection_laws]: "first_min f b xs \<in> insert b (set xs)"
  by (induction xs arbitrary: b) (simp, fastforce)

lemma first_max_ge [selection_laws]: "y \<in> insert b (set xs) \<Longrightarrow> f y \<le> f (first_max f b xs)"
proof (induction xs arbitrary: b y)
  case (Cons x xs)
  let ?b = "if f x > f b then x else b"
  have IH: "\<And>z. z = ?b \<or> z \<in> set xs \<Longrightarrow> f z \<le> f (first_max f ?b xs)"
    by (rule Cons.IH) simp
  have "f x \<le> f ?b" "f b \<le> f ?b" "f ?b \<le> f (first_max f ?b xs)"
    using IH[of ?b] linear[of "f x" "f b"] by (auto simp: not_less)
  then have "f x \<le> f (first_max f ?b xs)" "f b \<le> f (first_max f ?b xs)"
    by (blast intro: order.trans)+
  then show ?case using Cons.prems IH by auto
qed simp

lemma first_min_le [selection_laws]: "y \<in> insert b (set xs) \<Longrightarrow> f (first_min f b xs) \<le> f y"
proof (induction xs arbitrary: b y)
  case (Cons x xs)
  let ?b = "if f x < f b then x else b"
  have IH: "\<And>z. z = ?b \<or> z \<in> set xs \<Longrightarrow> f (first_min f ?b xs) \<le> f z"
    by (rule Cons.IH) simp
  have "f ?b \<le> f x" "f ?b \<le> f b" "f (first_min f ?b xs) \<le> f ?b"
    using IH[of ?b] linear[of "f x" "f b"] by (auto simp: not_less)
  then have "f (first_min f ?b xs) \<le> f x" "f (first_min f ?b xs) \<le> f b"
    by (blast intro: order.trans)+
  then show ?case using Cons.prems IH by auto
qed simp

definition max_by :: "('a \<Rightarrow> 't::linorder) \<Rightarrow> 'a list \<Rightarrow> 'a option" where
  "max_by f xs = (case xs of [] \<Rightarrow> None | x # rest \<Rightarrow> Some (first_max f x rest))"

definition min_by :: "('a \<Rightarrow> 't::linorder) \<Rightarrow> 'a list \<Rightarrow> 'a option" where
  "min_by f xs = (case xs of [] \<Rightarrow> None | x # rest \<Rightarrow> Some (first_min f x rest))"

lemma max_by_Some:
  assumes "max_by f xs = Some m"
  shows "m \<in> set xs" "\<And>x. x \<in> set xs \<Longrightarrow> f x \<le> f m"
  using assms first_max_mem[of f] first_max_ge[of _ _ _ f]
  by (auto simp: max_by_def split: list.splits)

lemma min_by_Some:
  assumes "min_by f xs = Some m"
  shows "m \<in> set xs" "\<And>x. x \<in> set xs \<Longrightarrow> f m \<le> f x"
  using assms first_min_mem[of f] first_min_le[of _ _ _ f]
  by (auto simp: min_by_def split: list.splits)

lemma max_by_None [simp]: "max_by f xs = None \<longleftrightarrow> xs = []"
  by (simp add: max_by_def split: list.split)

lemma min_by_None [simp]: "min_by f xs = None \<longleftrightarrow> xs = []"
  by (simp add: min_by_def split: list.split)

text \<open>The first maximum is characterised by what stands before and after it.\<close>

lemma first_max_stays: "\<forall>z \<in> set zs. f z \<le> f m \<Longrightarrow> first_max f m zs = m"
  by (induction zs) (auto simp: not_less)

lemma first_max_reaches:
  "f b < f m \<Longrightarrow> \<forall>y \<in> set ys. f y < f m \<Longrightarrow> first_max f b (ys @ m # zs) = first_max f m zs"
  by (induction ys arbitrary: b) simp_all

lemma max_by_iff:
  "max_by f xs = Some m \<longleftrightarrow>
     (\<exists>ys zs. xs = ys @ m # zs \<and> (\<forall>y \<in> set ys. f y < f m) \<and> (\<forall>z \<in> set zs. f z \<le> f m))"
proof -
  have here: "max_by f (ys @ x # zs) = Some x"
    if "\<forall>y \<in> set ys. f y < f x" "\<forall>z \<in> set zs. f z \<le> f x" for ys x zs
    using that by (cases ys) (simp_all add: max_by_def first_max_stays first_max_reaches)
  show ?thesis
  proof
    assume m: "max_by f xs = Some m"
    note le = max_by_Some(2)[OF m]
    have "\<exists>x \<in> set xs. f x = f m" using max_by_Some(1)[OF m] by blast
    then obtain ys x zs where s: "xs = ys @ x # zs" "f x = f m" "\<forall>y \<in> set ys. f y \<noteq> f m"
      using split_list_first_prop[of xs "\<lambda>x. f x = f m"] by blast
    have "\<forall>y \<in> set ys. f y < f x" "\<forall>z \<in> set zs. f z \<le> f x"
      using s le by (auto simp: order.strict_iff_order)
    with here s(1) m have "x = m" by simp
    then show "\<exists>ys zs. xs = ys @ m # zs \<and> (\<forall>y \<in> set ys. f y < f m) \<and> (\<forall>z \<in> set zs. f z \<le> f m)"
      using s(1) \<open>\<forall>y \<in> set ys. f y < f x\<close> \<open>\<forall>z \<in> set zs. f z \<le> f x\<close> by blast
  qed (use here in blast)
qed

lemma max_by_filter:
  assumes "max_by f xs = Some m" "P m"
  shows "max_by f (filter P xs) = Some m"
proof -
  obtain ys zs where "xs = ys @ m # zs" "\<forall>y \<in> set ys. f y < f m" "\<forall>z \<in> set zs. f z \<le> f m"
    using assms(1) unfolding max_by_iff by blast
  with assms(2) show ?thesis
    unfolding max_by_iff by (intro exI[of _ "filter P ys"] exI[of _ "filter P zs"]) simp
qed

text \<open>The newest-row loop, looked up at a key, is the first maximum among the rows of that key.\<close>

lemma newest_by_max_acc:
  "dget (newest_by key ts d xs) k =
     (case dget d k of
        None \<Rightarrow> max_by ts (filter (\<lambda>x. key x = k) xs)
      | Some y \<Rightarrow> Some (first_max ts y (filter (\<lambda>x. key x = k) xs)))"
  by (induction xs arbitrary: d) (auto simp: dget_newest_step max_by_def split: option.split)

lemma newest_by_max: "dget (newest_by key ts [] xs) k = max_by ts (filter (\<lambda>x. key x = k) xs)"
  by (simp add: newest_by_max_acc)

lemma newest_by_filter:
  assumes "\<And>k v. dget (newest_by key ts [] xs) k = Some v \<Longrightarrow> P v"
  shows "dget (newest_by key ts [] (filter P xs)) k = dget (newest_by key ts [] xs) k"
proof (cases "dget (newest_by key ts [] xs) k")
  case None
  then have "dget (newest_by key ts [] (filter P xs)) k = None"
    unfolding newest_by_dom by auto
  with None show ?thesis by simp
next
  case (Some v)
  then have "P v" by (rule assms)
  then have "max_by ts (filter P (filter (\<lambda>x. key x = k) xs)) = Some v"
    using Some by (subst max_by_filter[where m = v]) (simp_all add: newest_by_max)
  then show ?thesis using Some
    by (simp add: newest_by_max filter_filter conj_commute)
qed

section \<open>Lists and sets\<close>

text \<open>Python's \<open>sorted(set)\<close> of a set given by a list.\<close>

definition sorted_set :: "'a::linorder list \<Rightarrow> 'a list" where
  "sorted_set xs = sort (remdups xs)"

lemma set_sorted_set [simp]: "set (sorted_set xs) = set xs"
  by (simp add: sorted_set_def)

lemma sorted_sorted_set [simp]: "sorted (sorted_set xs)"
  by (simp add: sorted_set_def)

lemma distinct_sorted_set [simp]: "distinct (sorted_set xs)"
  by (simp add: sorted_set_def)

lemma length_sorted_set [simp]: "length (sorted_set xs) = card (set xs)"
  by (simp add: sorted_set_def length_remdups_card_conv)

lemma sorted_set_eq_Nil [simp]: "sorted_set xs = [] \<longleftrightarrow> xs = []"
  by (metis set_empty set_sorted_set)

lemma map_filter_in_set: "set (List.map_filter f xs) = {y. \<exists>x \<in> set xs. f x = Some y}"
  by (force simp: map_filter_def image_iff)

lemma length_filter_partition: "length (filter P xs) + length (filter (\<lambda>x. \<not> P x) xs) = length xs"
  by (rule sum_length_filter_compl)

lemma sum_list_map_length: "sum_list (map length xss) = length (concat xss)"
  by (simp add: length_concat)

end
