(* ===== verification/PyString.thy ===== *)
theory PyString
  imports Prelude
begin

text \<open>
  The parts of Python's str and int the program leans on: decimal printing of an int, the
  int() constructor on text (surrounding whitespace, a sign, single underscores between
  digits, the 4300-digit limit), str.strip, str.lower, str.rpartition, str.split on a
  separator, str.startswith and the snake_case splitting used for Action parameters.
  Characters are the 8-bit code points of \<open>char\<close>; ASCII text is represented exactly.
\<close>

section \<open>Character classes\<close>

definition is_digit :: "char \<Rightarrow> bool" where
  "is_digit c \<longleftrightarrow> CHR ''0'' \<le> c \<and> c \<le> CHR ''9''"

definition digit_val :: "char \<Rightarrow> nat" where
  "digit_val c = (of_char c :: nat) - 48"

definition digit_char :: "nat \<Rightarrow> char" where
  "digit_char n = char_of (48 + n)"

text \<open>str.isspace below U+0100: tab to carriage return, the four separators, space, NEL, NBSP.\<close>

definition is_space :: "char \<Rightarrow> bool" where
  "is_space c = (let n = (of_char c :: nat) in (9 \<le> n \<and> n \<le> 13) \<or> (28 \<le> n \<and> n \<le> 32) \<or> n = 133 \<or> n = 160)"

definition to_lower :: "char \<Rightarrow> char" where
  "to_lower c = (let n = (of_char c :: nat) in if 65 \<le> n \<and> n \<le> 90 then char_of (n + 32) else c)"

definition to_upper :: "char \<Rightarrow> char" where
  "to_upper c = (let n = (of_char c :: nat) in if 97 \<le> n \<and> n \<le> 122 then char_of (n - 32) else c)"

lemma digit_char_values [simp]:
  "digit_char 0 = CHR ''0''"
  "digit_char (Suc 0) = CHR ''1''" "digit_char 1 = CHR ''1''"
  "digit_char 2 = CHR ''2''"
  "digit_char 3 = CHR ''3''"
  "digit_char 4 = CHR ''4''"
  "digit_char 5 = CHR ''5''"
  "digit_char 6 = CHR ''6''"
  "digit_char 7 = CHR ''7''"
  "digit_char 8 = CHR ''8''"
  "digit_char 9 = CHR ''9''"
  by code_simp+

lemma is_digit_iff: "is_digit c \<longleftrightarrow> 48 \<le> (of_char c :: nat) \<and> (of_char c :: nat) \<le> 57"
  by (simp add: is_digit_def less_eq_char_def)

lemma of_char_digit_char [simp]: "d < 10 \<Longrightarrow> (of_char (digit_char d) :: nat) = 48 + d"
  by (simp add: digit_char_def)

lemma is_digit_digit_char [simp]: "d < 10 \<Longrightarrow> is_digit (digit_char d)"
  by (simp add: is_digit_iff)

lemma digit_val_digit_char [simp]: "d < 10 \<Longrightarrow> digit_val (digit_char d) = d"
  by (simp add: digit_val_def)

lemma digit_not_space: "is_digit c \<Longrightarrow> \<not> is_space c"
  by (simp add: is_digit_iff is_space_def Let_def)

lemma digit_not_minus [simp]: "is_digit c \<Longrightarrow> c \<noteq> CHR ''-''"
  by (auto simp: is_digit_iff)

lemma digit_not_plus [simp]: "is_digit c \<Longrightarrow> c \<noteq> CHR ''+''"
  by (auto simp: is_digit_iff)

section \<open>Stripping, prefixes, splitting\<close>

definition lstrip :: "string \<Rightarrow> string" where
  "lstrip s = dropWhile is_space s"

definition rstrip :: "string \<Rightarrow> string" where
  "rstrip s = rev (dropWhile is_space (rev s))"

definition strip :: "string \<Rightarrow> string" where
  "strip s = rstrip (lstrip s)"

definition lower :: "string \<Rightarrow> string" where
  "lower s = map to_lower s"

definition upper :: "string \<Rightarrow> string" where
  "upper s = map to_upper s"

definition starts_with :: "string \<Rightarrow> string \<Rightarrow> bool" where
  "starts_with s p \<longleftrightarrow> take (length p) s = p"

text \<open>\<open>s.split(c)\<close>: the maximal pieces between separators, empty ones kept.\<close>

primrec split_on :: "char \<Rightarrow> string \<Rightarrow> string list" where
  "split_on c [] = [[]]"
| "split_on c (x # xs) =
     (if x = c then [] # split_on c xs
      else case split_on c xs of [] \<Rightarrow> [[x]] | w # ws \<Rightarrow> (x # w) # ws)"

text \<open>\<open>head, sep, tail = s.rpartition(c)\<close>, without the separator: ('''', s) when it is absent.\<close>

definition rpartition :: "char \<Rightarrow> string \<Rightarrow> string \<times> string" where
  "rpartition c s =
     (if c \<in> set s
      then (rev (tl (dropWhile (\<lambda>x. x \<noteq> c) (rev s))), rev (takeWhile (\<lambda>x. x \<noteq> c) (rev s)))
      else ([], s))"

lemma rpartition_append:
  assumes "c \<notin> set t"
  shows "rpartition c (h @ c # t) = (h, t)"
proof -
  have r: "rev (h @ c # t) = rev t @ c # rev h" by simp
  have "\<forall>x \<in> set t. x \<noteq> c" using assms by auto
  then have "dropWhile (\<lambda>x. x \<noteq> c) (rev t @ c # rev h) = c # rev h"
    "takeWhile (\<lambda>x. x \<noteq> c) (rev t @ c # rev h) = rev t"
    by (simp_all add: takeWhile_append dropWhile_append)
  then show ?thesis
    unfolding rpartition_def r by simp
qed

lemma rpartition_join:
  assumes "c \<in> set s"
  shows "s = fst (rpartition c s) @ c # snd (rpartition c s)"
proof -
  obtain h t where "s = h @ c # t" "c \<notin> set t"
    using split_list_last[OF assms] by blast
  then show ?thesis by (simp add: rpartition_append)
qed

lemma strip_no_space:
  assumes "\<forall>c \<in> set s. \<not> is_space c"
  shows "strip s = s"
proof -
  have id: "dropWhile is_space u = u" if "\<forall>c \<in> set u. \<not> is_space c" for u
    using that by (cases u) simp_all
  show ?thesis using assms by (simp add: strip_def lstrip_def rstrip_def id)
qed

section \<open>Decimal printing\<close>

fun show_nat :: "nat \<Rightarrow> string" where
  "show_nat n = (if n < 10 then [digit_char n] else show_nat (n div 10) @ [digit_char (n mod 10)])"

declare show_nat.simps [simp del]

definition show_int :: "int \<Rightarrow> string" where
  "show_int i = (if i < 0 then CHR ''-'' # show_nat (nat (- i)) else show_nat (nat i))"

lemma show_nat_digits: "c \<in> set (show_nat n) \<Longrightarrow> is_digit c"
proof (induction n arbitrary: c rule: show_nat.induct)
  case (1 n)
  then show ?case
    by (cases "n < 10") (auto simp: show_nat.simps[of n])
qed

lemma show_nat_nonempty [simp]: "show_nat n \<noteq> []"
  by (simp add: show_nat.simps[of n])

lemma show_nat_length: "n < 10 ^ k \<Longrightarrow> 0 < k \<Longrightarrow> length (show_nat n) \<le> k"
proof (induction n arbitrary: k rule: show_nat.induct)
  case (1 n)
  show ?case
  proof (cases "n < 10")
    case True
    then show ?thesis using 1 by (simp add: show_nat.simps[of n])
  next
    case False
    then obtain k' where k: "k = Suc k'" "0 < k'"
      using 1(2,3) by (cases k; cases "k - 1") auto
    have "n div 10 < 10 ^ k'" using 1(2) k by (simp add: less_mult_imp_div_less mult.commute)
    then have "length (show_nat (n div 10)) \<le> k'" using 1(1) False k by simp
    then show ?thesis using False k by (simp add: show_nat.simps[of n])
  qed
qed

section \<open>int() on text\<close>

text \<open>The digit loop of int(): an underscore is allowed only between two digits. The second
  argument says whether the previous character was a digit.\<close>

fun read_digits :: "nat \<Rightarrow> bool \<Rightarrow> string \<Rightarrow> nat option" where
  "read_digits acc prev [] = (if prev then Some acc else None)"
| "read_digits acc prev (c # cs) =
     (if is_digit c then read_digits (10 * acc + digit_val c) True cs
      else if c = CHR ''_'' \<and> prev then read_digits acc False cs
      else None)"

definition max_int_digits :: nat where
  "max_int_digits = 4300"

definition read_nat :: "string \<Rightarrow> nat option" where
  "read_nat s = (if length (filter is_digit s) > max_int_digits then None else read_digits 0 False s)"

text \<open>int(s); None is the ValueError.\<close>

definition py_int :: "string \<Rightarrow> int option" where
  "py_int s =
     (case strip s of
        [] \<Rightarrow> None
      | c # cs \<Rightarrow>
          if c = CHR ''-'' then map_option (\<lambda>n. - int n) (read_nat cs)
          else if c = CHR ''+'' then map_option int (read_nat cs)
          else map_option int (read_nat (c # cs)))"

lemma read_digits_append:
  assumes "\<forall>c \<in> set s. is_digit c" "s \<noteq> []"
  shows "read_digits acc prev (s @ t) =
           read_digits (foldl (\<lambda>a c. 10 * a + digit_val c) acc s) True t"
  using assms
proof (induction s arbitrary: acc prev)
  case (Cons c s)
  then show ?case by (cases "s = []") (simp_all add: Cons.IH)
qed simp

lemma foldl_show_nat: "foldl (\<lambda>a c. 10 * a + digit_val c) 0 (show_nat n) = n"
proof (induction n rule: show_nat.induct)
  case (1 n)
  then show ?case by (cases "n < 10") (simp_all add: show_nat.simps[of n])
qed

lemma show_nat_inject [simp]: "show_nat m = show_nat n \<longleftrightarrow> m = n"
  by (metis foldl_show_nat)

lemma read_digits_show_nat: "read_digits 0 prev (show_nat n) = Some n"
  using read_digits_append[of "show_nat n" 0 prev "[]"] show_nat_digits
  by (auto simp: foldl_show_nat)

lemma read_nat_show_nat:
  assumes "n < 10 ^ 4300"
  shows "read_nat (show_nat n) = Some n"
proof -
  have "length (show_nat n) \<le> 4300" using show_nat_length[OF assms] by simp
  moreover have "length (filter is_digit (show_nat n)) \<le> length (show_nat n)"
    by (rule length_filter_le)
  ultimately have "\<not> 4300 < length (filter is_digit (show_nat n))" by linarith
  then show ?thesis
    by (simp add: read_nat_def max_int_digits_def read_digits_show_nat)
qed

lemma py_int_show_nat:
  assumes "n < 10 ^ 4300"
  shows "py_int (show_nat n) = Some (int n)"
proof -
  have "\<forall>c \<in> set (show_nat n). \<not> is_space c"
    using show_nat_digits digit_not_space by blast
  then have strip: "strip (show_nat n) = show_nat n" by (rule strip_no_space)
  obtain c cs where c: "show_nat n = c # cs" by (cases "show_nat n") simp_all
  then have "is_digit c" using show_nat_digits[of c n] by simp
  then have "c \<noteq> CHR ''-''" "c \<noteq> CHR ''+''" by simp_all
  then show ?thesis
    using read_nat_show_nat[OF assms] strip by (simp add: py_int_def c)
qed

lemma show_nat_no_minus: "CHR ''-'' \<notin> set (show_nat n)"
  using show_nat_digits[of "CHR ''-''" n] by (auto simp: is_digit_iff)

end
