(* ===== verification/Models.thy ===== *)
theory Models
  imports PyString Complex_Main
begin

text \<open>
  The data of foundry/sync/models.py: the API response shapes the sync reads and the Ontology
  objects it writes. A Literal of strings is a datatype with one constructor per string (and a
  function giving the string), an Optional field an option, a float a real, an instant an integer
  count of microseconds. Field names carry a prefix per record (pos, ac, fd, fl, cfs, cs, ...).
\<close>

section \<open>Literals\<close>

datatype CustomerRegion = West | East | AllRegions
datatype FlightCategory = VFR | MVFR | IFR | LIFR
datatype Staleness = Fresh | Stale | Lost
datatype FlightStage = Departed | Climb | Cruise | Descent | Approach | Landed
datatype FlightStatus = StScheduled | StDeparted | StEnroute | StApproaching | StLanded | StUnknown
datatype SlaPeriod = Last24h | Last7d
datatype WeatherImpact = WiLow | WiMedium | WiHigh

primrec region_str :: "CustomerRegion \<Rightarrow> string" where
  "region_str West = ''west''"
| "region_str East = ''east''"
| "region_str AllRegions = ''all''"

primrec category_str :: "FlightCategory \<Rightarrow> string" where
  "category_str VFR = ''VFR''"
| "category_str MVFR = ''MVFR''"
| "category_str IFR = ''IFR''"
| "category_str LIFR = ''LIFR''"

primrec staleness_str :: "Staleness \<Rightarrow> string" where
  "staleness_str Fresh = ''fresh''"
| "staleness_str Stale = ''stale''"
| "staleness_str Lost = ''lost''"

primrec stage_str :: "FlightStage \<Rightarrow> string" where
  "stage_str Departed = ''departed''"
| "stage_str Climb = ''climb''"
| "stage_str Cruise = ''cruise''"
| "stage_str Descent = ''descent''"
| "stage_str Approach = ''approach''"
| "stage_str Landed = ''landed''"

primrec status_str :: "FlightStatus \<Rightarrow> string" where
  "status_str StScheduled = ''scheduled''"
| "status_str StDeparted = ''departed''"
| "status_str StEnroute = ''enroute''"
| "status_str StApproaching = ''approaching''"
| "status_str StLanded = ''landed''"
| "status_str StUnknown = ''unknown''"

primrec period_str :: "SlaPeriod \<Rightarrow> string" where
  "period_str Last24h = ''last_24h''"
| "period_str Last7d = ''last_7d''"

primrec impact_str :: "WeatherImpact \<Rightarrow> string" where
  "impact_str WiLow = ''low''"
| "impact_str WiMedium = ''medium''"
| "impact_str WiHigh = ''high''"

lemma stage_str_inject [simp]: "stage_str a = stage_str b \<longleftrightarrow> a = b"
  by (cases a; cases b) simp_all

lemma region_str_inject [simp]: "region_str a = region_str b \<longleftrightarrow> a = b"
  by (cases a; cases b) simp_all

section \<open>JSON values\<close>

text \<open>Values of the wire and of dict-valued fields. \<open>JIso\<close> is the text
  \<open>dt.isoformat()\<close> gives for an instant, in the fields the code reads or writes as
  instants, \<open>JDay\<close> that of a date (counted in days), \<open>JDumps\<close> the text
  \<open>json.dumps(v)\<close> gives for a value: all three are strings on the wire, kept with what they
  encode. Every other text is \<open>JStr\<close>.\<close>

datatype json =
    JNull
  | JBool bool
  | JInt int
  | JNum real
  | JStr string
  | JIso instant
  | JDay int
  | JDumps json
  | JList "json list"
  | JObj "(string \<times> json) list"

definition obj_get :: "(string, json) dict \<Rightarrow> string \<Rightarrow> json" where
  "obj_get obj k = (case dget obj k of None \<Rightarrow> JNull | Some v \<Rightarrow> v)"

text \<open>Python truth of a JSON value.\<close>

fun truthy :: "json \<Rightarrow> bool" where
  "truthy JNull = False"
| "truthy (JBool b) = b"
| "truthy (JInt i) = (i \<noteq> 0)"
| "truthy (JNum x) = (x \<noteq> 0)"
| "truthy (JStr s) = (s \<noteq> [])"
| "truthy (JIso t) = True"
| "truthy (JDay d) = True"
| "truthy (JDumps v) = True"
| "truthy (JList xs) = (xs \<noteq> [])"
| "truthy (JObj kvs) = (kvs \<noteq> [])"

section \<open>Records\<close>

record Position =
  pos_icao24 :: "string"
  pos_callsign :: "string option"
  pos_lat :: "real"
  pos_lon :: "real"
  pos_altitude_ft :: "int option"
  pos_speed_kt :: "int option"
  pos_heading_deg :: "int option"
  pos_vertical_rate_fpm :: "int option"
  pos_on_ground :: "bool"
  pos_customer_region :: "CustomerRegion option"
  pos_last_seen_at :: "instant"
  pos_staleness :: "Staleness"

record PositionsLiveResponse =
  plr_items :: "Position list"
  plr_count :: "int"
  plr_server_time :: "instant"
  plr_pipeline_lag_seconds :: "int"
  plr_truncated :: "bool"

record FlightStatusEvent =
  fse_stage :: "FlightStage"
  fse_occurred_at :: "instant"

record FlightDetail =
  fd_icao24 :: "string"
  fd_callsign :: "string option"
  fd_registration :: "string option"
  fd_aircraft_type :: "string option"
  fd_operator_icao :: "string option"
  fd_origin_icao :: "string option"
  fd_destination_icao :: "string option"
  fd_customer_region :: "CustomerRegion option"
  fd_position :: "Position"
  fd_eta_minutes :: "int option"
  fd_status_timeline :: "FlightStatusEvent list"
  fd_open_case_ids :: "string list"

record TrailPoint =
  tp_ts :: "instant"
  tp_lat :: "real"
  tp_lon :: "real"
  tp_altitude_ft :: "int option"
  tp_speed_kt :: "int option"

record TrailResponse =
  tr_icao24 :: "string"
  tr_points :: "TrailPoint list"
  tr_lookback :: "string"
  tr_point_count :: "int"

record SiteListItem =
  sli_icao :: "string"
  sli_iata :: "string option"
  sli_name :: "string"
  sli_state :: "string"
  sli_customer_regions :: "string list"
  sli_is_in_scope :: "bool"

record SiteListResponse =
  slr_items :: "SiteListItem list"
  slr_count :: "int"

record FlightSummary =
  fs_icao24 :: "string"
  fs_callsign :: "string option"
  fs_origin_icao :: "string option"
  fs_destination_icao :: "string option"
  fs_eta_minutes :: "int option"
  fs_status :: "FlightStatus"
  fs_aircraft_type :: "string option"

record SiteFlightListResponse =
  sfl_items :: "FlightSummary list"
  sfl_count :: "int"

record SiteWeather =
  sw_metar_raw :: "string"
  sw_metar_plain_english :: "string option"
  sw_flight_category :: "FlightCategory"
  sw_wind_kt :: "int option"
  sw_visibility_sm :: "real option"
  sw_ceiling_ft :: "int option"
  sw_observed_at :: "instant"

record SiteDetail =
  sd_icao :: "string"
  sd_iata :: "string option"
  sd_name :: "string"
  sd_city :: "string option"
  sd_state :: "string"
  sd_lat :: "real"
  sd_lon :: "real"
  sd_elevation_ft :: "int option"
  sd_timezone :: "string option"
  sd_weather :: "SiteWeather option"
  sd_inbound_count_60m :: "int"
  sd_outbound_count_60m :: "int"
  sd_active_case_count :: "int"
  sd_customer_regions :: "string list"

record SparklinePoint =
  sp_day :: "int"
  sp_on_time_pct :: "real option"
  sp_avg_delay_min :: "real option"

record SiteSla =
  sla_icao :: "string"
  sla_period :: "SlaPeriod"
  sla_inbound_count :: "int"
  sla_outbound_count :: "int"
  sla_on_time_arrival_pct :: "real option"
  sla_on_time_departure_pct :: "real option"
  sla_avg_arrival_delay_min :: "real option"
  sla_avg_departure_delay_min :: "real option"
  sla_weather_impact :: "WeatherImpact"
  sla_flight_category :: "FlightCategory"
  sla_active_cases :: "int"
  sla_sparkline_7d :: "SparklinePoint list"

record CaseForSync =
  cfs_case_id :: "string"
  cfs_salesforce_id :: "string option"
  cfs_salesforce_url :: "string option"
  cfs_case_type :: "string"
  cfs_status :: "string"
  cfs_severity :: "string"
  cfs_customer_region :: "string"
  cfs_site_icao :: "string"
  cfs_flight_id :: "string"
  cfs_subject :: "string"
  cfs_summary :: "string option"
  cfs_severity_justification :: "string option"
  cfs_detection_facts :: "(string, json) dict"
  cfs_runbook_refs :: "string list"
  cfs_created_at :: "instant"
  cfs_updated_at :: "instant"
  cfs_resolved_at :: "instant option"

record CasesForSyncPage =
  cfp_items :: "CaseForSync list"
  cfp_next_cursor :: "instant option"
  cfp_truncated :: "bool"

record Aircraft =
  ac_icao24 :: "string"
  ac_callsign :: "string option"
  ac_lat :: "real"
  ac_lon :: "real"
  ac_altitude_ft :: "int option"
  ac_speed_kt :: "int option"
  ac_heading_deg :: "int option"
  ac_vertical_rate_fpm :: "int option"
  ac_on_ground :: "bool"
  ac_customer_region :: "CustomerRegion option"
  ac_last_seen_at :: "instant"
  ac_staleness :: "Staleness"

record Site =
  st_icao :: "string"
  st_iata :: "string option"
  st_name :: "string"
  st_city :: "string option"
  st_state :: "string"
  st_lat :: "real"
  st_lon :: "real"
  st_elevation_ft :: "int option"
  st_timezone :: "string option"
  st_customer_regions :: "string list"
  st_inbound_count_60m :: "int"
  st_outbound_count_60m :: "int"
  st_active_case_count :: "int"
  st_metar_raw :: "string option"
  st_metar_plain_english :: "string option"
  st_wind_kt :: "int option"
  st_visibility_sm :: "real option"
  st_ceiling_ft :: "int option"
  st_weather_observed_at :: "instant option"
  st_flight_category :: "FlightCategory option"
  st_sla_period :: "SlaPeriod option"
  st_sla_inbound_count :: "int option"
  st_sla_outbound_count :: "int option"
  st_on_time_arrival_pct :: "real option"
  st_on_time_departure_pct :: "real option"
  st_avg_arrival_delay_min :: "real option"
  st_avg_departure_delay_min :: "real option"
  st_weather_impact :: "WeatherImpact option"
  st_sla_sparkline_7d :: "SparklinePoint list"

record Flight =
  fl_flight_id :: "string"
  fl_icao24 :: "string"
  fl_takeoff_ts :: "instant"
  fl_landed_at :: "instant option"
  fl_callsign :: "string option"
  fl_registration :: "string option"
  fl_aircraft_type :: "string option"
  fl_operator_icao :: "string option"
  fl_customer_region :: "CustomerRegion option"
  fl_origin_icao :: "string option"
  fl_destination_icao :: "string option"
  fl_eta_minutes :: "int option"
  fl_status :: "FlightStatus option"
  fl_current_stage :: "FlightStage option"
  fl_is_live :: "bool option"
  fl_lat :: "real option"
  fl_lon :: "real option"
  fl_open_case_count :: "int"
  fl_open_case_ids :: "string list"
  fl_status_timeline :: "FlightStatusEvent list"
  fl_trail_2h :: "TrailPoint list"

record Case =
  cs_case_id :: "string"
  cs_salesforce_id :: "string option"
  cs_salesforce_url :: "string option"
  cs_case_type :: "string"
  cs_status :: "string"
  cs_severity :: "string"
  cs_customer_region :: "string"
  cs_site_icao :: "string"
  cs_flight_id :: "string"
  cs_subject :: "string option"
  cs_summary :: "string option"
  cs_severity_justification :: "string option"
  cs_detection_facts :: "(string, json) dict"
  cs_runbook_refs :: "string list"
  cs_created_at :: "instant"
  cs_updated_at :: "instant"
  cs_resolved_at :: "instant option"

end
