(* ===== verification/Transforms.thy ===== *)
theory Transforms
  imports Models
begin

text \<open>
  transforms.py: the pure mappers from API responses to Ontology objects. Field by field as in the
  source; the lemmas say which of a Flight's fields each construction path owns.
\<close>

definition position_to_aircraft :: "Position \<Rightarrow> Aircraft" where
  "position_to_aircraft p =
     \<lparr>ac_icao24 = pos_icao24 p, ac_callsign = pos_callsign p, ac_lat = pos_lat p, ac_lon = pos_lon p,
      ac_altitude_ft = pos_altitude_ft p, ac_speed_kt = pos_speed_kt p,
      ac_heading_deg = pos_heading_deg p, ac_vertical_rate_fpm = pos_vertical_rate_fpm p,
      ac_on_ground = pos_on_ground p, ac_customer_region = pos_customer_region p,
      ac_last_seen_at = pos_last_seen_at p, ac_staleness = pos_staleness p\<rparr>"

definition site_to_site :: "SiteDetail \<Rightarrow> SiteSla option \<Rightarrow> Site" where
  "site_to_site detail sla =
     (let weather = sd_weather detail;
          flight_category =
            (case sla of
               Some s \<Rightarrow> Some (sla_flight_category s)
             | None \<Rightarrow> (case weather of Some w \<Rightarrow> Some (sw_flight_category w) | None \<Rightarrow> None))
      in \<lparr>st_icao = sd_icao detail, st_iata = sd_iata detail, st_name = sd_name detail,
          st_city = sd_city detail, st_state = sd_state detail, st_lat = sd_lat detail,
          st_lon = sd_lon detail, st_elevation_ft = sd_elevation_ft detail,
          st_timezone = sd_timezone detail, st_customer_regions = sd_customer_regions detail,
          st_inbound_count_60m = sd_inbound_count_60m detail,
          st_outbound_count_60m = sd_outbound_count_60m detail,
          st_active_case_count = sd_active_case_count detail,
          st_metar_raw = map_option sw_metar_raw weather,
          st_metar_plain_english = Option.bind weather sw_metar_plain_english,
          st_wind_kt = Option.bind weather sw_wind_kt,
          st_visibility_sm = Option.bind weather sw_visibility_sm,
          st_ceiling_ft = Option.bind weather sw_ceiling_ft,
          st_weather_observed_at = map_option sw_observed_at weather,
          st_flight_category = flight_category,
          st_sla_period = map_option sla_period sla,
          st_sla_inbound_count = map_option sla_inbound_count sla,
          st_sla_outbound_count = map_option sla_outbound_count sla,
          st_on_time_arrival_pct = Option.bind sla sla_on_time_arrival_pct,
          st_on_time_departure_pct = Option.bind sla sla_on_time_departure_pct,
          st_avg_arrival_delay_min = Option.bind sla sla_avg_arrival_delay_min,
          st_avg_departure_delay_min = Option.bind sla sla_avg_departure_delay_min,
          st_weather_impact = map_option sla_weather_impact sla,
          st_sla_sparkline_7d = (case sla of Some s \<Rightarrow> sla_sparkline_7d s | None \<Rightarrow> [])\<rparr>)"

primrec stage_to_status :: "FlightStage \<Rightarrow> FlightStatus" where
  "stage_to_status Departed = StDeparted"
| "stage_to_status Climb = StEnroute"
| "stage_to_status Cruise = StEnroute"
| "stage_to_status Descent = StEnroute"
| "stage_to_status Approach = StApproaching"
| "stage_to_status Landed = StLanded"

definition takeoff_to_flight :: "string \<Rightarrow> string \<Rightarrow> instant \<Rightarrow> Flight" where
  "takeoff_to_flight flight_id icao24 takeoff_ts =
     \<lparr>fl_flight_id = flight_id, fl_icao24 = icao24, fl_takeoff_ts = takeoff_ts, fl_landed_at = None,
      fl_callsign = None, fl_registration = None, fl_aircraft_type = None, fl_operator_icao = None,
      fl_customer_region = None, fl_origin_icao = None, fl_destination_icao = None,
      fl_eta_minutes = None, fl_status = Some StDeparted, fl_current_stage = Some Departed,
      fl_is_live = Some True, fl_lat = None, fl_lon = None, fl_open_case_count = 0,
      fl_open_case_ids = [],
      fl_status_timeline = [\<lparr>fse_stage = Departed, fse_occurred_at = takeoff_ts\<rparr>],
      fl_trail_2h = []\<rparr>"

definition case_for_sync_to_case :: "CaseForSync \<Rightarrow> Case" where
  "case_for_sync_to_case item =
     \<lparr>cs_case_id = cfs_case_id item, cs_salesforce_id = cfs_salesforce_id item,
      cs_salesforce_url = cfs_salesforce_url item, cs_case_type = cfs_case_type item,
      cs_status = cfs_status item, cs_severity = cfs_severity item,
      cs_customer_region = cfs_customer_region item, cs_site_icao = cfs_site_icao item,
      cs_flight_id = cfs_flight_id item, cs_subject = Some (cfs_subject item),
      cs_summary = cfs_summary item, cs_severity_justification = cfs_severity_justification item,
      cs_detection_facts = cfs_detection_facts item, cs_runbook_refs = cfs_runbook_refs item,
      cs_created_at = cfs_created_at item, cs_updated_at = cfs_updated_at item,
      cs_resolved_at = cfs_resolved_at item\<rparr>"

definition flight_detail_to_flight ::
  "string \<Rightarrow> instant \<Rightarrow> FlightDetail \<Rightarrow> TrailResponse option \<Rightarrow> Flight" where
  "flight_detail_to_flight flight_id takeoff_ts detail trail =
     (let timeline = fd_status_timeline detail;
          current_stage = (if timeline = [] then None else Some (fse_stage (last timeline)));
          status = (case current_stage of Some s \<Rightarrow> stage_to_status s | None \<Rightarrow> StUnknown);
          landed_at = map_option fse_occurred_at (List.find (\<lambda>e. fse_stage e = Landed) timeline)
      in \<lparr>fl_flight_id = flight_id, fl_icao24 = fd_icao24 detail, fl_takeoff_ts = takeoff_ts,
          fl_landed_at = landed_at, fl_callsign = fd_callsign detail,
          fl_registration = fd_registration detail, fl_aircraft_type = fd_aircraft_type detail,
          fl_operator_icao = fd_operator_icao detail, fl_customer_region = fd_customer_region detail,
          fl_origin_icao = fd_origin_icao detail, fl_destination_icao = fd_destination_icao detail,
          fl_eta_minutes = fd_eta_minutes detail, fl_status = Some status,
          fl_current_stage = current_stage, fl_is_live = None,
          fl_lat = Some (pos_lat (fd_position detail)), fl_lon = Some (pos_lon (fd_position detail)),
          fl_open_case_count = int (length (fd_open_case_ids detail)),
          fl_open_case_ids = fd_open_case_ids detail, fl_status_timeline = timeline,
          fl_trail_2h = (case trail of Some t \<Rightarrow> tr_points t | None \<Rightarrow> [])\<rparr>)"

text \<open>What the enrichment derives from the timeline: the stage and status of its tail, and a
  landing exactly when it holds a landed event (the first one's time).\<close>

lemma enriched_landed_iff:
  "fl_landed_at (flight_detail_to_flight fid t d tr) = None \<longleftrightarrow>
     (\<forall>e \<in> set (fd_status_timeline d). fse_stage e \<noteq> Landed)"
  by (auto simp: flight_detail_to_flight_def Let_def find_None_iff)

lemma enriched_status:
  "fl_status (flight_detail_to_flight fid t d tr) = Some StUnknown \<longleftrightarrow> fd_status_timeline d = []"
proof -
  have "stage_to_status s \<noteq> StUnknown" for s by (cases s) simp_all
  then show ?thesis by (simp add: flight_detail_to_flight_def Let_def)
qed

lemma stage_to_status_landed: "stage_to_status s = StLanded \<longleftrightarrow> s = Landed"
  by (cases s) simp_all

lemma enriched_flight_fields [simp]:
  "fl_flight_id (flight_detail_to_flight fid t d tr) = fid"
  "fl_is_live (flight_detail_to_flight fid t d tr) = None"
  "fl_takeoff_ts (flight_detail_to_flight fid t d tr) = t"
  by (simp_all add: flight_detail_to_flight_def Let_def)

lemma takeoff_flight_fields [simp]:
  "fl_flight_id (takeoff_to_flight fid a t) = fid"
  "fl_icao24 (takeoff_to_flight fid a t) = a"
  "fl_takeoff_ts (takeoff_to_flight fid a t) = t"
  "fl_is_live (takeoff_to_flight fid a t) = Some True"
  by (simp_all add: takeoff_to_flight_def)

end
