(* ===== verification/ActionParams.thy ===== *)
theory ActionParams
  imports Models
begin

text \<open>
  The serializers of ontology_writers.py: each Ontology object as the parameter map of its upsert
  Action. Keys are camel-cased, absent optionals are left out (the modify-or-create Action leaves
  an omitted parameter unchanged), list fields are sent as JSON text. The lemmas say which keys
  each serializer can emit and when.
\<close>

type_synonym params = "(string, json) dict"

fun upper_first :: "string \<Rightarrow> string" where
  "upper_first [] = []"
| "upper_first (c # cs) = to_upper c # cs"

definition camel :: "string \<Rightarrow> string" where
  "camel name = (case split_on (CHR ''_'') name of [] \<Rightarrow> [] | head # rest \<Rightarrow> head @ concat (map upper_first rest))"

text \<open>\<open>{_camel(k): v for k, v in params.items()}\<close>.\<close>

definition camel_dict :: "params \<Rightarrow> params" where
  "camel_dict ps = foldl (\<lambda>d (k, v). dset (camel k) v d) [] ps"

definition iso_utc :: "instant \<Rightarrow> json" where
  "iso_utc t = JIso t"

definition geopoint :: "real \<Rightarrow> real \<Rightarrow> json" where
  "geopoint lat lon = JObj [(''type'', JStr ''Point''), (''coordinates'', JList [JNum lon, JNum lat])]"

text \<open>The coordinate loop of \<open>_linestring\<close>: the accumulator is the list in reverse, its head the
  last coordinate kept.\<close>

primrec line_coords :: "(real \<times> real) list \<Rightarrow> TrailPoint list \<Rightarrow> (real \<times> real) list" where
  "line_coords acc [] = rev acc"
| "line_coords acc (p # ps) =
     (let c = (tp_lon p, tp_lat p)
      in line_coords (if acc = [] \<or> hd acc \<noteq> c then c # acc else acc) ps)"

definition linestring :: "TrailPoint list \<Rightarrow> json option" where
  "linestring points =
     (let coords = line_coords [] points
      in if length coords < 2 then None
         else Some (JObj [(''type'', JStr ''LineString''),
                          (''coordinates'', JList (map (\<lambda>(lon, lat). JList [JNum lon, JNum lat]) coords))]))"

definition put_optional :: "params \<Rightarrow> string \<Rightarrow> json option \<Rightarrow> params" where
  "put_optional ps key v = (case v of None \<Rightarrow> ps | Some x \<Rightarrow> dset key x ps)"

text \<open>The \<open>model_dump(mode="json")\<close> of the list elements.\<close>

definition opt_json :: "('a \<Rightarrow> json) \<Rightarrow> 'a option \<Rightarrow> json" where
  "opt_json f v = (case v of None \<Rightarrow> JNull | Some x \<Rightarrow> f x)"

definition dump_sparkline :: "SparklinePoint \<Rightarrow> json" where
  "dump_sparkline p = JObj [(''day'', JDay (sp_day p)), (''on_time_pct'', opt_json JNum (sp_on_time_pct p)),
     (''avg_delay_min'', opt_json JNum (sp_avg_delay_min p))]"

definition dump_event :: "FlightStatusEvent \<Rightarrow> json" where
  "dump_event e = JObj [(''stage'', JStr (stage_str (fse_stage e))), (''occurred_at'', JIso (fse_occurred_at e))]"

definition dump_trail_point :: "TrailPoint \<Rightarrow> json" where
  "dump_trail_point t = JObj [(''ts'', JIso (tp_ts t)), (''lat'', JNum (tp_lat t)), (''lon'', JNum (tp_lon t)),
     (''altitude_ft'', opt_json JInt (tp_altitude_ft t)), (''speed_kt'', opt_json JInt (tp_speed_kt t))]"

definition aircraft_params :: "Aircraft \<Rightarrow> params" where
  "aircraft_params a =
    (let params0 =
     [(''icao24'', JStr (ac_icao24 a)),
      (''aircraft'', JStr (ac_icao24 a)),
      (''lat'', JNum (ac_lat a)),
      (''lon'', JNum (ac_lon a)),
      (''position'', geopoint (ac_lat a) (ac_lon a)),
      (''on_ground'', JBool (ac_on_ground a)),
      (''last_seen_at'', iso_utc (ac_last_seen_at a)),
      (''staleness'', JStr (staleness_str (ac_staleness a)))];
         params1 = put_optional params0 ''callsign'' (map_option JStr (ac_callsign a));
         params2 = put_optional params1 ''altitude_ft'' (map_option JInt (ac_altitude_ft a));
         params3 = put_optional params2 ''speed_kt'' (map_option JInt (ac_speed_kt a));
         params4 = put_optional params3 ''heading_deg'' (map_option JInt (ac_heading_deg a));
         params5 = put_optional params4 ''vertical_rate_fpm'' (map_option JInt (ac_vertical_rate_fpm a));
         params6 = put_optional params5 ''customer_region'' (map_option (JStr \<circ> region_str) (ac_customer_region a))
     in camel_dict params6)"

definition site_params :: "Site \<Rightarrow> params" where
  "site_params s =
    (let params0 =
     [(''icao'', JStr (st_icao s)),
      (''site'', JStr (st_icao s)),
      (''name'', JStr (st_name s)),
      (''state'', JStr (st_state s)),
      (''lat'', JNum (st_lat s)),
      (''lon'', JNum (st_lon s)),
      (''location'', geopoint (st_lat s) (st_lon s)),
      (''customer_regions'', JDumps (JList (map JStr (st_customer_regions s)))),
      (''sla_sparkline_7d'', JDumps (JList (map dump_sparkline (st_sla_sparkline_7d s)))),
      (''inbound_count_60m'', JInt (st_inbound_count_60m s)),
      (''outbound_count_60m'', JInt (st_outbound_count_60m s)),
      (''active_case_count'', JInt (st_active_case_count s))];
         params1 = put_optional params0 ''iata'' (map_option JStr (st_iata s));
         params2 = put_optional params1 ''city'' (map_option JStr (st_city s));
         params3 = put_optional params2 ''elevation_ft'' (map_option JInt (st_elevation_ft s));
         params4 = put_optional params3 ''timezone'' (map_option JStr (st_timezone s));
         params5 = put_optional params4 ''metar_raw'' (map_option JStr (st_metar_raw s));
         params6 = put_optional params5 ''metar_plain_english'' (map_option JStr (st_metar_plain_english s));
         params7 = put_optional params6 ''wind_kt'' (map_option JInt (st_wind_kt s));
         params8 = put_optional params7 ''visibility_sm'' (map_option JNum (st_visibility_sm s));
         params9 = put_optional params8 ''ceiling_ft'' (map_option JInt (st_ceiling_ft s));
         params10 = put_optional params9 ''weather_observed_at'' (map_option iso_utc (st_weather_observed_at s));
         params11 = put_optional params10 ''flight_category'' (map_option (JStr \<circ> category_str) (st_flight_category s));
         params12 = put_optional params11 ''sla_period'' (map_option (JStr \<circ> period_str) (st_sla_period s));
         params13 = put_optional params12 ''sla_inbound_count'' (map_option JInt (st_sla_inbound_count s));
         params14 = put_optional params13 ''sla_outbound_count'' (map_option JInt (st_sla_outbound_count s));
         params15 = put_optional params14 ''on_time_arrival_pct'' (map_option JNum (st_on_time_arrival_pct s));
         params16 = put_optional params15 ''on_time_departure_pct'' (map_option JNum (st_on_time_departure_pct s));
         params17 = put_optional params16 ''avg_arrival_delay_min'' (map_option JNum (st_avg_arrival_delay_min s));
         params18 = put_optional params17 ''avg_departure_delay_min'' (map_option JNum (st_avg_departure_delay_min s));
         params19 = put_optional params18 ''weather_impact'' (map_option (JStr \<circ> impact_str) (st_weather_impact s))
     in camel_dict params19)"

definition flight_params :: "bool \<Rightarrow> Flight \<Rightarrow> params" where
  "flight_params emit_is_live f =
    (let params0 =
     [(''flight_id'', JStr (fl_flight_id f)),
      (''flight'', JStr (fl_flight_id f)),
      (''icao24'', JStr (fl_icao24 f)),
      (''takeoff_ts'', iso_utc (fl_takeoff_ts f)),
      (''open_case_count'', JInt (fl_open_case_count f)),
      (''open_case_ids'', JDumps (JList (map JStr (fl_open_case_ids f)))),
      (''status_timeline'', JDumps (JList (map dump_event (fl_status_timeline f)))),
      (''trail_2h'', JDumps (JList (map dump_trail_point (fl_trail_2h f))))];
         params1 = put_optional params0 ''landed_at'' (map_option iso_utc (fl_landed_at f));
         params2 = put_optional params1 ''callsign'' (map_option JStr (fl_callsign f));
         params3 = put_optional params2 ''registration'' (map_option JStr (fl_registration f));
         params4 = put_optional params3 ''aircraft_type'' (map_option JStr (fl_aircraft_type f));
         params5 = put_optional params4 ''operator_icao'' (map_option JStr (fl_operator_icao f));
         params6 = put_optional params5 ''customer_region'' (map_option (JStr \<circ> region_str) (fl_customer_region f));
         params7 = put_optional params6 ''origin_icao'' (map_option JStr (fl_origin_icao f));
         params8 = put_optional params7 ''destination_icao'' (map_option JStr (fl_destination_icao f));
         params9 = put_optional params8 ''eta_minutes'' (map_option JInt (fl_eta_minutes f));
         params10 = put_optional params9 ''status'' (map_option (JStr \<circ> status_str) (fl_status f));
         params11 = put_optional params10 ''current_stage'' (map_option (JStr \<circ> stage_str) (fl_current_stage f));
         params12 = (if emit_is_live then put_optional params11 ''is_live'' (map_option JBool (fl_is_live f)) else params11);
         params13 = (case (fl_lat f, fl_lon f) of
             (Some lat, Some lon) \<Rightarrow> dset ''position'' (geopoint lat lon) (dset ''lon'' (JNum lon) (dset ''lat'' (JNum lat) params12))
           | _ \<Rightarrow> params12);
         params14 = put_optional params13 ''trail_path'' (linestring (fl_trail_2h f))
     in camel_dict params14)"

definition case_params :: "Case \<Rightarrow> params" where
  "case_params c =
    (let params0 =
     [(''case'', JStr (cs_case_id c)),
      (''case_type'', JStr (cs_case_type c)),
      (''status'', JStr (cs_status c)),
      (''severity'', JStr (cs_severity c)),
      (''customer_region'', JStr (cs_customer_region c)),
      (''site_icao'', JStr (cs_site_icao c)),
      (''flight_id'', JStr (cs_flight_id c)),
      (''detection_facts'', JDumps (JObj (cs_detection_facts c))),
      (''runbook_refs'', JDumps (JList (map JStr (cs_runbook_refs c)))),
      (''created_at'', iso_utc (cs_created_at c)),
      (''updated_at'', iso_utc (cs_updated_at c))];
         params1 = put_optional params0 ''salesforce_id'' (map_option JStr (cs_salesforce_id c));
         params2 = put_optional params1 ''salesforce_url'' (map_option JStr (cs_salesforce_url c));
         params3 = put_optional params2 ''subject'' (map_option JStr (cs_subject c));
         params4 = put_optional params3 ''summary'' (map_option JStr (cs_summary c));
         params5 = put_optional params4 ''severity_justification'' (map_option JStr (cs_severity_justification c));
         params6 = put_optional params5 ''resolved_at'' (map_option iso_utc (cs_resolved_at c))
     in camel_dict params6)"

section \<open>Keys\<close>

lemma dkeys_put_optional:
  "set (dkeys (put_optional ps k v)) = (if v = None then set (dkeys ps) else insert k (set (dkeys ps)))"
  by (simp add: put_optional_def del: set_map split: option.split)

lemma dkeys_camel_fold:
  "set (dkeys (foldl (\<lambda>d (k, v). dset (camel k) v d) d ps)) = set (dkeys d) \<union> camel ` set (dkeys ps)"
  by (induction ps arbitrary: d) (auto simp del: set_map simp: image_Un)

lemma dkeys_camel_dict: "set (dkeys (camel_dict ps)) = camel ` set (dkeys ps)"
  unfolding camel_dict_def by (subst dkeys_camel_fold) simp

lemma dget_camel_fold:
  assumes "inj_on camel (set (dkeys ps))" "wf_dict ps" "k \<in> set (dkeys ps)"
  shows "dget (foldl (\<lambda>d (k, v). dset (camel k) v d) d ps) (camel k) = dget ps k"
  using assms
proof (induction ps arbitrary: d)
  case (Cons kv ps)
  obtain k0 v0 where kv: "kv = (k0, v0)" by (cases kv)
  have frame: "dget (foldl (\<lambda>d (k, v). dset (camel k) v d) d qs) c = dget d c"
    if "c \<notin> camel ` set (dkeys qs)" for qs d c
    using that by (induction qs arbitrary: d) auto
  show ?case
  proof (cases "k = k0")
    case True
    then have "camel k0 \<notin> camel ` set (dkeys ps)"
      using Cons.prems(1,2) by (auto simp: kv wf_dict_def inj_on_def)
    with True kv show ?thesis by (simp add: frame)
  next
    case False
    with Cons kv show ?thesis by (simp add: wf_dict_def)
  qed
qed simp

lemma dget_camel_dict:
  "inj_on camel (set (dkeys ps)) \<Longrightarrow> wf_dict ps \<Longrightarrow> k \<in> set (dkeys ps) \<Longrightarrow>
   dget (camel_dict ps) (camel k) = dget ps k"
  unfolding camel_dict_def by (rule dget_camel_fold)

section \<open>Line strings\<close>

lemma line_coords_set: "set (line_coords acc ps) = set acc \<union> (\<lambda>p. (tp_lon p, tp_lat p)) ` set ps"
  by (induction ps arbitrary: acc) (auto simp: Let_def, metis hd_in_set)

lemma line_coords_no_repeat:
  assumes "distinct_adj acc"
  shows "distinct_adj (line_coords acc ps)"
  using assms
proof (induction ps arbitrary: acc)
  case (Cons p ps)
  have "distinct_adj (if acc = [] \<or> hd acc \<noteq> (tp_lon p, tp_lat p) then (tp_lon p, tp_lat p) # acc else acc)"
    using Cons.prems by (auto simp: distinct_adj_Cons)
  from Cons.IH[OF this] show ?case by (simp add: Let_def)
qed simp

lemma distinct_adj_single:
  assumes "distinct_adj xs" "set xs \<subseteq> {c}"
  shows "length xs < 2"
  using assms by (cases xs; cases "tl xs") auto

end
