(* ===== verification/Writer.thy ===== *)
theory Writer
  imports ActionParams
begin

text \<open>
  retry.py and the FoundryWriter of ontology_writers.py. The HTTP endpoint is a parameter: the
  record \<open>fapi\<close> gives, for a world state, the answer of one applyBatch POST and of one
  object-page GET. On top of it the code's own parts are written out: the retry loop, the chunking,
  the batch accounting, the page loops (with fuel, since a server may hand out page tokens forever)
  and every writer operation. A set of keys is a list without repetition.
\<close>

section \<open>Errors, effects, retry\<close>

datatype exn =
    TransportError
  | HTTPStatusError nat
  | PydanticValidationError
  | PyValueError
  | OtherError string

type_synonym ('w, 'a) io = "'w \<Rightarrow> (exn + 'a) \<times> 'w"

definition io_bind :: "('w, 'a) io \<Rightarrow> ('a \<Rightarrow> ('w, 'b) io) \<Rightarrow> ('w, 'b) io" where
  "io_bind m f = (\<lambda>w. case m w of (Inl e, w') \<Rightarrow> (Inl e, w') | (Inr a, w') \<Rightarrow> f a w')"

definition io_return :: "'a \<Rightarrow> ('w, 'a) io" where
  "io_return a = (\<lambda>w. (Inr a, w))"

lemma io_bind_Inr:
  "io_bind m f w = (Inr b, w') \<longleftrightarrow> (\<exists>a w1. m w = (Inr a, w1) \<and> f a w1 = (Inr b, w'))"
  by (auto simp: io_bind_def split: prod.splits sum.splits)

lemma io_return_Inr: "io_return a w = (Inr b, w') \<longleftrightarrow> b = a \<and> w' = w"
  by (auto simp: io_return_def)

definition RETRIABLE_STATUSES :: "nat list" where
  "RETRIABLE_STATUSES = [502, 503, 504]"

fun should_retry :: "exn \<Rightarrow> bool" where
  "should_retry TransportError = True"
| "should_retry (HTTPStatusError code) = (code \<in> set RETRIABLE_STATUSES)"
| "should_retry _ = False"

text \<open>\<open>retrying n\<close>: up to n further attempts after a failure that may be retried.\<close>

primrec retrying :: "nat \<Rightarrow> ('w, 'a) io \<Rightarrow> ('w, 'a) io" where
  "retrying 0 m w = m w"
| "retrying (Suc n) m w =
     (case m w of
        (Inl e, w') \<Rightarrow> if should_retry e then retrying n m w' else (Inl e, w')
      | (Inr a, w') \<Rightarrow> (Inr a, w'))"

definition transient_retry :: "('w, 'a) io \<Rightarrow> ('w, 'a) io" where
  "transient_retry m = retrying 2 m"

section \<open>The endpoint and the writer\<close>

record ObjectsPage =
  pg_data :: "(string, json) dict list"
  pg_nextPageToken :: "string option"

record 'w fapi =
  fa_post :: "string \<Rightarrow> params list \<Rightarrow> ('w, unit) io"
  fa_get :: "string \<Rightarrow> (string \<times> string) list \<Rightarrow> ('w, ObjectsPage) io"
  fa_repr :: "json \<Rightarrow> string"

record FoundryWriter =
  fw_ontology :: string
  fw_action_aircraft :: string
  fw_action_site :: string
  fw_action_flight :: string
  fw_action_delete_aircraft :: string
  fw_action_delete_flight :: string
  fw_action_case :: string
  fw_action_delete_case :: string
  islive_enabled :: bool

record BatchResult =
  attempted :: nat
  succeeded :: nat
  failed :: nat

record FlightLandedStamp =
  fls_flight_id :: string
  fls_icao24 :: string
  fls_takeoff_ts :: instant
  fls_landed_at :: instant

record FlightLiveStamp =
  flv_flight_id :: string
  flv_icao24 :: string
  flv_takeoff_ts :: instant
  flv_is_live :: bool

definition MAX_BATCH :: nat where
  "MAX_BATCH = 100"

definition OBJECTS_PAGE_SIZE :: nat where
  "OBJECTS_PAGE_SIZE = 1000"

section \<open>Batches\<close>

function chunks :: "'a list \<Rightarrow> nat \<Rightarrow> 'a list list" where
  "chunks items n = (if items = [] \<or> n = 0 then [] else take n items # chunks (drop n items) n)"
  by auto
termination by (relation "measure (length \<circ> fst)") auto

declare chunks.simps [simp del]

definition post_chunk :: "'w fapi \<Rightarrow> FoundryWriter \<Rightarrow> string \<Rightarrow> params list \<Rightarrow> ('w, unit) io" where
  "post_chunk api fw action chunk =
     transient_retry
       (fa_post api (''/api/v2/ontologies/'' @ fw_ontology fw @ ''/actions/'' @ action @ ''/applyBatch'') chunk)"

text \<open>The chunk loop of \<open>_apply_batch\<close>, with its running count.\<close>

primrec post_chunks ::
  "'w fapi \<Rightarrow> FoundryWriter \<Rightarrow> string \<Rightarrow> params list list \<Rightarrow> nat \<Rightarrow> ('w, nat) io" where
  "post_chunks api fw action [] count = io_return count"
| "post_chunks api fw action (chunk # rest) count =
     io_bind (post_chunk api fw action chunk)
       (\<lambda>_. post_chunks api fw action rest (count + length chunk))"

definition apply_batch :: "'w fapi \<Rightarrow> FoundryWriter \<Rightarrow> string \<Rightarrow> params list \<Rightarrow> ('w, BatchResult) io" where
  "apply_batch api fw action param_dicts =
     io_bind (post_chunks api fw action (chunks param_dicts MAX_BATCH) 0)
       (\<lambda>n. io_return \<lparr>attempted = length param_dicts, succeeded = n, failed = 0\<rparr>)"

definition empty_batch :: BatchResult where
  "empty_batch = \<lparr>attempted = 0, succeeded = 0, failed = 0\<rparr>"

definition upsert_aircraft_batch :: "'w fapi \<Rightarrow> FoundryWriter \<Rightarrow> Aircraft list \<Rightarrow> ('w, BatchResult) io" where
  "upsert_aircraft_batch api fw aircraft =
     (if aircraft = [] then io_return empty_batch
      else apply_batch api fw (fw_action_aircraft fw) (map aircraft_params aircraft))"

definition upsert_site_batch :: "'w fapi \<Rightarrow> FoundryWriter \<Rightarrow> Site list \<Rightarrow> ('w, BatchResult) io" where
  "upsert_site_batch api fw sites =
     (if sites = [] then io_return empty_batch
      else apply_batch api fw (fw_action_site fw) (map site_params sites))"

definition upsert_flight_batch :: "'w fapi \<Rightarrow> FoundryWriter \<Rightarrow> Flight list \<Rightarrow> ('w, BatchResult) io" where
  "upsert_flight_batch api fw flights =
     (if flights = [] then io_return empty_batch
      else apply_batch api fw (fw_action_flight fw) (map (flight_params (islive_enabled fw)) flights))"

definition delete_aircraft_batch :: "'w fapi \<Rightarrow> FoundryWriter \<Rightarrow> string list \<Rightarrow> ('w, BatchResult) io" where
  "delete_aircraft_batch api fw icao24s =
     (if icao24s = [] then io_return empty_batch
      else apply_batch api fw (fw_action_delete_aircraft fw) (map (\<lambda>pk. [(''Aircraft'', JStr pk)]) icao24s))"

definition delete_flight_batch :: "'w fapi \<Rightarrow> FoundryWriter \<Rightarrow> string list \<Rightarrow> ('w, BatchResult) io" where
  "delete_flight_batch api fw flight_ids =
     (if flight_ids = [] then io_return empty_batch
      else apply_batch api fw (fw_action_delete_flight fw) (map (\<lambda>pk. [(''Flight'', JStr pk)]) flight_ids))"

definition delete_case_batch :: "'w fapi \<Rightarrow> FoundryWriter \<Rightarrow> string list \<Rightarrow> ('w, BatchResult) io" where
  "delete_case_batch api fw case_ids =
     (if case_ids = [] then io_return empty_batch
      else apply_batch api fw (fw_action_delete_case fw) (map (\<lambda>pk. [(''Case'', JStr pk)]) case_ids))"

definition upsert_case_batch :: "'w fapi \<Rightarrow> FoundryWriter \<Rightarrow> Case list \<Rightarrow> ('w, BatchResult) io" where
  "upsert_case_batch api fw cases =
     (if cases = [] then io_return empty_batch
      else apply_batch api fw (fw_action_case fw) (map case_params cases))"

definition landed_stamp_params :: "bool \<Rightarrow> FlightLandedStamp \<Rightarrow> params" where
  "landed_stamp_params islive s =
     (let fields =
            [(''flight_id'', JStr (fls_flight_id s)), (''flight'', JStr (fls_flight_id s)),
             (''icao24'', JStr (fls_icao24 s)), (''takeoff_ts'', iso_utc (fls_takeoff_ts s)),
             (''landed_at'', iso_utc (fls_landed_at s)), (''status'', JStr ''landed''),
             (''current_stage'', JStr ''landed'')];
          fields' = (if islive then dset ''is_live'' (JBool False) fields else fields)
      in camel_dict fields')"

definition stamp_flight_landed_batch ::
  "'w fapi \<Rightarrow> FoundryWriter \<Rightarrow> FlightLandedStamp list \<Rightarrow> ('w, BatchResult) io" where
  "stamp_flight_landed_batch api fw stamps =
     (if stamps = [] then io_return empty_batch
      else apply_batch api fw (fw_action_flight fw) (map (landed_stamp_params (islive_enabled fw)) stamps))"

definition live_stamp_params :: "FlightLiveStamp \<Rightarrow> params" where
  "live_stamp_params s =
     camel_dict
       [(''flight_id'', JStr (flv_flight_id s)), (''flight'', JStr (flv_flight_id s)),
        (''icao24'', JStr (flv_icao24 s)), (''takeoff_ts'', iso_utc (flv_takeoff_ts s)),
        (''is_live'', JBool (flv_is_live s))]"

definition set_flight_live_batch ::
  "'w fapi \<Rightarrow> FoundryWriter \<Rightarrow> FlightLiveStamp list \<Rightarrow> ('w, BatchResult) io" where
  "set_flight_live_batch api fw stamps =
     (if stamps = [] then io_return empty_batch
      else apply_batch api fw (fw_action_flight fw) (map live_stamp_params stamps))"

section \<open>Object scans\<close>

definition get_objects_page ::
  "'w fapi \<Rightarrow> FoundryWriter \<Rightarrow> string \<Rightarrow> string option \<Rightarrow> ('w, ObjectsPage) io" where
  "get_objects_page api fw object_type page_token =
     (let query = [(''pageSize'', show_nat OBJECTS_PAGE_SIZE)] @
                  (case page_token of
                     None \<Rightarrow> []
                   | Some t \<Rightarrow> if t = [] then [] else [(''pageToken'', t)])
      in transient_retry
           (fa_get api (''/api/v2/ontologies/'' @ fw_ontology fw @ ''/objects/'' @ object_type) query))"

text \<open>\<open>str(v)\<close>.\<close>

definition py_str :: "'w fapi \<Rightarrow> json \<Rightarrow> string" where
  "py_str api v =
     (case v of
        JStr s \<Rightarrow> s
      | JInt i \<Rightarrow> show_int i
      | JBool b \<Rightarrow> if b then ''True'' else ''False''
      | JNull \<Rightarrow> ''None''
      | _ \<Rightarrow> fa_repr api v)"

text \<open>\<open>obj.get(prop) or obj.get("__primaryKey")\<close>, None when falsy.\<close>

definition object_pk :: "'w fapi \<Rightarrow> string \<Rightarrow> (string, json) dict \<Rightarrow> string option" where
  "object_pk api prop obj =
     (let v = obj_get obj prop;
          pk = (if truthy v then v else obj_get obj ''__primaryKey'')
      in if truthy pk then Some (py_str api pk) else None)"

text \<open>The \<open>while True\<close> page loop all scans share: fold a step over the rows of each page and stop at
  a falsy page token. None is a loop that ran out of fuel.\<close>

primrec scan_pages ::
  "'w fapi \<Rightarrow> FoundryWriter \<Rightarrow> string \<Rightarrow> ('a \<Rightarrow> ObjectsPage \<Rightarrow> 'a) \<Rightarrow> nat \<Rightarrow> 'a \<Rightarrow> string option \<Rightarrow>
     'w \<Rightarrow> ((exn + 'a) \<times> 'w) option" where
  "scan_pages api fw ot step 0 acc page_token w = None"
| "scan_pages api fw ot step (Suc fuel) acc page_token w =
     (case get_objects_page api fw ot page_token w of
        (Inl e, w') \<Rightarrow> Some (Inl e, w')
      | (Inr body, w') \<Rightarrow>
          (let acc' = step acc body
           in case pg_nextPageToken body of
                None \<Rightarrow> Some (Inr acc', w')
              | Some t \<Rightarrow> if t = [] then Some (Inr acc', w')
                          else scan_pages api fw ot step fuel acc' (Some t) w'))"

definition pk_step :: "'w fapi \<Rightarrow> string \<Rightarrow> string list \<Rightarrow> ObjectsPage \<Rightarrow> string list" where
  "pk_step api prop pks body =
     foldl (\<lambda>acc obj. case object_pk api prop obj of None \<Rightarrow> acc | Some pk \<Rightarrow> List.insert pk acc)
       pks (pg_data body)"

definition list_aircraft_pks ::
  "'w fapi \<Rightarrow> FoundryWriter \<Rightarrow> nat \<Rightarrow> 'w \<Rightarrow> ((exn + string list) \<times> 'w) option" where
  "list_aircraft_pks api fw fuel w =
     scan_pages api fw ''Aircraft'' (pk_step api ''icao24'') fuel [] None w"

definition list_case_pks ::
  "'w fapi \<Rightarrow> FoundryWriter \<Rightarrow> nat \<Rightarrow> 'w \<Rightarrow> ((exn + string list) \<times> 'w) option" where
  "list_case_pks api fw fuel w =
     scan_pages api fw ''Case'' (pk_step api ''caseId'') fuel [] None w"

record FlightScan =
  sc_all :: "string list"
  sc_completed :: "string list"
  sc_live :: "string list"

definition flight_obj_step :: "'w fapi \<Rightarrow> FlightScan \<Rightarrow> (string, json) dict \<Rightarrow> FlightScan" where
  "flight_obj_step api sc obj =
     (case object_pk api ''flightId'' obj of
        None \<Rightarrow> sc
      | Some pk \<Rightarrow>
          \<lparr>sc_all = List.insert pk (sc_all sc),
           sc_completed = (if obj_get obj ''landedAt'' \<noteq> JNull then List.insert pk (sc_completed sc)
                           else sc_completed sc),
           sc_live = (if obj_get obj ''isLive'' = JBool True then List.insert pk (sc_live sc)
                      else sc_live sc)\<rparr>)"

definition list_flight_pks_with_completion ::
  "'w fapi \<Rightarrow> FoundryWriter \<Rightarrow> nat \<Rightarrow> 'w \<Rightarrow> ((exn + FlightScan) \<times> 'w) option" where
  "list_flight_pks_with_completion api fw fuel w =
     scan_pages api fw ''Flight'' (\<lambda>acc body. foldl (flight_obj_step api) acc (pg_data body)) fuel
       \<lparr>sc_all = [], sc_completed = [], sc_live = []\<rparr> None w"

definition list_flight_pks ::
  "'w fapi \<Rightarrow> FoundryWriter \<Rightarrow> nat \<Rightarrow> 'w \<Rightarrow> ((exn + string list) \<times> 'w) option" where
  "list_flight_pks api fw fuel w =
     (case list_flight_pks_with_completion api fw fuel w of
        None \<Rightarrow> None
      | Some (Inl e, w') \<Rightarrow> Some (Inl e, w')
      | Some (Inr sc, w') \<Rightarrow> Some (Inr (sc_all sc), w'))"

definition completed_objects :: "'w fapi \<Rightarrow> ObjectsPage \<Rightarrow> (string, json) dict list" where
  "completed_objects api body =
     filter (\<lambda>obj. obj_get obj ''landedAt'' \<noteq> JNull \<and>
               (truthy (obj_get obj ''flightId'') \<or> truthy (obj_get obj ''__primaryKey'')))
       (pg_data body)"

text \<open>The generator, run to its end: the non-empty batches it yields, in order.\<close>

definition iter_completed_flights ::
  "'w fapi \<Rightarrow> FoundryWriter \<Rightarrow> nat \<Rightarrow> 'w \<Rightarrow> ((exn + (string, json) dict list list) \<times> 'w) option" where
  "iter_completed_flights api fw fuel w =
     scan_pages api fw ''Flight''
       (\<lambda>acc body. let c = completed_objects api body in if c = [] then acc else acc @ [c]) fuel [] None w"

section \<open>Chunks\<close>

lemma chunks_Nil [simp]: "chunks [] n = []"
  by (simp add: chunks.simps)

lemma concat_chunks: "0 < n \<Longrightarrow> concat (chunks xs n) = xs"
proof (induction xs n rule: chunks.induct)
  case (1 xs n)
  then show ?case by (cases "xs = []") (simp_all add: chunks.simps[of xs n])
qed

lemma chunks_bounds: "c \<in> set (chunks xs n) \<Longrightarrow> 0 < length c \<and> length c \<le> n"
proof (induction xs n rule: chunks.induct)
  case (1 xs n)
  then show ?case by (cases "xs = [] \<or> n = 0") (auto simp: chunks.simps[of xs n])
qed

lemma length_chunks: "0 < n \<Longrightarrow> length (chunks xs n) = (length xs + n - 1) div n"
proof (induction xs n rule: chunks.induct)
  case (1 xs n)
  show ?case
  proof (cases "xs = []")
    case False
    have e: "length xs + n - 1 = (length xs - 1) + n" using False by (cases xs) simp_all
    have "length (chunks xs n) = Suc ((length xs - n + n - 1) div n)"
      using 1 False by (simp add: chunks.simps[of xs n])
    also have "\<dots> = (length xs + n - 1) div n"
    proof (cases "n \<le> length xs")
      case True
      then have t: "length xs - n + n - 1 = length xs - 1" by simp
      have "n \<noteq> 0" using 1(2) by simp
      then show ?thesis unfolding t e by (subst div_add_self2) simp_all
    next
      case False
      then have "(length xs - 1) div n = 0" "(length xs - n + n - 1) div n = 0"
        using 1(2) by simp_all
      then show ?thesis unfolding e using 1(2) by simp
    qed
    finally show ?thesis .
  next
    case True
    then show ?thesis using 1(2) by simp
  qed
qed

section \<open>What a successful batch did\<close>

text \<open>The world after a list of chunks was accepted one after the other.\<close>

inductive accepted ::
  "'w fapi \<Rightarrow> FoundryWriter \<Rightarrow> string \<Rightarrow> 'w \<Rightarrow> params list list \<Rightarrow> 'w \<Rightarrow> bool"
  for api :: "'w fapi" and fw :: FoundryWriter and action :: string where
  accepted_Nil: "accepted api fw action w [] w"
| accepted_Cons:
    "post_chunk api fw action c w = (Inr (), w1) \<Longrightarrow> accepted api fw action w1 cs w2 \<Longrightarrow>
     accepted api fw action w (c # cs) w2"

inductive_cases accepted_NilE: "accepted api fw action w [] w'"
inductive_cases accepted_ConsE: "accepted api fw action w (c # cs) w'"

inductive_simps accepted_Cons_iff: "accepted api fw action w (c # cs) w'"
inductive_simps accepted_Nil_iff: "accepted api fw action w [] w'"

lemma post_chunks_ok:
  "post_chunks api fw action cs k w = (Inr n, w') \<longleftrightarrow>
     accepted api fw action w cs w' \<and> n = k + length (concat cs)"
proof (induction cs arbitrary: k w)
  case Nil
  then show ?case by (auto simp: io_return_Inr accepted_Nil_iff)
next
  case (Cons c cs)
  then show ?case by (auto simp: io_bind_Inr accepted_Cons_iff)
qed

lemma apply_batch_ok:
  "apply_batch api fw action ps w = (Inr r, w') \<longleftrightarrow>
     accepted api fw action w (chunks ps MAX_BATCH) w' \<and>
     r = \<lparr>attempted = length ps, succeeded = length ps, failed = 0\<rparr>"
proof -
  have "length (concat (chunks ps MAX_BATCH)) = length ps"
    by (simp add: concat_chunks MAX_BATCH_def)
  then show ?thesis
    unfolding apply_batch_def io_bind_Inr post_chunks_ok io_return_Inr by auto
qed

text \<open>A failed batch: some prefix of the chunks was accepted, the next chunk was refused with the
  error that is reported, and nothing after it was sent.\<close>

lemma post_chunks_error:
  "post_chunks api fw action cs k w = (Inl e, w') \<Longrightarrow>
     \<exists>ds c rest w1. cs = ds @ c # rest \<and> accepted api fw action w ds w1 \<and>
       post_chunk api fw action c w1 = (Inl e, w')"
proof (induction cs arbitrary: k w)
  case Nil
  then show ?case by (simp add: io_return_def)
next
  case (Cons c cs)
  show ?case
  proof (cases "post_chunk api fw action c w")
    case (Pair r w1)
    show ?thesis
    proof (cases r)
      case (Inl e')
      then have "e' = e" "w1 = w'" using Cons.prems Pair by (simp_all add: io_bind_def)
      then show ?thesis
        using Pair Inl
        by (intro exI[of _ "[]"] exI[of _ c] exI[of _ cs] exI[of _ w]) (simp add: accepted_Nil)
    next
      case (Inr u)
      then have "post_chunks api fw action cs (k + length c) w1 = (Inl e, w')"
        using Cons.prems Pair by (simp add: io_bind_def)
      from Cons.IH[OF this] obtain ds d rest w2 where
        "cs = ds @ d # rest" "accepted api fw action w1 ds w2" "post_chunk api fw action d w2 = (Inl e, w')"
        by blast
      then show ?thesis
        using Pair Inr by (intro exI[of _ "c # ds"]) (auto intro!: accepted_Cons)
    qed
  qed
qed

section \<open>Retries\<close>

text \<open>\<open>attempts n m w r\<close>: running m up to n times in a row, stopping at the first outcome that
  may not be retried, can end in the outcome r; the number of runs is recorded.\<close>

inductive attempts :: "('w, 'a) io \<Rightarrow> nat \<Rightarrow> 'w \<Rightarrow> (exn + 'a) \<times> 'w \<Rightarrow> bool"
  for m :: "('w, 'a) io" where
  attempts_final: "m w = r \<Longrightarrow> attempts m (Suc 0) w r"
| attempts_again:
    "m w = (Inl e, w1) \<Longrightarrow> should_retry e \<Longrightarrow> attempts m n w1 r \<Longrightarrow> attempts m (Suc n) w r"

lemma retrying_attempts: "\<exists>k. 0 < k \<and> k \<le> Suc n \<and> attempts m k w (retrying n m w)"
proof (induction n arbitrary: w)
  case 0
  show ?case by (intro exI[of _ "Suc 0"]) (auto intro: attempts_final)
next
  case (Suc n)
  show ?case
  proof (cases "m w")
    case (Pair r w1)
    show ?thesis
    proof (cases "\<exists>e. r = Inl e \<and> should_retry e")
      case True
      then obtain e where e: "r = Inl e" "should_retry e" by blast
      obtain k where "0 < k" "k \<le> Suc n" "attempts m k w1 (retrying n m w1)" using Suc by blast
      then show ?thesis
        using Pair e by (intro exI[of _ "Suc k"]) (auto intro: attempts_again)
    next
      case False
      then have "retrying (Suc n) m w = m w" using Pair by (auto split: sum.split)
      then show ?thesis by (intro exI[of _ "Suc 0"]) (auto intro: attempts_final)
    qed
  qed
qed

lemma retrying_not_retriable:
  "m w = (r, w') \<Longrightarrow> (\<And>e. r = Inl e \<Longrightarrow> \<not> should_retry e) \<Longrightarrow> retrying n m w = (r, w')"
  by (cases n) (auto split: sum.split)

section \<open>The writer operations as one interface\<close>

text \<open>Every writer operation turns a list into a batch result and either reports the whole list as
  done or fails; the empty list makes no call.\<close>

locale batch_operation =
  fixes run :: "'a list \<Rightarrow> ('w, BatchResult) io"
  assumes run_empty: "run [] w = (Inr empty_batch, w)"
    and run_counts: "run xs w = (Inr r, w') \<Longrightarrow>
      attempted r = length xs \<and> succeeded r = length xs \<and> failed r = 0"
begin

lemma succeeded_all: "run xs w = (Inr r, w') \<Longrightarrow> succeeded r = length xs"
  by (simp add: run_counts)

lemma succeeded_zero: "run xs w = (Inr r, w') \<Longrightarrow> succeeded r = 0 \<longleftrightarrow> xs = []"
  by (simp add: run_counts)

end

lemma batch_operation_apply:
  assumes "\<And>xs. run xs = (if xs = [] then io_return empty_batch else apply_batch api fw action (map f xs))"
  shows "batch_operation run"
  by unfold_locales
    (auto simp: assms io_return_def apply_batch_ok empty_batch_def split: if_splits)

interpretation upsert_aircraft: batch_operation "upsert_aircraft_batch api fw" for api fw
  by (rule batch_operation_apply) (rule upsert_aircraft_batch_def)

interpretation upsert_site: batch_operation "upsert_site_batch api fw" for api fw
  by (rule batch_operation_apply) (rule upsert_site_batch_def)

interpretation upsert_flight: batch_operation "upsert_flight_batch api fw" for api fw
  by (rule batch_operation_apply) (rule upsert_flight_batch_def)

interpretation upsert_case: batch_operation "upsert_case_batch api fw" for api fw
  by (rule batch_operation_apply) (rule upsert_case_batch_def)

interpretation delete_aircraft: batch_operation "delete_aircraft_batch api fw" for api fw
  by (rule batch_operation_apply) (rule delete_aircraft_batch_def)

interpretation delete_flight: batch_operation "delete_flight_batch api fw" for api fw
  by (rule batch_operation_apply) (rule delete_flight_batch_def)

interpretation delete_case: batch_operation "delete_case_batch api fw" for api fw
  by (rule batch_operation_apply) (rule delete_case_batch_def)

interpretation stamp_landed: batch_operation "stamp_flight_landed_batch api fw" for api fw
  by (rule batch_operation_apply) (rule stamp_flight_landed_batch_def)

interpretation set_live: batch_operation "set_flight_live_batch api fw" for api fw
  by (rule batch_operation_apply) (rule set_flight_live_batch_def)

section \<open>Scans\<close>

text \<open>The pages a run of GETs sees: each is answered, and the last one carries no further token.\<close>

inductive page_chain ::
  "'w fapi \<Rightarrow> FoundryWriter \<Rightarrow> string \<Rightarrow> string option \<Rightarrow> 'w \<Rightarrow> ObjectsPage list \<Rightarrow> 'w \<Rightarrow> bool"
  for api :: "'w fapi" and fw :: FoundryWriter and ot :: string where
  chain_last:
    "get_objects_page api fw ot tok w = (Inr pg, w1) \<Longrightarrow>
     pg_nextPageToken pg = None \<or> pg_nextPageToken pg = Some [] \<Longrightarrow>
     page_chain api fw ot tok w [pg] w1"
| chain_more:
    "get_objects_page api fw ot tok w = (Inr pg, w1) \<Longrightarrow> pg_nextPageToken pg = Some t \<Longrightarrow> t \<noteq> [] \<Longrightarrow>
     page_chain api fw ot (Some t) w1 pgs w2 \<Longrightarrow> page_chain api fw ot tok w (pg # pgs) w2"

lemma page_chain_nonempty: "page_chain api fw ot tok w pgs w' \<Longrightarrow> pgs \<noteq> []"
  by (induction rule: page_chain.induct) simp_all

text \<open>On such a chain, fuel for one iteration per page is enough, and the scan folds every page.\<close>

lemma scan_pages_chain:
  assumes "page_chain api fw ot tok w pgs w'" "length pgs \<le> fuel"
  shows "scan_pages api fw ot step fuel acc tok w = Some (Inr (foldl step acc pgs), w')"
  using assms
proof (induction arbitrary: acc fuel rule: page_chain.induct)
  case (chain_last tok w pg w1)
  then show ?case by (cases fuel) auto
next
  case (chain_more tok w pg w1 t pgs w2)
  then show ?case by (cases fuel) auto
qed

lemma scan_pages_complete:
  assumes "scan_pages api fw ot step fuel acc tok w = Some (Inr r, w')"
  shows "\<exists>pgs. page_chain api fw ot tok w pgs w' \<and> length pgs \<le> fuel \<and> r = foldl step acc pgs"
  using assms
proof (induction fuel arbitrary: acc tok w)
  case (Suc fuel)
  obtain x w1 where g: "get_objects_page api fw ot tok w = (x, w1)" by fastforce
  with Suc.prems obtain body where body: "x = Inr body" by (cases x) auto
  show ?case
  proof (cases "pg_nextPageToken body = None \<or> pg_nextPageToken body = Some []")
    case True
    then have "page_chain api fw ot tok w [body] w1" using g body by (intro chain_last) auto
    moreover have "r = step acc body" "w' = w1" using Suc.prems g body True by auto
    ultimately show ?thesis by (intro exI[of _ "[body]"]) simp
  next
    case False
    then obtain t where t: "pg_nextPageToken body = Some t" "t \<noteq> []" by auto
    then have "scan_pages api fw ot step fuel (step acc body) (Some t) w1 = Some (Inr r, w')"
      using Suc.prems g body by simp
    from Suc.IH[OF this] obtain pgs where
      "page_chain api fw ot (Some t) w1 pgs w'" "length pgs \<le> fuel" "r = foldl step (step acc body) pgs"
      by blast
    then show ?thesis
      using chain_more[OF g[unfolded body] t] by (intro exI[of _ "body # pgs"]) simp
  qed
qed simp

lemma set_pk_step:
  "set (pk_step api prop pks body) = set pks \<union> {pk. \<exists>obj \<in> set (pg_data body). object_pk api prop obj = Some pk}"
proof -
  have "set (foldl (\<lambda>acc obj. case object_pk api prop obj of None \<Rightarrow> acc | Some pk \<Rightarrow> List.insert pk acc) ks os) =
        set ks \<union> {pk. \<exists>obj \<in> set os. object_pk api prop obj = Some pk}" for ks os
    by (induction os arbitrary: ks) (auto split: option.splits)
  then show ?thesis by (simp add: pk_step_def)
qed

lemma set_pk_scan:
  "set (foldl (pk_step api prop) pks pgs) =
     set pks \<union> {pk. \<exists>pg \<in> set pgs. \<exists>obj \<in> set (pg_data pg). object_pk api prop obj = Some pk}"
  by (induction pgs arbitrary: pks) (auto simp: set_pk_step)

text \<open>What one flight scan collects, as sets of keys.\<close>

definition scan_sees :: "'w fapi \<Rightarrow> ((string, json) dict \<Rightarrow> bool) \<Rightarrow> ObjectsPage list \<Rightarrow> string set" where
  "scan_sees api P pgs = {pk. \<exists>pg \<in> set pgs. \<exists>obj \<in> set (pg_data pg). object_pk api ''flightId'' obj = Some pk \<and> P obj}"

lemma flight_obj_fold:
  "set (sc_all (foldl (flight_obj_step api) sc os)) =
     set (sc_all sc) \<union> {pk. \<exists>obj \<in> set os. object_pk api ''flightId'' obj = Some pk}"
  "set (sc_completed (foldl (flight_obj_step api) sc os)) =
     set (sc_completed sc) \<union> {pk. \<exists>obj \<in> set os. object_pk api ''flightId'' obj = Some pk \<and> obj_get obj ''landedAt'' \<noteq> JNull}"
  "set (sc_live (foldl (flight_obj_step api) sc os)) =
     set (sc_live sc) \<union> {pk. \<exists>obj \<in> set os. object_pk api ''flightId'' obj = Some pk \<and> obj_get obj ''isLive'' = JBool True}"
  by (induction os arbitrary: sc) (auto simp: flight_obj_step_def split: option.splits if_splits)

lemma flight_scan_fold:
  "set (sc_all (foldl (\<lambda>acc body. foldl (flight_obj_step api) acc (pg_data body)) sc pgs)) =
     set (sc_all sc) \<union> scan_sees api (\<lambda>_. True) pgs"
  "set (sc_completed (foldl (\<lambda>acc body. foldl (flight_obj_step api) acc (pg_data body)) sc pgs)) =
     set (sc_completed sc) \<union> scan_sees api (\<lambda>obj. obj_get obj ''landedAt'' \<noteq> JNull) pgs"
  "set (sc_live (foldl (\<lambda>acc body. foldl (flight_obj_step api) acc (pg_data body)) sc pgs)) =
     set (sc_live sc) \<union> scan_sees api (\<lambda>obj. obj_get obj ''isLive'' = JBool True) pgs"
  by (induction pgs arbitrary: sc) (auto simp: flight_obj_fold scan_sees_def)

section \<open>A small endpoint for worked instances\<close>

text \<open>The world is the log of accepted chunks; every object page is the one given.\<close>

type_synonym log = "(string \<times> params list) list"

definition log_api :: "(string, json) dict list \<Rightarrow> log fapi" where
  "log_api objs =
     \<lparr>fa_post = (\<lambda>path chunk w. (Inr (), w @ [(path, chunk)])),
      fa_get = (\<lambda>path query w. (Inr \<lparr>pg_data = objs, pg_nextPageToken = None\<rparr>, w)),
      fa_repr = (\<lambda>_. [])\<rparr>"

definition demo_writer :: "bool \<Rightarrow> FoundryWriter" where
  "demo_writer islive =
     \<lparr>fw_ontology = ''o'', fw_action_aircraft = ''ua'', fw_action_site = ''us'', fw_action_flight = ''uf'',
      fw_action_delete_aircraft = ''da'', fw_action_delete_flight = ''df'', fw_action_case = ''uc'',
      fw_action_delete_case = ''dc'', islive_enabled = islive\<rparr>"

end
