(* ===== verification/ApiReaders.thy ===== *)
theory ApiReaders
  imports Writer
begin

text \<open>
  api_readers.py: the client of the local /v1 API. The API itself is a parameter, the record
  \<open>afm\<close> of one request each; the client adds the retry, and the page loop of
  \<open>fetch_cases_for_sync\<close> that drains the case snapshot by its updated-at cursor (with fuel). The
  trail stream is opened once and read line by line, so that the caller's writes interleave with it.
\<close>

record 'w afm =
  am_positions_live :: "('w, PositionsLiveResponse) io"
  am_flight :: "string \<Rightarrow> ('w, FlightDetail) io"
  am_flight_trail :: "string \<Rightarrow> string \<Rightarrow> ('w, TrailResponse) io"
  am_trail_open :: "string list \<Rightarrow> string \<Rightarrow> ('w, unit) io"
  am_trail_next :: "('w, TrailResponse option) io"
  am_sites :: "('w, SiteListResponse) io"
  am_site :: "string \<Rightarrow> ('w, SiteDetail) io"
  am_site_sla :: "string \<Rightarrow> SlaPeriod \<Rightarrow> ('w, SiteSla) io"
  am_site_flights :: "string \<Rightarrow> string \<Rightarrow> ('w, SiteFlightListResponse) io"
  am_cases_page :: "nat \<Rightarrow> instant option \<Rightarrow> ('w, CasesForSyncPage) io"

definition fetch_positions_live :: "'w afm \<Rightarrow> ('w, PositionsLiveResponse) io" where
  "fetch_positions_live api = transient_retry (am_positions_live api)"

definition fetch_flight :: "'w afm \<Rightarrow> string \<Rightarrow> ('w, FlightDetail) io" where
  "fetch_flight api icao24 = transient_retry (am_flight api icao24)"

definition fetch_flight_trail :: "'w afm \<Rightarrow> string \<Rightarrow> string \<Rightarrow> ('w, TrailResponse) io" where
  "fetch_flight_trail api icao24 lookback = transient_retry (am_flight_trail api icao24 lookback)"

definition fetch_sites :: "'w afm \<Rightarrow> ('w, SiteListResponse) io" where
  "fetch_sites api = transient_retry (am_sites api)"

definition fetch_site :: "'w afm \<Rightarrow> string \<Rightarrow> ('w, SiteDetail) io" where
  "fetch_site api icao = transient_retry (am_site api icao)"

definition fetch_site_sla :: "'w afm \<Rightarrow> string \<Rightarrow> ('w, SiteSla) io" where
  "fetch_site_sla api icao = transient_retry (am_site_sla api icao Last24h)"

definition fetch_site_flights :: "'w afm \<Rightarrow> string \<Rightarrow> string \<Rightarrow> ('w, SiteFlightListResponse) io" where
  "fetch_site_flights api icao direction = transient_retry (am_site_flights api icao direction)"

section \<open>Runs with fuel\<close>

type_synonym ('w, 'a) iot = "'w \<Rightarrow> ((exn + 'a) \<times> 'w) option"

definition lift_io :: "('w, 'a) io \<Rightarrow> ('w, 'a) iot" where
  "lift_io m = (\<lambda>w. Some (m w))"

definition iot_bind :: "('w, 'a) iot \<Rightarrow> ('a \<Rightarrow> ('w, 'b) iot) \<Rightarrow> ('w, 'b) iot" where
  "iot_bind m f =
     (\<lambda>w. case m w of
            None \<Rightarrow> None
          | Some (Inl e, w') \<Rightarrow> Some (Inl e, w')
          | Some (Inr a, w') \<Rightarrow> f a w')"

definition iot_return :: "'a \<Rightarrow> ('w, 'a) iot" where
  "iot_return a = (\<lambda>w. Some (Inr a, w))"

definition iot_raise :: "exn \<Rightarrow> ('w, 'a) iot" where
  "iot_raise e = (\<lambda>w. Some (Inl e, w))"

lemma iot_bind_Inr:
  "iot_bind m f w = Some (Inr b, w') \<longleftrightarrow> (\<exists>a w1. m w = Some (Inr a, w1) \<and> f a w1 = Some (Inr b, w'))"
  by (auto simp: iot_bind_def split: option.splits prod.splits sum.splits)

lemma iot_return_Inr: "iot_return a w = Some (Inr b, w') \<longleftrightarrow> b = a \<and> w' = w"
  by (auto simp: iot_return_def)

lemma lift_io_Inr: "lift_io m w = Some (Inr a, w') \<longleftrightarrow> m w = (Inr a, w')"
  by (simp add: lift_io_def)

lemma iot_raise_Inr: "iot_raise e w \<noteq> Some (Inr b, w')"
  by (simp add: iot_raise_def)

lemmas iot_laws = iot_bind_Inr iot_return_Inr lift_io_Inr iot_raise_Inr

section \<open>Draining the case snapshot\<close>

definition get_cases_page :: "'w afm \<Rightarrow> nat \<Rightarrow> instant option \<Rightarrow> ('w, CasesForSyncPage) io" where
  "get_cases_page api page_size cursor = transient_retry (am_cases_page api page_size cursor)"

primrec drain_cases ::
  "'w afm \<Rightarrow> nat \<Rightarrow> nat \<Rightarrow> CaseForSync list \<Rightarrow> instant option \<Rightarrow> ('w, CaseForSync list \<times> instant option) iot" where
  "drain_cases api page_size 0 items cursor w = None"
| "drain_cases api page_size (Suc fuel) items cursor w =
     (case get_cases_page api page_size cursor w of
        (Inl e, w') \<Rightarrow> Some (Inl e, w')
      | (Inr page, w') \<Rightarrow>
          (let items' = items @ cfp_items page;
               cursor' = (case cfp_next_cursor page of None \<Rightarrow> cursor | Some c \<Rightarrow> Some c)
           in if \<not> cfp_truncated page then Some (Inr (items', cursor'), w')
              else drain_cases api page_size fuel items' cursor' w'))"

definition fetch_cases_for_sync ::
  "'w afm \<Rightarrow> nat \<Rightarrow> instant option \<Rightarrow> ('w, CaseForSync list \<times> instant option) iot" where
  "fetch_cases_for_sync api fuel since = drain_cases api 500 fuel [] since"

lemma drain_cases_append:
  "drain_cases api n fuel (pre @ items) cursor w =
     map_option (\<lambda>(r, w'). (map_sum id (\<lambda>(its, c). (pre @ its, c)) r, w')) (drain_cases api n fuel items cursor w)"
  by (induction fuel arbitrary: items cursor w)
     (auto simp: Let_def split: prod.split sum.split)

lemma drain_cases_mono:
  "drain_cases api n fuel items cursor w = Some r \<Longrightarrow> fuel \<le> fuel' \<Longrightarrow>
   drain_cases api n fuel' items cursor w = Some r"
proof (induction fuel arbitrary: fuel' items cursor w)
  case (Suc fuel)
  then obtain f where "fuel' = Suc f" "fuel \<le> f" by (cases fuel') auto
  with Suc show ?case by (auto simp: Let_def split: prod.splits sum.splits if_splits)
qed simp

end
