(* ===== verification/FlightId.thy ===== *)
theory FlightId
  imports PyString
begin

text \<open>
  The Flight primary key (sync_jobs.py): \<open>synthesize_flight_id\<close> prints the airframe and the
  whole seconds of the takeoff instant, \<open>parse_flight_id\<close> splits at the last dash and reads
  the seconds back. Failures of the parse are values: the ValueError the callers catch, and the
  platform range errors they do not.
\<close>

text \<open>\<open>int(dt.timestamp())\<close>: whole seconds, truncated toward zero. The float the code goes
  through is exact enough for this below the year 2514.\<close>

definition unix_seconds :: "instant \<Rightarrow> int" where
  "unix_seconds t = (if 0 \<le> t then t div 1000000 else - ((- t) div 1000000))"

definition synthesize_flight_id :: "string \<Rightarrow> instant \<Rightarrow> string" where
  "synthesize_flight_id icao24 takeoff_ts = icao24 @ ''-'' @ show_int (unix_seconds takeoff_ts)"

datatype pk_error = ValueError | PlatformRangeError

text \<open>\<open>datetime.fromtimestamp(n, tz=UTC)\<close>: ValueError outside the years 1 to 9999, OSError or
  OverflowError where the C library cannot break the timestamp down.\<close>

definition fromtimestamp :: "int \<Rightarrow> pk_error + instant" where
  "fromtimestamp n =
     (if n < -67768040609740800 \<or> n > 67768036191676799 then Inl PlatformRangeError
      else if n < -62135596800 \<or> n > 253402300799 then Inl ValueError
      else Inr (n * 1000000))"

definition parse_flight_id :: "string \<Rightarrow> pk_error + (string \<times> instant)" where
  "parse_flight_id flight_id =
     (case rpartition (CHR ''-'') flight_id of (icao24, ts) \<Rightarrow>
        if icao24 = [] \<or> ts = [] then Inl ValueError
        else case py_int ts of
               None \<Rightarrow> Inl ValueError
             | Some n \<Rightarrow> (case fromtimestamp n of Inl e \<Rightarrow> Inl e | Inr t \<Rightarrow> Inr (icao24, t)))"

text \<open>The callers' \<open>try: parse ... except ValueError: skip\<close>: Some None is a skipped key, None an
  exception that leaves the caller.\<close>

definition parse_or_skip :: "string \<Rightarrow> (string \<times> instant) option option" where
  "parse_or_skip pk =
     (case parse_flight_id pk of
        Inr p \<Rightarrow> Some (Some p)
      | Inl ValueError \<Rightarrow> Some None
      | Inl PlatformRangeError \<Rightarrow> None)"

definition last_instant :: instant where
  "last_instant = 253402300799999999"

lemma unix_seconds_nonneg: "0 \<le> t \<Longrightarrow> 0 \<le> unix_seconds t"
  by (simp add: unix_seconds_def)

lemma parse_synthesize:
  assumes "icao24 \<noteq> []" "0 \<le> t" "t \<le> last_instant"
  shows "parse_flight_id (synthesize_flight_id icao24 t) = Inr (icao24, t - t mod 1000000)"
proof -
  define n where "n = nat (unix_seconds t)"
  have n: "unix_seconds t = int n" using unix_seconds_nonneg[OF assms(2)] by (simp add: n_def)
  have show_n: "show_int (unix_seconds t) = show_nat n" by (simp add: show_int_def n)
  have le: "int n \<le> 253402300799"
    using assms(2,3) n by (simp add: unix_seconds_def last_instant_def)
  then have "n < 10 ^ 12" by simp
  also have "(10::nat) ^ 12 \<le> 10 ^ 4300" by (rule power_increasing) simp_all
  finally have "n < 10 ^ 4300" .
  then have int: "py_int (show_nat n) = Some (int n)" by (rule py_int_show_nat)
  have "t - t mod 1000000 = int n * 1000000"
    using n assms(2) by (simp add: unix_seconds_def minus_mod_eq_div_mult)
  moreover have "rpartition (CHR ''-'') (synthesize_flight_id icao24 t) = (icao24, show_nat n)"
    using rpartition_append[OF show_nat_no_minus[of n], of icao24]
    by (simp add: synthesize_flight_id_def show_n)
  ultimately show ?thesis
    using assms(1) int le by (simp add: parse_flight_id_def fromtimestamp_def)
qed

lemma parse_flight_id_nonempty: "parse_flight_id pk = Inr (icao24, t) \<Longrightarrow> icao24 \<noteq> []"
  by (auto simp: parse_flight_id_def split: prod.splits if_splits option.splits sum.splits)

lemma parse_flight_id_prefix:
  assumes "parse_flight_id pk = Inr (icao24, t)"
  shows "\<exists>ts n. pk = icao24 @ ''-'' @ ts \<and> py_int ts = Some n \<and> t = n * 1000000"
proof -
  let ?r = "rpartition (CHR ''-'') pk"
  have ne: "fst ?r \<noteq> []" and fst: "fst ?r = icao24"
    using assms by (auto simp: parse_flight_id_def split: prod.splits if_splits option.splits sum.splits)
  have "CHR ''-'' \<in> set pk" using ne by (auto simp: rpartition_def split: if_splits)
  from rpartition_join[OF this] fst have pk: "pk = icao24 @ ''-'' @ snd ?r" by simp
  moreover obtain n where "py_int (snd ?r) = Some n" "fromtimestamp n = Inr t"
    using assms by (auto simp: parse_flight_id_def split: prod.splits if_splits option.splits sum.splits)
  moreover from this(2) have "t = n * 1000000" by (auto simp: fromtimestamp_def split: if_splits)
  ultimately show ?thesis by blast
qed

section \<open>Properties\<close>

text \<open>C31. Round trip of the Flight key: for a non-empty airframe id and a takeoff between 1970 and the
  end of the year 9999, parsing the synthesized key gives back the airframe and the takeoff to the whole second.\<close>

theorem flight_id_roundtrip:
  assumes "icao24 \<noteq> []" "0 \<le> takeoff_ts" "takeoff_ts \<le> last_instant"
  shows "parse_flight_id (synthesize_flight_id icao24 takeoff_ts) = Inr (icao24, takeoff_ts - takeoff_ts mod 1000000)"
  using assms by (rule parse_synthesize)

lemma flight_id_roundtrip_witness:
  "parse_flight_id (synthesize_flight_id ''a1b2c3'' 1700000000250000) = Inr (''a1b2c3'', 1700000000000000)"
  using flight_id_roundtrip[of "''a1b2c3''" 1700000000250000] by (simp add: last_instant_def)

text \<open>Two takeoffs share a key only when they are of one airframe within the same second.\<close>

theorem flight_id_injective:
  assumes "a \<noteq> []" "b \<noteq> []" "t \<in> {0..last_instant}" "u \<in> {0..last_instant}"
  shows "synthesize_flight_id a t = synthesize_flight_id b u \<longleftrightarrow> a = b \<and> unix_seconds t = unix_seconds u"
proof
  assume e: "synthesize_flight_id a t = synthesize_flight_id b u"
  have "parse_flight_id (synthesize_flight_id a t) = Inr (a, t - t mod 1000000)"
    "parse_flight_id (synthesize_flight_id b u) = Inr (b, u - u mod 1000000)"
    using assms by (simp_all add: parse_synthesize)
  with e have "a = b" "t - t mod 1000000 = u - u mod 1000000" by simp_all
  then show "a = b \<and> unix_seconds t = unix_seconds u"
    using assms(3,4) by (simp add: unix_seconds_def minus_mod_eq_div_mult)
qed (simp add: synthesize_flight_id_def)

lemma flight_id_injective_witness:
  "synthesize_flight_id ''a1'' 5000000 \<noteq> synthesize_flight_id ''a1'' 6000000"
  using flight_id_injective[of "''a1''" "''a1''" 5000000 6000000] by (simp add: last_instant_def unix_seconds_def)

end
