(* ===== verification/Reconcile.thy ===== *)
theory Reconcile
  imports ApiReaders FlightId
begin

text \<open>
  sync_jobs.py, the three tenant reconciles: aircraft against the live feed, cases against the
  Postgres snapshot, flights against the live working set (newest leg per airborne aircraft, plus
  every leg whose takeoff is inside the TTL), and the liveness sweep over \<open>Flight.isLive\<close>. Each
  job is the effectful handler over the two clients; the pure part of the flight job is the plan it
  carries out. The capped deletion the three share is an interface, interpreted on each plan.
\<close>

section \<open>Results\<close>

record ReconcileResult =
  rr_live :: nat
  rr_tenant :: nat
  rr_orphans :: nat
  rr_deleted :: nat
  rr_remaining :: nat
  rr_skipped_empty_live :: bool

record CaseReconcileResult =
  crr_pg_cases :: nat
  crr_tenant :: nat
  crr_orphans :: nat
  crr_deleted :: nat
  crr_remaining :: nat
  crr_skipped_empty_keep :: bool

record FlightReconcileResult =
  frr_live_airborne :: nat
  frr_tenant :: nat
  frr_keep :: nat
  frr_orphans :: nat
  frr_deleted :: nat
  frr_completed_skipped :: nat
  frr_remaining :: nat
  frr_skipped_empty_live :: bool
  frr_live_marked_true :: nat
  frr_live_marked_false :: nat

section \<open>Aircraft and cases\<close>

definition AIRCRAFT_RECONCILE_DELETE_CAP :: nat where
  "AIRCRAFT_RECONCILE_DELETE_CAP = 5000"

definition CASE_RECONCILE_DELETE_CAP :: nat where
  "CASE_RECONCILE_DELETE_CAP = 5000"

definition FLIGHT_RECONCILE_DELETE_CAP :: nat where
  "FLIGHT_RECONCILE_DELETE_CAP = 5000"

definition FLIGHT_RECONCILE_TTL :: duration where
  "FLIGHT_RECONCILE_TTL = hours 24"

text \<open>\<open>sorted(tenant - keep)\<close>.\<close>

definition sorted_orphans :: "string list \<Rightarrow> string list \<Rightarrow> string list" where
  "sorted_orphans keep tenant = sorted_set (filter (\<lambda>pk. pk \<notin> set keep) tenant)"

definition reconcile_aircraft ::
  "'w afm \<Rightarrow> 'w fapi \<Rightarrow> FoundryWriter \<Rightarrow> (Position \<Rightarrow> bool) \<Rightarrow> nat \<Rightarrow> ('w, ReconcileResult) iot" where
  "reconcile_aircraft client api fw in_scope fuel =
     iot_bind (lift_io (fetch_positions_live client)) (\<lambda>response.
       if plr_items response = [] then
         iot_return \<lparr>rr_live = 0, rr_tenant = 0, rr_orphans = 0, rr_deleted = 0, rr_remaining = 0,
                     rr_skipped_empty_live = True\<rparr>
       else
         let live = remdups (map pos_icao24 (filter in_scope (plr_items response)))
         in iot_bind (list_aircraft_pks api fw fuel) (\<lambda>tenant.
              let orphans = sorted_orphans live tenant;
                  to_delete = take AIRCRAFT_RECONCILE_DELETE_CAP orphans;
                  remaining = length orphans - length to_delete
              in iot_bind (lift_io (delete_aircraft_batch api fw to_delete)) (\<lambda>batch.
                   iot_return \<lparr>rr_live = length live, rr_tenant = length tenant,
                     rr_orphans = length orphans, rr_deleted = succeeded batch,
                     rr_remaining = remaining, rr_skipped_empty_live = False\<rparr>)))"

definition reconcile_cases ::
  "'w afm \<Rightarrow> 'w fapi \<Rightarrow> FoundryWriter \<Rightarrow> nat \<Rightarrow> ('w, CaseReconcileResult) iot" where
  "reconcile_cases client api fw fuel =
     iot_bind (fetch_cases_for_sync client fuel None) (\<lambda>(items, _).
       let keep = remdups (map cfs_case_id items)
       in if keep = [] then
            iot_return \<lparr>crr_pg_cases = 0, crr_tenant = 0, crr_orphans = 0, crr_deleted = 0,
                        crr_remaining = 0, crr_skipped_empty_keep = True\<rparr>
          else
            iot_bind (list_case_pks api fw fuel) (\<lambda>tenant.
              let orphans = sorted_orphans keep tenant;
                  to_delete = take CASE_RECONCILE_DELETE_CAP orphans;
                  remaining = length orphans - length to_delete
              in iot_bind (lift_io (delete_case_batch api fw to_delete)) (\<lambda>batch.
                   iot_return \<lparr>crr_pg_cases = length keep, crr_tenant = length tenant,
                     crr_orphans = length orphans, crr_deleted = succeeded batch,
                     crr_remaining = remaining, crr_skipped_empty_keep = False\<rparr>)))"

section \<open>The plan of a flight reconcile\<close>

type_synonym leg = "string \<times> instant \<times> string"

abbreviation leg_icao24 :: "leg \<Rightarrow> string" where "leg_icao24 l \<equiv> fst l"
abbreviation leg_takeoff :: "leg \<Rightarrow> instant" where "leg_takeoff l \<equiv> fst (snd l)"
abbreviation leg_pk :: "leg \<Rightarrow> string" where "leg_pk l \<equiv> snd (snd l)"

text \<open>The classification loop over the tenant's keys: the TTL half of the keep-set and the newest
  leg per airborne aircraft (the dictionary holds the airframe, its newest takeoff and that leg's
  key). None is an error of the parse that is not a ValueError.\<close>

primrec classify_pks ::
  "string list \<Rightarrow> instant \<Rightarrow> string list \<Rightarrow> (string, leg) dict \<Rightarrow> string list \<Rightarrow>
     (string list \<times> (string, leg) dict) option" where
  "classify_pks airborne cutoff keep latest [] = Some (keep, latest)"
| "classify_pks airborne cutoff keep latest (pk # pks) =
     (case parse_or_skip pk of
        None \<Rightarrow> None
      | Some None \<Rightarrow> classify_pks airborne cutoff (List.insert pk keep) latest pks
      | Some (Some (icao24, takeoff_ts)) \<Rightarrow>
          classify_pks airborne cutoff
            (if takeoff_ts \<ge> cutoff then List.insert pk keep else keep)
            (if icao24 \<in> set airborne
             then newest_step leg_icao24 leg_takeoff latest (icao24, takeoff_ts, pk) else latest)
            pks)"

text \<open>The stamps of the liveness sweep for the stale legs: None as above.\<close>

primrec false_live_stamps :: "string list \<Rightarrow> FlightLiveStamp list option" where
  "false_live_stamps [] = Some []"
| "false_live_stamps (pk # pks) =
     (case parse_or_skip pk of
        None \<Rightarrow> None
      | Some None \<Rightarrow> false_live_stamps pks
      | Some (Some (icao24, ts)) \<Rightarrow>
          map_option (Cons \<lparr>flv_flight_id = pk, flv_icao24 = icao24, flv_takeoff_ts = ts, flv_is_live = False\<rparr>)
            (false_live_stamps pks))"

record FlightPlan =
  fp_keep :: "string list"
  fp_latest :: "leg list"
  fp_evictable :: "string list"
  fp_completed_skipped :: nat
  fp_stub_orphans :: "string list"
  fp_to_delete :: "string list"
  fp_remaining :: nat

definition plan_flights :: "nat \<Rightarrow> instant \<Rightarrow> string list \<Rightarrow> FlightScan \<Rightarrow> FlightPlan option" where
  "plan_flights cap now airborne scan =
     (case classify_pks airborne (now - FLIGHT_RECONCILE_TTL) [] [] (sc_all scan) of
        None \<Rightarrow> None
      | Some (ttl_keep, latest) \<Rightarrow>
          (let keep = foldl (\<lambda>k l. List.insert (leg_pk l) k) ttl_keep (dvalues latest);
               evictable = filter (\<lambda>pk. pk \<notin> set keep) (sc_all scan);
               completed_skipped = length (filter (\<lambda>pk. pk \<in> set (sc_completed scan)) evictable);
               stub_orphans = sorted_set (filter (\<lambda>pk. pk \<notin> set (sc_completed scan)) evictable);
               to_delete = take cap stub_orphans
           in Some \<lparr>fp_keep = keep, fp_latest = dvalues latest, fp_evictable = evictable,
                    fp_completed_skipped = completed_skipped, fp_stub_orphans = stub_orphans,
                    fp_to_delete = to_delete,
                    fp_remaining = length stub_orphans - length to_delete\<rparr>))"

definition target_live :: "FlightScan \<Rightarrow> FlightPlan \<Rightarrow> leg list" where
  "target_live scan plan = filter (\<lambda>l. leg_pk l \<notin> set (sc_completed scan)) (fp_latest plan)"

definition true_live_stamps :: "FlightScan \<Rightarrow> FlightPlan \<Rightarrow> FlightLiveStamp list" where
  "true_live_stamps scan plan =
     map (\<lambda>l. \<lparr>flv_flight_id = leg_pk l, flv_icao24 = leg_icao24 l, flv_takeoff_ts = leg_takeoff l,
               flv_is_live = True\<rparr>)
       (filter (\<lambda>l. leg_pk l \<notin> set (sc_live scan)) (target_live scan plan))"

definition stale_live_pks :: "FlightScan \<Rightarrow> FlightPlan \<Rightarrow> string list" where
  "stale_live_pks scan plan =
     sorted_set (filter (\<lambda>pk. pk \<notin> set (map leg_pk (target_live scan plan)) \<and> pk \<notin> set (fp_to_delete plan))
                   (sc_live scan))"

definition liveness_sweep ::
  "'w fapi \<Rightarrow> FoundryWriter \<Rightarrow> FlightScan \<Rightarrow> FlightPlan \<Rightarrow> ('w, nat \<times> nat) iot" where
  "liveness_sweep api fw scan plan =
     (if islive_enabled fw then
        (case false_live_stamps (stale_live_pks scan plan) of
           None \<Rightarrow> iot_raise (OtherError ''OverflowError'')
         | Some false_stamps \<Rightarrow>
             iot_bind (lift_io (set_flight_live_batch api fw (true_live_stamps scan plan))) (\<lambda>t.
             iot_bind (lift_io (set_flight_live_batch api fw false_stamps)) (\<lambda>f.
             iot_return (succeeded t, succeeded f))))
      else iot_return (0, 0))"

definition airborne_icao24s :: "PositionsLiveResponse \<Rightarrow> string list" where
  "airborne_icao24s response = remdups (map pos_icao24 (filter (\<lambda>p. \<not> pos_on_ground p) (plr_items response)))"

definition reconcile_flights ::
  "'w afm \<Rightarrow> 'w fapi \<Rightarrow> FoundryWriter \<Rightarrow> nat \<Rightarrow> instant \<Rightarrow> ('w, FlightReconcileResult) iot" where
  "reconcile_flights client api fw fuel now =
     iot_bind (lift_io (fetch_positions_live client)) (\<lambda>response.
       let airborne = airborne_icao24s response
       in if airborne = [] then
            iot_return \<lparr>frr_live_airborne = 0, frr_tenant = 0, frr_keep = 0, frr_orphans = 0,
              frr_deleted = 0, frr_completed_skipped = 0, frr_remaining = 0,
              frr_skipped_empty_live = True, frr_live_marked_true = 0, frr_live_marked_false = 0\<rparr>
          else
            iot_bind (list_flight_pks_with_completion api fw fuel) (\<lambda>scan.
              case plan_flights FLIGHT_RECONCILE_DELETE_CAP now airborne scan of
                None \<Rightarrow> iot_raise (OtherError ''OverflowError'')
              | Some plan \<Rightarrow>
                  iot_bind (lift_io (delete_flight_batch api fw (fp_to_delete plan))) (\<lambda>batch.
                  iot_bind (liveness_sweep api fw scan plan) (\<lambda>(marked_true, marked_false).
                  iot_return \<lparr>frr_live_airborne = length airborne, frr_tenant = length (sc_all scan),
                    frr_keep = length (fp_keep plan), frr_orphans = length (fp_evictable plan),
                    frr_deleted = succeeded batch,
                    frr_completed_skipped = fp_completed_skipped plan,
                    frr_remaining = fp_remaining plan, frr_skipped_empty_live = False,
                    frr_live_marked_true = marked_true, frr_live_marked_false = marked_false\<rparr>))))"

section \<open>What the classification computes\<close>

definition parsed :: "string \<Rightarrow> leg option" where
  "parsed pk = (case parse_flight_id pk of Inr (a, t) \<Rightarrow> Some (a, t, pk) | Inl _ \<Rightarrow> None)"

definition airborne_legs :: "string list \<Rightarrow> string list \<Rightarrow> leg list" where
  "airborne_legs airborne pks = filter (\<lambda>l. leg_icao24 l \<in> set airborne) (List.map_filter parsed pks)"

lemma parsed_pk: "parsed pk = Some l \<Longrightarrow> leg_pk l = pk"
  by (auto simp: parsed_def split: sum.splits)

lemma parse_or_skip_cases:
  "parse_or_skip pk = None \<longleftrightarrow> parse_flight_id pk = Inl PlatformRangeError"
  "parse_or_skip pk = Some None \<longleftrightarrow> parse_flight_id pk = Inl ValueError"
  "parse_or_skip pk = Some (Some p) \<longleftrightarrow> parse_flight_id pk = Inr p"
  by (auto simp: parse_or_skip_def split: sum.splits pk_error.splits)

lemma parsed_alt:
  "parsed pk = (case parse_or_skip pk of Some (Some (a, t)) \<Rightarrow> Some (a, t, pk) | _ \<Rightarrow> None)"
  by (auto simp: parsed_def parse_or_skip_def split: sum.splits pk_error.splits)

lemma classify_pks_fails:
  "classify_pks airborne cutoff keep latest pks = None \<longleftrightarrow> (\<exists>pk \<in> set pks. parse_or_skip pk = None)"
  by (induction pks arbitrary: keep latest) (auto split: option.splits)

lemma classify_pks_keep:
  "classify_pks airborne cutoff keep latest pks = Some (keep', latest') \<Longrightarrow>
   set keep' = set keep \<union> {pk \<in> set pks. parse_or_skip pk = Some None \<or>
                                   (\<exists>a t. parse_or_skip pk = Some (Some (a, t)) \<and> cutoff \<le> t)}"
proof (induction pks arbitrary: keep latest)
  case (Cons pk pks)
  then show ?case
    by (cases "parse_or_skip pk") (auto split: option.splits if_splits)
qed simp

lemma classify_pks_latest:
  "classify_pks airborne cutoff keep latest pks = Some (keep', latest') \<Longrightarrow>
   latest' = newest_by leg_icao24 leg_takeoff latest (airborne_legs airborne pks)"
proof (induction pks arbitrary: keep latest)
  case (Cons pk pks)
  then show ?case
    by (auto simp: airborne_legs_def parsed_alt split: option.splits if_splits)
qed (simp add: airborne_legs_def)

lemma classify_pks_distinct:
  "classify_pks airborne cutoff keep latest pks = Some (keep', latest') \<Longrightarrow> distinct keep \<Longrightarrow> distinct keep'"
  by (induction pks arbitrary: keep latest) (auto split: option.splits)

section \<open>What the plan decides\<close>

abbreviation newest_legs :: "string list \<Rightarrow> string list \<Rightarrow> (string, leg) dict" where
  "newest_legs airborne pks \<equiv> newest_by leg_icao24 leg_takeoff [] (airborne_legs airborne pks)"

definition newest_leg_list :: "string list \<Rightarrow> string list \<Rightarrow> leg list" where
  "newest_leg_list airborne pks = dvalues (newest_legs airborne pks)"

lemma newest_leg_list_iff:
  "l \<in> set (newest_leg_list airborne pks) \<longleftrightarrow> (\<exists>k. dget (newest_legs airborne pks) k = Some l)"
  unfolding newest_leg_list_def by (rule wf_dict_value_iff[OF newest_by_wf])

definition in_ttl :: "instant \<Rightarrow> string \<Rightarrow> bool" where
  "in_ttl now pk \<longleftrightarrow> (\<exists>a t. parse_or_skip pk = Some (Some (a, t)) \<and> now - FLIGHT_RECONCILE_TTL \<le> t)"

definition newest_airborne :: "string list \<Rightarrow> string list \<Rightarrow> string \<Rightarrow> bool" where
  "newest_airborne airborne pks pk \<longleftrightarrow> pk \<in> leg_pk ` set (newest_leg_list airborne pks)"

definition kept :: "instant \<Rightarrow> string list \<Rightarrow> string list \<Rightarrow> string \<Rightarrow> bool" where
  "kept now airborne pks pk \<longleftrightarrow>
     (pk \<in> set pks \<and> (parse_or_skip pk = Some None \<or> in_ttl now pk)) \<or> newest_airborne airborne pks pk"

lemma set_foldl_insert_map: "set (foldl (\<lambda>k l. List.insert (f l) k) ks ls) = set ks \<union> f ` set ls"
  by (induction ls arbitrary: ks) auto

lemma plan_flights_Some:
  assumes "plan_flights cap now airborne scan = Some plan"
  shows "set (fp_keep plan) = {pk. kept now airborne (sc_all scan) pk}"
    and "fp_latest plan = newest_leg_list airborne (sc_all scan)"
    and "fp_evictable plan = filter (\<lambda>pk. \<not> kept now airborne (sc_all scan) pk) (sc_all scan)"
    and "fp_completed_skipped plan = length (filter (\<lambda>pk. pk \<in> set (sc_completed scan)) (fp_evictable plan))"
    and "fp_stub_orphans plan = sorted_set (filter (\<lambda>pk. pk \<notin> set (sc_completed scan)) (fp_evictable plan))"
    and "fp_to_delete plan = take cap (fp_stub_orphans plan)"
    and "fp_remaining plan = length (fp_stub_orphans plan) - length (fp_to_delete plan)"
proof -
  obtain k l where c: "classify_pks airborne (now - FLIGHT_RECONCILE_TTL) [] [] (sc_all scan) = Some (k, l)"
    using assms by (auto simp: plan_flights_def split: option.splits)
  note ck = classify_pks_keep[OF c] and cl = classify_pks_latest[OF c]
  have keep: "set (foldl (\<lambda>k l. List.insert (leg_pk l) k) k (dvalues l)) = {pk. kept now airborne (sc_all scan) pk}"
    unfolding set_foldl_insert_map ck cl newest_leg_list_def[symmetric]
    by (auto simp: kept_def newest_airborne_def in_ttl_def)
  then have mem: "pk \<in> set (foldl (\<lambda>k l. List.insert (leg_pk l) k) k (dvalues l)) \<longleftrightarrow> kept now airborne (sc_all scan) pk"
    for pk by simp
  have plan: "plan = (let keep = foldl (\<lambda>k l. List.insert (leg_pk l) k) k (dvalues l);
               evictable = filter (\<lambda>pk. \<not> kept now airborne (sc_all scan) pk) (sc_all scan);
               completed_skipped = length (filter (\<lambda>pk. pk \<in> set (sc_completed scan)) evictable);
               stub_orphans = sorted_set (filter (\<lambda>pk. pk \<notin> set (sc_completed scan)) evictable);
               to_delete = take cap stub_orphans
           in \<lparr>fp_keep = keep, fp_latest = dvalues l, fp_evictable = evictable,
                    fp_completed_skipped = completed_skipped, fp_stub_orphans = stub_orphans,
                    fp_to_delete = to_delete,
                    fp_remaining = length stub_orphans - length to_delete\<rparr>)"
    using assms unfolding plan_flights_def c by (simp add: mem Let_def)
  show "set (fp_keep plan) = {pk. kept now airborne (sc_all scan) pk}"
    unfolding keep[symmetric] by (simp add: plan Let_def)
  show "fp_latest plan = newest_leg_list airborne (sc_all scan)"
    by (simp add: plan Let_def cl newest_leg_list_def)
  show "fp_evictable plan = filter (\<lambda>pk. \<not> kept now airborne (sc_all scan) pk) (sc_all scan)"
    "fp_completed_skipped plan = length (filter (\<lambda>pk. pk \<in> set (sc_completed scan)) (fp_evictable plan))"
    "fp_stub_orphans plan = sorted_set (filter (\<lambda>pk. pk \<notin> set (sc_completed scan)) (fp_evictable plan))"
    "fp_to_delete plan = take cap (fp_stub_orphans plan)"
    "fp_remaining plan = length (fp_stub_orphans plan) - length (fp_to_delete plan)"
    by (simp_all add: plan Let_def)
qed

lemma plan_flights_None:
  "plan_flights cap now airborne scan = None \<longleftrightarrow> (\<exists>pk \<in> set (sc_all scan). parse_or_skip pk = None)"
  unfolding plan_flights_def classify_pks_fails[symmetric, of "sc_all scan" airborne "now - FLIGHT_RECONCILE_TTL" "[]" "[]"]
  by (auto split: option.split simp: Let_def)

lemma newest_legs_value:
  assumes "l \<in> set (newest_leg_list airborne pks)"
  shows "l \<in> set (airborne_legs airborne pks)"
    "\<And>m. m \<in> set (airborne_legs airborne pks) \<Longrightarrow> leg_icao24 m = leg_icao24 l \<Longrightarrow> leg_takeoff m \<le> leg_takeoff l"
proof -
  obtain k where k: "dget (newest_legs airborne pks) k = Some l"
    using assms unfolding newest_leg_list_iff by blast
  show "l \<in> set (airborne_legs airborne pks)" by (rule newest_by_lookup(1)[OF k])
  show "\<And>m. m \<in> set (airborne_legs airborne pks) \<Longrightarrow> leg_icao24 m = leg_icao24 l \<Longrightarrow> leg_takeoff m \<le> leg_takeoff l"
    using newest_by_lookup(2,3)[OF k] by simp
qed

lemma newest_legs_covers:
  assumes "m \<in> set (airborne_legs airborne pks)"
  shows "\<exists>l \<in> set (newest_leg_list airborne pks). leg_icao24 l = leg_icao24 m \<and> leg_takeoff m \<le> leg_takeoff l"
proof -
  obtain l where l: "dget (newest_legs airborne pks) (leg_icao24 m) = Some l" "leg_takeoff m \<le> leg_takeoff l"
    using newest_by_newest[OF assms] by blast
  then have "l \<in> set (newest_leg_list airborne pks)"
    unfolding newest_leg_list_iff by blast
  moreover have "leg_icao24 l = leg_icao24 m" by (rule newest_by_lookup(2)[OF l(1)])
  ultimately show ?thesis using l(2) by blast
qed

lemma airborne_legs_iff:
  "l \<in> set (airborne_legs airborne pks) \<longleftrightarrow>
     leg_pk l \<in> set pks \<and> parse_flight_id (leg_pk l) = Inr (leg_icao24 l, leg_takeoff l) \<and> leg_icao24 l \<in> set airborne"
proof -
  have "parsed pk = Some l \<longleftrightarrow> leg_pk l = pk \<and> parse_flight_id pk = Inr (leg_icao24 l, leg_takeoff l)" for pk
    by (cases l; cases "parse_flight_id pk") (auto simp: parsed_def)
  then show ?thesis by (auto simp: airborne_legs_def map_filter_in_set)
qed

lemma airborne_legs_filter:
  "airborne_legs airborne (filter Q pks) = filter (\<lambda>l. Q (leg_pk l)) (airborne_legs airborne pks)"
  unfolding airborne_legs_def
  by (induction pks) (auto simp: map_filter_simps dest: parsed_pk split: option.split)

section \<open>Capped eviction as an interface\<close>

text \<open>One run of a capped eviction: the first \<open>cap\<close> orphans go.\<close>

definition drain_step :: "('s \<Rightarrow> 'k list) \<Rightarrow> ('k list \<Rightarrow> 's \<Rightarrow> 's) \<Rightarrow> nat \<Rightarrow> 's \<Rightarrow> 's" where
  "drain_step orphans evict cap s = evict (take cap (orphans s)) s"

locale capped_drain =
  fixes orphans :: "'s \<Rightarrow> 'k list"
    and evict :: "'k list \<Rightarrow> 's \<Rightarrow> 's"
    and keys :: "'s \<Rightarrow> 'k set"
    and cap :: nat
  assumes orphans_distinct: "distinct (orphans s)"
    and orphans_keys: "set (orphans s) \<subseteq> keys s"
    and evict_keys: "keys (evict ks s) = keys s - set ks"
    and orphans_evict: "set ks \<subseteq> set (orphans s) \<Longrightarrow> set (orphans (evict ks s)) = set (orphans s) - set ks"
begin

lemma step_orphans: "set (orphans (drain_step orphans evict cap s)) = set (drop cap (orphans s))"
proof -
  have "set (take cap (orphans s)) \<inter> set (drop cap (orphans s)) = {}"
    using orphans_distinct set_take_disj_set_drop_if_distinct by blast
  moreover have "set (orphans s) = set (take cap (orphans s)) \<union> set (drop cap (orphans s))"
    by (metis append_take_drop_id set_append)
  ultimately show ?thesis
    unfolding drain_step_def using orphans_evict[of "take cap (orphans s)" s] set_take_subset by blast
qed

lemma step_count: "length (orphans (drain_step orphans evict cap s)) = length (orphans s) - cap"
proof -
  have "card (set (orphans (drain_step orphans evict cap s))) = card (set (drop cap (orphans s)))"
    by (simp add: step_orphans)
  then show ?thesis using orphans_distinct by (simp add: distinct_card distinct_drop)
qed

lemma runs_count: "length (orphans ((drain_step orphans evict cap ^^ n) s)) = length (orphans s) - n * cap"
  by (induction n) (simp_all add: step_count)

lemma runs_kept:
  "keys ((drain_step orphans evict cap ^^ n) s) \<subseteq> keys s \<and>
   keys s - set (orphans s) \<subseteq> keys ((drain_step orphans evict cap ^^ n) s) - set (orphans ((drain_step orphans evict cap ^^ n) s))"
proof (induction n)
  case (Suc n)
  let ?t = "(drain_step orphans evict cap ^^ n) s"
  have t: "keys (drain_step orphans evict cap ?t) = keys ?t - set (take cap (orphans ?t))"
    by (simp add: drain_step_def evict_keys)
  have "set (take cap (orphans ?t)) \<subseteq> set (orphans ?t)" "set (drop cap (orphans ?t)) \<subseteq> set (orphans ?t)"
    by (rule set_take_subset, rule set_drop_subset)
  then show ?case using Suc t step_orphans[of ?t] by auto
qed simp

text \<open>Enough runs leave exactly the keys that were not orphans.\<close>

lemma drained:
  assumes "length (orphans s) \<le> n * cap"
  shows "keys ((drain_step orphans evict cap ^^ n) s) = keys s - set (orphans s)"
proof -
  let ?t = "(drain_step orphans evict cap ^^ n) s"
  have none: "orphans ?t = []" using assms runs_count[of n s] by simp
  have "keys ?t \<inter> set (orphans s) = {}" if "orphans ?t = []" using that assms
  proof (induction n arbitrary: s)
    case (Suc n)
    let ?s = "drain_step orphans evict cap s"
    have k: "keys ?s = keys s - set (take cap (orphans s))" by (simp add: drain_step_def evict_keys)
    have eq: "(drain_step orphans evict cap ^^ Suc n) s = (drain_step orphans evict cap ^^ n) ?s"
      by (simp add: funpow_swap1)
    have "length (orphans ?s) \<le> n * cap" using Suc.prems(2) step_count[of s] by simp
    then have "keys ((drain_step orphans evict cap ^^ n) ?s) \<inter> set (drop cap (orphans s)) = {}"
      using Suc.IH[of ?s] Suc.prems(1) eq step_orphans[of s] by simp
    moreover have "keys ((drain_step orphans evict cap ^^ n) ?s) \<subseteq> keys ?s" using runs_kept[of n ?s] by blast
    moreover have "set (orphans s) = set (take cap (orphans s)) \<union> set (drop cap (orphans s))"
      by (metis append_take_drop_id set_append)
    ultimately show ?case using k eq by auto
  qed simp
  with none runs_kept[of n s] show ?thesis by auto
qed

end

definition remove_keys :: "string list \<Rightarrow> string list \<Rightarrow> string list" where
  "remove_keys ks tenant = filter (\<lambda>pk. pk \<notin> set ks) tenant"

interpretation keyset_drain: capped_drain "sorted_orphans keep" remove_keys set cap for keep cap
  by unfold_locales (auto simp: sorted_orphans_def remove_keys_def)

definition stub_orphans :: "instant \<Rightarrow> string list \<Rightarrow> FlightScan \<Rightarrow> string list" where
  "stub_orphans now airborne scan =
     (case plan_flights 0 now airborne scan of None \<Rightarrow> [] | Some plan \<Rightarrow> fp_stub_orphans plan)"

definition remove_flights :: "string list \<Rightarrow> FlightScan \<Rightarrow> FlightScan" where
  "remove_flights ks scan =
     \<lparr>sc_all = remove_keys ks (sc_all scan), sc_completed = remove_keys ks (sc_completed scan),
      sc_live = remove_keys ks (sc_live scan)\<rparr>"

lemma plan_stub_orphans:
  "plan_flights cap now airborne scan = Some plan \<Longrightarrow> fp_stub_orphans plan = stub_orphans now airborne scan"
  by (auto simp: stub_orphans_def plan_flights_def Let_def split: option.splits)

lemma set_stub_orphans:
  assumes "\<forall>pk \<in> set (sc_all scan). parse_or_skip pk \<noteq> None"
  shows "set (stub_orphans now airborne scan) =
     {pk \<in> set (sc_all scan). \<not> kept now airborne (sc_all scan) pk \<and> pk \<notin> set (sc_completed scan)}"
proof -
  obtain plan where p: "plan_flights 0 now airborne scan = Some plan"
    using plan_flights_None[of 0 now airborne scan] assms by fastforce
  show ?thesis
    unfolding plan_stub_orphans[OF p, symmetric] plan_flights_Some(5)[OF p] plan_flights_Some(3)[OF p] by auto
qed

text \<open>Removing keys that are not kept does not change which of the others are kept.\<close>

lemma kept_remove:
  assumes "\<And>pk. pk \<in> set ks \<Longrightarrow> \<not> kept now airborne pks pk" "pk \<notin> set ks"
  shows "kept now airborne (remove_keys ks pks) pk \<longleftrightarrow> kept now airborne pks pk"
proof -
  let ?P = "\<lambda>l. leg_pk l \<notin> set ks"
  have "?P l" if "dget (newest_legs airborne pks) k = Some l" for k l
    using that assms(1)[of "leg_pk l"] newest_leg_list_iff[of l airborne pks]
    by (auto simp: kept_def newest_airborne_def)
  then have "dget (newest_by leg_icao24 leg_takeoff [] (filter ?P (airborne_legs airborne pks))) k =
             dget (newest_legs airborne pks) k" for k
    by (rule newest_by_filter) blast
  then have "newest_airborne airborne (remove_keys ks pks) pk \<longleftrightarrow> newest_airborne airborne pks pk" for pk
    unfolding newest_airborne_def remove_keys_def image_iff Bex_def newest_leg_list_iff airborne_legs_filter by simp
  then show ?thesis using assms(2) by (simp add: kept_def remove_keys_def)
qed

interpretation flight_drain: capped_drain
  "stub_orphans now airborne"
  "remove_flights"
  "\<lambda>scan. set (sc_all scan)"
  cap
  for now airborne cap
proof unfold_locales
  fix s :: FlightScan and ks :: "string list"
  show "distinct (stub_orphans now airborne s)"
    by (auto simp: stub_orphans_def plan_flights_Some(5) split: option.split)
  show "set (stub_orphans now airborne s) \<subseteq> set (sc_all s)"
    by (auto simp: stub_orphans_def plan_flights_Some(3,5) split: option.split)
  show "set (sc_all (remove_flights ks s)) = set (sc_all s) - set ks"
    by (auto simp: remove_flights_def remove_keys_def)
  assume sub: "set ks \<subseteq> set (stub_orphans now airborne s)"
  show "set (stub_orphans now airborne (remove_flights ks s)) = set (stub_orphans now airborne s) - set ks"
  proof (cases "\<exists>pk \<in> set (sc_all s). parse_or_skip pk = None")
    case True
    then have "plan_flights 0 now airborne s = None" by (simp add: plan_flights_None)
    then have "ks = []" using sub by (simp add: stub_orphans_def)
    then show ?thesis by (cases s) (simp add: remove_flights_def remove_keys_def)
  next
    case False
    then have ok: "\<forall>pk \<in> set (sc_all s). parse_or_skip pk \<noteq> None" by simp
    then have ok': "\<forall>pk \<in> set (sc_all (remove_flights ks s)). parse_or_skip pk \<noteq> None"
      by (simp add: remove_flights_def remove_keys_def)
    have "\<not> kept now airborne (sc_all s) pk" if "pk \<in> set ks" for pk
      using that sub set_stub_orphans[OF ok] by auto
    then have "kept now airborne (remove_keys ks (sc_all s)) pk \<longleftrightarrow> kept now airborne (sc_all s) pk"
      if "pk \<notin> set ks" for pk using that by (rule kept_remove)
    then show ?thesis
      unfolding set_stub_orphans[OF ok] set_stub_orphans[OF ok']
      by (auto simp: remove_flights_def remove_keys_def)
  qed
qed

section \<open>Properties of the reconciles\<close>

lemma flight_scan_distinct:
  assumes "list_flight_pks_with_completion api fw fuel w = Some (Inr scan, w')"
  shows "distinct (sc_all scan)" "distinct (sc_completed scan)" "distinct (sc_live scan)"
    "set (sc_completed scan) \<subseteq> set (sc_all scan)" "set (sc_live scan) \<subseteq> set (sc_all scan)"
proof -
  define ok where "ok sc \<longleftrightarrow> distinct (sc_all sc) \<and> distinct (sc_completed sc) \<and> distinct (sc_live sc) \<and>
    set (sc_completed sc) \<subseteq> set (sc_all sc) \<and> set (sc_live sc) \<subseteq> set (sc_all sc)" for sc :: FlightScan
  have step: "ok sc \<Longrightarrow> ok (flight_obj_step api sc obj)" for sc obj
    by (auto simp: ok_def flight_obj_step_def split: option.split)
  have page: "ok sc \<Longrightarrow> ok (foldl (flight_obj_step api) sc os)" for sc os
    by (induction os arbitrary: sc) (simp_all add: step)
  have pages: "ok sc \<Longrightarrow> ok (foldl (\<lambda>acc body. foldl (flight_obj_step api) acc (pg_data body)) sc pgs)" for sc pgs
    by (induction pgs arbitrary: sc) (simp_all add: page)
  obtain pgs :: "ObjectsPage list" where "scan = foldl (\<lambda>acc body. foldl (flight_obj_step api) acc (pg_data body))
      \<lparr>sc_all = [], sc_completed = [], sc_live = []\<rparr> pgs"
    using scan_pages_complete[OF assms[unfolded list_flight_pks_with_completion_def]] by blast
  moreover have "ok \<lparr>sc_all = [], sc_completed = [], sc_live = []\<rparr>" by (simp add: ok_def)
  ultimately have "ok scan" using pages by simp
  then show "distinct (sc_all scan)" "distinct (sc_completed scan)" "distinct (sc_live scan)"
    "set (sc_completed scan) \<subseteq> set (sc_all scan)" "set (sc_live scan) \<subseteq> set (sc_all scan)"
    by (simp_all add: ok_def)
qed

lemma plan_accounting:
  assumes "plan_flights cap now airborne scan = Some plan" "distinct (sc_all scan)"
  shows "length (fp_evictable plan) =
           fp_completed_skipped plan + length (fp_to_delete plan) + fp_remaining plan"
proof -
  let ?c = "\<lambda>pk. pk \<in> set (sc_completed scan)"
  have "length (fp_stub_orphans plan) = length (filter (\<lambda>pk. \<not> ?c pk) (fp_evictable plan))"
    unfolding plan_flights_Some(5)[OF assms(1)] length_sorted_set plan_flights_Some(3)[OF assms(1)]
    by (rule distinct_card) (simp add: assms(2))
  moreover have "length (fp_to_delete plan) \<le> length (fp_stub_orphans plan)"
    unfolding plan_flights_Some(6)[OF assms(1)] by simp
  ultimately show ?thesis
    using length_filter_partition[of ?c "fp_evictable plan"] plan_flights_Some(4,7)[OF assms(1)] by simp
qed

lemma false_live_stamps_pks:
  "false_live_stamps pks = Some stamps \<Longrightarrow>
   map flv_flight_id stamps = filter (\<lambda>pk. parse_or_skip pk \<noteq> Some None) pks \<and>
   (\<forall>s \<in> set stamps. \<not> flv_is_live s)"
  by (induction pks arbitrary: stamps) (auto split: option.splits)

text \<open>C1. The flight reconcile only ever deletes stubs it may delete: every key it picks is a tenant
  key that parses, whose takeoff is older than the TTL, that carries no landing, and that is not the
  newest leg of an airborne aircraft, since a leg of the same aircraft at least as new stays.\<close>

theorem reconcile_flights_safe:
  assumes "plan_flights cap now airborne scan = Some plan" "pk \<in> set (fp_to_delete plan)"
  shows "pk \<in> set (sc_all scan) \<and> pk \<notin> set (sc_completed scan) \<and>
         (\<exists>a t. parse_flight_id pk = Inr (a, t) \<and> t < now - FLIGHT_RECONCILE_TTL \<and>
            (a \<in> set airborne \<longrightarrow>
               (\<exists>pk' t'. pk' \<noteq> pk \<and> pk' \<in> set (sc_all scan) \<and> pk' \<notin> set (fp_to_delete plan) \<and>
                  parse_flight_id pk' = Inr (a, t') \<and> t \<le> t')))"
proof -
  note plan = plan_flights_Some[OF assms(1)]
  have deletable: "q \<in> set (sc_all scan) \<and> q \<notin> set (sc_completed scan) \<and> \<not> kept now airborne (sc_all scan) q"
    if "q \<in> set (fp_to_delete plan)" for q
    using that set_take_subset[of cap "fp_stub_orphans plan"] unfolding plan(6) by (auto simp: plan(5,3))
  note pk = deletable[OF assms(2)]
  have "parse_or_skip pk \<noteq> None"
    using plan_flights_None[of cap now airborne scan] assms(1) pk by auto
  moreover have "parse_or_skip pk \<noteq> Some None" using pk by (auto simp: kept_def)
  ultimately obtain a t where at: "parse_or_skip pk = Some (Some (a, t))" by (cases "parse_or_skip pk") auto
  then have parse: "parse_flight_id pk = Inr (a, t)" by (simp add: parse_or_skip_cases)
  have old: "t < now - FLIGHT_RECONCILE_TTL" using pk at by (auto simp: kept_def in_ttl_def not_le)
  have "\<exists>pk' t'. pk' \<noteq> pk \<and> pk' \<in> set (sc_all scan) \<and> pk' \<notin> set (fp_to_delete plan) \<and>
          parse_flight_id pk' = Inr (a, t') \<and> t \<le> t'" if "a \<in> set airborne"
  proof -
    have "(a, t, pk) \<in> set (airborne_legs airborne (sc_all scan))"
      using that pk parse by (simp add: airborne_legs_iff)
    from newest_legs_covers[OF this] obtain l where
      l: "l \<in> set (newest_leg_list airborne (sc_all scan))" "leg_icao24 l = a" "t \<le> leg_takeoff l" by fastforce
    have "kept now airborne (sc_all scan) (leg_pk l)" using l(1) by (simp add: kept_def newest_airborne_def)
    then have "leg_pk l \<noteq> pk" "leg_pk l \<notin> set (fp_to_delete plan)" using pk deletable by auto
    moreover have "leg_pk l \<in> set (sc_all scan)" "parse_flight_id (leg_pk l) = Inr (a, leg_takeoff l)"
      using newest_legs_value(1)[OF l(1)] l(2) by (simp_all add: airborne_legs_iff)
    ultimately show ?thesis using l(3) by blast
  qed
  with pk parse old show ?thesis by blast
qed

text \<open>C22. The counters of a finished flight reconcile balance: every orphan is a completed flight left
  to the archive, a deleted stub, or a stub left for the next run, and no run deletes more than the
  cap.\<close>

theorem reconcile_flights_accounting:
  assumes "reconcile_flights client api fw fuel now w = Some (Inr r, w')"
  shows "frr_orphans r = frr_completed_skipped r + frr_deleted r + frr_remaining r \<and>
         frr_deleted r \<le> FLIGHT_RECONCILE_DELETE_CAP"
proof -
  obtain response w1 where resp: "fetch_positions_live client w = (Inr response, w1)"
    using assms by (auto simp: reconcile_flights_def iot_laws Let_def)
  show ?thesis
  proof (cases "airborne_icao24s response = []")
    case True
    then show ?thesis using assms resp by (auto simp: reconcile_flights_def iot_laws Let_def)
  next
    case False
    then obtain scan w2 plan batch w3 where
      scan: "list_flight_pks_with_completion api fw fuel w1 = Some (Inr scan, w2)"
      and plan: "plan_flights FLIGHT_RECONCILE_DELETE_CAP now (airborne_icao24s response) scan = Some plan"
      and batch: "delete_flight_batch api fw (fp_to_delete plan) w2 = (Inr batch, w3)"
      and r: "frr_orphans r = length (fp_evictable plan)" "frr_deleted r = succeeded batch"
        "frr_completed_skipped r = fp_completed_skipped plan" "frr_remaining r = fp_remaining plan"
      using assms resp by (auto simp: reconcile_flights_def iot_laws Let_def split: option.splits)
    have "succeeded batch = length (fp_to_delete plan)" using batch by (rule delete_flight.succeeded_all)
    moreover have "length (fp_to_delete plan) \<le> FLIGHT_RECONCILE_DELETE_CAP"
      by (simp add: plan_flights_Some(6)[OF plan])
    ultimately show ?thesis
      using plan_accounting[OF plan flight_scan_distinct(1)[OF scan]] r by simp
  qed
qed

text \<open>C14. The liveness sweep leaves exactly the live set marked: of the legs still in the tenant, those
  marked live after the stamps are the newest uncompleted leg of each airborne aircraft, and besides
  them only keys that do not parse as flight ids.\<close>

theorem liveness_sweep_exact:
  assumes "plan_flights cap now airborne scan = Some plan"
    and "false_live_stamps (stale_live_pks scan plan) = Some stamps"
  shows "(set (sc_live scan) - set (fp_to_delete plan) - set (map flv_flight_id stamps))
           \<union> set (map flv_flight_id (true_live_stamps scan plan)) =
         {pk. newest_airborne airborne (sc_all scan) pk \<and> pk \<notin> set (sc_completed scan)}
           \<union> {pk \<in> set (sc_live scan) - set (fp_to_delete plan). parse_or_skip pk = Some None}"
proof -
  note plan = plan_flights_Some[OF assms(1)]
  let ?T = "set (map leg_pk (target_live scan plan))" and ?D = "set (fp_to_delete plan)"
  have F: "set (map flv_flight_id stamps) =
      {pk \<in> set (sc_live scan). pk \<notin> ?T \<and> pk \<notin> ?D \<and> parse_or_skip pk \<noteq> Some None}"
    using false_live_stamps_pks[OF assms(2)] by (auto simp: stale_live_pks_def)
  have T: "set (map flv_flight_id (true_live_stamps scan plan)) = ?T - set (sc_live scan)"
    by (force simp: true_live_stamps_def)
  have TD: "?T \<inter> ?D = {}"
  proof -
    have "kept now airborne (sc_all scan) pk" if "pk \<in> ?T" for pk
      using that by (auto simp: target_live_def plan(2) kept_def newest_airborne_def)
    moreover have "\<not> kept now airborne (sc_all scan) pk" if "pk \<in> ?D" for pk
      using that set_take_subset[of cap "fp_stub_orphans plan"] unfolding plan(6) by (auto simp: plan(5,3))
    ultimately show ?thesis by blast
  qed
  have parses: "parse_or_skip pk \<noteq> Some None" if "pk \<in> ?T" for pk
    using that newest_legs_value(1) by (auto simp: target_live_def plan(2) airborne_legs_iff parse_or_skip_cases)
  have target: "{pk. newest_airborne airborne (sc_all scan) pk \<and> pk \<notin> set (sc_completed scan)} = ?T"
    by (auto simp: target_live_def plan(2) newest_airborne_def)
  show ?thesis unfolding F T target using TD parses by blast
qed


text \<open>An empty feed stops every reconcile before it looks at the tenant: with no airborne aircraft in
  the answer (no aircraft at all for the aircraft job, no case in the snapshot for the case job) the run
  ends in the skipped result and no call to the tenant is made.\<close>

theorem empty_feed_no_eviction:
  "(fetch_positions_live client w = (Inr response, w1) \<and> (\<forall>p \<in> set (plr_items response). pos_on_ground p) \<longrightarrow>
      (\<exists>r. reconcile_flights client api fw fuel now w = Some (Inr r, w1) \<and> frr_skipped_empty_live r \<and> frr_deleted r = 0)) \<and>
   (fetch_positions_live client w = (Inr response, w1) \<and> plr_items response = [] \<longrightarrow>
      (\<exists>r. reconcile_aircraft client api fw scope fuel w = Some (Inr r, w1) \<and> rr_skipped_empty_live r \<and> rr_deleted r = 0)) \<and>
   (fetch_cases_for_sync client fuel None w = Some (Inr ([], c), w1) \<longrightarrow>
      (\<exists>r. reconcile_cases client api fw fuel w = Some (Inr r, w1) \<and> crr_skipped_empty_keep r \<and> crr_deleted r = 0))"
proof (intro conjI impI)
  assume a: "fetch_positions_live client w = (Inr response, w1) \<and> (\<forall>p \<in> set (plr_items response). pos_on_ground p)"
  then have "airborne_icao24s response = []" by (simp add: airborne_icao24s_def filter_empty_conv)
  then show "\<exists>r. reconcile_flights client api fw fuel now w = Some (Inr r, w1) \<and> frr_skipped_empty_live r \<and> frr_deleted r = 0"
    using a by (simp add: reconcile_flights_def iot_bind_def lift_io_def iot_return_def Let_def)
qed (simp_all add: reconcile_aircraft_def reconcile_cases_def iot_bind_def lift_io_def iot_return_def Let_def)

section \<open>Worked instances\<close>

definition demo_scan :: FlightScan where
  "demo_scan =
     \<lparr>sc_all = [''aa-100'', ''aa-200'', ''bb-100'', ''zz''], sc_completed = [''bb-100''],
      sc_live = [''aa-100'', ''bb-100'']\<rparr>"

definition demo_plan :: FlightPlan where
  "demo_plan =
     \<lparr>fp_keep = [''aa-200'', ''zz''], fp_latest = [(''aa'', 200000000, ''aa-200'')],
      fp_evictable = [''aa-100'', ''bb-100''], fp_completed_skipped = 1, fp_stub_orphans = [''aa-100''],
      fp_to_delete = [''aa-100''], fp_remaining = 0\<rparr>"

definition demo_position :: "string \<Rightarrow> bool \<Rightarrow> Position" where
  "demo_position a ground =
     \<lparr>pos_icao24 = a, pos_callsign = None, pos_lat = 0, pos_lon = 0, pos_altitude_ft = None,
      pos_speed_kt = None, pos_heading_deg = None, pos_vertical_rate_fpm = None, pos_on_ground = ground,
      pos_customer_region = None, pos_last_seen_at = 0, pos_staleness = Fresh\<rparr>"

definition demo_feed :: "Position list \<Rightarrow> PositionsLiveResponse" where
  "demo_feed ps = \<lparr>plr_items = ps, plr_count = int (length ps), plr_server_time = 0,
     plr_pipeline_lag_seconds = 0, plr_truncated = False\<rparr>"

definition demo_client :: "Position list \<Rightarrow> 'w afm" where
  "demo_client ps =
     \<lparr>am_positions_live = (\<lambda>w. (Inr (demo_feed ps), w)),
      am_flight = (\<lambda>_ w. (Inl (HTTPStatusError 404), w)),
      am_flight_trail = (\<lambda>_ _ w. (Inl (HTTPStatusError 404), w)),
      am_trail_open = (\<lambda>_ _ w. (Inr (), w)),
      am_trail_next = (\<lambda>w. (Inr None, w)),
      am_sites = (\<lambda>w. (Inr \<lparr>slr_items = [], slr_count = 0\<rparr>, w)),
      am_site = (\<lambda>_ w. (Inl (HTTPStatusError 404), w)),
      am_site_sla = (\<lambda>_ _ w. (Inl (HTTPStatusError 404), w)),
      am_site_flights = (\<lambda>_ _ w. (Inl (HTTPStatusError 404), w)),
      am_cases_page = (\<lambda>_ _ w. (Inr \<lparr>cfp_items = [], cfp_next_cursor = None, cfp_truncated = False\<rparr>, w))\<rparr>"

definition demo_objects :: "(string, json) dict list" where
  "demo_objects =
     [[(''flightId'', JStr ''aa-100''), (''isLive'', JBool True)], [(''flightId'', JStr ''aa-200'')],
      [(''__primaryKey'', JStr ''bb-100''), (''landedAt'', JIso 7)]]"

lemma demo_plan_eq: "plan_flights 5000 (hours 48) [''aa''] demo_scan = Some demo_plan"
  by code_simp

lemma reconcile_flights_safe_witness:
  "\<exists>a t. parse_flight_id ''aa-100'' = Inr (a, t) \<and> t < hours 48 - FLIGHT_RECONCILE_TTL \<and>
         (a \<in> set [''aa''] \<longrightarrow> (\<exists>pk' t'. pk' \<noteq> ''aa-100'' \<and> pk' \<in> set (sc_all demo_scan) \<and>
            pk' \<notin> set (fp_to_delete demo_plan) \<and> parse_flight_id pk' = Inr (a, t') \<and> t \<le> t'))"
  using reconcile_flights_safe[OF demo_plan_eq, of "''aa-100''"] by (simp add: demo_plan_def)

lemma demo_reconcile:
  "reconcile_flights (demo_client [demo_position ''aa'' False]) (log_api demo_objects) (demo_writer True) 1 (hours 48) [] =
     Some (Inr \<lparr>frr_live_airborne = 1, frr_tenant = 3, frr_keep = 1, frr_orphans = 2, frr_deleted = 1,
                frr_completed_skipped = 1, frr_remaining = 0, frr_skipped_empty_live = False,
                frr_live_marked_true = 1, frr_live_marked_false = 0\<rparr>,
           snd (the (reconcile_flights (demo_client [demo_position ''aa'' False]) (log_api demo_objects)
                      (demo_writer True) 1 (hours 48) [])))"
  by code_simp

lemma reconcile_flights_accounting_witness: "(2::nat) = 1 + 1 + 0 \<and> (1::nat) \<le> FLIGHT_RECONCILE_DELETE_CAP"
  using reconcile_flights_accounting[OF demo_reconcile] by simp

lemma liveness_sweep_exact_witness:
  "{pk. newest_airborne [''aa''] (sc_all demo_scan) pk \<and> pk \<notin> set (sc_completed demo_scan)} \<union>
     {pk \<in> set (sc_live demo_scan) - set (fp_to_delete demo_plan). parse_or_skip pk = Some None} =
   (set (sc_live demo_scan) - set (fp_to_delete demo_plan) - {''bb-100''}) \<union> {''aa-200''}"
proof -
  have "false_live_stamps (stale_live_pks demo_scan demo_plan) =
      Some [\<lparr>flv_flight_id = ''bb-100'', flv_icao24 = ''bb'', flv_takeoff_ts = 100000000, flv_is_live = False\<rparr>]"
    by code_simp
  moreover have "map flv_flight_id (true_live_stamps demo_scan demo_plan) = [''aa-200'']" by code_simp
  ultimately show ?thesis using liveness_sweep_exact[OF demo_plan_eq] by simp
qed


lemma empty_feed_no_eviction_witness:
  "(\<exists>r. reconcile_flights (demo_client [demo_position ''aa'' True]) (log_api []) (demo_writer True) 1 0 [] = Some (Inr r, []) \<and>
     frr_skipped_empty_live r \<and> frr_deleted r = 0) \<and>
   (\<exists>r. reconcile_aircraft (demo_client []) (log_api []) (demo_writer True) (\<lambda>_. True) 1 [] = Some (Inr r, []) \<and>
     rr_skipped_empty_live r \<and> rr_deleted r = 0) \<and>
   (\<exists>r. reconcile_cases (demo_client []) (log_api []) (demo_writer True) 1 [] = Some (Inr r, []) \<and>
     crr_skipped_empty_keep r \<and> crr_deleted r = 0)"
proof -
  have feed: "fetch_positions_live (demo_client ps) ([] :: log) = (Inr (demo_feed ps), [])" for ps
    by (simp add: fetch_positions_live_def transient_retry_def numeral_2_eq_2 demo_client_def)
  have "fetch_cases_for_sync (demo_client []) 1 None ([] :: log) = Some (Inr ([], None), [])" by code_simp
  then show ?thesis
    using empty_feed_no_eviction[of "demo_client [demo_position ''aa'' True]" "[] :: log"
        "demo_feed [demo_position ''aa'' True]" "[]" "log_api []" "demo_writer True" 1 0]
      empty_feed_no_eviction[of "demo_client []" "[] :: log" "demo_feed []" "[]" "log_api []" "demo_writer True" 1 0 "\<lambda>_. True" None]
      feed by (simp add: demo_feed_def demo_position_def)
qed

end
