(* ===== verification/CaseStore.thy ===== *)
theory CaseStore
  imports Models
begin

text \<open>
  The tables of app.cases, app.case_timeline and app.sync_watermarks as the services read and write
  them (schema: api/alembic/versions/0001_initial_schema.py), the case-id generator of the schema,
  and the push lock. A table is a list of rows; an UPDATE ... WHERE maps over it. Text outside Latin-1
  is UTF-8 encoded.
\<close>

record CaseRow =
  cr_case_id :: string
  cr_salesforce_id :: "string option"
  cr_flight_id :: string
  cr_site_icao :: string
  cr_customer_region :: string
  cr_case_type :: string
  cr_status :: string
  cr_severity :: string
  cr_summary :: "string option"
  cr_severity_justification :: "string option"
  cr_detection_facts :: "(string, json) dict"
  cr_runbook_refs :: "string list"
  cr_created_at :: instant
  cr_updated_at :: instant
  cr_resolved_at :: "instant option"
  cr_sf_sync_status :: string
  cr_sf_sync_attempts :: nat
  cr_sf_sync_last_error :: "string option"

record TimelineEvent =
  te_case_id :: string
  te_event_type :: string
  te_detail :: json
  te_source :: string

record AppDb =
  db_cases :: "CaseRow list"
  db_timeline :: "TimelineEvent list"
  db_watermark :: "instant option"
  db_push_locked :: bool

definition update_where :: "('a \<Rightarrow> bool) \<Rightarrow> ('a \<Rightarrow> 'a) \<Rightarrow> 'a list \<Rightarrow> 'a list" where
  "update_where P f rows = map (\<lambda>r. if P r then f r else r) rows"

definition add_event :: "string \<Rightarrow> string \<Rightarrow> json \<Rightarrow> string \<Rightarrow> AppDb \<Rightarrow> AppDb" where
  "add_event case_id event_type detail source db =
     db\<lparr>db_timeline := db_timeline db @
          [\<lparr>te_case_id = case_id, te_event_type = event_type, te_detail = detail, te_source = source\<rparr>]\<rparr>"

lemma update_where_length [simp]: "length (update_where P f rows) = length rows"
  by (simp add: update_where_def)

lemma update_where_keys:
  "(\<And>r. key (f r) = key r) \<Longrightarrow> map key (update_where P f rows) = map key rows"
  by (simp add: update_where_def)

lemma add_event_cases [simp]:
  "db_cases (add_event c e d s db) = db_cases db"
  "db_watermark (add_event c e d s db) = db_watermark db"
  "db_push_locked (add_event c e d s db) = db_push_locked db"
  by (simp_all add: add_event_def)

section \<open>Case ids\<close>

text \<open>Postgres lpad(s, n, fill): pads on the left, and cuts a longer text to its first n characters.\<close>

definition lpad :: "string \<Rightarrow> nat \<Rightarrow> char \<Rightarrow> string" where
  "lpad s n fill = (if length s \<ge> n then take n s else replicate (n - length s) fill @ s)"

definition next_case_id :: "nat \<Rightarrow> nat \<Rightarrow> string" where
  "next_case_id year seq = ''CASE-'' @ show_nat year @ ''-'' @ lpad (show_nat seq) 6 (CHR ''0'')"

lemma value_leading_zeros:
  "foldl (\<lambda>a c. 10 * a + digit_val c) 0 (replicate k (CHR ''0'') @ s) = foldl (\<lambda>a c. 10 * a + digit_val c) 0 s"
  by (induction k) (simp_all add: digit_val_def)

lemma lpad_value:
  "n < 10 ^ 6 \<Longrightarrow> foldl (\<lambda>a c. 10 * a + digit_val c) 0 (lpad (show_nat n) 6 (CHR ''0'')) = n"
  using show_nat_length[of n 6]
  by (auto simp: lpad_def value_leading_zeros foldl_show_nat simp del: foldl_append)

section \<open>Properties\<close>

text \<open>Case ids of one year are unique below a million cases; the millionth id is cut to six digits
  and repeats the id of case 100000, so the primary key refuses it.\<close>

theorem case_ids_unique_below_million:
  "inj_on (next_case_id year) {0..<10 ^ 6} \<and> next_case_id year 1000000 = next_case_id year 100000"
proof
  show "inj_on (next_case_id year) {0..<10 ^ 6}"
  proof (rule inj_onI)
    fix a b :: nat
    assume lt: "a \<in> {0..<10 ^ 6}" "b \<in> {0..<10 ^ 6}" and "next_case_id year a = next_case_id year b"
    then have "lpad (show_nat a) 6 (CHR ''0'') = lpad (show_nat b) 6 (CHR ''0'')"
      by (simp add: next_case_id_def)
    then show "a = b" using lt by (metis atLeastLessThan_iff lpad_value)
  qed
  have "show_nat 1000000 = ''1000000''" "show_nat 100000 = ''100000''"
    by (simp_all add: show_nat.simps)
  then show "next_case_id year 1000000 = next_case_id year 100000"
    by (simp add: next_case_id_def lpad_def)
qed

end
