(* ===== verification/Salesforce.thy ===== *)
theory Salesforce
  imports CaseStore
begin

text \<open>
  api/app/services/salesforce.py and api/app/exceptions.py: the translation maps between AFM and
  Salesforce values, the cached client with its one re-login on a 401, the cached record type, the
  Case create with its duplicate recovery, the error translation and the pull query. The Salesforce
  REST interface is a parameter (\<open>sfrest\<close>): one token request, a SOQL query, a Case
  create/update/delete, the query by modification time.
\<close>

section \<open>Errors\<close>

datatype AFMException =
    NotFoundError string
  | ScopeViolation string
  | UpstreamUnavailable string
  | ConflictError string
  | BadRequest string
  | NotImplementedYet string

primrec status_code :: "AFMException \<Rightarrow> nat" where
  "status_code (NotFoundError m) = 404"
| "status_code (ScopeViolation m) = 403"
| "status_code (UpstreamUnavailable m) = 503"
| "status_code (ConflictError m) = 409"
| "status_code (BadRequest m) = 400"
| "status_code (NotImplementedYet m) = 501"

primrec afm_message :: "AFMException \<Rightarrow> string" where
  "afm_message (NotFoundError m) = m"
| "afm_message (ScopeViolation m) = m"
| "afm_message (UpstreamUnavailable m) = m"
| "afm_message (ConflictError m) = m"
| "afm_message (BadRequest m) = m"
| "afm_message (NotImplementedYet m) = m"

text \<open>A SalesforceError carries an optional status and, when its content is a list, the errorCode
  of each element. An exception of the service is one of ours, one of those, or something else.\<close>

record SalesforceError =
  se_status :: "int option"
  se_error_codes :: "string option list option"

datatype pyexc = AFM AFMException | SFError SalesforceError | OtherExc string

section \<open>Translation maps\<close>

definition REGION_TO_SF :: "(string, string) dict" where
  "REGION_TO_SF = [(''west'', ''West''), (''east'', ''East''), (''all'', ''All'')]"

definition REGION_FROM_SF :: "(string, string) dict" where
  "REGION_FROM_SF = [(''West'', ''west''), (''East'', ''east''), (''All'', ''all'')]"

definition STATUS_FROM_SF :: "(string, string) dict" where
  "STATUS_FROM_SF = [(''New'', ''open''), (''Working'', ''in_progress''), (''Escalated'', ''in_progress''),
                     (''Closed'', ''resolved'')]"

definition DEFAULT_AFM_STATUS :: string where
  "DEFAULT_AFM_STATUS = ''open''"

definition SEVERITY_FROM_SF :: "(string, string) dict" where
  "SEVERITY_FROM_SF = [(''Low'', ''low''), (''Medium'', ''medium''), (''High'', ''high'')]"

definition FIRST_PULL_LOOKBACK :: duration where
  "FIRST_PULL_LOOKBACK = hours 1"

definition PULL_PAGE_LIMIT :: nat where
  "PULL_PAGE_LIMIT = 200"

text \<open>\<open>_parse_sf_datetime\<close>: null and empty text give None; a text that spells no instant raises.\<close>

definition parse_sf_datetime :: "json \<Rightarrow> pyexc + instant option" where
  "parse_sf_datetime v =
     (if \<not> truthy v then Inr None
      else case v of JIso t \<Rightarrow> Inr (Some t) | _ \<Rightarrow> Inl (OtherExc ''ValueError''))"

section \<open>Payloads\<close>

record CaseCreateInput =
  ci_external_id :: string
  ci_subject :: string
  ci_status :: string
  ci_priority :: "string option"
  ci_flight_id :: "string option"
  ci_site_icao :: "string option"
  ci_customer_region :: "string option"
  ci_case_type :: "string option"
  ci_detection_facts :: "(string, json) dict"
  ci_severity_justification :: "string option"
  ci_runbook_refs :: "string list"
  ci_internal_url :: "string option"

record SalesforceCaseRef =
  ref_salesforce_id :: string
  ref_external_id :: string

record CaseSyncRecord =
  rec_salesforce_id :: string
  rec_external_id :: string
  rec_status :: string
  rec_severity :: "string option"
  rec_summary :: "string option"
  rec_severity_justification :: "string option"
  rec_runbook_refs :: "string list"
  rec_resolved_at :: "instant option"
  rec_system_modstamp :: instant

section \<open>The REST interface and the service state\<close>

record SfSettings =
  ss_instance_url :: string
  ss_client_id :: string
  ss_client_secret :: string
  ss_record_type_dev_name :: string

record Session =
  sess_instance :: string
  sess_token :: string

datatype TokenReply =
    TokenHTTPError int
  | TokenUnreachable
  | TokenBody "string option" "string option"

datatype CreateReply = CreateSuccess string | CreateFailure

record 'x sfrest =
  sr_token :: "string \<Rightarrow> string \<Rightarrow> string \<Rightarrow> 'x \<Rightarrow> TokenReply \<times> 'x"
  sr_query :: "Session \<Rightarrow> string \<Rightarrow> 'x \<Rightarrow> (pyexc + (string, json) dict list) \<times> 'x"
  sr_create :: "Session \<Rightarrow> (string, json) dict \<Rightarrow> 'x \<Rightarrow> (pyexc + CreateReply) \<times> 'x"
  sr_update :: "Session \<Rightarrow> string \<Rightarrow> (string, json) dict \<Rightarrow> 'x \<Rightarrow> (pyexc + unit) \<times> 'x"
  sr_delete :: "Session \<Rightarrow> string \<Rightarrow> 'x \<Rightarrow> (pyexc + unit) \<times> 'x"
  sr_modified_since :: "Session \<Rightarrow> string \<Rightarrow> int \<Rightarrow> nat \<Rightarrow> 'x \<Rightarrow> (pyexc + (string, json) dict list) \<times> 'x"

record SfState =
  sf_client :: "Session option"
  sf_record_type_id :: "string option"

type_synonym ('x, 'a) sfm = "SfState \<times> 'x \<Rightarrow> (pyexc + 'a) \<times> (SfState \<times> 'x)"

definition sf_bind :: "('x, 'a) sfm \<Rightarrow> ('a \<Rightarrow> ('x, 'b) sfm) \<Rightarrow> ('x, 'b) sfm" where
  "sf_bind m f = (\<lambda>s. case m s of (Inl e, s') \<Rightarrow> (Inl e, s') | (Inr a, s') \<Rightarrow> f a s')"

definition sf_return :: "'a \<Rightarrow> ('x, 'a) sfm" where
  "sf_return a = (\<lambda>s. (Inr a, s))"

definition sf_raise :: "pyexc \<Rightarrow> ('x, 'a) sfm" where
  "sf_raise e = (\<lambda>s. (Inl e, s))"

definition sf_rest :: "('x \<Rightarrow> (pyexc + 'a) \<times> 'x) \<Rightarrow> ('x, 'a) sfm" where
  "sf_rest m = (\<lambda>(st, x). case m x of (r, x') \<Rightarrow> (r, (st, x')))"

lemma sf_bind_Inr: "sf_bind m f s = (Inr b, s') \<longleftrightarrow> (\<exists>a s1. m s = (Inr a, s1) \<and> f a s1 = (Inr b, s'))"
  by (auto simp: sf_bind_def split: prod.splits sum.splits)

section \<open>Authentication\<close>

definition fetch_client :: "SfSettings \<Rightarrow> 'x sfrest \<Rightarrow> ('x, Session) sfm" where
  "fetch_client cfg rest = (\<lambda>(st, x).
     if ss_instance_url cfg = [] \<or> ss_client_id cfg = [] \<or> ss_client_secret cfg = []
     then (Inl (AFM (UpstreamUnavailable ''Salesforce is not configured'')), (st, x))
     else case sr_token rest (ss_instance_url cfg) (ss_client_id cfg) (ss_client_secret cfg) x of
            (TokenHTTPError code, x') \<Rightarrow> (Inl (AFM (UpstreamUnavailable ''Salesforce token request failed'')), (st, x'))
          | (TokenUnreachable, x') \<Rightarrow> (Inl (AFM (UpstreamUnavailable ''Salesforce token request failed'')), (st, x'))
          | (TokenBody token inst, x') \<Rightarrow>
              (case token of
                 None \<Rightarrow> (Inl (AFM (UpstreamUnavailable ''Salesforce token response missing access_token'')), (st, x'))
               | Some t \<Rightarrow>
                   if t = [] then (Inl (AFM (UpstreamUnavailable ''Salesforce token response missing access_token'')), (st, x'))
                   else (Inr \<lparr>sess_instance = (case inst of None \<Rightarrow> ss_instance_url cfg | Some i \<Rightarrow> i), sess_token = t\<rparr>, (st, x'))))"

definition get_client :: "SfSettings \<Rightarrow> 'x sfrest \<Rightarrow> ('x, Session) sfm" where
  "get_client cfg rest = (\<lambda>(st, x).
     case sf_client st of
       Some c \<Rightarrow> (Inr c, (st, x))
     | None \<Rightarrow>
         (case fetch_client cfg rest (st, x) of
            (Inl e, s') \<Rightarrow> (Inl e, s')
          | (Inr c, (st', x')) \<Rightarrow> (Inr c, (st'\<lparr>sf_client := Some c\<rparr>, x'))))"

definition reauth :: "SfSettings \<Rightarrow> 'x sfrest \<Rightarrow> ('x, Session) sfm" where
  "reauth cfg rest = (\<lambda>(st, x). get_client cfg rest (\<lparr>sf_client = None, sf_record_type_id = None\<rparr>, x))"

definition session_expired :: "pyexc \<Rightarrow> bool" where
  "session_expired e = (case e of SFError err \<Rightarrow> se_status err = Some 401 | _ \<Rightarrow> False)"

definition with_session_retry :: "SfSettings \<Rightarrow> 'x sfrest \<Rightarrow> ('x, 'a) sfm \<Rightarrow> ('x, 'a) sfm" where
  "with_session_retry cfg rest fn = (\<lambda>s.
     case fn s of
       (Inr a, s') \<Rightarrow> (Inr a, s')
     | (Inl e, s') \<Rightarrow> if session_expired e then sf_bind (reauth cfg rest) (\<lambda>_. fn) s' else (Inl e, s'))"

definition soql_query :: "SfSettings \<Rightarrow> 'x sfrest \<Rightarrow> string \<Rightarrow> ('x, (string, json) dict list) sfm" where
  "soql_query cfg rest soql =
     with_session_retry cfg rest (sf_bind (get_client cfg rest) (\<lambda>c. sf_rest (sr_query rest c soql)))"

section \<open>Field mapping\<close>

text \<open>\<open>cast(str, recs[0]["Id"])\<close>: the id as the text it is, any other value a KeyError-like failure.\<close>

definition record_id :: "(string, json) dict \<Rightarrow> string option" where
  "record_id rec = (case dget rec ''Id'' of Some (JStr s) \<Rightarrow> Some s | _ \<Rightarrow> None)"

definition quoted :: "string \<Rightarrow> string" where
  "quoted s = [CHR 0x27] @ s @ [CHR 0x27]"

definition case_record_type :: "SfSettings \<Rightarrow> 'x sfrest \<Rightarrow> ('x, string) sfm" where
  "case_record_type cfg rest = (\<lambda>(st, x).
     case sf_record_type_id st of
       Some i \<Rightarrow> (Inr i, (st, x))
     | None \<Rightarrow>
         sf_bind
           (soql_query cfg rest
             (''SELECT Id FROM RecordType WHERE SobjectType='' @ quoted ''Case'' @ '' AND DeveloperName=''
                @ quoted (ss_record_type_dev_name cfg)))
           (\<lambda>recs. case recs of
              [] \<Rightarrow> sf_raise (AFM (UpstreamUnavailable ''Case RecordType not found in org''))
            | r # _ \<Rightarrow>
                (case record_id r of
                   None \<Rightarrow> sf_raise (OtherExc ''KeyError'')
                 | Some i \<Rightarrow> (\<lambda>(st', x'). (Inr i, (st'\<lparr>sf_record_type_id := Some i\<rparr>, x')))))
           (st, x))"

definition join_comma :: "string list \<Rightarrow> string" where
  "join_comma ws = (case ws of [] \<Rightarrow> [] | w # rest \<Rightarrow> w @ concat (map (\<lambda>v. CHR '','' # v) rest))"

definition drop_none :: "(string \<times> json option) list \<Rightarrow> (string, json) dict" where
  "drop_none kvs = List.map_filter (\<lambda>(k, v). map_option (Pair k) v) kvs"

definition to_sf_fields :: "SfSettings \<Rightarrow> 'x sfrest \<Rightarrow> CaseCreateInput \<Rightarrow> ('x, (string, json) dict) sfm" where
  "to_sf_fields cfg rest payload =
     (case (case ci_customer_region payload of
              None \<Rightarrow> Some None
            | Some r \<Rightarrow> map_option Some (dget REGION_TO_SF r)) of
        None \<Rightarrow> sf_raise (AFM (BadRequest ''Unknown customer_region''))
      | Some region_sf \<Rightarrow>
          sf_bind (case_record_type cfg rest) (\<lambda>record_type.
            sf_return (drop_none
              [(''Subject'', Some (JStr (ci_subject payload))),
               (''Status'', Some (JStr (ci_status payload))),
               (''RecordTypeId'', Some (JStr record_type)),
               (''AFM_External_Id__c'', Some (JStr (ci_external_id payload))),
               (''Priority'', map_option JStr (ci_priority payload)),
               (''AFM_Flight_Id__c'', map_option JStr (ci_flight_id payload)),
               (''AFM_Site_Icao__c'', map_option JStr (ci_site_icao payload)),
               (''AFM_Customer_Region__c'', map_option JStr region_sf),
               (''AFM_Case_Type__c'', map_option JStr (ci_case_type payload)),
               (''AFM_Detection_Facts__c'',
                 (if ci_detection_facts payload = [] then None else Some (JDumps (JObj (ci_detection_facts payload))))),
               (''AFM_Severity_Justification__c'', map_option JStr (ci_severity_justification payload)),
               (''AFM_Runbook_Refs__c'',
                 (if ci_runbook_refs payload = [] then None else Some (JStr (join_comma (ci_runbook_refs payload))))),
               (''AFM_Internal_Url__c'', map_option JStr (ci_internal_url payload))])))"

section \<open>Writes\<close>

definition translate_sf_error :: "SalesforceError \<Rightarrow> string \<Rightarrow> AFMException" where
  "translate_sf_error err message =
     (case se_status err of
        None \<Rightarrow> UpstreamUnavailable message
      | Some status \<Rightarrow>
          if status = 401 then UpstreamUnavailable message
          else if 400 \<le> status \<and> status < 500 then BadRequest message
          else UpstreamUnavailable message)"

definition is_duplicate_external_id :: "SalesforceError \<Rightarrow> bool" where
  "is_duplicate_external_id err =
     (case se_error_codes err of
        None \<Rightarrow> False
      | Some codes \<Rightarrow> list_ex (\<lambda>c. c = Some ''DUPLICATE_VALUE'') codes)"

fun soql_escape :: "string \<Rightarrow> string" where
  "soql_escape [] = []"
| "soql_escape (c # cs) =
     (if c = CHR 0x5C then [CHR 0x5C, CHR 0x5C]
      else if c = CHR 0x27 then [CHR 0x5C, CHR 0x27] else [c]) @ soql_escape cs"

definition find_case_id_by_external_id :: "SfSettings \<Rightarrow> 'x sfrest \<Rightarrow> string \<Rightarrow> ('x, string option) sfm" where
  "find_case_id_by_external_id cfg rest external_id =
     sf_bind (soql_query cfg rest
        (''SELECT Id FROM Case WHERE AFM_External_Id__c = '' @ quoted (soql_escape external_id) @ '' LIMIT 1''))
       (\<lambda>records. case records of
          [] \<Rightarrow> sf_return None
        | r # _ \<Rightarrow> (case record_id r of None \<Rightarrow> sf_raise (OtherExc ''KeyError'') | Some i \<Rightarrow> sf_return (Some i)))"

definition create_case :: "SfSettings \<Rightarrow> 'x sfrest \<Rightarrow> CaseCreateInput \<Rightarrow> ('x, SalesforceCaseRef) sfm" where
  "create_case cfg rest payload =
     sf_bind (to_sf_fields cfg rest payload) (\<lambda>fields s.
       case with_session_retry cfg rest
              (sf_bind (get_client cfg rest) (\<lambda>c. sf_rest (sr_create rest c fields))) s of
         (Inr (CreateSuccess i), s') \<Rightarrow>
           (Inr \<lparr>ref_salesforce_id = i, ref_external_id = ci_external_id payload\<rparr>, s')
       | (Inr CreateFailure, s') \<Rightarrow> (Inl (AFM (BadRequest ''Salesforce Case create failed'')), s')
       | (Inl (SFError err), s') \<Rightarrow>
           (if is_duplicate_external_id err then
              sf_bind (find_case_id_by_external_id cfg rest (ci_external_id payload))
                (\<lambda>existing. case existing of
                   Some i \<Rightarrow> sf_return \<lparr>ref_salesforce_id = i, ref_external_id = ci_external_id payload\<rparr>
                 | None \<Rightarrow> sf_raise (AFM (translate_sf_error err ''Salesforce Case create failed''))) s'
            else (Inl (AFM (translate_sf_error err ''Salesforce Case create failed'')), s'))
       | (Inl e, s') \<Rightarrow> (Inl e, s'))"

definition update_case :: "SfSettings \<Rightarrow> 'x sfrest \<Rightarrow> string \<Rightarrow> (string, json) dict \<Rightarrow> ('x, unit) sfm" where
  "update_case cfg rest case_id updates =
     with_session_retry cfg rest (sf_bind (get_client cfg rest) (\<lambda>c. sf_rest (sr_update rest c case_id updates)))"

definition delete_case :: "SfSettings \<Rightarrow> 'x sfrest \<Rightarrow> string \<Rightarrow> ('x, unit) sfm" where
  "delete_case cfg rest case_id =
     with_session_retry cfg rest (sf_bind (get_client cfg rest) (\<lambda>c. sf_rest (sr_delete rest c case_id)))"

section \<open>Reads\<close>

definition default_pull_watermark :: "instant \<Rightarrow> instant" where
  "default_pull_watermark now = now - FIRST_PULL_LOOKBACK"

definition opt_text :: "json \<Rightarrow> string option" where
  "opt_text v = (case v of JStr s \<Rightarrow> Some s | _ \<Rightarrow> None)"

definition text_or_empty :: "json \<Rightarrow> string" where
  "text_or_empty v = (case v of JStr s \<Rightarrow> s | _ \<Rightarrow> [])"

definition to_sync_record :: "(string, json) dict \<Rightarrow> pyexc + CaseSyncRecord" where
  "to_sync_record rec =
     (let refs = filter (\<lambda>r. r \<noteq> []) (map strip (split_on (CHR '','') (text_or_empty (obj_get rec ''AFM_Runbook_Refs__c''))))
      in case record_id rec of
           None \<Rightarrow> Inl (OtherExc ''KeyError'')
         | Some i \<Rightarrow>
             (case parse_sf_datetime (obj_get rec ''ClosedDate'') of
                Inl e \<Rightarrow> Inl e
              | Inr resolved_at \<Rightarrow>
                  (case parse_sf_datetime (obj_get rec ''SystemModstamp'') of
                     Inl e \<Rightarrow> Inl e
                   | Inr None \<Rightarrow> Inl (OtherExc ''ValidationError'')
                   | Inr (Some modstamp) \<Rightarrow>
                       Inr \<lparr>rec_salesforce_id = i,
                            rec_external_id = text_or_empty (obj_get rec ''AFM_External_Id__c''),
                            rec_status = (case dget STATUS_FROM_SF (text_or_empty (obj_get rec ''Status'')) of
                                            None \<Rightarrow> DEFAULT_AFM_STATUS | Some s \<Rightarrow> s),
                            rec_severity = dget SEVERITY_FROM_SF (text_or_empty (obj_get rec ''Priority'')),
                            rec_summary = opt_text (obj_get rec ''Description''),
                            rec_severity_justification = opt_text (obj_get rec ''AFM_Severity_Justification__c''),
                            rec_runbook_refs = refs,
                            rec_resolved_at = resolved_at,
                            rec_system_modstamp = modstamp\<rparr>)))"

primrec map_records :: "(string, json) dict list \<Rightarrow> pyexc + CaseSyncRecord list" where
  "map_records [] = Inr []"
| "map_records (r # rs) =
     (case to_sync_record r of
        Inl e \<Rightarrow> Inl e
      | Inr x \<Rightarrow> (case map_records rs of Inl e \<Rightarrow> Inl e | Inr xs \<Rightarrow> Inr (x # xs)))"

text \<open>The watermark goes into the query as whole seconds (\<open>strftime\<close> drops the fraction).\<close>

definition soql_seconds :: "instant \<Rightarrow> int" where
  "soql_seconds watermark = watermark div 1000000"

definition query_cases_modified_since ::
  "SfSettings \<Rightarrow> 'x sfrest \<Rightarrow> instant \<Rightarrow> nat \<Rightarrow> ('x, CaseSyncRecord list) sfm" where
  "query_cases_modified_since cfg rest watermark limit =
     sf_bind
       (with_session_retry cfg rest
         (sf_bind (get_client cfg rest)
           (\<lambda>c. sf_rest (sr_modified_since rest c (ss_record_type_dev_name cfg) (soql_seconds watermark) limit))))
       (\<lambda>records. case map_records records of Inl e \<Rightarrow> sf_raise e | Inr rs \<Rightarrow> sf_return rs)"

end
