(* ===== verification/CaseSync.thy ===== *)
theory CaseSync
  imports Salesforce "HOL-Library.Product_Lexorder"
begin

text \<open>
  api/app/services/case_sync.py: the push of pending cases to Salesforce (single-flight under an
  advisory lock, per-row classification into synced, retry or failed), the pull of modified cases
  back into app.cases with its watermark, and the paged read for the Foundry sync. The state is the
  database, the Salesforce service state and the Salesforce world; NOW() is a parameter, one instant
  per row transaction.
\<close>

definition MAX_ATTEMPTS :: nat where
  "MAX_ATTEMPTS = 5"

definition SEVERITY_TO_PRIORITY :: "(string, string) dict" where
  "SEVERITY_TO_PRIORITY = [(''low'', ''Low''), (''medium'', ''Medium''), (''high'', ''High''), (''critical'', ''High'')]"

section \<open>Subjects and payloads\<close>

definition em_dash :: string where
  "em_dash = [CHR 0xE2, CHR 0x80, CHR 0x94]"

definition right_arrow :: string where
  "right_arrow = [CHR 0xE2, CHR 0x86, CHR 0x92]"

text \<open>\<open>facts.get(k) or default\<close> inside an f-string; \<open>text_of\<close> is str() on a value that is not text.\<close>

definition fact_or :: "(json \<Rightarrow> string) \<Rightarrow> (string, json) dict \<Rightarrow> string \<Rightarrow> string \<Rightarrow> string" where
  "fact_or text_of facts k dflt =
     (let v = obj_get facts k
      in if truthy v then (case v of JStr s \<Rightarrow> s | _ \<Rightarrow> text_of v) else dflt)"

definition format_subject :: "(json \<Rightarrow> string) \<Rightarrow> string \<Rightarrow> string \<Rightarrow> (string, json) dict \<Rightarrow> string" where
  "format_subject text_of case_type site_icao facts =
     (let callsign = fact_or text_of facts ''callsign'' ''unknown'';
          site = (if site_icao = [] then ''unknown site'' else site_icao);
          dash = '' '' @ em_dash @ '' ''
      in if case_type = ''lost_signal'' then ''Lost signal during cruise'' @ dash @ callsign @ '' near '' @ site
         else if case_type = ''diversion'' then
           ''Diversion'' @ dash @ callsign @ '' '' @ fact_or text_of facts ''origin'' ''?'' @ right_arrow
             @ fact_or text_of facts ''alternate'' ''?'' @ '' (was ''
             @ fact_or text_of facts ''expected_destination'' ''?'' @ '')''
         else if case_type = ''excessive_hold'' then
           ''Excessive holding pattern'' @ dash @ callsign @ '' near '' @ site
         else if case_type = ''weather_impact'' then
           ''Weather impact'' @ dash @ site @ '' ('' @ fact_or text_of facts ''flight_category'' ''unknown'' @ '')''
         else if case_type = ''go_around'' then ''Go-around'' @ dash @ callsign @ '' at '' @ site
         else if case_type = ''delay'' then
           ''Delayed flight'' @ dash @ callsign @ '' '' @ fact_or text_of facts ''origin'' ''?'' @ right_arrow
             @ fact_or text_of facts ''destination'' ''?''
         else case_type @ dash @ callsign @ '' near '' @ site)"

text \<open>The payload; pydantic refuses a region outside the literal.\<close>

definition to_payload :: "(json \<Rightarrow> string) \<Rightarrow> CaseRow \<Rightarrow> pyexc + CaseCreateInput" where
  "to_payload text_of row =
     (let facts = cr_detection_facts row
      in if cr_customer_region row \<notin> {''west'', ''east'', ''all''} then Inl (OtherExc ''ValidationError'')
         else Inr
           \<lparr>ci_external_id = cr_case_id row,
            ci_subject = format_subject text_of (cr_case_type row) (cr_site_icao row) facts,
            ci_status = ''New'',
            ci_priority = Some (case dget SEVERITY_TO_PRIORITY (cr_severity row) of None \<Rightarrow> ''Medium'' | Some p \<Rightarrow> p),
            ci_flight_id = Some (cr_flight_id row),
            ci_site_icao = (if cr_site_icao row = [] then None else Some (cr_site_icao row)),
            ci_customer_region = Some (cr_customer_region row),
            ci_case_type = Some (cr_case_type row),
            ci_detection_facts = facts,
            ci_severity_justification = None,
            ci_runbook_refs = cr_runbook_refs row,
            ci_internal_url = None\<rparr>)"

section \<open>The push\<close>

record CaseSyncSummary =
  css_attempted :: nat
  css_synced :: nat
  css_retrying :: nat
  css_failed :: nat

definition fetch_pending :: "nat \<Rightarrow> AppDb \<Rightarrow> CaseRow list" where
  "fetch_pending limit db =
     take limit (sort_key cr_created_at (filter (\<lambda>r. cr_sf_sync_status r = ''pending'') (db_cases db)))"

definition mark_synced :: "instant \<Rightarrow> string \<Rightarrow> string \<Rightarrow> nat \<Rightarrow> AppDb \<Rightarrow> AppDb" where
  "mark_synced now case_id salesforce_id attempts db =
     add_event case_id ''sf_synced'' (JObj [(''salesforce_id'', JStr salesforce_id)]) ''sf_sync''
       (db\<lparr>db_cases := update_where (\<lambda>r. cr_case_id r = case_id)
             (\<lambda>r. r\<lparr>cr_salesforce_id := Some salesforce_id, cr_sf_sync_status := ''synced'',
                     cr_sf_sync_attempts := attempts, cr_sf_sync_last_error := None, cr_updated_at := now\<rparr>)
             (db_cases db)\<rparr>)"

definition mark_retry :: "instant \<Rightarrow> string \<Rightarrow> nat \<Rightarrow> string \<Rightarrow> AppDb \<Rightarrow> AppDb" where
  "mark_retry now case_id attempts error db =
     add_event case_id ''sf_sync_retry'' (JObj [(''attempts'', JInt (int attempts)), (''error'', JStr error)]) ''sf_sync''
       (db\<lparr>db_cases := update_where (\<lambda>r. cr_case_id r = case_id)
             (\<lambda>r. r\<lparr>cr_sf_sync_attempts := attempts, cr_sf_sync_last_error := Some error, cr_updated_at := now\<rparr>)
             (db_cases db)\<rparr>)"

definition mark_failed :: "instant \<Rightarrow> string \<Rightarrow> nat \<Rightarrow> string \<Rightarrow> AppDb \<Rightarrow> AppDb" where
  "mark_failed now case_id attempts error db =
     add_event case_id ''sf_sync_failed'' (JObj [(''attempts'', JInt (int attempts)), (''error'', JStr error)]) ''sf_sync''
       (db\<lparr>db_cases := update_where (\<lambda>r. cr_case_id r = case_id)
             (\<lambda>r. r\<lparr>cr_sf_sync_status := ''failed'', cr_sf_sync_attempts := attempts,
                     cr_sf_sync_last_error := Some error, cr_updated_at := now\<rparr>)
             (db_cases db)\<rparr>)"

datatype Disposition = Synced | Retrying | Failed

text \<open>What one row's attempt comes to: the create is a parameter here, \<open>create_case\<close> below. The left
  value is an exception that is not an AFMException: it leaves the push.\<close>

definition push_row ::
  "(CaseCreateInput \<Rightarrow> 's \<Rightarrow> (pyexc + SalesforceCaseRef) \<times> 's) \<Rightarrow> (json \<Rightarrow> string) \<Rightarrow> (CaseRow \<Rightarrow> instant) \<Rightarrow>
     CaseRow \<Rightarrow> AppDb \<times> 's \<Rightarrow> (pyexc + Disposition) \<times> (AppDb \<times> 's)" where
  "push_row create text_of now row = (\<lambda>(db, s).
     let attempts = cr_sf_sync_attempts row + 1;
         case_id = cr_case_id row
     in case to_payload text_of row of
          Inl e \<Rightarrow> (Inl e, (db, s))
        | Inr payload \<Rightarrow>
            (case create payload s of
               (Inr ref, s') \<Rightarrow> (Inr Synced, (mark_synced (now row) case_id (ref_salesforce_id ref) attempts db, s'))
             | (Inl (AFM (UpstreamUnavailable m)), s') \<Rightarrow>
                 if attempts \<ge> MAX_ATTEMPTS
                 then (Inr Failed, (mark_failed (now row) case_id attempts (''max attempts: '' @ m) db, s'))
                 else (Inr Retrying, (mark_retry (now row) case_id attempts m db, s'))
             | (Inl (AFM exc), s') \<Rightarrow> (Inr Failed, (mark_failed (now row) case_id attempts (afm_message exc) db, s'))
             | (Inl e, s') \<Rightarrow> (Inl e, (db, s'))))"

primrec push_rows ::
  "(CaseCreateInput \<Rightarrow> 's \<Rightarrow> (pyexc + SalesforceCaseRef) \<times> 's) \<Rightarrow> (json \<Rightarrow> string) \<Rightarrow> (CaseRow \<Rightarrow> instant) \<Rightarrow>
     CaseRow list \<Rightarrow> AppDb \<times> 's \<Rightarrow> (pyexc + Disposition list) \<times> (AppDb \<times> 's)" where
  "push_rows create text_of now [] st = (Inr [], st)"
| "push_rows create text_of now (row # rows) st =
     (case push_row create text_of now row st of
        (Inl e, st') \<Rightarrow> (Inl e, st')
      | (Inr d, st') \<Rightarrow>
          (case push_rows create text_of now rows st' of
             (Inl e, st'') \<Rightarrow> (Inl e, st'')
           | (Inr ds, st'') \<Rightarrow> (Inr (d # ds), st'')))"

definition push_pending_locked ::
  "(CaseCreateInput \<Rightarrow> 's \<Rightarrow> (pyexc + SalesforceCaseRef) \<times> 's) \<Rightarrow> (json \<Rightarrow> string) \<Rightarrow> (CaseRow \<Rightarrow> instant) \<Rightarrow>
     nat \<Rightarrow> AppDb \<times> 's \<Rightarrow> (pyexc + CaseSyncSummary) \<times> (AppDb \<times> 's)" where
  "push_pending_locked create text_of now limit st =
     (let rows = fetch_pending limit (fst st)
      in case push_rows create text_of now rows st of
           (Inl e, st') \<Rightarrow> (Inl e, st')
         | (Inr ds, st') \<Rightarrow>
             (Inr \<lparr>css_attempted = length rows, css_synced = count_list ds Synced,
                   css_retrying = count_list ds Retrying, css_failed = count_list ds Failed\<rparr>, st'))"

text \<open>The advisory lock: a taken lock skips the pass, and the lock is given back however it ends.\<close>

definition push_pending ::
  "(CaseCreateInput \<Rightarrow> 's \<Rightarrow> (pyexc + SalesforceCaseRef) \<times> 's) \<Rightarrow> (json \<Rightarrow> string) \<Rightarrow> (CaseRow \<Rightarrow> instant) \<Rightarrow>
     nat \<Rightarrow> AppDb \<times> 's \<Rightarrow> (pyexc + CaseSyncSummary) \<times> (AppDb \<times> 's)" where
  "push_pending create text_of now limit st =
     (if db_push_locked (fst st)
      then (Inr \<lparr>css_attempted = 0, css_synced = 0, css_retrying = 0, css_failed = 0\<rparr>, st)
      else case push_pending_locked create text_of now limit ((fst st)\<lparr>db_push_locked := True\<rparr>, snd st) of
             (r, (db, s)) \<Rightarrow> (r, (db\<lparr>db_push_locked := False\<rparr>, s)))"

section \<open>The pull\<close>

record CasePullSummary =
  cps_fetched :: nat
  cps_updated :: nat
  cps_unmatched :: nat
  cps_watermark :: "instant option"

definition material_changes ::
  "CaseSyncRecord \<Rightarrow> string \<Rightarrow> string \<Rightarrow> instant option \<Rightarrow> (string \<times> json) list" where
  "material_changes rec prev_status prev_severity prev_resolved_at =
     (if rec_status rec \<noteq> prev_status
      then [(''status_changed'', JObj [(''from'', JStr prev_status), (''to'', JStr (rec_status rec))])] else [])
     @ (case rec_severity rec of
          None \<Rightarrow> []
        | Some sev \<Rightarrow> if sev \<noteq> prev_severity
                       then [(''severity_changed'', JObj [(''from'', JStr prev_severity), (''to'', JStr sev)])] else [])
     @ (case rec_resolved_at rec of
          None \<Rightarrow> []
        | Some t \<Rightarrow> if prev_resolved_at = None then [(''resolved'', JObj [(''resolved_at'', JIso t)])] else [])"

definition coalesce :: "'a option \<Rightarrow> 'a option \<Rightarrow> 'a option" where
  "coalesce a b = (case a of None \<Rightarrow> b | Some x \<Rightarrow> Some x)"

definition apply_to_row :: "instant \<Rightarrow> CaseSyncRecord \<Rightarrow> CaseRow \<Rightarrow> CaseRow" where
  "apply_to_row now rec r =
     r\<lparr>cr_status := rec_status rec,
       cr_severity := (case rec_severity rec of None \<Rightarrow> cr_severity r | Some s \<Rightarrow> s),
       cr_summary := coalesce (rec_summary rec) (cr_summary r),
       cr_severity_justification := coalesce (rec_severity_justification rec) (cr_severity_justification r),
       cr_runbook_refs := (if rec_runbook_refs rec = [] then cr_runbook_refs r else rec_runbook_refs rec),
       cr_resolved_at := rec_resolved_at rec,
       cr_salesforce_id := coalesce (cr_salesforce_id r) (Some (rec_salesforce_id rec)),
       cr_updated_at := now\<rparr>"

definition matches :: "CaseSyncRecord \<Rightarrow> CaseRow \<Rightarrow> bool" where
  "matches rec r \<longleftrightarrow> cr_salesforce_id r = Some (rec_salesforce_id rec) \<or> cr_case_id r = rec_external_id rec"

definition apply_record :: "instant \<Rightarrow> CaseSyncRecord \<Rightarrow> AppDb \<Rightarrow> bool \<times> AppDb" where
  "apply_record now rec db =
     (case List.find (matches rec) (db_cases db) of
        None \<Rightarrow> (False, db)
      | Some current \<Rightarrow>
          (let case_id = cr_case_id current;
               db1 = db\<lparr>db_cases := update_where (\<lambda>r. cr_case_id r = case_id) (apply_to_row now rec) (db_cases db)\<rparr>;
               db2 = foldl (\<lambda>d (event_type, detail). add_event case_id event_type detail ''sf_sync'' d) db1
                       (material_changes rec (cr_status current) (cr_severity current) (cr_resolved_at current))
           in (True, db2)))"

definition read_watermark :: "instant \<Rightarrow> AppDb \<Rightarrow> instant" where
  "read_watermark now db = (case db_watermark db of None \<Rightarrow> default_pull_watermark now | Some t \<Rightarrow> t)"

definition write_watermark :: "instant \<Rightarrow> AppDb \<Rightarrow> AppDb" where
  "write_watermark modstamp db = db\<lparr>db_watermark := Some modstamp\<rparr>"

primrec apply_records ::
  "(CaseSyncRecord \<Rightarrow> instant) \<Rightarrow> CaseSyncRecord list \<Rightarrow> nat \<times> nat \<times> instant option \<Rightarrow> AppDb \<Rightarrow>
     (nat \<times> nat \<times> instant option) \<times> AppDb" where
  "apply_records now [] acc db = (acc, db)"
| "apply_records now (rec # recs) acc db =
     (case acc of (updated, unmatched, max_modstamp) \<Rightarrow>
        let m = (case max_modstamp of
                   None \<Rightarrow> rec_system_modstamp rec
                 | Some t \<Rightarrow> max t (rec_system_modstamp rec))
        in case apply_record (now rec) rec db of
             (True, db') \<Rightarrow> apply_records now recs (Suc updated, unmatched, Some m) db'
           | (False, db') \<Rightarrow> apply_records now recs (updated, Suc unmatched, Some m) db')"

definition pull_from_sf ::
  "(instant \<Rightarrow> nat \<Rightarrow> 's \<Rightarrow> (pyexc + CaseSyncRecord list) \<times> 's) \<Rightarrow> instant \<Rightarrow> (CaseSyncRecord \<Rightarrow> instant) \<Rightarrow>
     nat \<Rightarrow> AppDb \<times> 's \<Rightarrow> (pyexc + CasePullSummary) \<times> (AppDb \<times> 's)" where
  "pull_from_sf modified_since start now limit = (\<lambda>(db, s).
     case modified_since (read_watermark start db) limit s of
       (Inl e, s') \<Rightarrow> (Inl e, (db, s'))
     | (Inr records, s') \<Rightarrow>
         (case apply_records now records (0, 0, None) db of
            ((updated, unmatched, max_modstamp), db') \<Rightarrow>
              (Inr \<lparr>cps_fetched = length records, cps_updated = updated, cps_unmatched = unmatched,
                    cps_watermark = max_modstamp\<rparr>,
               (case max_modstamp of None \<Rightarrow> db' | Some m \<Rightarrow> write_watermark m db', s'))))"

section \<open>The paged read for the Foundry sync\<close>

definition rstrip_slash :: "string \<Rightarrow> string" where
  "rstrip_slash s = rev (dropWhile (\<lambda>c. c = CHR ''/'') (rev s))"

definition case_lightning_url :: "string option \<Rightarrow> string option \<Rightarrow> string option" where
  "case_lightning_url instance_url salesforce_id =
     (case (instance_url, salesforce_id) of
        (Some url, Some i) \<Rightarrow>
          if i = [] \<or> url = [] then None
          else Some (rstrip_slash url @ ''/lightning/r/Case/'' @ i @ ''/view'')
      | _ \<Rightarrow> None)"

definition row_to_case_for_sync :: "(json \<Rightarrow> string) \<Rightarrow> string option \<Rightarrow> CaseRow \<Rightarrow> CaseForSync" where
  "row_to_case_for_sync text_of instance_url row =
     \<lparr>cfs_case_id = cr_case_id row, cfs_salesforce_id = cr_salesforce_id row,
      cfs_salesforce_url = case_lightning_url instance_url (cr_salesforce_id row),
      cfs_case_type = cr_case_type row, cfs_status = cr_status row, cfs_severity = cr_severity row,
      cfs_customer_region = cr_customer_region row, cfs_site_icao = cr_site_icao row,
      cfs_flight_id = cr_flight_id row,
      cfs_subject = format_subject text_of (cr_case_type row) (cr_site_icao row) (cr_detection_facts row),
      cfs_summary = cr_summary row, cfs_severity_justification = cr_severity_justification row,
      cfs_detection_facts = cr_detection_facts row, cfs_runbook_refs = cr_runbook_refs row,
      cfs_created_at = cr_created_at row, cfs_updated_at = cr_updated_at row,
      cfs_resolved_at = cr_resolved_at row\<rparr>"

definition updated_after :: "instant option \<Rightarrow> CaseRow \<Rightarrow> bool" where
  "updated_after since r = (case since of None \<Rightarrow> True | Some t \<Rightarrow> cr_updated_at r > t)"

definition fetch_for_sync :: "instant option \<Rightarrow> nat \<Rightarrow> AppDb \<Rightarrow> CaseRow list" where
  "fetch_for_sync since limit db =
     take limit (sort_key (\<lambda>r. (cr_updated_at r, cr_case_id r)) (filter (updated_after since) (db_cases db)))"

definition list_for_sync ::
  "(json \<Rightarrow> string) \<Rightarrow> string option \<Rightarrow> instant option \<Rightarrow> nat \<Rightarrow> AppDb \<Rightarrow> CasesForSyncPage" where
  "list_for_sync text_of instance_url since limit db =
     (let items = map (row_to_case_for_sync text_of instance_url) (fetch_for_sync since limit db)
      in \<lparr>cfp_items = items, cfp_next_cursor = map_option cfs_updated_at (max_by cfs_updated_at items),
          cfp_truncated = (length items \<ge> limit)\<rparr>)"

section \<open>Rows by key\<close>

definition row_of :: "AppDb \<Rightarrow> string \<Rightarrow> CaseRow option" where
  "row_of db case_id = List.find (\<lambda>r. cr_case_id r = case_id) (db_cases db)"

definition wf_db :: "AppDb \<Rightarrow> bool" where
  "wf_db db \<longleftrightarrow> distinct (map cr_case_id (db_cases db))"

lemma row_of_iff: "wf_db db \<Longrightarrow> row_of db i = Some r \<longleftrightarrow> r \<in> set (db_cases db) \<and> cr_case_id r = i"
proof -
  have "distinct (map cr_case_id rs) \<Longrightarrow>
        List.find (\<lambda>r. cr_case_id r = i) rs = Some r \<longleftrightarrow> r \<in> set rs \<and> cr_case_id r = i" for rs
    by (induction rs) (auto simp: image_iff)
  then show "wf_db db \<Longrightarrow> ?thesis" by (simp add: wf_db_def row_of_def)
qed

lemma find_update_where:
  assumes "\<And>r. cr_case_id (f r) = cr_case_id r"
  shows "List.find (\<lambda>r. cr_case_id r = i) (update_where (\<lambda>r. cr_case_id r = j) f rs) =
         (if i = j then map_option f (List.find (\<lambda>r. cr_case_id r = i) rs)
          else List.find (\<lambda>r. cr_case_id r = i) rs)"
  by (induction rs) (auto simp: update_where_def assms)

definition set_row :: "string \<Rightarrow> (CaseRow \<Rightarrow> CaseRow) \<Rightarrow> AppDb \<Rightarrow> AppDb \<Rightarrow> bool" where
  "set_row j f db db' \<longleftrightarrow>
     map cr_case_id (db_cases db') = map cr_case_id (db_cases db) \<and>
     (\<forall>i. row_of db' i = (if i = j then map_option f (row_of db i) else row_of db i)) \<and>
     db_watermark db' = db_watermark db \<and> db_push_locked db' = db_push_locked db"

lemma set_row_row: "set_row j f db db' \<Longrightarrow> row_of db' i = (if i = j then map_option f (row_of db i) else row_of db i)"
  by (simp add: set_row_def)

lemma set_row_frame:
  "set_row j f db db' \<Longrightarrow> map cr_case_id (db_cases db') = map cr_case_id (db_cases db)"
  "set_row j f db db' \<Longrightarrow> db_push_locked db' = db_push_locked db"
  by (simp_all add: set_row_def)

lemma set_row_update:
  assumes "\<And>r. cr_case_id (f r) = cr_case_id r"
    and "db_cases db' = update_where (\<lambda>r. cr_case_id r = j) f (db_cases db)"
    and "db_watermark db' = db_watermark db" "db_push_locked db' = db_push_locked db"
  shows "set_row j f db db'"
  using assms find_update_where[OF assms(1), of _ j "db_cases db"]
  by (auto simp: set_row_def row_of_def update_where_keys)

lemma mark_laws:
  "set_row i (\<lambda>r. r\<lparr>cr_salesforce_id := Some sf, cr_sf_sync_status := ''synced'', cr_sf_sync_attempts := k,
                    cr_sf_sync_last_error := None, cr_updated_at := t\<rparr>) db (mark_synced t i sf k db)"
  "set_row i (\<lambda>r. r\<lparr>cr_sf_sync_attempts := k, cr_sf_sync_last_error := Some e, cr_updated_at := t\<rparr>) db (mark_retry t i k e db)"
  "set_row i (\<lambda>r. r\<lparr>cr_sf_sync_status := ''failed'', cr_sf_sync_attempts := k,
                    cr_sf_sync_last_error := Some e, cr_updated_at := t\<rparr>) db (mark_failed t i k e db)"
  by (rule set_row_update; simp add: mark_synced_def mark_retry_def mark_failed_def)+

section \<open>What a push does to a row\<close>

definition disposed :: "Disposition \<Rightarrow> CaseRow \<Rightarrow> CaseRow \<Rightarrow> bool" where
  "disposed d r r' \<longleftrightarrow>
     cr_case_id r' = cr_case_id r \<and> cr_sf_sync_attempts r' = cr_sf_sync_attempts r + 1 \<and>
     (case d of
        Synced \<Rightarrow> cr_sf_sync_status r' = ''synced'' \<and> cr_salesforce_id r' \<noteq> None
      | Retrying \<Rightarrow> cr_sf_sync_status r' = cr_sf_sync_status r \<and> cr_sf_sync_attempts r' < MAX_ATTEMPTS
      | Failed \<Rightarrow> cr_sf_sync_status r' = ''failed'')"

lemma push_row_effect:
  assumes "push_row create text_of now row (db, s) = (Inr d, (db', s'))" "row_of db (cr_case_id row) = Some row"
  shows "\<exists>f. set_row (cr_case_id row) f db db' \<and> disposed d row (f row)"
proof -
  obtain p where p: "to_payload text_of row = Inr p"
    using assms(1) by (auto simp: push_row_def Let_def split: sum.splits)
  obtain r s1 where c: "create p s = (r, s1)" by fastforce
  show ?thesis
  proof (cases r)
    case (Inr ref)
    then show ?thesis
      using assms(1) p c mark_laws(1)[where i = "cr_case_id row" and sf = "ref_salesforce_id ref" and k = "Suc (cr_sf_sync_attempts row)" and t = "now row" and db = db]
      by (intro exI conjI) (auto simp: push_row_def Let_def disposed_def)
  next
    case (Inl e)
    then obtain a where a: "e = AFM a" using assms(1) p c by (cases e) (auto simp: push_row_def Let_def)
    show ?thesis
    proof (cases "\<exists>m. a = UpstreamUnavailable m \<and> Suc (cr_sf_sync_attempts row) < MAX_ATTEMPTS")
      case True
      then obtain m where m: "a = UpstreamUnavailable m" "Suc (cr_sf_sync_attempts row) < MAX_ATTEMPTS" by blast
      then show ?thesis
        using assms(1) p c Inl a mark_laws(2)[where i = "cr_case_id row" and k = "Suc (cr_sf_sync_attempts row)" and e = m and t = "now row" and db = db]
        by (intro exI conjI) (auto simp: push_row_def Let_def disposed_def)
    next
      case False
      then obtain msg where "d = Failed" "db' = mark_failed (now row) (cr_case_id row) (Suc (cr_sf_sync_attempts row)) msg db"
        using assms(1) p c Inl a by (cases a) (auto simp: push_row_def Let_def)
      then show ?thesis
        using mark_laws(3)[where i = "cr_case_id row" and k = "Suc (cr_sf_sync_attempts row)" and e = msg and t = "now row" and db = db]
        by (intro exI conjI) (auto simp: disposed_def)
    qed
  qed
qed

lemma push_row_error:
  "push_row create text_of now row (db, s) = (Inl e, (db', s')) \<Longrightarrow> db' = db \<and> (\<forall>a. e \<noteq> AFM a)"
  by (auto simp: push_row_def Let_def split: sum.splits prod.splits pyexc.splits AFMException.splits if_splits)
     (auto simp: to_payload_def Let_def split: if_splits)

lemma set_row_wf: "set_row j f db db' \<Longrightarrow> wf_db db \<Longrightarrow> wf_db db'"
  by (simp add: set_row_def wf_db_def)

lemma push_rows_effect:
  assumes "push_rows create text_of now rows (db, s) = (Inr ds, (db', s'))"
    and "distinct (map cr_case_id rows)" "\<forall>r \<in> set rows. row_of db (cr_case_id r) = Some r"
  shows "length ds = length rows \<and>
    map cr_case_id (db_cases db') = map cr_case_id (db_cases db) \<and>
    db_push_locked db' = db_push_locked db \<and>
    (\<forall>i. i \<notin> cr_case_id ` set rows \<longrightarrow> row_of db' i = row_of db i) \<and>
    (\<forall>n < length rows. \<exists>r'. row_of db' (cr_case_id (rows ! n)) = Some r' \<and> disposed (ds ! n) (rows ! n) r')"
  using assms
proof (induction rows arbitrary: db s ds)
  case (Cons row rows)
  obtain d db1 s1 where one: "push_row create text_of now row (db, s) = (Inr d, (db1, s1))"
    using Cons.prems(1) by (auto split: prod.splits sum.splits)
  obtain ds1 where rest: "push_rows create text_of now rows (db1, s1) = (Inr ds1, (db', s'))" "ds = d # ds1"
    using Cons.prems(1) one by (auto split: prod.splits sum.splits)
  obtain f where f: "set_row (cr_case_id row) f db db1" "disposed d row (f row)"
    using push_row_effect[OF one] Cons.prems(3) by auto
  have keep: "\<forall>r \<in> set rows. row_of db1 (cr_case_id r) = Some r"
  proof
    fix r assume r: "r \<in> set rows"
    then have "cr_case_id r \<noteq> cr_case_id row" using Cons.prems(2) by (simp add: image_iff) metis
    then show "row_of db1 (cr_case_id r) = Some r" using set_row_row[OF f(1), of "cr_case_id r"] Cons.prems(3) r by simp
  qed
  have IH: "length ds1 = length rows \<and>
    map cr_case_id (db_cases db') = map cr_case_id (db_cases db1) \<and>
    db_push_locked db' = db_push_locked db1 \<and>
    (\<forall>i. i \<notin> cr_case_id ` set rows \<longrightarrow> row_of db' i = row_of db1 i) \<and>
    (\<forall>n < length rows. \<exists>r'. row_of db' (cr_case_id (rows ! n)) = Some r' \<and> disposed (ds1 ! n) (rows ! n) r')"
    using Cons.IH[OF rest(1) _ keep] Cons.prems(2) by simp
  have first: "row_of db' (cr_case_id row) = Some (f row)"
  proof -
    have "row_of db' (cr_case_id row) = row_of db1 (cr_case_id row)" using IH Cons.prems(2) by simp
    also have "\<dots> = Some (f row)" using set_row_row[OF f(1), of "cr_case_id row"] Cons.prems(3) by simp
    finally show ?thesis .
  qed
  show ?case
    unfolding rest(2)
  proof (intro conjI allI impI)
    fix n assume "n < length (row # rows)"
    then show "\<exists>r'. row_of db' (cr_case_id ((row # rows) ! n)) = Some r' \<and> disposed ((d # ds1) ! n) ((row # rows) ! n) r'"
      using first f(2) IH by (cases n) simp_all
  next
    show "length (d # ds1) = length (row # rows)" using IH by simp
    show "map cr_case_id (db_cases db') = map cr_case_id (db_cases db)"
      "db_push_locked db' = db_push_locked db"
      using IH set_row_frame[OF f(1)] by simp_all
    fix i assume "i \<notin> cr_case_id ` set (row # rows)"
    then show "row_of db' i = row_of db i" using IH set_row_row[OF f(1), of i] by simp
  qed
qed simp

lemma fetch_pending_rows:
  assumes "wf_db db"
  shows "distinct (map cr_case_id (fetch_pending limit db))"
    "r \<in> set (fetch_pending limit db) \<Longrightarrow> row_of db (cr_case_id r) = Some r \<and> cr_sf_sync_status r = ''pending''"
proof -
  let ?sorted = "sort_key cr_created_at (filter (\<lambda>r. cr_sf_sync_status r = ''pending'') (db_cases db))"
  have "distinct (map cr_case_id ?sorted)"
  proof -
    have "distinct (filter (\<lambda>r. cr_sf_sync_status r = ''pending'') (db_cases db))"
      using assms by (simp add: wf_db_def distinct_map)
    moreover have "inj_on cr_case_id (set ?sorted)"
      using assms by (auto simp: wf_db_def distinct_map inj_on_def)
    ultimately show ?thesis by (simp add: distinct_map)
  qed
  then show "distinct (map cr_case_id (fetch_pending limit db))"
    by (simp add: fetch_pending_def flip: take_map)
  assume "r \<in> set (fetch_pending limit db)"
  then have "r \<in> set ?sorted" unfolding fetch_pending_def by (rule in_set_takeD)
  then show "row_of db (cr_case_id r) = Some r \<and> cr_sf_sync_status r = ''pending''"
    using assms by (simp add: row_of_iff)
qed

section \<open>The retry budget\<close>

definition row_budget :: "CaseRow option \<Rightarrow> nat" where
  "row_budget r =
     (case r of None \<Rightarrow> 0 | Some r \<Rightarrow> if cr_sf_sync_status r = ''pending'' then MAX_ATTEMPTS - cr_sf_sync_attempts r else 0)"

text \<open>The attempts the pending cases of the table may still use.\<close>

definition budget :: "AppDb \<Rightarrow> nat" where
  "budget db = (\<Sum>i \<in> set (map cr_case_id (db_cases db)). row_budget (row_of db i))"

definition attempts_ok :: "AppDb \<Rightarrow> bool" where
  "attempts_ok db \<longleftrightarrow>
     (\<forall>r \<in> set (db_cases db). cr_sf_sync_status r = ''pending'' \<longrightarrow> cr_sf_sync_attempts r < MAX_ATTEMPTS)"

lemma disposed_budget:
  assumes "disposed d r r'" "cr_sf_sync_status r = ''pending''" "cr_sf_sync_attempts r < MAX_ATTEMPTS"
  shows "row_budget (Some r') + 1 \<le> row_budget (Some r)"
    "cr_sf_sync_status r' = ''pending'' \<Longrightarrow> cr_sf_sync_attempts r' < MAX_ATTEMPTS"
  using assms by (auto simp: disposed_def row_budget_def split: Disposition.splits)

lemma push_pending_run:
  assumes "push_pending create text_of now limit (db, s) = (Inr smry, (db', s'))" "\<not> db_push_locked db" "wf_db db"
  obtains ds where
    "length ds = length (fetch_pending limit db)"
    "css_attempted smry = length (fetch_pending limit db)" "css_synced smry = count_list ds Synced"
    "css_retrying smry = count_list ds Retrying" "css_failed smry = count_list ds Failed"
    "map cr_case_id (db_cases db') = map cr_case_id (db_cases db)" "\<not> db_push_locked db'"
    "\<And>i. i \<notin> cr_case_id ` set (fetch_pending limit db) \<Longrightarrow> row_of db' i = row_of db i"
    "\<And>n. n < length (fetch_pending limit db) \<Longrightarrow>
       \<exists>r'. row_of db' (cr_case_id (fetch_pending limit db ! n)) = Some r' \<and> disposed (ds ! n) (fetch_pending limit db ! n) r'"
proof -
  let ?db = "db\<lparr>db_push_locked := True\<rparr>"
  have rows: "fetch_pending limit ?db = fetch_pending limit db" by (simp add: fetch_pending_def)
  have row: "row_of ?db = row_of db" by (simp add: row_of_def fun_eq_iff)
  obtain ds db1 where run: "push_rows create text_of now (fetch_pending limit db) (?db, s) = (Inr ds, (db1, s'))"
    and db': "db' = db1\<lparr>db_push_locked := False\<rparr>"
    and smry: "smry = \<lparr>css_attempted = length (fetch_pending limit db), css_synced = count_list ds Synced,
                   css_retrying = count_list ds Retrying, css_failed = count_list ds Failed\<rparr>"
    using assms(1,2)
    by (auto simp: push_pending_def push_pending_locked_def rows Let_def split: prod.splits sum.splits)
  have row': "row_of db' = row_of db1" by (simp add: row_of_def fun_eq_iff db')
  have eff: "length ds = length (fetch_pending limit db) \<and>
    map cr_case_id (db_cases db1) = map cr_case_id (db_cases ?db) \<and>
    db_push_locked db1 = db_push_locked ?db \<and>
    (\<forall>i. i \<notin> cr_case_id ` set (fetch_pending limit db) \<longrightarrow> row_of db1 i = row_of ?db i) \<and>
    (\<forall>n < length (fetch_pending limit db). \<exists>r'. row_of db1 (cr_case_id (fetch_pending limit db ! n)) = Some r' \<and>
        disposed (ds ! n) (fetch_pending limit db ! n) r')"
    using fetch_pending_rows[OF assms(3)] row by (intro push_rows_effect[OF run]) simp_all
  show thesis
    by (rule that[of ds]) (use eff row row' db' smry in simp_all)
qed

section \<open>Properties of the push\<close>

text \<open>C5. A push pass that returns has disposed of every case it picked: the counters add up to the
  number picked (at most the limit), each picked case has one attempt more and is synced with a
  Salesforce id, or failed, or still pending with attempts below the maximum, every other case is
  untouched, and the lock is free again.\<close>

theorem push_pending_outcomes:
  assumes "push_pending create text_of now limit (db, s) = (Inr smry, (db', s'))" "\<not> db_push_locked db" "wf_db db"
  shows "css_attempted smry = css_synced smry + css_retrying smry + css_failed smry \<and> css_attempted smry \<le> limit \<and>
    \<not> db_push_locked db' \<and>
    (\<forall>i. i \<notin> cr_case_id ` set (fetch_pending limit db) \<longrightarrow> row_of db' i = row_of db i) \<and>
    (\<forall>r \<in> set (fetch_pending limit db). \<exists>r'. row_of db' (cr_case_id r) = Some r' \<and>
       cr_sf_sync_attempts r' = cr_sf_sync_attempts r + 1 \<and>
       (cr_sf_sync_status r' = ''synced'' \<and> cr_salesforce_id r' \<noteq> None \<or> cr_sf_sync_status r' = ''failed'' \<or>
        cr_sf_sync_status r' = ''pending'' \<and> cr_sf_sync_attempts r' < MAX_ATTEMPTS))"
proof (rule push_pending_run[OF assms])
  fix ds
  assume run: "length ds = length (fetch_pending limit db)"
    "css_attempted smry = length (fetch_pending limit db)" "css_synced smry = count_list ds Synced"
    "css_retrying smry = count_list ds Retrying" "css_failed smry = count_list ds Failed"
    "\<not> db_push_locked db'"
    "\<And>i. i \<notin> cr_case_id ` set (fetch_pending limit db) \<Longrightarrow> row_of db' i = row_of db i"
    "\<And>n. n < length (fetch_pending limit db) \<Longrightarrow>
       \<exists>r'. row_of db' (cr_case_id (fetch_pending limit db ! n)) = Some r' \<and> disposed (ds ! n) (fetch_pending limit db ! n) r'"
  have count: "count_list ds Synced + count_list ds Retrying + count_list ds Failed = length ds" for ds
  proof (induction ds)
    case (Cons d ds)
    then show ?case by (cases d) simp_all
  qed simp
  have out: "\<exists>r'. row_of db' (cr_case_id r) = Some r' \<and> cr_sf_sync_attempts r' = cr_sf_sync_attempts r + 1 \<and>
       (cr_sf_sync_status r' = ''synced'' \<and> cr_salesforce_id r' \<noteq> None \<or> cr_sf_sync_status r' = ''failed'' \<or>
        cr_sf_sync_status r' = ''pending'' \<and> cr_sf_sync_attempts r' < MAX_ATTEMPTS)"
    if r: "r \<in> set (fetch_pending limit db)" for r
  proof -
    obtain n where n: "n < length (fetch_pending limit db)" "fetch_pending limit db ! n = r"
      using r unfolding in_set_conv_nth by blast
    with run(8)[OF n(1)] obtain r' where r': "row_of db' (cr_case_id r) = Some r'" "disposed (ds ! n) r r'" by auto
    have "cr_sf_sync_status r = ''pending''" using fetch_pending_rows(2)[OF assms(3) r] by simp
    then show ?thesis using r' by (cases "ds ! n") (auto simp: disposed_def)
  qed
  have "length (fetch_pending limit db) \<le> limit" by (simp add: fetch_pending_def)
  then show ?thesis using run(1-7) count[of ds] out by auto
qed

text \<open>What a pass does to the budget: each picked case gives up at least one attempt, every other one keeps its own.\<close>

lemma picked_disposed:
  assumes "wf_db db" "attempts_ok db" "i \<in> cr_case_id ` set (fetch_pending limit db)"
    and "\<And>n. n < length (fetch_pending limit db) \<Longrightarrow>
       \<exists>r'. row_of db' (cr_case_id (fetch_pending limit db ! n)) = Some r' \<and> disposed (ds ! n) (fetch_pending limit db ! n) r'"
  shows "\<exists>r r' d. row_of db i = Some r \<and> row_of db' i = Some r' \<and> disposed d r r' \<and>
      cr_sf_sync_status r = ''pending'' \<and> cr_sf_sync_attempts r < MAX_ATTEMPTS"
proof -
  obtain n where n: "n < length (fetch_pending limit db)" "cr_case_id (fetch_pending limit db ! n) = i"
    using assms(3) unfolding image_iff Bex_def in_set_conv_nth by blast
  note row = fetch_pending_rows(2)[OF assms(1) nth_mem[OF n(1)]]
  then have "fetch_pending limit db ! n \<in> set (db_cases db)" using row_of_iff[OF assms(1)] by blast
  then show ?thesis using assms(4)[OF n(1)] n(2) row assms(2) unfolding attempts_ok_def by auto
qed

lemma attempts_ok_after:
  assumes "wf_db db" "wf_db db'" "attempts_ok db"
    and kept: "\<And>i. i \<notin> P \<Longrightarrow> row_of db' i = row_of db i"
    and picked: "\<And>i. i \<in> P \<Longrightarrow> \<exists>r r' d. row_of db i = Some r \<and> row_of db' i = Some r' \<and> disposed d r r' \<and>
      cr_sf_sync_status r = ''pending'' \<and> cr_sf_sync_attempts r < MAX_ATTEMPTS"
  shows "attempts_ok db'"
proof (unfold attempts_ok_def, intro ballI impI)
  fix r' assume r': "r' \<in> set (db_cases db')" "cr_sf_sync_status r' = ''pending''"
  then have row': "row_of db' (cr_case_id r') = Some r'" using row_of_iff[OF assms(2)] by blast
  show "cr_sf_sync_attempts r' < MAX_ATTEMPTS"
  proof (cases "cr_case_id r' \<in> P")
    case True
    from picked[OF True] row' r'(2) show ?thesis using disposed_budget(2) by auto
  next
    case False
    then have "row_of db (cr_case_id r') = Some r'" using kept row' by simp
    then have "r' \<in> set (db_cases db)" using row_of_iff[OF assms(1)] by blast
    then show ?thesis using assms(3) r'(2) by (simp add: attempts_ok_def)
  qed
qed


lemma push_rows_error:
  "push_rows create text_of now rows st = (Inl e, st') \<Longrightarrow> e \<noteq> AFM a"
proof (induction rows arbitrary: st)
  case (Cons row rows)
  obtain r db1 s1 where one: "push_row create text_of now row st = (r, (db1, s1))" by (metis prod.collapse)
  show ?case
  proof (cases r)
    case (Inl e')
    then have "e' = e" using Cons.prems one by simp
    then show ?thesis using push_row_error[of create text_of now row "fst st" "snd st" e' db1 s1] one Inl by simp
  next
    case (Inr d)
    then have "push_rows create text_of now rows (db1, s1) = (Inl e, st')"
      using Cons.prems one by (auto split: prod.splits sum.splits)
    then show ?thesis by (rule Cons.IH)
  qed
qed simp

text \<open>Single flight: while the lock is taken a push reads and writes nothing; a push that starts
  releases the lock however it ends, and no AFMException escapes it.\<close>

theorem push_single_flight:
  "(db_push_locked db \<longrightarrow> snd (push_pending create text_of now limit (db, s)) = (db, s)) \<and>
   (\<not> db_push_locked db \<longrightarrow> \<not> db_push_locked (fst (snd (push_pending create text_of now limit (db, s))))) \<and>
   (\<forall>a. fst (push_pending create text_of now limit (db, s)) \<noteq> Inl (AFM a))"
proof (intro conjI allI impI)
  fix a
  show "fst (push_pending create text_of now limit (db, s)) \<noteq> Inl (AFM a)"
  proof
    assume "fst (push_pending create text_of now limit (db, s)) = Inl (AFM a)"
    then obtain st st' where "push_rows create text_of now (fetch_pending limit (fst st)) st = (Inl (AFM a), st')"
      by (auto simp: push_pending_def push_pending_locked_def Let_def split: prod.splits sum.splits if_splits)
    then show False using push_rows_error by blast
  qed
qed (auto simp: push_pending_def split: prod.split)

section \<open>Properties of the pull\<close>

lemma apply_records_counts:
  "apply_records now recs (u, n, m) db = ((u', n', m'), db') \<Longrightarrow>
   u' + n' = u + n + length recs \<and>
   m' = (case m of None \<Rightarrow> (if recs = [] then None else Some (Max (rec_system_modstamp ` set recs)))
         | Some t \<Rightarrow> Some (Max (insert t (rec_system_modstamp ` set recs))))"
proof (induction recs arbitrary: u n m db)
  case (Cons rec recs)
  let ?m = "case m of None \<Rightarrow> rec_system_modstamp rec | Some t \<Rightarrow> max t (rec_system_modstamp rec)"
  obtain b db1 where ap: "apply_record (now rec) rec db = (b, db1)" by fastforce
  obtain u1 n1 where rest: "apply_records now recs (u1, n1, Some ?m) db1 = ((u', n', m'), db')" "u1 + n1 = Suc (u + n)"
    using Cons.prems ap by (cases b) (auto simp: Let_def)
  have maxi: "Max (insert (max t x) A) = Max (insert t (insert x A))" if "finite A" for t x :: int and A
    using that by (simp add: insert_commute max.assoc flip: Max_insert2) (cases "A = {}"; simp add: max.assoc)
  show ?case
    using Cons.IH[OF rest(1)] rest(2) by (cases m) (simp_all add: maxi)
qed (auto split: option.split)

text \<open>The pull accounts for every fetched record as updated or unmatched, and its new watermark is the
  largest modification stamp it saw: it stays as it was exactly when nothing was fetched.\<close>

theorem pull_watermark:
  assumes "pull_from_sf modified_since start now limit (db, s) = (Inr smry, (db', s'))"
  shows "\<exists>records. modified_since (read_watermark start db) limit s = (Inr records, s') \<and>
     cps_fetched smry = length records \<and> cps_updated smry + cps_unmatched smry = cps_fetched smry \<and>
     (records = [] \<longrightarrow> cps_watermark smry = None \<and> db' = db) \<and>
     (records \<noteq> [] \<longrightarrow> db_watermark db' = Some (Max (rec_system_modstamp ` set records)) \<and>
        cps_watermark smry = db_watermark db')"
proof -
  obtain records where m: "modified_since (read_watermark start db) limit s = (Inr records, s')"
    using assms by (auto simp: pull_from_sf_def split: prod.splits sum.splits)
  obtain u n mx db1 where ap: "apply_records now records (0, 0, None) db = ((u, n, mx), db1)"
    by (metis prod.collapse)
  have out: "smry = \<lparr>cps_fetched = length records, cps_updated = u, cps_unmatched = n, cps_watermark = mx\<rparr>"
    "db' = (case mx of None \<Rightarrow> db1 | Some m \<Rightarrow> write_watermark m db1)"
    using assms m ap by (auto simp: pull_from_sf_def)
  note counts = apply_records_counts[OF ap]
  have "records = [] \<Longrightarrow> db1 = db" using ap by simp
  then show ?thesis
    using m out counts by (intro exI[of _ records]) (auto simp: write_watermark_def)
qed

text \<open>The documented answer of the query: the records modified after the whole second it names, oldest
  first, at most the limit.\<close>

definition org_modified_since :: "CaseSyncRecord list \<Rightarrow> instant \<Rightarrow> nat \<Rightarrow> CaseSyncRecord list" where
  "org_modified_since org watermark limit =
     take limit (sort_key rec_system_modstamp
       (filter (\<lambda>r. rec_system_modstamp r > soql_seconds watermark * 1000000) org))"

definition pull_of_org ::
  "CaseSyncRecord list \<Rightarrow> instant \<Rightarrow> (CaseSyncRecord \<Rightarrow> instant) \<Rightarrow> nat \<Rightarrow> AppDb \<Rightarrow> (pyexc + CasePullSummary) \<times> AppDb" where
  "pull_of_org org start now limit db =
     (case pull_from_sf (\<lambda>wm lim s. (Inr (org_modified_since org wm lim), s)) start now limit (db, ()) of
        (r, (db', _)) \<Rightarrow> (r, db'))"

text \<open>The pull never comes to rest: once it has fetched a record whose stamp has a fraction of a
  second as the newest one, every later pull against the unchanged org fetches records again (the
  boundary record is read again, its row rewritten), because the query text drops the fraction.\<close>

theorem pull_rereads_boundary:
  assumes "pull_of_org org start now limit db = (Inr smry, db')" "cps_watermark smry = Some m" "m mod 1000000 \<noteq> 0"
  shows "\<exists>smry' db''. pull_of_org org start' now' limit db' = (Inr smry', db'') \<and> 0 < cps_fetched smry'"
proof -
  obtain s' where p: "pull_from_sf (\<lambda>wm lim s. (Inr (org_modified_since org wm lim), s)) start now limit (db, ()) = (Inr smry, (db', s'))"
    using assms(1) by (auto simp: pull_of_org_def split: prod.splits)
  obtain records where r: "records = org_modified_since org (read_watermark start db) limit" "records \<noteq> []"
    "db_watermark db' = Some m" "m = Max (rec_system_modstamp ` set records)"
    using pull_watermark[OF p] assms(2) by auto
  have "m \<in> rec_system_modstamp ` set records" unfolding r(4) using r(2) by (intro Max_in) auto
  then obtain b where b: "b \<in> set records" "rec_system_modstamp b = m" by auto
  have "limit \<noteq> 0" using r(1,2) by (auto simp: org_modified_since_def)
  then have org: "b \<in> set org" "0 < limit"
    using b(1) unfolding r(1) org_modified_since_def by (auto dest: in_set_takeD)
  have "soql_seconds m * 1000000 = m - m mod 1000000"
    by (simp add: soql_seconds_def minus_mod_eq_div_mult)
  moreover have "0 \<le> m mod 1000000" by simp
  ultimately have "soql_seconds m * 1000000 < rec_system_modstamp b" using assms(3) b(2) by linarith
  then have "b \<in> set (sort_key rec_system_modstamp (filter (\<lambda>r. rec_system_modstamp r > soql_seconds m * 1000000) org))"
    using org(1) by simp
  then have "sort_key rec_system_modstamp (filter (\<lambda>r. rec_system_modstamp r > soql_seconds m * 1000000) org) \<noteq> []"
    by (metis empty_iff empty_set)
  then have ne: "org_modified_since org m limit \<noteq> []"
    unfolding org_modified_since_def using org(2) by simp
  obtain u n mx db1 where "apply_records now' (org_modified_since org (read_watermark start' db') limit) (0, 0, None) db' =
      ((u, n, mx), db1)" by (metis prod.collapse)
  then obtain smry' db'' where q: "pull_from_sf (\<lambda>wm lim s. (Inr (org_modified_since org wm lim), s)) start' now' limit (db', ()) =
      (Inr smry', (db'', ()))"
    by (simp add: pull_from_sf_def)
  from pull_watermark[OF q] r(3) ne have "0 < cps_fetched smry'" by (auto simp: read_watermark_def)
  then show ?thesis using q by (auto simp: pull_of_org_def)
qed

text \<open>What a matched record changes: status, resolution time and update time come from Salesforce; the
  severity, summary, justification and runbook list change only when Salesforce has a value; an already
  known Salesforce id stays. No other field changes.\<close>

lemma apply_keeps_local_values:
  "let r' = apply_to_row now rec r in
     cr_status r' = rec_status rec \<and> cr_resolved_at r' = rec_resolved_at rec \<and> cr_updated_at r' = now \<and>
     cr_severity r' = (case rec_severity rec of None \<Rightarrow> cr_severity r | Some s \<Rightarrow> s) \<and>
     (rec_summary rec = None \<longrightarrow> cr_summary r' = cr_summary r) \<and>
     (rec_severity_justification rec = None \<longrightarrow> cr_severity_justification r' = cr_severity_justification r) \<and>
     (rec_runbook_refs rec = [] \<longrightarrow> cr_runbook_refs r' = cr_runbook_refs r) \<and>
     (cr_salesforce_id r \<noteq> None \<longrightarrow> cr_salesforce_id r' = cr_salesforce_id r) \<and>
     cr_case_id r' = cr_case_id r \<and> cr_sf_sync_status r' = cr_sf_sync_status r \<and>
     cr_sf_sync_attempts r' = cr_sf_sync_attempts r \<and> cr_created_at r' = cr_created_at r \<and>
     cr_flight_id r' = cr_flight_id r \<and> cr_site_icao r' = cr_site_icao r \<and> cr_case_type r' = cr_case_type r \<and>
     cr_detection_facts r' = cr_detection_facts r \<and> cr_customer_region r' = cr_customer_region r"
  by (auto simp: Let_def apply_to_row_def coalesce_def)

section \<open>Error classification\<close>

text \<open>The create's error translation is the one the push expects: with a live session and a known
  record type, an error answer that is neither a 401 nor a duplicate parks the case as failed exactly
  for a status from 400 to 499, and otherwise leaves it pending until the attempts are used up.\<close>

theorem create_error_disposition:
  assumes "sf_client st = Some c" "sf_record_type_id st = Some rt" "cr_customer_region row \<in> {''west'', ''east'', ''all''}"
    and "\<And>fields. sr_create rest c fields x = (Inl (SFError err), x')"
    and "\<not> is_duplicate_external_id err" "se_status err \<noteq> Some 401"
  shows "fst (push_row (create_case cfg rest) text_of now row (db, (st, x))) =
     Inr (if (\<exists>n. se_status err = Some n \<and> 400 \<le> n \<and> n < 500) \<or> cr_sf_sync_attempts row + 1 \<ge> MAX_ATTEMPTS
          then Failed else Retrying)"
proof -
  obtain p where p: "to_payload text_of row = Inr p"
    using assms(3) by (simp add: to_payload_def Let_def)
  then have region: "\<exists>v. map_option Some (dget REGION_TO_SF (cr_customer_region row)) = Some (Some v)"
    and cr: "ci_customer_region p = Some (cr_customer_region row)"
    using assms(3) by (auto simp: to_payload_def Let_def REGION_TO_SF_def split: if_splits)
  obtain fields where f: "to_sf_fields cfg rest p (st, x) = (Inr fields, (st, x))"
    using region cr assms(2) by (auto simp: to_sf_fields_def case_record_type_def sf_bind_def sf_return_def)
  have "with_session_retry cfg rest (sf_bind (get_client cfg rest) (\<lambda>c. sf_rest (sr_create rest c fields))) (st, x) =
      (Inl (SFError err), (st, x'))"
    using assms(1,4,6) by (simp add: with_session_retry_def sf_bind_def get_client_def sf_rest_def session_expired_def)
  then have "create_case cfg rest p (st, x) =
      (Inl (AFM (translate_sf_error err ''Salesforce Case create failed'')), (st, x'))"
    using f assms(5) by (simp add: create_case_def sf_bind_def)
  then show ?thesis
    using p assms(6) by (auto simp: push_row_def Let_def translate_sf_error_def split: option.split)
qed

text \<open>A reader of a SOQL text literal, from just after the opening quote.\<close>

fun read_literal :: "string \<Rightarrow> (string \<times> string) option" where
  "read_literal [] = None"
| "read_literal (c # cs) =
     (if c = CHR 0x27 then Some ([], cs)
      else if c = CHR 0x5C then
        (case cs of [] \<Rightarrow> None | d # ds \<Rightarrow> map_option (\<lambda>(s, r). (d # s, r)) (read_literal ds))
      else map_option (\<lambda>(s, r). (c # s, r)) (read_literal cs))"

text \<open>The escaping of an external id is faithful: whatever the id holds, the query's literal reads
  back as exactly that id and ends at its own closing quote.\<close>

theorem soql_escape_roundtrip: "read_literal (soql_escape s @ [CHR 0x27] @ rest) = Some (s, rest)"
  by (induction s) auto

text \<open>The value maps between AFM and Salesforce are inverse to each other on regions and on the
  severities low, medium and high; critical comes back as high.\<close>

theorem sf_maps_roundtrip:
  "(\<forall>r s. dget REGION_TO_SF r = Some s \<longleftrightarrow> dget REGION_FROM_SF s = Some r) \<and>
   map (\<lambda>sev. Option.bind (dget SEVERITY_TO_PRIORITY sev) (dget SEVERITY_FROM_SF)) [''low'', ''medium'', ''high'', ''critical''] =
     [Some ''low'', Some ''medium'', Some ''high'', Some ''high'']"
  by (auto simp: REGION_TO_SF_def REGION_FROM_SF_def SEVERITY_TO_PRIORITY_def SEVERITY_FROM_SF_def split: if_splits)

section \<open>Worked instances\<close>

definition demo_row :: "string \<Rightarrow> nat \<Rightarrow> instant \<Rightarrow> CaseRow" where
  "demo_row i attempts t =
     \<lparr>cr_case_id = i, cr_salesforce_id = None, cr_flight_id = ''a1'', cr_site_icao = ''KSEA'',
      cr_customer_region = ''west'', cr_case_type = ''delay'', cr_status = ''open'', cr_severity = ''high'',
      cr_summary = None, cr_severity_justification = None, cr_detection_facts = [], cr_runbook_refs = [],
      cr_created_at = t, cr_updated_at = t, cr_resolved_at = None, cr_sf_sync_status = ''pending'',
      cr_sf_sync_attempts = attempts, cr_sf_sync_last_error = None\<rparr>"

definition demo_db :: "CaseRow list \<Rightarrow> AppDb" where
  "demo_db rows = \<lparr>db_cases = rows, db_timeline = [], db_watermark = None, db_push_locked = False\<rparr>"

text \<open>A Salesforce whose creates answer from a list.\<close>

definition scripted :: "CaseCreateInput \<Rightarrow> (pyexc + string) list \<Rightarrow> (pyexc + SalesforceCaseRef) \<times> (pyexc + string) list" where
  "scripted p s =
     (map_sum id (\<lambda>i. \<lparr>ref_salesforce_id = i, ref_external_id = ci_external_id p\<rparr>) (hd s), tl s)"

definition demo_cases :: AppDb where
  "demo_cases = demo_db [demo_row ''C1'' 0 1, demo_row ''C2'' 4 2, demo_row ''C3'' 0 3]"

definition demo_script :: "(pyexc + string) list" where
  "demo_script = [Inl (AFM (UpstreamUnavailable ''u'')), Inl (AFM (UpstreamUnavailable ''u'')), Inr ''S3'']"

lemma demo_push:
  "\<exists>db' s'. push_pending scripted (\<lambda>_. []) (\<lambda>_. 9) 10 (demo_cases, demo_script) =
     (Inr \<lparr>css_attempted = 3, css_synced = 1, css_retrying = 1, css_failed = 1\<rparr>, (db', s'))"
proof -
  have "fst (push_pending scripted (\<lambda>_. []) (\<lambda>_. 9) 10 (demo_cases, demo_script)) =
     Inr \<lparr>css_attempted = 3, css_synced = 1, css_retrying = 1, css_failed = 1\<rparr>" by code_simp
  then show ?thesis by (metis prod.collapse)
qed

lemma demo_cases_ok: "wf_db demo_cases" "attempts_ok demo_cases" "\<not> db_push_locked demo_cases"
  by code_simp+

lemma push_pending_outcomes_witness: "(3::nat) = 1 + 1 + 1 \<and> (3::nat) \<le> 10"
  using demo_push push_pending_outcomes[OF _ demo_cases_ok(3,1)] by fastforce


definition demo_record :: "string \<Rightarrow> instant \<Rightarrow> CaseSyncRecord" where
  "demo_record i t =
     \<lparr>rec_salesforce_id = ''S'', rec_external_id = i, rec_status = ''resolved'', rec_severity = None,
      rec_summary = None, rec_severity_justification = None, rec_runbook_refs = [], rec_resolved_at = Some t,
      rec_system_modstamp = t\<rparr>"

lemma demo_pull:
  "\<exists>db'. pull_of_org [demo_record ''C1'' 5500000] 0 (\<lambda>_. 9) 200 (demo_cases\<lparr>db_watermark := Some 0\<rparr>) =
     (Inr \<lparr>cps_fetched = 1, cps_updated = 1, cps_unmatched = 0, cps_watermark = Some 5500000\<rparr>, db')"
proof -
  have "fst (pull_of_org [demo_record ''C1'' 5500000] 0 (\<lambda>_. 9) 200 (demo_cases\<lparr>db_watermark := Some 0\<rparr>)) =
     Inr \<lparr>cps_fetched = 1, cps_updated = 1, cps_unmatched = 0, cps_watermark = Some 5500000\<rparr>" by code_simp
  then show ?thesis by (metis prod.collapse)
qed

lemma push_single_flight_witness:
  "snd (push_pending scripted (\<lambda>_. []) (\<lambda>_. 9) 10 (demo_cases\<lparr>db_push_locked := True\<rparr>, demo_script)) =
     (demo_cases\<lparr>db_push_locked := True\<rparr>, demo_script) \<and>
   \<not> db_push_locked (fst (snd (push_pending scripted (\<lambda>_. []) (\<lambda>_. 9) 10 (demo_cases, demo_script))))"
  using push_single_flight[of "demo_cases\<lparr>db_push_locked := True\<rparr>" scripted "\<lambda>_. []" "\<lambda>_. 9" 10 demo_script]
    push_single_flight[of demo_cases scripted "\<lambda>_. []" "\<lambda>_. 9" 10 demo_script]
  by (simp add: demo_cases_def demo_db_def)

lemma pull_rereads_boundary_witness:
  "\<exists>db' smry' db''. pull_of_org [demo_record ''C1'' 5500000] 0 (\<lambda>_. 9) 200 db' = (Inr smry', db'') \<and> 0 < cps_fetched smry'"
  using demo_pull pull_rereads_boundary[where start' = 0 and now' = "\<lambda>_. 9"] by fastforce

lemma pull_watermark_witness:
  "\<exists>db' :: AppDb. db_watermark db' = Some (Max {5500000})"
proof -
  obtain db' where "pull_of_org [demo_record ''C1'' 5500000] 0 (\<lambda>_. 9) 200 (demo_cases\<lparr>db_watermark := Some 0\<rparr>) =
     (Inr \<lparr>cps_fetched = 1, cps_updated = 1, cps_unmatched = 0, cps_watermark = Some 5500000\<rparr>, db')"
    using demo_pull by blast
  then obtain s' where "pull_from_sf (\<lambda>wm lim s. (Inr (org_modified_since [demo_record ''C1'' 5500000] wm lim), s)) 0 (\<lambda>_. 9) 200
      (demo_cases\<lparr>db_watermark := Some 0\<rparr>, ()) =
     (Inr \<lparr>cps_fetched = 1, cps_updated = 1, cps_unmatched = 0, cps_watermark = Some 5500000\<rparr>, (db', s'))"
    by (auto simp: pull_of_org_def split: prod.splits)
  from pull_watermark[OF this] have "db_watermark db' = Some 5500000" by auto
  then show ?thesis by (intro exI[of _ db']) simp
qed

text \<open>A service whose session and record type are known, and whose creates are refused with one status.\<close>

definition refusing :: "int \<Rightarrow> unit sfrest" where
  "refusing code =
     \<lparr>sr_token = (\<lambda>_ _ _ x. (TokenBody (Some ''t'') None, x)),
      sr_query = (\<lambda>_ _ x. (Inl (SFError \<lparr>se_status = Some code, se_error_codes = None\<rparr>), x)),
      sr_create = (\<lambda>_ _ x. (Inl (SFError \<lparr>se_status = Some code, se_error_codes = None\<rparr>), x)),
      sr_update = (\<lambda>_ _ _ x. (Inr (), x)), sr_delete = (\<lambda>_ _ x. (Inr (), x)),
      sr_modified_since = (\<lambda>_ _ _ _ x. (Inr [], x))\<rparr>"

definition demo_settings :: SfSettings where
  "demo_settings = \<lparr>ss_instance_url = ''u'', ss_client_id = ''i'', ss_client_secret = ''s'', ss_record_type_dev_name = ''R''\<rparr>"

definition warm :: SfState where
  "warm = \<lparr>sf_client = Some \<lparr>sess_instance = ''u'', sess_token = ''t''\<rparr>, sf_record_type_id = Some ''RT''\<rparr>"

lemma create_error_disposition_witness:
  "fst (push_row (create_case demo_settings (refusing 400)) (\<lambda>_. []) (\<lambda>_. 9) (demo_row ''C1'' 0 1) (demo_cases, (warm, ()))) = Inr Failed \<and>
   fst (push_row (create_case demo_settings (refusing 503)) (\<lambda>_. []) (\<lambda>_. 9) (demo_row ''C1'' 0 1) (demo_cases, (warm, ()))) = Inr Retrying"
  using create_error_disposition[of warm "\<lparr>sess_instance = ''u'', sess_token = ''t''\<rparr>" "''RT''" "demo_row ''C1'' 0 1"
      "refusing 400" "()" "\<lparr>se_status = Some 400, se_error_codes = None\<rparr>" "()" demo_settings "\<lambda>_. []" "\<lambda>_. 9" demo_cases]
    create_error_disposition[of warm "\<lparr>sess_instance = ''u'', sess_token = ''t''\<rparr>" "''RT''" "demo_row ''C1'' 0 1"
      "refusing 503" "()" "\<lparr>se_status = Some 503, se_error_codes = None\<rparr>" "()" demo_settings "\<lambda>_. []" "\<lambda>_. 9" demo_cases]
  by (simp add: warm_def refusing_def demo_row_def is_duplicate_external_id_def MAX_ATTEMPTS_def)

text \<open>An error of the record-type lookup is not translated: with a cold service and a Salesforce that
  answers 503, the push ends in the raw SalesforceError at its first case, no attempt is counted and no
  case is touched, so the retry limit never takes effect.\<close>

theorem record_type_error_aborts_push:
  "push_pending (create_case demo_settings (refusing 503)) (\<lambda>_. []) (\<lambda>_. 9) 50
     (demo_cases, (\<lparr>sf_client = None, sf_record_type_id = None\<rparr>, ())) =
   (Inl (SFError \<lparr>se_status = Some 503, se_error_codes = None\<rparr>),
    (demo_cases, (\<lparr>sf_client = Some \<lparr>sess_instance = ''u'', sess_token = ''t''\<rparr>, sf_record_type_id = None\<rparr>, ())))"
  by code_simp

end
