(* ===== verification/CasePaging.thy ===== *)
theory CasePaging
  imports Reconcile CaseSync "HOL-Library.Multiset"
begin

text \<open>
  The two halves of the case snapshot put together: the server's page (CaseSync.list_for_sync, an
  updated-at cursor compared strictly) behind the client's drain loop
  (ApiReaders.fetch_cases_for_sync). With distinct update instants the drain returns every row past
  the cursor once, in order; rows that share one instant are cut at a page boundary, and the case
  reconcile then deletes them from the tenant.
\<close>

text \<open>A client whose page request is answered by the service over an unchanging table.\<close>

definition serves :: "'w afm \<Rightarrow> (json \<Rightarrow> string) \<Rightarrow> string option \<Rightarrow> AppDb \<Rightarrow> bool" where
  "serves client text_of url db \<longleftrightarrow>
     (\<forall>n c w. am_cases_page client n c w = (Inr (list_for_sync text_of url c n db), w))"

lemma served_page:
  "serves client text_of url db \<Longrightarrow>
   get_cases_page client n c w = (Inr (list_for_sync text_of url c n db), w)"
  by (simp add: serves_def get_cases_page_def transient_retry_def numeral_2_eq_2)

definition sync_order :: "AppDb \<Rightarrow> CaseRow list" where
  "sync_order db = sort_key (\<lambda>r. (cr_updated_at r, cr_case_id r)) (db_cases db)"

lemma set_sync_order [simp]: "set (sync_order db) = set (db_cases db)"
  by (simp add: sync_order_def)

lemma sync_order_sorted: "sorted (map cr_updated_at (sync_order db))"
proof -
  have "sorted_wrt (\<lambda>a b. (cr_updated_at a, cr_case_id a) \<le> (cr_updated_at b, cr_case_id b)) (sync_order db)"
    using sorted_sort_key[of "\<lambda>r. (cr_updated_at r, cr_case_id r)" "db_cases db"]
    by (simp add: sync_order_def sorted_wrt_map)
  then show ?thesis
    by (auto simp: sorted_wrt_map intro: sorted_wrt_mono_rel[rotated])
qed

lemma fetch_for_sync_take:
  "fetch_for_sync since n db = take n (filter (updated_after since) (sync_order db))"
  by (simp add: fetch_for_sync_def sync_order_def filter_sort)

lemma page_items:
  "cfp_items (list_for_sync text_of url c n db) =
     map (row_to_case_for_sync text_of url) (take n (filter (updated_after c) (sync_order db)))"
  by (simp add: list_for_sync_def fetch_for_sync_take Let_def)

lemma updated_at_of_item [simp]: "cfs_updated_at (row_to_case_for_sync text_of url r) = cr_updated_at r"
  "cfs_case_id (row_to_case_for_sync text_of url r) = cr_case_id r"
  by (simp_all add: row_to_case_for_sync_def)

lemma max_by_sorted_last:
  assumes "sorted (map f xs)" "xs \<noteq> []"
  shows "map_option f (max_by f xs) = Some (f (last xs))"
proof -
  obtain m where m: "max_by f xs = Some m" using assms(2) by (metis max_by_None not_None_eq)
  have "f m \<le> f (last xs)"
  proof -
    obtain i where "i < length xs" "xs ! i = m" using max_by_Some(1)[OF m] by (auto simp: in_set_conv_nth)
    moreover have "last xs = xs ! (length xs - 1)" using assms(2) by (rule last_conv_nth)
    ultimately show ?thesis using sorted_nth_mono[OF assms(1), of i "length xs - 1"] by simp
  qed
  moreover have "f (last xs) \<le> f m" using max_by_Some(2)[OF m] assms(2) by simp
  ultimately show ?thesis using m by simp
qed

lemma page_cursor:
  assumes "take n (filter (updated_after c) (sync_order db)) = page" "page \<noteq> []"
  shows "cfp_next_cursor (list_for_sync text_of url c n db) = Some (cr_updated_at (last page))"
proof -
  have "sorted (map cr_updated_at page)"
    using sync_order_sorted[of db] unfolding assms(1)[symmetric]
    by (metis sorted_filter sorted_wrt_take take_map)
  then have "map_option cfs_updated_at (max_by cfs_updated_at (map (row_to_case_for_sync text_of url) page)) =
      Some (cr_updated_at (last page))"
    using max_by_sorted_last[of cfs_updated_at "map (row_to_case_for_sync text_of url) page"] assms(2)
    by (simp add: last_map comp_def)
  then show ?thesis using page_items[of text_of url c n db] assms(1) by (simp add: list_for_sync_def Let_def)
qed

lemma page_empty_cursor:
  "filter (updated_after c) (sync_order db) = [] \<Longrightarrow> cfp_next_cursor (list_for_sync text_of url c n db) = None"
  using page_items[of text_of url c n db] by (simp add: list_for_sync_def Let_def)

lemma page_truncated:
  "cfp_truncated (list_for_sync text_of url c n db) \<longleftrightarrow> n \<le> length (filter (updated_after c) (sync_order db))"
  by (simp add: list_for_sync_def Let_def fetch_for_sync_take)

text \<open>In a strictly increasing list, what follows the n-th element is what is greater than it.\<close>

lemma filter_after_nth:
  fixes f :: "'a \<Rightarrow> 't::linorder"
  assumes "sorted (map f ys)" "distinct (map f ys)" "n < length ys"
  shows "filter (\<lambda>y. f (ys ! n) < f y) ys = drop (Suc n) ys"
proof -
  have before: "f y \<le> f (ys ! n)" if y: "y \<in> set (take (Suc n) ys)" for y
  proof -
    obtain i where "i < Suc n" "i < length ys" "ys ! i = y" using y by (auto simp: in_set_conv_nth)
    then show ?thesis using sorted_nth_mono[OF assms(1), of i n] assms(3) by simp
  qed
  have after: "f (ys ! n) < f y" if y: "y \<in> set (drop (Suc n) ys)" for y
  proof -
    obtain j where "j < length ys - Suc n" "ys ! (Suc n + j) = y" using y by (auto simp: in_set_conv_nth)
    then obtain i where i: "n < i" "i < length ys" "ys ! i = y" by (metis add.commute add_Suc_right less_add_Suc2 less_diff_conv)
    then have "f (ys ! n) \<le> f y" using sorted_nth_mono[OF assms(1), of n i] by simp
    moreover have "f (ys ! n) \<noteq> f y"
      using assms(2,3) i by (metis length_map less_irrefl nth_eq_iff_index_eq nth_map)
    ultimately show ?thesis by simp
  qed
  have "filter (\<lambda>y. f (ys ! n) < f y) (take (Suc n) ys @ drop (Suc n) ys) = drop (Suc n) ys"
    unfolding filter_append using before after by (simp add: filter_empty_conv filter_id_conv not_less[symmetric])
  then show ?thesis by simp
qed

lemma rest_after_page:
  assumes rest: "rest = filter (updated_after c) (sync_order db)" and d: "distinct (map cr_updated_at rest)"
    and n: "0 < n" "n \<le> length rest"
  shows "filter (updated_after (Some (cr_updated_at (rest ! (n - 1))))) (sync_order db) = drop n rest"
proof -
  let ?x = "rest ! (n - 1)"
  have x: "?x \<in> set rest" using n by simp
  have "filter (updated_after (Some (cr_updated_at ?x))) (sync_order db) =
        filter (\<lambda>r. cr_updated_at ?x < cr_updated_at r) rest"
    unfolding rest filter_filter
    using x unfolding rest by (intro filter_cong) (auto simp: updated_after_def split: option.splits)
  also have "\<dots> = drop n rest"
    using filter_after_nth[of cr_updated_at rest "n - 1"] n d sync_order_sorted[of db]
    by (simp add: rest sorted_filter)
  finally show ?thesis .
qed

section \<open>Properties\<close>

lemma drain_complete:
  assumes srv: "serves client text_of url db" and n: "0 < n"
  shows "rest = filter (updated_after c) (sync_order db) \<Longrightarrow> distinct (map cr_updated_at rest) \<Longrightarrow> length rest < fuel \<Longrightarrow>
         drain_cases client n fuel items c w =
           Some (Inr (items @ map (row_to_case_for_sync text_of url) rest,
                      if rest = [] then c else Some (cr_updated_at (last rest))), w)"
proof (induction fuel arbitrary: rest c items)
  case (Suc fuel)
  note rest = Suc.prems(1)
  show ?case
  proof (cases "n \<le> length rest")
    case False
    then have page: "take n rest = rest" by simp
    then show ?thesis
      using False rest served_page[OF srv] page_truncated[of text_of url c n db] page_items[of text_of url c n db]
        page_cursor[of n c db rest text_of url] page_empty_cursor[of c db text_of url n]
      by (cases "rest = []") (simp_all add: Let_def)
  next
    case True
    with n have ne: "take n rest \<noteq> []" by auto
    have last: "last (take n rest) = rest ! (n - 1)" using True n ne by (simp add: last_conv_nth min_def)
    have more: "filter (updated_after (Some (cr_updated_at (rest ! (n - 1))))) (sync_order db) = drop n rest"
      using rest_after_page[OF rest Suc.prems(2) n True] .
    have "drain_cases client n (Suc fuel) items c w =
          drain_cases client n fuel (items @ map (row_to_case_for_sync text_of url) (take n rest))
            (Some (cr_updated_at (rest ! (n - 1)))) w"
      using True rest served_page[OF srv] page_truncated[of text_of url c n db] page_items[of text_of url c n db]
        page_cursor[of n c db "take n rest" text_of url] ne last by (simp add: Let_def)
    also have "\<dots> = Some (Inr ((items @ map (row_to_case_for_sync text_of url) (take n rest))
            @ map (row_to_case_for_sync text_of url) (drop n rest),
          if drop n rest = [] then Some (cr_updated_at (rest ! (n - 1))) else Some (cr_updated_at (last (drop n rest)))), w)"
    proof (rule Suc.IH)
      show "drop n rest = filter (updated_after (Some (cr_updated_at (rest ! (n - 1))))) (sync_order db)"
        using more by (rule sym)
      show "distinct (map cr_updated_at (drop n rest))" using Suc.prems(2) by (simp add: drop_map[symmetric])
      show "length (drop n rest) < fuel" using Suc.prems(3) True n by simp
    qed
    moreover have "drop n rest = [] \<Longrightarrow> last rest = rest ! (n - 1)"
      using True ne by (metis append_take_drop_id last append.right_neutral)
    moreover have "drop n rest \<noteq> [] \<Longrightarrow> last (drop n rest) = last rest" by (simp add: last_drop)
    ultimately show ?thesis using ne by (auto simp flip: map_append)
  qed
qed simp

text \<open>C20. When no two rows past the cursor share an update instant, the drain of the case snapshot
  ends, returns every such row exactly once in update order, and its cursor is the newest update
  instant seen; a fuel above the number of rows is enough.\<close>

theorem case_snapshot_complete:
  assumes "serves client text_of url db"
    and "distinct (map cr_updated_at (filter (updated_after since) (db_cases db)))"
    and "length (filter (updated_after since) (db_cases db)) < fuel"
  shows "fetch_cases_for_sync client fuel since w =
     Some (Inr (map (row_to_case_for_sync text_of url)
                  (sort_key cr_updated_at (filter (updated_after since) (db_cases db))),
                case max_by cr_updated_at (filter (updated_after since) (db_cases db)) of
                  None \<Rightarrow> since | Some r \<Rightarrow> Some (cr_updated_at r)), w)"
proof -
  let ?P = "updated_after since" and ?R = "filter (updated_after since) (sync_order db)"
  have perm: "mset ?R = mset (filter ?P (db_cases db))" by (simp add: sync_order_def)
  have sorted: "sorted (map cr_updated_at ?R)" by (rule sorted_filter[OF sync_order_sorted])
  have dist: "distinct (map cr_updated_at ?R)"
    using assms(2) perm by (metis mset_map mset_eq_imp_distinct_iff)
  have "inj_on cr_updated_at (set (filter ?P (db_cases db)))" using assms(2) by (simp only: distinct_map)
  from sort_key_inj_key_eq[OF perm[symmetric] this sorted]
  have order: "sort_key cr_updated_at (filter ?P (db_cases db)) = ?R" .
  have cursor: "(if ?R = [] then since else Some (cr_updated_at (last ?R))) =
      (case max_by cr_updated_at (filter ?P (db_cases db)) of None \<Rightarrow> since | Some r \<Rightarrow> Some (cr_updated_at r))"
  proof (cases "max_by cr_updated_at (filter ?P (db_cases db))")
    case None
    then have "filter ?P (db_cases db) = []" by simp
    with perm have "?R = []" by (metis mset_zero_iff)
    with None show ?thesis by (metis option.case(1))
  next
    case (Some m)
    note m = max_by_Some[OF Some]
    have same: "set ?R = set (filter ?P (db_cases db))" using perm by (rule mset_eq_setD)
    then have ne: "?R \<noteq> []" using m(1) by (metis empty_iff empty_set)
    have "cr_updated_at (last ?R) \<le> cr_updated_at m" using m(2) last_in_set[OF ne] same by blast
    moreover obtain k where k: "max_by cr_updated_at ?R = Some k" using ne by (metis max_by_None not_None_eq)
    moreover have "cr_updated_at m \<le> cr_updated_at k" using max_by_Some(2)[OF k] m(1) same by blast
    ultimately have "cr_updated_at (last ?R) = cr_updated_at m"
      using max_by_sorted_last[OF sorted ne] by simp
    with ne Some show ?thesis by simp
  qed
  have "length ?R < fuel" using assms(3) perm by (metis size_mset)
  then show ?thesis
    using drain_complete[OF assms(1), of 500 ?R since fuel "[]" w] dist
    by (simp add: fetch_cases_for_sync_def order cursor)
qed

section \<open>Rows that share an update instant\<close>

lemma tied_drain:
  assumes srv: "serves client text_of url db" and tied: "\<forall>r \<in> set (db_cases db). cr_updated_at r = t"
    and n: "0 < n" "n \<le> length (db_cases db)" and fuel: "2 \<le> fuel"
  shows "drain_cases client n fuel [] None w =
    Some (Inr (map (row_to_case_for_sync text_of url) (take n (sync_order db)), Some t), w)"
proof -
  obtain f where f: "fuel = Suc (Suc f)" using fuel by (metis add_2_eq_Suc le_Suc_ex)
  have all: "filter (updated_after None) (sync_order db) = sync_order db"
    by (simp add: updated_after_def)
  have none: "filter (updated_after (Some t)) (sync_order db) = []"
    using tied by (simp add: filter_empty_conv updated_after_def)
  have len: "n \<le> length (sync_order db)" using n by (simp add: sync_order_def)
  have ne: "take n (sync_order db) \<noteq> []" using n len by auto
  have "last (take n (sync_order db)) \<in> set (db_cases db)"
    using last_in_set[OF ne] set_take_subset by force
  then have t: "cr_updated_at (last (take n (sync_order db))) = t" using tied by blast
  have first: "cfp_truncated (list_for_sync text_of url None n db)"
      "cfp_next_cursor (list_for_sync text_of url None n db) = Some t"
      "cfp_items (list_for_sync text_of url None n db) = map (row_to_case_for_sync text_of url) (take n (sync_order db))"
    using len t page_cursor[where c = None and n = n and db = db and text_of = text_of and url = url, OF _ ne]
    by (simp_all add: page_truncated page_items all)
  have second: "\<not> cfp_truncated (list_for_sync text_of url (Some t) n db)"
      "cfp_next_cursor (list_for_sync text_of url (Some t) n db) = None"
      "cfp_items (list_for_sync text_of url (Some t) n db) = []"
    using n by (simp_all add: page_truncated page_items page_empty_cursor none)
  show ?thesis by (simp add: f served_page[OF srv] first second)
qed

lemma set_minus_take:
  assumes "distinct xs"
  shows "set xs - set (take n xs) = set (drop n xs)"
proof -
  have "distinct (take n xs @ drop n xs)" using assms by simp
  then have "set (take n xs) \<inter> set (drop n xs) = {}" by (simp only: distinct_append)
  moreover have "set xs = set (take n xs) \<union> set (drop n xs)" by (metis append_take_drop_id set_append)
  ultimately show ?thesis by blast
qed

lemma sync_order_ids: "wf_db db \<Longrightarrow> distinct (map cr_case_id (sync_order db))"
  by (simp add: wf_db_def distinct_map sync_order_def)

lemma reconcile_cases_run:
  assumes "fetch_cases_for_sync client fuel None w = Some (Inr (items, c), w0)"
    and "remdups (map cfs_case_id items) = keep" "keep \<noteq> []"
    and "list_case_pks api fw fuel w0 = Some (Inr tenant, w1)"
    and "reconcile_cases client api fw fuel w = Some (Inr r, w2)"
  shows "\<exists>batch. delete_case_batch api fw (take CASE_RECONCILE_DELETE_CAP (sorted_orphans keep tenant)) w1 = (Inr batch, w2) \<and>
    crr_deleted r = succeeded batch \<and> crr_pg_cases r = length keep"
  using assms by (auto simp: reconcile_cases_def iot_laws Let_def)

text \<open>C35. Cases that share one update instant (a bulk UPDATE stamps one NOW()) are cut at the page
  boundary: of such a table the drain returns one page of 500, and the case reconcile takes the rest
  for orphans and deletes these live cases from the tenant.\<close>

theorem tied_cases_evicted:
  assumes "serves client text_of url db" and "wf_db db"
    and "\<forall>r \<in> set (db_cases db). cr_updated_at r = t"
    and "500 \<le> length (db_cases db)" and "2 \<le> fuel"
    and "list_case_pks api fw fuel w = Some (Inr tenant, w1)"
    and "set tenant = set (map cr_case_id (db_cases db))"
    and "reconcile_cases client api fw fuel w = Some (Inr r, w2)"
  shows "crr_pg_cases r = 500 \<and>
    crr_deleted r = min CASE_RECONCILE_DELETE_CAP (length (db_cases db) - 500)"
proof -
  let ?ids = "map cr_case_id (sync_order db)" and ?items = "map (row_to_case_for_sync text_of url) (take 500 (sync_order db))"
  have drain: "fetch_cases_for_sync client fuel None w = Some (Inr (?items, Some t), w)"
    unfolding fetch_cases_for_sync_def using tied_drain[OF assms(1,3) _ assms(4,5)] by simp
  have d: "distinct ?ids" using assms(2) by (rule sync_order_ids)
  have len: "length ?ids = length (db_cases db)" by (simp add: sync_order_def)
  have keys: "map cfs_case_id ?items = take 500 ?ids" by (simp add: take_map comp_def)
  have keep: "remdups (map cfs_case_id ?items) = take 500 ?ids" "length (take 500 ?ids) = 500"
    unfolding keys using d len assms(4) by (simp_all add: distinct_remdups_id min_def)
  let ?orphans = "sorted_orphans (take 500 ?ids) tenant"
  have "set (filter (\<lambda>pk. pk \<notin> set (take 500 ?ids)) tenant) = set ?ids - set (take 500 ?ids)"
    using assms(7) by auto
  also have "\<dots> = set (drop 500 ?ids)"
    by (rule set_minus_take[OF d])
  finally have orph: "length ?orphans = length (db_cases db) - 500"
    using distinct_card[OF distinct_drop[OF d, of 500]] len by (simp add: sorted_orphans_def)
  have "take 500 ?ids \<noteq> []" using keep(2) by auto
  then obtain batch where
      b: "delete_case_batch api fw (take CASE_RECONCILE_DELETE_CAP ?orphans) w1 = (Inr batch, w2)"
      "crr_deleted r = succeeded batch" "crr_pg_cases r = length (take 500 ?ids)"
    using reconcile_cases_run[OF drain keep(1) _ assms(6,8)] by blast
  then show ?thesis using delete_case.succeeded_all[OF b(1)] keep(2) orph by (simp add: min.commute)
qed

section \<open>Worked instances\<close>

definition paging_client :: "AppDb \<Rightarrow> 'w afm" where
  "paging_client db =
     (demo_client [])\<lparr>am_cases_page := (\<lambda>n c w. (Inr (list_for_sync (\<lambda>_. []) None c n db), w))\<rparr>"

lemma paging_client_serves: "serves (paging_client db) (\<lambda>_. []) None db"
  by (simp add: serves_def paging_client_def)

lemma case_snapshot_complete_witness:
  "\<exists>rows. map cfs_case_id rows = [''C1'', ''C3''] \<and>
     fetch_cases_for_sync (paging_client (demo_db [demo_row ''C3'' 0 9, demo_row ''C2'' 0 1, demo_row ''C1'' 0 5]))
       3 (Some 1) () = Some (Inr (rows, Some 9), ())"
proof -
  let ?db = "demo_db [demo_row ''C3'' 0 9, demo_row ''C2'' 0 1, demo_row ''C1'' 0 5]"
  have rows: "filter (updated_after (Some 1)) (db_cases ?db) = [demo_row ''C3'' 0 9, demo_row ''C1'' 0 5]"
    by (simp add: demo_db_def demo_row_def updated_after_def)
  have "distinct (map cr_updated_at (filter (updated_after (Some 1)) (db_cases ?db)))"
    unfolding rows by (simp add: demo_row_def)
  moreover have "length (filter (updated_after (Some 1)) (db_cases ?db)) < 3" unfolding rows by simp
  ultimately have "fetch_cases_for_sync (paging_client ?db) 3 (Some 1) () =
     Some (Inr (map (row_to_case_for_sync (\<lambda>_. []) None) [demo_row ''C1'' 0 5, demo_row ''C3'' 0 9], Some 9), ())"
    using case_snapshot_complete[OF paging_client_serves, of "Some 1" ?db 3 "()"] unfolding rows
    by (simp add: max_by_def demo_row_def)
  then show ?thesis
    by (intro exI[of _ "map (row_to_case_for_sync (\<lambda>_. []) None) [demo_row ''C1'' 0 5, demo_row ''C3'' 0 9]"])
      (simp add: demo_row_def)
qed

definition tied_rows :: "nat \<Rightarrow> CaseRow list" where
  "tied_rows n = map (\<lambda>i. demo_row (replicate (Suc i) (CHR ''c'')) 0 7) [0..<n]"

definition tied_objects :: "nat \<Rightarrow> (string, json) dict list" where
  "tied_objects n = map (\<lambda>i. [(''caseId'', JStr (replicate (Suc i) (CHR ''c'')))]) [0..<n]"

lemma tied_ids: "map cr_case_id (tied_rows n) = map (\<lambda>i. replicate (Suc i) (CHR ''c'')) [0..<n]"
  by (simp add: tied_rows_def demo_row_def)

lemma tied_wf: "wf_db (demo_db (tied_rows n))"
proof -
  have "inj_on (\<lambda>i. replicate (Suc i) (CHR ''c'')) (set [0..<n])"
    by (rule inj_onI) (metis Suc_inject length_replicate)
  then show ?thesis unfolding wf_db_def demo_db_def using tied_ids[of n] by (simp add: distinct_map)
qed

lemma log_api_accepts: "\<exists>w'. accepted (log_api objs) fw action w cs w'"
proof (induction cs arbitrary: w)
  case (Cons c cs)
  have "post_chunk (log_api objs) fw action c w = (Inr (), snd (post_chunk (log_api objs) fw action c w))"
    by (simp add: post_chunk_def transient_retry_def numeral_2_eq_2 log_api_def)
  with Cons show ?case by (blast intro: accepted_Cons)
qed (blast intro: accepted_Nil)

lemma delete_runs: "\<exists>b w'. delete_case_batch (log_api objs) fw xs w = (Inr b, w')"
proof (cases "xs = []")
  case False
  let ?ps = "map (\<lambda>pk. [(''Case'', JStr pk)]) xs"
  obtain w' where "accepted (log_api objs) fw (fw_action_delete_case fw) w (chunks ?ps MAX_BATCH) w'"
    using log_api_accepts by blast
  then have "apply_batch (log_api objs) fw (fw_action_delete_case fw) ?ps w =
      (Inr \<lparr>attempted = length ?ps, succeeded = length ?ps, failed = 0\<rparr>, w')"
    unfolding apply_batch_ok by simp
  with False show ?thesis by (simp add: delete_case_batch_def)
qed (simp add: delete_case_batch_def io_return_def)

lemma reconcile_cases_ends:
  assumes "fetch_cases_for_sync client fuel None w = Some (Inr (items, c), w0)"
    and "remdups (map cfs_case_id items) \<noteq> []"
    and "list_case_pks api fw fuel w0 = Some (Inr tenant, w1)"
    and "\<And>xs w. \<exists>b w'. delete_case_batch api fw xs w = (Inr b, w')"
  shows "\<exists>r w2. reconcile_cases client api fw fuel w = Some (Inr r, w2)"
proof -
  obtain b w' where "delete_case_batch api fw (take CASE_RECONCILE_DELETE_CAP
      (sorted_orphans (remdups (map cfs_case_id items)) tenant)) w1 = (Inr b, w')" using assms(4) by blast
  then show ?thesis using assms(1-3)
    by (auto simp: reconcile_cases_def iot_laws Let_def)
qed

lemma tied_tenant:
  "\<exists>tenant. list_case_pks (log_api (tied_objects n)) fw 2 w = Some (Inr tenant, w) \<and>
     set tenant = set (map cr_case_id (tied_rows n))"
proof -
  have "list_case_pks (log_api (tied_objects n)) fw 2 w =
      Some (Inr (pk_step (log_api (tied_objects n)) ''caseId'' [] \<lparr>pg_data = tied_objects n, pg_nextPageToken = None\<rparr>), w)"
    by (simp add: list_case_pks_def numeral_2_eq_2 get_objects_page_def transient_retry_def log_api_def)
  moreover have "set (pk_step (log_api (tied_objects n)) ''caseId'' [] \<lparr>pg_data = tied_objects n, pg_nextPageToken = None\<rparr>) =
      set (map cr_case_id (tied_rows n))"
    unfolding set_pk_step tied_ids
    by (auto simp: tied_objects_def object_pk_def obj_get_def py_str_def)
  ultimately show ?thesis by blast
qed

lemma tied_cases_evicted_witness:
  "\<exists>r w2. reconcile_cases (paging_client (demo_db (tied_rows 501))) (log_api (tied_objects 501)) (demo_writer True) 2 [] =
     Some (Inr r, w2) \<and> crr_pg_cases r = 500 \<and> crr_deleted r = 1"
proof -
  let ?db = "demo_db (tied_rows 501)" and ?api = "log_api (tied_objects 501)"
  have ties: "\<forall>r \<in> set (db_cases ?db). cr_updated_at r = 7" by (auto simp: demo_db_def tied_rows_def demo_row_def)
  have len: "length (db_cases ?db) = 501" by (simp add: demo_db_def tied_rows_def)
  obtain tenant where tenant: "list_case_pks ?api (demo_writer True) 2 ([] :: log) = Some (Inr tenant, [])"
      "set tenant = set (map cr_case_id (db_cases ?db))"
    using tied_tenant[of 501 "demo_writer True" "[]"] by (auto simp: demo_db_def)
  have drained: "fetch_cases_for_sync (paging_client ?db) 2 None ([] :: log) =
      Some (Inr (map (row_to_case_for_sync (\<lambda>_. []) None) (take 500 (sync_order ?db)), Some 7), [])"
    unfolding fetch_cases_for_sync_def by (rule tied_drain[OF paging_client_serves ties _ _ order.refl]) (simp_all add: len)
  have "length (take 500 (sync_order ?db)) = 500" using len by (simp add: sync_order_def)
  then have "remdups (map cfs_case_id (map (row_to_case_for_sync (\<lambda>_. []) None) (take 500 (sync_order ?db)))) \<noteq> []"
    by (metis length_0_conv map_is_Nil_conv remdups_eq_nil_iff zero_neq_numeral)
  from reconcile_cases_ends[OF drained this tenant(1) delete_runs]
  have "\<exists>r w2. reconcile_cases (paging_client ?db) ?api (demo_writer True) 2 [] = Some (Inr r, w2)" .
  then obtain r w2 where r: "reconcile_cases (paging_client ?db) ?api (demo_writer True) 2 [] = Some (Inr r, w2)" by blast
  have "500 \<le> length (db_cases ?db)" by (simp add: len)
  from tied_cases_evicted[OF paging_client_serves tied_wf ties this order.refl tenant r]
  show ?thesis using r by (simp add: len CASE_RECONCILE_DELETE_CAP_def)
qed

end
