(* ===== verification/Lifecycle.thy ===== *)
theory Lifecycle
  imports Models FlightId
begin

text \<open>
  sync_jobs.py, the takeoff/landing detector: newest-row deduplication of a position batch, the
  live-scope filter, and \<open>FlightLifecycleDetector\<close> with its two maps (last on-ground sample and
  open flight per airframe). \<open>observe\<close> is the handler over a batch; \<open>state_for\<close> and
  \<open>open_flight_state_for\<close> cut the persisted state down to the batch. The lemmas give the
  detector's invariant (a flight is open only while its airframe is airborne), the conservation of
  legs and the independence of airframes.
\<close>

section \<open>Batch preparation\<close>

definition dedupe_latest :: "Position list \<Rightarrow> Position list" where
  "dedupe_latest positions = dvalues (newest_by pos_icao24 pos_last_seen_at [] positions)"

definition LIVE_SCOPE_REGIONS :: "CustomerRegion option list option" where
  "LIVE_SCOPE_REGIONS = None"

definition in_live_scope :: "CustomerRegion option list option \<Rightarrow> Position \<Rightarrow> bool" where
  "in_live_scope regions p =
     (case regions of None \<Rightarrow> True | Some rs \<Rightarrow> pos_customer_region p \<in> set rs)"

section \<open>The detector\<close>

record Takeoff =
  to_icao24 :: string
  to_takeoff_ts :: instant
  to_flight_id :: string

record Landing =
  la_icao24 :: string
  la_flight_id :: string
  la_landed_at :: instant

record DetectedEdges =
  takeoffs :: "Takeoff list"
  landings :: "Landing list"

record FlightLifecycleDetector =
  det_on_ground :: "(string, bool) dict"
  det_open_flight :: "(string, string) dict"

definition init_detector ::
  "(string, bool) dict option \<Rightarrow> (string, string) dict option \<Rightarrow> FlightLifecycleDetector" where
  "init_detector prior_on_ground prior_open_flight =
     \<lparr>det_on_ground = (case prior_on_ground of None \<Rightarrow> [] | Some d \<Rightarrow> d),
      det_open_flight = (case prior_open_flight of None \<Rightarrow> [] | Some d \<Rightarrow> d)\<rparr>"

definition state_for :: "FlightLifecycleDetector \<Rightarrow> string list \<Rightarrow> (string, bool) dict" where
  "state_for det icao24s = restrict_keys icao24s (det_on_ground det)"

definition open_flight_state_for :: "FlightLifecycleDetector \<Rightarrow> string list \<Rightarrow> (string, string) dict" where
  "open_flight_state_for det icao24s = restrict_keys icao24s (det_open_flight det)"

text \<open>The loop body of \<open>observe\<close>, on one row: the new state and the edges it emits.\<close>

definition observe_row ::
  "FlightLifecycleDetector \<Rightarrow> Position \<Rightarrow> FlightLifecycleDetector \<times> Takeoff list \<times> Landing list" where
  "observe_row det p =
     (let icao24 = pos_icao24 p;
          prev = dget (det_on_ground det) icao24;
          open_flight = det_open_flight det;
          flight_id = synthesize_flight_id icao24 (pos_last_seen_at p);
          (open_flight', tos, las) =
            (if prev = Some True \<and> \<not> pos_on_ground p then
               (dset icao24 flight_id open_flight,
                [\<lparr>to_icao24 = icao24, to_takeoff_ts = pos_last_seen_at p, to_flight_id = flight_id\<rparr>],
                [])
             else if prev = Some False \<and> pos_on_ground p then
               (dpop icao24 open_flight, [],
                (case dget open_flight icao24 of
                   None \<Rightarrow> []
                 | Some open_flight_id \<Rightarrow>
                     [\<lparr>la_icao24 = icao24, la_flight_id = open_flight_id,
                       la_landed_at = pos_last_seen_at p\<rparr>]))
             else (open_flight, [], []))
      in (\<lparr>det_on_ground = dset icao24 (pos_on_ground p) (det_on_ground det),
           det_open_flight = open_flight'\<rparr>, tos, las))"

primrec observe ::
  "FlightLifecycleDetector \<Rightarrow> Position list \<Rightarrow> FlightLifecycleDetector \<times> DetectedEdges" where
  "observe det [] = (det, \<lparr>takeoffs = [], landings = []\<rparr>)"
| "observe det (p # ps) =
     (case observe_row det p of (det1, tos, las) \<Rightarrow>
        case observe det1 ps of (det2, edges) \<Rightarrow>
          (det2, \<lparr>takeoffs = tos @ takeoffs edges, landings = las @ landings edges\<rparr>))"

section \<open>Deduplication\<close>

lemma dedupe_latest_mem:
  "p \<in> set (dedupe_latest ps) \<longleftrightarrow>
     (\<exists>k. dget (newest_by pos_icao24 pos_last_seen_at [] ps) k = Some p)"
  by (simp add: dedupe_latest_def wf_dict_value_iff[OF newest_by_wf] del: set_map)

lemma dedupe_latest_distinct: "distinct (map pos_icao24 (dedupe_latest ps))"
proof -
  let ?d = "newest_by pos_icao24 pos_last_seen_at [] ps"
  have "\<forall>e \<in> set ?d. pos_icao24 (snd e) = fst e"
    using newest_by_lookup(2)[of pos_icao24 pos_last_seen_at ps] wf_dict_mem_iff[OF newest_by_wf]
    by (metis prod.collapse)
  then have e: "map (pos_icao24 \<circ> snd) ?d = map fst ?d" by simp
  show ?thesis using newest_by_wf[of pos_icao24 pos_last_seen_at ps]
    unfolding dedupe_latest_def map_map e wf_dict_def .
qed

lemma dedupe_latest_sound:
  assumes "p \<in> set (dedupe_latest ps)"
  shows "p \<in> set ps" "\<And>q. q \<in> set ps \<Longrightarrow> pos_icao24 q = pos_icao24 p \<Longrightarrow> pos_last_seen_at q \<le> pos_last_seen_at p"
proof -
  obtain k where k: "dget (newest_by pos_icao24 pos_last_seen_at [] ps) k = Some p"
    using assms dedupe_latest_mem by blast
  note l = newest_by_lookup[OF k]
  show "p \<in> set ps" by (rule l)
  show "\<And>q. q \<in> set ps \<Longrightarrow> pos_icao24 q = pos_icao24 p \<Longrightarrow> pos_last_seen_at q \<le> pos_last_seen_at p"
    using l(2,3) by simp
qed

lemma dedupe_latest_keys: "pos_icao24 ` set (dedupe_latest ps) = pos_icao24 ` set ps"
proof (intro equalityI subsetI)
  fix k assume "k \<in> pos_icao24 ` set ps"
  then obtain v where v: "dget (newest_by pos_icao24 pos_last_seen_at [] ps) k = Some v"
    using newest_by_dom[of pos_icao24 pos_last_seen_at ps k] by (cases "dget (newest_by pos_icao24 pos_last_seen_at [] ps) k") auto
  then show "k \<in> pos_icao24 ` set (dedupe_latest ps)"
    using newest_by_lookup(2)[OF v] dedupe_latest_mem[of v ps] by blast
qed (use dedupe_latest_sound(1) in blast)

section \<open>Lookup equations of one step\<close>

abbreviation ground_at :: "FlightLifecycleDetector \<Rightarrow> string \<Rightarrow> bool option" where
  "ground_at det a \<equiv> dget (det_on_ground det) a"

abbreviation open_at :: "FlightLifecycleDetector \<Rightarrow> string \<Rightarrow> string option" where
  "open_at det a \<equiv> dget (det_open_flight det) a"

definition takeoff_row :: "FlightLifecycleDetector \<Rightarrow> Position \<Rightarrow> bool" where
  "takeoff_row det p \<longleftrightarrow> ground_at det (pos_icao24 p) = Some True \<and> \<not> pos_on_ground p"

definition landing_row :: "FlightLifecycleDetector \<Rightarrow> Position \<Rightarrow> bool" where
  "landing_row det p \<longleftrightarrow> ground_at det (pos_icao24 p) = Some False \<and> pos_on_ground p"

lemma observe_row_ground:
  "ground_at (fst (observe_row det p)) a = (if a = pos_icao24 p then Some (pos_on_ground p) else ground_at det a)"
  by (simp add: observe_row_def Let_def split: prod.split)

lemma observe_row_open:
  "open_at (fst (observe_row det p)) a =
     (if a = pos_icao24 p \<and> takeoff_row det p then Some (synthesize_flight_id a (pos_last_seen_at p))
      else if a = pos_icao24 p \<and> landing_row det p then None
      else open_at det a)"
  by (auto simp: observe_row_def Let_def takeoff_row_def landing_row_def)

lemma observe_row_takeoffs:
  "fst (snd (observe_row det p)) =
     (if takeoff_row det p
      then [\<lparr>to_icao24 = pos_icao24 p, to_takeoff_ts = pos_last_seen_at p,
             to_flight_id = synthesize_flight_id (pos_icao24 p) (pos_last_seen_at p)\<rparr>]
      else [])"
  by (auto simp: observe_row_def Let_def takeoff_row_def)

lemma observe_row_landings:
  "snd (snd (observe_row det p)) =
     (if landing_row det p
      then (case open_at det (pos_icao24 p) of
              None \<Rightarrow> []
            | Some f \<Rightarrow> [\<lparr>la_icao24 = pos_icao24 p, la_flight_id = f, la_landed_at = pos_last_seen_at p\<rparr>])
      else [])"
  by (auto simp: observe_row_def Let_def landing_row_def)

lemmas observe_row_laws =
  observe_row_ground observe_row_open observe_row_takeoffs observe_row_landings

lemma observe_Cons:
  "fst (observe det (p # ps)) = fst (observe (fst (observe_row det p)) ps)"
  "takeoffs (snd (observe det (p # ps))) =
     fst (snd (observe_row det p)) @ takeoffs (snd (observe (fst (observe_row det p)) ps))"
  "landings (snd (observe det (p # ps))) =
     snd (snd (observe_row det p)) @ landings (snd (observe (fst (observe_row det p)) ps))"
  by (simp_all split: prod.split)

lemma observe_Nil:
  "fst (observe det []) = det"
  "takeoffs (snd (observe det [])) = []"
  "landings (snd (observe det [])) = []"
  by simp_all

declare observe.simps [simp del]

lemmas observe_laws = observe_Nil observe_Cons

text \<open>Observing two batches in turn is observing their concatenation.\<close>

lemma observe_append:
  "fst (observe det (ps @ qs)) = fst (observe (fst (observe det ps)) qs)"
  "takeoffs (snd (observe det (ps @ qs))) =
     takeoffs (snd (observe det ps)) @ takeoffs (snd (observe (fst (observe det ps)) qs))"
  "landings (snd (observe det (ps @ qs))) =
     landings (snd (observe det ps)) @ landings (snd (observe (fst (observe det ps)) qs))"
  by (induction ps arbitrary: det) (simp_all add: observe_laws)

section \<open>The invariant\<close>

definition open_only_airborne :: "FlightLifecycleDetector \<Rightarrow> bool" where
  "open_only_airborne det \<longleftrightarrow> (\<forall>a. open_at det a \<noteq> None \<longrightarrow> ground_at det a = Some False)"

lemma open_only_airborne_row:
  "open_only_airborne det \<Longrightarrow> open_only_airborne (fst (observe_row det p))"
  unfolding open_only_airborne_def observe_row_laws
  by (auto simp: takeoff_row_def landing_row_def)

lemma open_only_airborne_observe:
  "open_only_airborne det \<Longrightarrow> open_only_airborne (fst (observe det ps))"
  by (induction ps arbitrary: det) (simp_all add: observe_laws open_only_airborne_row)

lemma open_only_airborne_restrict:
  "open_only_airborne det \<Longrightarrow>
   open_only_airborne (init_detector (Some (state_for det ks)) (Some (open_flight_state_for det ks)))"
  by (auto simp: open_only_airborne_def init_detector_def state_for_def open_flight_state_for_def)

lemma open_only_airborne_init: "open_only_airborne (init_detector g None)"
  by (simp add: open_only_airborne_def init_detector_def)

section \<open>Conservation of legs\<close>

definition opt_list :: "'a option \<Rightarrow> 'a list" where
  "opt_list x = (case x of None \<Rightarrow> [] | Some y \<Rightarrow> [y])"

definition takeoff_ids :: "string \<Rightarrow> DetectedEdges \<Rightarrow> string list" where
  "takeoff_ids a e = map to_flight_id (filter (\<lambda>t. to_icao24 t = a) (takeoffs e))"

definition landing_ids :: "string \<Rightarrow> DetectedEdges \<Rightarrow> string list" where
  "landing_ids a e = map la_flight_id (filter (\<lambda>l. la_icao24 l = a) (landings e))"

lemma leg_balance_row:
  assumes "open_only_airborne det"
  shows "opt_list (open_at det a) @ map to_flight_id (filter (\<lambda>t. to_icao24 t = a) (fst (snd (observe_row det p)))) =
         map la_flight_id (filter (\<lambda>l. la_icao24 l = a) (snd (snd (observe_row det p))))
           @ opt_list (open_at (fst (observe_row det p)) a)"
proof -
  have "takeoff_row det p \<Longrightarrow> open_at det (pos_icao24 p) = None"
    using assms by (auto simp: open_only_airborne_def takeoff_row_def)
  moreover have "takeoff_row det p \<Longrightarrow> \<not> landing_row det p"
    by (simp add: takeoff_row_def landing_row_def)
  ultimately show ?thesis
    by (cases "takeoff_row det p"; cases "landing_row det p"; cases "open_at det (pos_icao24 p)")
       (simp_all add: observe_row_laws opt_list_def)
qed

lemma leg_balance:
  assumes "open_only_airborne det"
  shows "opt_list (open_at det a) @ takeoff_ids a (snd (observe det ps)) =
         landing_ids a (snd (observe det ps)) @ opt_list (open_at (fst (observe det ps)) a)"
  using assms
proof (induction ps arbitrary: det)
  case Nil
  then show ?case by (simp add: takeoff_ids_def landing_ids_def observe_laws)
next
  case (Cons p ps)
  note IH = Cons.IH[OF open_only_airborne_row[OF Cons.prems, of p]]
  show ?case
    using leg_balance_row[OF Cons.prems, of a p] IH
    by (simp add: takeoff_ids_def landing_ids_def observe_laws) (metis append.assoc)
qed

section \<open>Edges are real transitions\<close>

lemma observe_takeoff_origin:
  assumes "t \<in> set (takeoffs (snd (observe det ps)))"
  shows "\<exists>xs p ys. ps = xs @ p # ys \<and> takeoff_row (fst (observe det xs)) p \<and>
           t = \<lparr>to_icao24 = pos_icao24 p, to_takeoff_ts = pos_last_seen_at p,
                to_flight_id = synthesize_flight_id (pos_icao24 p) (pos_last_seen_at p)\<rparr>"
  using assms
proof (induction ps arbitrary: det)
  case (Cons p ps)
  then consider "t \<in> set (fst (snd (observe_row det p)))"
    | "t \<in> set (takeoffs (snd (observe (fst (observe_row det p)) ps)))"
    by (auto simp: observe_laws)
  then show ?case
  proof cases
    case 1
    then show ?thesis
      by (intro exI[of _ "[]"]) (auto simp: observe_row_laws observe_laws split: if_splits)
  next
    case 2
    from Cons.IH[OF this] obtain xs q ys where "ps = xs @ q # ys"
      "takeoff_row (fst (observe (fst (observe_row det p)) xs)) q"
      "t = \<lparr>to_icao24 = pos_icao24 q, to_takeoff_ts = pos_last_seen_at q,
                to_flight_id = synthesize_flight_id (pos_icao24 q) (pos_last_seen_at q)\<rparr>" by blast
    then show ?thesis
      by (intro exI[of _ "p # xs"] exI[of _ q] exI[of _ ys]) (simp add: observe_laws)
  qed
qed (simp add: observe_laws)

lemma observe_landing_origin:
  assumes "l \<in> set (landings (snd (observe det ps)))"
  shows "\<exists>xs p ys. ps = xs @ p # ys \<and> landing_row (fst (observe det xs)) p \<and>
           (\<exists>f. open_at (fst (observe det xs)) (pos_icao24 p) = Some f \<and>
             l = \<lparr>la_icao24 = pos_icao24 p, la_flight_id = f, la_landed_at = pos_last_seen_at p\<rparr>)"
  using assms
proof (induction ps arbitrary: det)
  case (Cons p ps)
  then consider "l \<in> set (snd (snd (observe_row det p)))"
    | "l \<in> set (landings (snd (observe (fst (observe_row det p)) ps)))"
    by (auto simp: observe_laws)
  then show ?case
  proof cases
    case 1
    then have "landing_row det p \<and> (\<exists>f. open_at det (pos_icao24 p) = Some f \<and>
      l = \<lparr>la_icao24 = pos_icao24 p, la_flight_id = f, la_landed_at = pos_last_seen_at p\<rparr>)"
      by (cases "landing_row det p"; cases "open_at det (pos_icao24 p)") (simp_all add: observe_row_landings)
    then show ?thesis by (intro exI[of _ "[]"] exI[of _ p] exI[of _ ps]) (simp add: observe_laws)
  next
    case 2
    from Cons.IH[OF this] obtain xs q ys f where "ps = xs @ q # ys"
      "landing_row (fst (observe (fst (observe_row det p)) xs)) q"
      "open_at (fst (observe (fst (observe_row det p)) xs)) (pos_icao24 q) = Some f"
      "l = \<lparr>la_icao24 = pos_icao24 q, la_flight_id = f, la_landed_at = pos_last_seen_at q\<rparr>" by blast
    then show ?thesis
      by (intro exI[of _ "p # xs"] exI[of _ q] exI[of _ ys]) (simp add: observe_laws)
  qed
qed (simp add: observe_laws)

section \<open>Only the rows' own airframes matter\<close>

definition agree_on :: "string set \<Rightarrow> FlightLifecycleDetector \<Rightarrow> FlightLifecycleDetector \<Rightarrow> bool" where
  "agree_on A d e \<longleftrightarrow> (\<forall>a \<in> A. ground_at d a = ground_at e a \<and> open_at d a = open_at e a)"

lemma agree_on_row:
  assumes "agree_on A d e" "pos_icao24 p \<in> A"
  shows "agree_on A (fst (observe_row d p)) (fst (observe_row e p))"
    "snd (observe_row d p) = snd (observe_row e p)"
proof -
  have r: "takeoff_row d p = takeoff_row e p" "landing_row d p = landing_row e p"
    using assms by (simp_all add: agree_on_def takeoff_row_def landing_row_def)
  show "agree_on A (fst (observe_row d p)) (fst (observe_row e p))"
    using assms r by (simp add: agree_on_def observe_row_laws)
  show "snd (observe_row d p) = snd (observe_row e p)"
    using assms r by (intro prod_eqI) (simp_all add: agree_on_def observe_row_laws)
qed

lemma agree_on_observe:
  assumes "agree_on A d e" "pos_icao24 ` set ps \<subseteq> A"
  shows "agree_on A (fst (observe d ps)) (fst (observe e ps)) \<and> snd (observe d ps) = snd (observe e ps)"
  using assms
proof (induction ps arbitrary: d e)
  case (Cons p ps)
  note row = agree_on_row[OF Cons.prems(1), of p]
  from Cons.IH[OF row(1)] Cons.prems(2)
  have IH: "agree_on A (fst (observe (fst (observe_row d p)) ps)) (fst (observe (fst (observe_row e p)) ps))"
    "snd (observe (fst (observe_row d p)) ps) = snd (observe (fst (observe_row e p)) ps)" by simp_all
  show ?case
    using IH row(2) Cons.prems(2) by (simp add: observe_laws DetectedEdges.equality)
qed (simp add: observe.simps)

lemma agree_on_restart:
  assumes "A \<subseteq> set ks"
  shows "agree_on A (init_detector (Some (state_for det ks)) (Some (open_flight_state_for det ks))) det"
  using assms by (auto simp: agree_on_def init_detector_def state_for_def open_flight_state_for_def)

section \<open>Airframes do not interfere\<close>

lemma other_row_agrees:
  assumes "pos_icao24 p \<noteq> a"
  shows "agree_on {a} (fst (observe_row det p)) det"
    "filter (\<lambda>t. to_icao24 t = a) (fst (snd (observe_row det p))) = []"
    "filter (\<lambda>l. la_icao24 l = a) (snd (snd (observe_row det p))) = []"
proof -
  show "agree_on {a} (fst (observe_row det p)) det"
    using assms by (simp add: agree_on_def observe_row_laws)
  show "filter (\<lambda>t. to_icao24 t = a) (fst (snd (observe_row det p))) = []"
    using assms by (simp add: observe_row_takeoffs)
  show "filter (\<lambda>l. la_icao24 l = a) (snd (snd (observe_row det p))) = []"
    using assms by (cases "landing_row det p"; cases "open_at det (pos_icao24 p)") (simp_all add: observe_row_landings)
qed

lemma agree_on_trans: "agree_on A d e \<Longrightarrow> agree_on A e f \<Longrightarrow> agree_on A d f"
  by (simp add: agree_on_def)

lemma observe_projection:
  assumes "agree_on {a} d e"
  shows "takeoff_ids a (snd (observe d ps)) = takeoff_ids a (snd (observe e (filter (\<lambda>p. pos_icao24 p = a) ps))) \<and>
         landing_ids a (snd (observe d ps)) = landing_ids a (snd (observe e (filter (\<lambda>p. pos_icao24 p = a) ps)))"
  using assms
proof (induction ps arbitrary: d e)
  case (Cons p ps)
  show ?case
  proof (cases "pos_icao24 p = a")
    case True
    note row = agree_on_row[OF Cons.prems, of p]
    from True row Cons.IH[OF row(1)] show ?thesis
      by (simp add: takeoff_ids_def landing_ids_def observe_laws)
  next
    case False
    from Cons.IH[OF agree_on_trans[OF other_row_agrees(1)[OF False] Cons.prems]] False other_row_agrees[OF False, of d]
    show ?thesis by (simp add: takeoff_ids_def landing_ids_def observe_laws)
  qed
qed (simp add: takeoff_ids_def landing_ids_def observe_laws)

section \<open>Properties\<close>

text \<open>C3. Conservation of flight legs: starting from a detector whose open flights belong to airborne
  aircraft, the legs an aircraft had open plus those its takeoffs mint are, in order, exactly the legs
  its landings stamp plus the one still open. So a landing stamps the leg of the last takeoff, no leg
  is stamped twice and none is lost.\<close>

theorem legs_conserved:
  assumes "open_only_airborne det" "observe det ps = (det', edges)"
  shows "opt_list (open_at det a) @ takeoff_ids a edges = landing_ids a edges @ opt_list (open_at det' a) \<and>
         open_only_airborne det'"
  using leg_balance[OF assms(1), of a ps] open_only_airborne_observe[OF assms(1), of ps] assms(2) by simp

text \<open>Every emitted edge is a real transition of the batch: a takeoff stands at an airborne row whose
  aircraft was last seen on the ground, carries that row's instant and the key made from it; a landing
  stands at an on-ground row of an aircraft last seen airborne and carries the flight it had open.\<close>

theorem edges_are_transitions:
  assumes "observe det ps = (det', edges)"
  shows "(\<forall>t \<in> set (takeoffs edges).
           \<exists>xs p ys. ps = xs @ p # ys \<and> \<not> pos_on_ground p \<and>
             ground_at (fst (observe det xs)) (pos_icao24 p) = Some True \<and>
             t = \<lparr>to_icao24 = pos_icao24 p, to_takeoff_ts = pos_last_seen_at p,
                  to_flight_id = synthesize_flight_id (pos_icao24 p) (pos_last_seen_at p)\<rparr>) \<and>
         (\<forall>l \<in> set (landings edges).
           \<exists>xs p ys f. ps = xs @ p # ys \<and> pos_on_ground p \<and>
             ground_at (fst (observe det xs)) (pos_icao24 p) = Some False \<and>
             open_at (fst (observe det xs)) (pos_icao24 p) = Some f \<and>
             l = \<lparr>la_icao24 = pos_icao24 p, la_flight_id = f, la_landed_at = pos_last_seen_at p\<rparr>)"
proof -
  have e: "edges = snd (observe det ps)" using assms by simp
  show ?thesis
    unfolding e using observe_takeoff_origin[of _ det ps] observe_landing_origin[of _ det ps]
    unfolding takeoff_row_def landing_row_def by blast
qed

text \<open>Persisting only the run's own aircraft loses nothing: a detector rebuilt from the state cut
  down to a set of aircraft emits the same edges as the uncut one on every batch of those aircraft.\<close>

theorem restart_transparent:
  assumes "pos_icao24 ` set ps \<subseteq> set icao24s"
  shows "snd (observe (init_detector (Some (state_for det icao24s)) (Some (open_flight_state_for det icao24s))) ps) =
         snd (observe det ps)"
  using agree_on_observe[OF agree_on_restart[OF assms] subset_refl] by blast

text \<open>Aircraft do not interfere: the edges of one aircraft are those of its own rows alone.\<close>

theorem airframes_independent:
  "takeoff_ids a (snd (observe det ps)) = takeoff_ids a (snd (observe det (filter (\<lambda>p. pos_icao24 p = a) ps))) \<and>
   landing_ids a (snd (observe det ps)) = landing_ids a (snd (observe det (filter (\<lambda>p. pos_icao24 p = a) ps)))"
  by (rule observe_projection) (simp add: agree_on_def)

text \<open>Deduplication keeps one row per aircraft, a newest one of the batch, and loses no aircraft.\<close>

theorem dedupe_latest_correct:
  "distinct (map pos_icao24 (dedupe_latest ps)) \<and>
   pos_icao24 ` set (dedupe_latest ps) = pos_icao24 ` set ps \<and>
   set (dedupe_latest ps) \<subseteq>
     {p \<in> set ps. pos_last_seen_at p = Max (pos_last_seen_at ` {q \<in> set ps. pos_icao24 q = pos_icao24 p})}"
proof (intro conjI subsetI)
  show "distinct (map pos_icao24 (dedupe_latest ps))" by (rule dedupe_latest_distinct)
  show "pos_icao24 ` set (dedupe_latest ps) = pos_icao24 ` set ps" by (rule dedupe_latest_keys)
  fix p assume p: "p \<in> set (dedupe_latest ps)"
  note s = dedupe_latest_sound[OF p]
  have "Max (pos_last_seen_at ` {q \<in> set ps. pos_icao24 q = pos_icao24 p}) = pos_last_seen_at p"
    using s by (intro Max_eqI) auto
  with s(1) show "p \<in> {p \<in> set ps. pos_last_seen_at p = Max (pos_last_seen_at ` {q \<in> set ps. pos_icao24 q = pos_icao24 p})}"
    by simp
qed

section \<open>Worked instances\<close>

definition sample :: "string \<Rightarrow> bool \<Rightarrow> instant \<Rightarrow> Position" where
  "sample a ground t =
     \<lparr>pos_icao24 = a, pos_callsign = None, pos_lat = 0, pos_lon = 0, pos_altitude_ft = None,
      pos_speed_kt = None, pos_heading_deg = None, pos_vertical_rate_fpm = None, pos_on_ground = ground,
      pos_customer_region = None, pos_last_seen_at = t, pos_staleness = Fresh\<rparr>"

definition day_of_a1 :: "Position list" where
  "day_of_a1 = [sample ''a1'' True 0, sample ''a1'' False 1000000, sample ''a1'' True 2000000, sample ''a1'' False 3000000]"

lemma day_of_a1_run:
  "observe (init_detector None None) day_of_a1 =
     (\<lparr>det_on_ground = [(''a1'', False)], det_open_flight = [(''a1'', ''a1-3'')]\<rparr>,
      \<lparr>takeoffs = [\<lparr>to_icao24 = ''a1'', to_takeoff_ts = 1000000, to_flight_id = ''a1-1''\<rparr>,
                   \<lparr>to_icao24 = ''a1'', to_takeoff_ts = 3000000, to_flight_id = ''a1-3''\<rparr>],
       landings = [\<lparr>la_icao24 = ''a1'', la_flight_id = ''a1-1'', la_landed_at = 2000000\<rparr>]\<rparr>)"
  by code_simp

lemma legs_conserved_witness:
  "opt_list None @ [''a1-1'', ''a1-3''] = [''a1-1''] @ opt_list (Some ''a1-3'')"
  using legs_conserved[OF open_only_airborne_init day_of_a1_run, of "''a1''"]
  by (simp add: takeoff_ids_def landing_ids_def init_detector_def)

lemma edges_are_transitions_witness:
  "(\<exists>p \<in> set day_of_a1. \<not> pos_on_ground p \<and> pos_last_seen_at p = 1000000) \<and>
   (\<exists>p \<in> set day_of_a1. pos_on_ground p \<and> pos_last_seen_at p = 2000000)"
proof
  obtain xs p ys where d: "day_of_a1 = xs @ p # ys" and g: "\<not> pos_on_ground p"
    and r: "\<lparr>to_icao24 = ''a1'', to_takeoff_ts = 1000000, to_flight_id = ''a1-1''\<rparr> =
     \<lparr>to_icao24 = pos_icao24 p, to_takeoff_ts = pos_last_seen_at p,
      to_flight_id = synthesize_flight_id (pos_icao24 p) (pos_last_seen_at p)\<rparr>"
    using conjunct1[OF edges_are_transitions[OF day_of_a1_run], THEN bspec,
        of "\<lparr>to_icao24 = ''a1'', to_takeoff_ts = 1000000, to_flight_id = ''a1-1''\<rparr>"]
    by (simp del: Takeoff.simps) blast
  have "pos_last_seen_at p = 1000000" using arg_cong[OF r, of to_takeoff_ts] by simp
  with g show "\<exists>p \<in> set day_of_a1. \<not> pos_on_ground p \<and> pos_last_seen_at p = 1000000"
    unfolding d by simp
next
  obtain xs p ys f where d: "day_of_a1 = xs @ p # ys" and g: "pos_on_ground p"
    and r: "\<lparr>la_icao24 = ''a1'', la_flight_id = ''a1-1'', la_landed_at = 2000000\<rparr> =
     \<lparr>la_icao24 = pos_icao24 p, la_flight_id = f, la_landed_at = pos_last_seen_at p\<rparr>"
    using conjunct2[OF edges_are_transitions[OF day_of_a1_run], THEN bspec,
        of "\<lparr>la_icao24 = ''a1'', la_flight_id = ''a1-1'', la_landed_at = 2000000\<rparr>"]
    by (simp del: Landing.simps) blast
  have "pos_last_seen_at p = 2000000" using arg_cong[OF r, of la_landed_at] by simp
  with g show "\<exists>p \<in> set day_of_a1. pos_on_ground p \<and> pos_last_seen_at p = 2000000"
    unfolding d by simp
qed

lemma restart_transparent_witness:
  "snd (observe (init_detector (Some (state_for \<lparr>det_on_ground = [(''a1'', True), (''b2'', True)], det_open_flight = []\<rparr> [''a1'']))
                   (Some (open_flight_state_for \<lparr>det_on_ground = [(''a1'', True), (''b2'', True)], det_open_flight = []\<rparr> [''a1''])))
         [sample ''a1'' False 1000000]) =
   snd (observe \<lparr>det_on_ground = [(''a1'', True), (''b2'', True)], det_open_flight = []\<rparr> [sample ''a1'' False 1000000])"
  by (rule restart_transparent) (simp add: sample_def)

end
