(* ===== verification/SyncJobs.thy ===== *)
theory SyncJobs
  imports Reconcile Lifecycle Transforms
begin

text \<open>
  sync_jobs.py, the upsert jobs and their entry points: the positions sync (aircraft, takeoff
  creates, landing stamps), the site refresh, the flight enrichment with its two phases, the case
  sync, and \<open>guarded_sync\<close> with the \<open>run_*\<close> functions. A job runs over the two client parameters; a
  Python exception inside a job is the left value, with the world as the writes before it left it.
\<close>

record SyncResult =
  sr_attempted :: nat
  sr_succeeded :: nat
  sr_failed :: nat
  sr_cursor :: "instant option"
  sr_takeoffs_detected :: nat
  sr_flights_written :: nat
  sr_landings_detected :: nat
  sr_flights_landed :: nat
  sr_detector_state :: "(string, bool) dict option"
  sr_open_flight_state :: "(string, string) dict option"

record CaseSyncResult =
  csr_attempted :: nat
  csr_succeeded :: nat
  csr_failed :: nat
  csr_cursor :: "instant option"

record FlightEnrichmentResult =
  fer_tenant_flights :: nat
  fer_candidates :: nat
  fer_enriched :: nat
  fer_skipped_inactive :: nat
  fer_fetch_failed :: nat

section \<open>Positions\<close>

definition pk_exn :: "pk_error \<Rightarrow> exn" where
  "pk_exn e = (case e of ValueError \<Rightarrow> PyValueError | PlatformRangeError \<Rightarrow> OtherError ''OverflowError'')"

primrec landed_stamps :: "Landing list \<Rightarrow> exn + FlightLandedStamp list" where
  "landed_stamps [] = Inr []"
| "landed_stamps (lz # ls) =
     (case parse_flight_id (la_flight_id lz) of
        Inl e \<Rightarrow> Inl (pk_exn e)
      | Inr (_, takeoff_ts) \<Rightarrow>
          map_sum id (Cons \<lparr>fls_flight_id = la_flight_id lz, fls_icao24 = la_icao24 lz,
                            fls_takeoff_ts = takeoff_ts, fls_landed_at = la_landed_at lz\<rparr>)
            (landed_stamps ls))"

definition takeoff_flights :: "DetectedEdges \<Rightarrow> Flight list" where
  "takeoff_flights edges =
     map (\<lambda>t. takeoff_to_flight (to_flight_id t) (to_icao24 t) (to_takeoff_ts t)) (takeoffs edges)"

text \<open>The detector is an object the caller owns: its new state is returned with the result.\<close>

definition run_detector ::
  "FlightLifecycleDetector option \<Rightarrow> Position list \<Rightarrow> FlightLifecycleDetector option \<times> DetectedEdges" where
  "run_detector detector scoped =
     (case detector of
        None \<Rightarrow> (None, \<lparr>takeoffs = [], landings = []\<rparr>)
      | Some det \<Rightarrow> map_prod Some id (observe det scoped))"

definition stamp_landings :: "'w fapi \<Rightarrow> FoundryWriter \<Rightarrow> Landing list \<Rightarrow> ('w, BatchResult) io" where
  "stamp_landings api fw ls w =
     (case landed_stamps ls of
        Inl e \<Rightarrow> (Inl e, w)
      | Inr stamps \<Rightarrow> stamp_flight_landed_batch api fw stamps w)"

definition incremental_sync_positions ::
  "'w afm \<Rightarrow> 'w fapi \<Rightarrow> FoundryWriter \<Rightarrow> FlightLifecycleDetector option \<Rightarrow>
     ('w, SyncResult \<times> FlightLifecycleDetector option) io" where
  "incremental_sync_positions client api fw detector =
     io_bind (fetch_positions_live client) (\<lambda>response.
       let deduped = dedupe_latest (plr_items response);
           scoped = filter (in_live_scope LIVE_SCOPE_REGIONS) deduped;
           out = run_detector detector scoped;
           edges = snd out;
           icao24s = map pos_icao24 scoped
       in io_bind (upsert_aircraft_batch api fw (map position_to_aircraft scoped)) (\<lambda>batch.
          io_bind (upsert_flight_batch api fw (takeoff_flights edges)) (\<lambda>flight_batch.
          io_bind (stamp_landings api fw (landings edges)) (\<lambda>landed_batch.
          io_return
            (\<lparr>sr_attempted = attempted batch, sr_succeeded = succeeded batch, sr_failed = failed batch,
              sr_cursor = Some (plr_server_time response),
              sr_takeoffs_detected = length (takeoffs edges),
              sr_flights_written = succeeded flight_batch,
              sr_landings_detected = length (landings edges),
              sr_flights_landed = succeeded landed_batch,
              sr_detector_state = map_option (\<lambda>d. state_for d icao24s) (fst out),
              sr_open_flight_state = map_option (\<lambda>d. open_flight_state_for d icao24s) (fst out)\<rparr>,
             fst out)))))"

section \<open>Sites\<close>

definition http_error :: "exn \<Rightarrow> bool" where
  "http_error e = (case e of TransportError \<Rightarrow> True | HTTPStatusError _ \<Rightarrow> True | _ \<Rightarrow> False)"

primrec fetch_site_rows :: "'w afm \<Rightarrow> SiteListItem list \<Rightarrow> ('w, Site list) io" where
  "fetch_site_rows client [] = io_return []"
| "fetch_site_rows client (item # items) =
     io_bind (fetch_site client (sli_icao item)) (\<lambda>detail w.
       case fetch_site_sla client (sli_icao item) w of
         (Inl e, w') \<Rightarrow>
           if http_error e
           then io_bind (fetch_site_rows client items) (\<lambda>rest. io_return (site_to_site detail None # rest)) w'
           else (Inl e, w')
       | (Inr sla, w') \<Rightarrow>
           io_bind (fetch_site_rows client items) (\<lambda>rest. io_return (site_to_site detail (Some sla) # rest)) w')"

definition full_sync_sites :: "'w afm \<Rightarrow> 'w fapi \<Rightarrow> FoundryWriter \<Rightarrow> ('w, SyncResult) io" where
  "full_sync_sites client api fw =
     io_bind (fetch_sites client) (\<lambda>listing.
     io_bind (fetch_site_rows client (slr_items listing)) (\<lambda>sites.
     io_bind (upsert_site_batch api fw sites) (\<lambda>batch.
     io_return \<lparr>sr_attempted = attempted batch, sr_succeeded = succeeded batch, sr_failed = failed batch,
                sr_cursor = None, sr_takeoffs_detected = 0, sr_flights_written = 0,
                sr_landings_detected = 0, sr_flights_landed = 0, sr_detector_state = None,
                sr_open_flight_state = None\<rparr>)))"

section \<open>Flight enrichment\<close>

definition ENRICHMENT_CHUNK :: nat where
  "ENRICHMENT_CHUNK = 50"

text \<open>The newest key per airframe; None is a parse error that is not a ValueError.\<close>

primrec latest_per_icao24 :: "(string, leg) dict \<Rightarrow> string list \<Rightarrow> (string, leg) dict option" where
  "latest_per_icao24 latest [] = Some latest"
| "latest_per_icao24 latest (pk # pks) =
     (case parse_or_skip pk of
        None \<Rightarrow> None
      | Some None \<Rightarrow> latest_per_icao24 latest pks
      | Some (Some (icao24, takeoff_ts)) \<Rightarrow>
          latest_per_icao24 (newest_step leg_icao24 leg_takeoff latest (icao24, takeoff_ts, pk)) pks)"

datatype FetchKind = FetchOk FlightDetail | FetchInactive | FetchFailed

definition fetch_detail :: "'w afm \<Rightarrow> string \<Rightarrow> ('w, FetchKind) io" where
  "fetch_detail client icao24 w =
     (case fetch_flight client icao24 w of
        (Inr detail, w') \<Rightarrow> (Inr (FetchOk detail), w')
      | (Inl (HTTPStatusError code), w') \<Rightarrow>
          (Inr (if code = 404 then FetchInactive else FetchFailed), w')
      | (Inl TransportError, w') \<Rightarrow> (Inr FetchFailed, w')
      | (Inl e, w') \<Rightarrow> (Inl e, w'))"

text \<open>The concurrent fanout of phase 1, in candidate order.\<close>

primrec fetch_details :: "'w afm \<Rightarrow> leg list \<Rightarrow> ('w, FetchKind list) io" where
  "fetch_details client [] = io_return []"
| "fetch_details client (l # ls) =
     io_bind (fetch_detail client (leg_icao24 l)) (\<lambda>k.
     io_bind (fetch_details client ls) (\<lambda>ks. io_return (k # ks)))"

type_synonym active_entry = "string \<times> instant \<times> FlightDetail"

definition active_flights :: "leg list \<Rightarrow> FetchKind list \<Rightarrow> (string, active_entry) dict" where
  "active_flights candidates outcomes =
     List.map_filter
       (\<lambda>(l, k). case k of FetchOk detail \<Rightarrow> Some (leg_icao24 l, (leg_pk l, leg_takeoff l, detail)) | _ \<Rightarrow> None)
       (zip candidates outcomes)"

record EnrichState =
  es_buffer :: "Flight list"
  es_seen :: "string list"
  es_enriched :: nat

text \<open>\<open>_flush\<close>: an upsert that raises leaves the buffer as it is.\<close>

definition flush :: "'w fapi \<Rightarrow> FoundryWriter \<Rightarrow> EnrichState \<Rightarrow> 'w \<Rightarrow> (exn option \<times> EnrichState) \<times> 'w" where
  "flush api fw st w =
     (if es_buffer st = [] then ((None, st), w)
      else case upsert_flight_batch api fw (es_buffer st) w of
             (Inl e, w') \<Rightarrow> ((Some e, st), w')
           | (Inr batch, w') \<Rightarrow>
               ((None, st\<lparr>es_buffer := [], es_enriched := es_enriched st + succeeded batch\<rparr>), w'))"

definition push_flight ::
  "nat \<Rightarrow> 'w fapi \<Rightarrow> FoundryWriter \<Rightarrow> Flight \<Rightarrow> string list \<Rightarrow> EnrichState \<Rightarrow> 'w \<Rightarrow> (exn option \<times> EnrichState) \<times> 'w" where
  "push_flight chunk api fw flight seen' st w =
     (let st' = st\<lparr>es_buffer := es_buffer st @ [flight], es_seen := seen'\<rparr>
      in if length (es_buffer st') \<ge> chunk then flush api fw st' w else ((None, st'), w))"

text \<open>The \<open>async for trail in stream\<close> loop: the error that ended it, if one did, with the state
  reached. Both a stream error and an error of the flush inside the loop end it.\<close>

primrec stream_trails ::
  "nat \<Rightarrow> 'w afm \<Rightarrow> 'w fapi \<Rightarrow> FoundryWriter \<Rightarrow> (string, active_entry) dict \<Rightarrow> nat \<Rightarrow> EnrichState \<Rightarrow> 'w \<Rightarrow>
     ((exn option \<times> EnrichState) \<times> 'w) option" where
  "stream_trails chunk client api fw active 0 st w = None"
| "stream_trails chunk client api fw active (Suc fuel) st w =
     (case am_trail_next client w of
        (Inl e, w') \<Rightarrow> Some ((Some e, st), w')
      | (Inr None, w') \<Rightarrow> Some ((None, st), w')
      | (Inr (Some trail), w') \<Rightarrow>
          (case dget active (tr_icao24 trail) of
             None \<Rightarrow> stream_trails chunk client api fw active fuel st w'
           | Some (flight_id, takeoff_ts, detail) \<Rightarrow>
               (case push_flight chunk api fw (flight_detail_to_flight flight_id takeoff_ts detail (Some trail))
                       (List.insert (tr_icao24 trail) (es_seen st)) st w' of
                  ((Some e, st'), w'') \<Rightarrow> Some ((Some e, st'), w'')
                | ((None, st'), w'') \<Rightarrow> stream_trails chunk client api fw active fuel st' w'')))"

text \<open>The try block around the stream: an HTTP error ends it, whoever raised it.\<close>

definition trail_phase ::
  "nat \<Rightarrow> 'w afm \<Rightarrow> 'w fapi \<Rightarrow> FoundryWriter \<Rightarrow> (string, active_entry) dict \<Rightarrow> nat \<Rightarrow> EnrichState \<Rightarrow>
     ('w, EnrichState) iot" where
  "trail_phase chunk client api fw active fuel st w =
     (if active = [] then Some (Inr st, w)
      else case am_trail_open client (dkeys active) ''2h'' w of
             (Inl e, w') \<Rightarrow> Some (if http_error e then (Inr st, w') else (Inl e, w'))
           | (Inr _, w') \<Rightarrow>
               (case stream_trails chunk client api fw active fuel st w' of
                  None \<Rightarrow> None
                | Some ((Some e, st'), w'') \<Rightarrow> Some (if http_error e then (Inr st', w'') else (Inl e, w''))
                | Some ((None, st'), w'') \<Rightarrow> Some (Inr st', w'')))"

primrec detail_only ::
  "nat \<Rightarrow> 'w fapi \<Rightarrow> FoundryWriter \<Rightarrow> (string, active_entry) dict \<Rightarrow> EnrichState \<Rightarrow> ('w, EnrichState) io" where
  "detail_only chunk api fw [] st w = (Inr st, w)"
| "detail_only chunk api fw (entry # rest) st w =
     (case entry of (icao24, flight_id, takeoff_ts, detail) \<Rightarrow>
        if icao24 \<in> set (es_seen st) then detail_only chunk api fw rest st w
        else case push_flight chunk api fw (flight_detail_to_flight flight_id takeoff_ts detail None)
                    (es_seen st) st w of
               ((Some e, st'), w') \<Rightarrow> (Inl e, w')
             | ((None, st'), w') \<Rightarrow> detail_only chunk api fw rest st' w')"

definition final_flush :: "'w fapi \<Rightarrow> FoundryWriter \<Rightarrow> EnrichState \<Rightarrow> ('w, nat) io" where
  "final_flush api fw st w =
     (case flush api fw st w of
        ((Some e, st'), w') \<Rightarrow> (Inl e, w')
      | ((None, st'), w') \<Rightarrow> (Inr (es_enriched st'), w'))"

definition enrich_with ::
  "nat \<Rightarrow> 'w afm \<Rightarrow> 'w fapi \<Rightarrow> FoundryWriter \<Rightarrow> nat \<Rightarrow> ('w, FlightEnrichmentResult) iot" where
  "enrich_with chunk client api fw fuel =
     iot_bind (list_flight_pks api fw fuel) (\<lambda>flight_pks.
       case latest_per_icao24 [] flight_pks of
         None \<Rightarrow> iot_raise (OtherError ''OverflowError'')
       | Some latest \<Rightarrow>
           let candidates = dvalues latest
           in iot_bind (lift_io (fetch_details client candidates)) (\<lambda>outcomes.
              let active = active_flights candidates outcomes;
                  start = \<lparr>es_buffer = [], es_seen = [], es_enriched = 0\<rparr>
              in iot_bind (trail_phase chunk client api fw active fuel start) (\<lambda>st.
                 iot_bind (lift_io (detail_only chunk api fw active st)) (\<lambda>st'.
                 iot_bind (lift_io (final_flush api fw st')) (\<lambda>enriched.
                 iot_return
                   \<lparr>fer_tenant_flights = length flight_pks, fer_candidates = length candidates,
                    fer_enriched = enriched,
                    fer_skipped_inactive = length (filter (\<lambda>k. k = FetchInactive) outcomes),
                    fer_fetch_failed = length (filter (\<lambda>k. k = FetchFailed) outcomes)\<rparr>)))))"

definition enriched_sync_flights ::
  "'w afm \<Rightarrow> 'w fapi \<Rightarrow> FoundryWriter \<Rightarrow> nat \<Rightarrow> ('w, FlightEnrichmentResult) iot" where
  "enriched_sync_flights = enrich_with ENRICHMENT_CHUNK"

section \<open>Cases\<close>

definition incremental_sync_cases ::
  "'w afm \<Rightarrow> 'w fapi \<Rightarrow> FoundryWriter \<Rightarrow> nat \<Rightarrow> instant option \<Rightarrow> ('w, CaseSyncResult) iot" where
  "incremental_sync_cases client api fw fuel since =
     iot_bind (fetch_cases_for_sync client fuel since) (\<lambda>(items, cursor).
     iot_bind (lift_io (upsert_case_batch api fw (map case_for_sync_to_case items))) (\<lambda>batch.
     iot_return \<lparr>csr_attempted = attempted batch, csr_succeeded = succeeded batch,
                 csr_failed = failed batch, csr_cursor = cursor\<rparr>))"

section \<open>Entry points\<close>

datatype job_error = FoundrySyncSkipped string | Propagated exn

definition guarded_sync :: "string \<Rightarrow> ('w, 'a) iot \<Rightarrow> 'w \<Rightarrow> ((job_error + 'a) \<times> 'w) option" where
  "guarded_sync job body w =
     (case body w of
        None \<Rightarrow> None
      | Some (Inr a, w') \<Rightarrow> Some (Inr a, w')
      | Some (Inl e, w') \<Rightarrow>
          Some (Inl (if e = PydanticValidationError then FoundrySyncSkipped (job @ '': foundry config absent'')
                     else if http_error e then FoundrySyncSkipped (job @ '': foundry/api unreachable'')
                     else Propagated e), w'))"

text \<open>The settings are read inside the guard: their absence is a ValidationError.\<close>

definition with_settings :: "(exn + FoundryWriter) \<Rightarrow> (FoundryWriter \<Rightarrow> ('w, 'a) iot) \<Rightarrow> ('w, 'a) iot" where
  "with_settings settings body = (case settings of Inl e \<Rightarrow> iot_raise e | Inr fw \<Rightarrow> body fw)"

definition run_positions_sync ::
  "(exn + FoundryWriter) \<Rightarrow> 'w afm \<Rightarrow> 'w fapi \<Rightarrow> FlightLifecycleDetector option \<Rightarrow> 'w \<Rightarrow>
     ((job_error + SyncResult \<times> FlightLifecycleDetector option) \<times> 'w) option" where
  "run_positions_sync settings client api detector =
     guarded_sync ''positions'' (with_settings settings (\<lambda>fw. lift_io (incremental_sync_positions client api fw detector)))"

definition run_sites_sync ::
  "(exn + FoundryWriter) \<Rightarrow> 'w afm \<Rightarrow> 'w fapi \<Rightarrow> 'w \<Rightarrow> ((job_error + SyncResult) \<times> 'w) option" where
  "run_sites_sync settings client api =
     guarded_sync ''sites'' (with_settings settings (\<lambda>fw. lift_io (full_sync_sites client api fw)))"

definition run_aircraft_reconcile ::
  "(exn + FoundryWriter) \<Rightarrow> 'w afm \<Rightarrow> 'w fapi \<Rightarrow> nat \<Rightarrow> 'w \<Rightarrow> ((job_error + ReconcileResult) \<times> 'w) option" where
  "run_aircraft_reconcile settings client api fuel =
     guarded_sync ''reconcile''
       (with_settings settings (\<lambda>fw. reconcile_aircraft client api fw (in_live_scope LIVE_SCOPE_REGIONS) fuel))"

definition run_flight_reconcile ::
  "(exn + FoundryWriter) \<Rightarrow> 'w afm \<Rightarrow> 'w fapi \<Rightarrow> nat \<Rightarrow> instant \<Rightarrow> 'w \<Rightarrow>
     ((job_error + FlightReconcileResult) \<times> 'w) option" where
  "run_flight_reconcile settings client api fuel now =
     guarded_sync ''flight_reconcile'' (with_settings settings (\<lambda>fw. reconcile_flights client api fw fuel now))"

definition run_flight_enrichment ::
  "(exn + FoundryWriter) \<Rightarrow> 'w afm \<Rightarrow> 'w fapi \<Rightarrow> nat \<Rightarrow> 'w \<Rightarrow> ((job_error + FlightEnrichmentResult) \<times> 'w) option" where
  "run_flight_enrichment settings client api fuel =
     guarded_sync ''flight_enrichment'' (with_settings settings (\<lambda>fw. enriched_sync_flights client api fw fuel))"

definition run_cases_sync ::
  "(exn + FoundryWriter) \<Rightarrow> 'w afm \<Rightarrow> 'w fapi \<Rightarrow> nat \<Rightarrow> instant option \<Rightarrow> 'w \<Rightarrow>
     ((job_error + CaseSyncResult) \<times> 'w) option" where
  "run_cases_sync settings client api fuel since =
     guarded_sync ''cases'' (with_settings settings (\<lambda>fw. incremental_sync_cases client api fw fuel since))"

definition run_cases_reconcile ::
  "(exn + FoundryWriter) \<Rightarrow> 'w afm \<Rightarrow> 'w fapi \<Rightarrow> nat \<Rightarrow> 'w \<Rightarrow> ((job_error + CaseReconcileResult) \<times> 'w) option" where
  "run_cases_reconcile settings client api fuel =
     guarded_sync ''cases_reconcile'' (with_settings settings (\<lambda>fw. reconcile_cases client api fw fuel))"

section \<open>Enrichment: bookkeeping lemmas\<close>

lemma landed_stamps_length: "landed_stamps ls = Inr stamps \<Longrightarrow> length stamps = length ls"
proof (induction ls arbitrary: stamps)
  case (Cons l ls)
  then show ?case by (cases "landed_stamps ls") (auto split: sum.splits)
qed simp

abbreviation es_total :: "EnrichState \<Rightarrow> nat" where
  "es_total st \<equiv> es_enriched st + length (es_buffer st)"

lemma flush_total:
  assumes "flush api fw st w = ((r, st'), w')"
  shows "es_total st' = es_total st" "es_seen st' = es_seen st" "r = None \<Longrightarrow> es_buffer st' = []"
  using assms upsert_flight.succeeded_all[of api fw "es_buffer st" w]
  by (auto simp: flush_def split: if_splits prod.splits sum.splits)

lemma push_flight_total:
  assumes "push_flight chunk api fw flight seen' st w = ((r, st'), w')"
  shows "es_total st' = Suc (es_total st)" "es_seen st' = seen'"
  using assms flush_total[of api fw "st\<lparr>es_buffer := es_buffer st @ [flight], es_seen := seen'\<rparr>" w r st' w']
  by (auto simp: push_flight_def Let_def split: if_splits)

lemma stream_trails_total:
  "stream_trails chunk client api fw active fuel st w = Some ((r, st'), w') \<Longrightarrow>
   es_total st + card (set (es_seen st')) \<le> es_total st' + card (set (es_seen st))"
proof (induction fuel arbitrary: st w)
  case (Suc fuel)
  obtain x w1 where nxt: "am_trail_next client w = (x, w1)" by fastforce
  show ?case
  proof (cases "\<exists>trail fid t d. x = Inr (Some trail) \<and> dget active (tr_icao24 trail) = Some (fid, t, d)")
    case False
    then show ?thesis using Suc nxt by (auto split: sum.splits option.splits)
  next
    case True
    then obtain trail fid t d where x: "x = Inr (Some trail)"
      and entry: "dget active (tr_icao24 trail) = Some (fid, t, d)" by blast
    obtain r1 st1 w2 where push: "push_flight chunk api fw (flight_detail_to_flight fid t d (Some trail))
        (List.insert (tr_icao24 trail) (es_seen st)) st w1 = ((r1, st1), w2)" by (metis prod.collapse)
    note tot = push_flight_total[OF push]
    have card: "card (set (es_seen st1)) \<le> Suc (card (set (es_seen st)))"
      unfolding tot(2) by (simp add: card_insert_if)
    show ?thesis
    proof (cases r1)
      case (Some e)
      then have "st' = st1" using Suc.prems nxt x entry push by simp
      then show ?thesis using tot(1) card by simp
    next
      case None
      then have "stream_trails chunk client api fw active fuel st1 w2 = Some ((r, st'), w')"
        using Suc.prems nxt x entry push by simp
      from Suc.IH[OF this] show ?thesis using tot(1) card by simp
    qed
  qed
qed simp

lemma trail_phase_total:
  assumes "trail_phase chunk client api fw active fuel st w = Some (Inr st', w')"
  shows "es_total st + card (set (es_seen st')) \<le> es_total st' + card (set (es_seen st))"
  using assms stream_trails_total[of chunk client api fw active fuel st]
  by (fastforce simp: trail_phase_def split: if_splits prod.splits sum.splits option.splits)

lemma detail_only_total:
  "detail_only chunk api fw entries st w = (Inr st', w') \<Longrightarrow>
   es_total st' = es_total st + length (filter (\<lambda>e. fst e \<notin> set (es_seen st)) entries) \<and>
   es_seen st' = es_seen st"
proof (induction entries arbitrary: st w)
  case (Cons entry entries)
  obtain a fid t d where e: "entry = (a, fid, t, d)" by (metis prod.collapse)
  show ?case
  proof (cases "a \<in> set (es_seen st)")
    case True
    then show ?thesis using Cons e by simp
  next
    case False
    obtain r1 st1 w1 where push: "push_flight chunk api fw (flight_detail_to_flight fid t d None) (es_seen st) st w =
        ((r1, st1), w1)" by (metis prod.collapse)
    note tot = push_flight_total[OF push]
    have "r1 = None" and rest: "detail_only chunk api fw entries st1 w1 = (Inr st', w')"
      using Cons.prems e False push by (auto split: option.splits)
    from Cons.IH[OF rest] show ?thesis using tot e False by simp
  qed
qed simp

lemma final_flush_total: "final_flush api fw st w = (Inr n, w') \<Longrightarrow> n = es_total st"
proof -
  assume f: "final_flush api fw st w = (Inr n, w')"
  obtain r st' w1 where fl: "flush api fw st w = ((r, st'), w1)" by (metis prod.collapse)
  show ?thesis using f fl flush_total[OF fl] by (auto simp: final_flush_def split: option.splits)
qed

lemma latest_per_icao24_newest:
  "latest_per_icao24 d pks = Some d' \<Longrightarrow>
   d' = newest_by leg_icao24 leg_takeoff d (List.map_filter parsed pks)"
  by (induction pks arbitrary: d) (auto simp: parsed_alt split: option.splits)

lemma fetch_details_length: "fetch_details client ls w = (Inr ks, w') \<Longrightarrow> length ks = length ls"
  by (induction ls arbitrary: ks w) (auto simp: io_bind_Inr io_return_Inr)

lemma active_keys:
  assumes "distinct (map leg_icao24 ls)"
  shows "distinct (dkeys (active_flights ls ks))"
    "set (dkeys (active_flights ls ks)) \<subseteq> leg_icao24 ` set ls"
proof -
  have "distinct (dkeys (active_flights ls ks)) \<and> set (dkeys (active_flights ls ks)) \<subseteq> leg_icao24 ` set ls"
    using assms
  proof (induction ls arbitrary: ks)
    case (Cons l ls)
    show ?case
    proof (cases ks)
      case (Cons k ks')
      have "distinct (dkeys (active_flights ls ks')) \<and> set (dkeys (active_flights ls ks')) \<subseteq> leg_icao24 ` set ls"
        using Cons.IH Cons.prems by simp
      then show ?thesis using Cons Cons.prems
        by (cases k) (auto simp: active_flights_def map_filter_simps)
    qed (simp add: active_flights_def map_filter_simps)
  qed (simp add: active_flights_def map_filter_simps)
  then show "distinct (dkeys (active_flights ls ks))"
    "set (dkeys (active_flights ls ks)) \<subseteq> leg_icao24 ` set ls" by auto
qed

lemma active_count:
  "length ks = length ls \<Longrightarrow>
   length (active_flights ls ks) + length (filter (\<lambda>k. k = FetchInactive) ks) + length (filter (\<lambda>k. k = FetchFailed) ks) = length ls"
proof (induction ls ks rule: list_induct2')
  case (4 l ls k ks)
  then show ?case by (cases k) (simp_all add: active_flights_def map_filter_simps)
qed (simp_all add: active_flights_def map_filter_simps)

section \<open>Properties\<close>


text \<open>An enrichment run that returns accounts for every candidate: each newest leg per airframe was
  upserted, or its detail was gone (404), or its fetch failed.\<close>

theorem enrichment_accounts:
  assumes "enriched_sync_flights client api fw fuel w = Some (Inr r, w')"
  shows "fer_candidates r \<le> fer_enriched r + fer_skipped_inactive r + fer_fetch_failed r \<and>
         fer_candidates r \<le> fer_tenant_flights r"
proof -
  obtain pks w1 latest where pks: "list_flight_pks api fw fuel w = Some (Inr pks, w1)"
    and latest: "latest_per_icao24 [] pks = Some latest"
    using assms by (auto simp: enriched_sync_flights_def enrich_with_def iot_laws Let_def split: option.splits)
  define cands where "cands = dvalues latest"
  obtain outcomes w2 st w3 st' w4 n where
    d: "fetch_details client cands w1 = (Inr outcomes, w2)"
    and t: "trail_phase ENRICHMENT_CHUNK client api fw (active_flights cands outcomes) fuel
              \<lparr>es_buffer = [], es_seen = [], es_enriched = 0\<rparr> w2 = Some (Inr st, w3)"
    and o: "detail_only ENRICHMENT_CHUNK api fw (active_flights cands outcomes) st w3 = (Inr st', w4)"
    and f: "final_flush api fw st' w4 = (Inr n, w')"
    and r: "fer_tenant_flights r = length pks" "fer_candidates r = length cands" "fer_enriched r = n"
      "fer_skipped_inactive r = length (filter (\<lambda>k. k = FetchInactive) outcomes)"
      "fer_fetch_failed r = length (filter (\<lambda>k. k = FetchFailed) outcomes)"
    using assms pks latest by (auto simp: enriched_sync_flights_def enrich_with_def iot_laws Let_def cands_def)
  note new = latest_per_icao24_newest[OF latest]
  have keyed: "keyed leg_icao24 latest" unfolding new by (rule newest_by_keyed) simp
  then have dist: "distinct (map leg_icao24 cands)"
    unfolding cands_def keyed_keys[OF keyed] by (simp add: keyed_def wf_dict_def)
  let ?active = "active_flights cands outcomes"
  have "length ?active = card (set (dkeys ?active))"
    using distinct_card[OF active_keys(1)[OF dist, of outcomes]] by simp
  also have "\<dots> \<le> card (set (es_seen st)) + length (filter (\<lambda>e. fst e \<notin> set (es_seen st)) ?active)"
  proof -
    have "set (dkeys ?active) \<subseteq> set (es_seen st) \<union> fst ` set (filter (\<lambda>e. fst e \<notin> set (es_seen st)) ?active)" by auto
    then have "card (set (dkeys ?active)) \<le> card (set (es_seen st) \<union> fst ` set (filter (\<lambda>e. fst e \<notin> set (es_seen st)) ?active))"
      by (intro card_mono) auto
    also have "\<dots> \<le> card (set (es_seen st)) + card (fst ` set (filter (\<lambda>e. fst e \<notin> set (es_seen st)) ?active))"
      by (rule card_Un_le)
    also have "card (fst ` set (filter (\<lambda>e. fst e \<notin> set (es_seen st)) ?active)) \<le> length (filter (\<lambda>e. fst e \<notin> set (es_seen st)) ?active)"
      by (rule order_trans[OF card_image_le card_length]) simp
    finally show ?thesis by simp
  qed
  also have "card (set (es_seen st)) \<le> es_total st" using trail_phase_total[OF t] by simp
  also have "es_total st + length (filter (\<lambda>e. fst e \<notin> set (es_seen st)) ?active) = n"
    using detail_only_total[OF o] final_flush_total[OF f] by simp
  finally have "length ?active \<le> n" by simp
  moreover have "length cands \<le> length pks"
  proof -
    have "k \<in> leg_icao24 ` set (List.map_filter parsed pks)" if "k \<in> set (dkeys latest)" for k
      using that newest_by_dom[of leg_icao24 leg_takeoff "List.map_filter parsed pks" k]
      unfolding new dget_None_iff by blast
    then have "set (map leg_icao24 cands) \<subseteq> leg_icao24 ` set (List.map_filter parsed pks)"
      unfolding cands_def keyed_keys[OF keyed] by blast
    then have "card (set (map leg_icao24 cands)) \<le> card (leg_icao24 ` set (List.map_filter parsed pks))"
      by (intro card_mono) auto
    also have "\<dots> \<le> length (List.map_filter parsed pks)"
      by (rule order_trans[OF card_image_le card_length]) simp
    also have "\<dots> \<le> length pks" by (simp add: map_filter_def)
    finally show ?thesis using distinct_card[OF dist] by simp
  qed
  ultimately show ?thesis
    using active_count[of outcomes cands] fetch_details_length[OF d] r by simp
qed

text \<open>What \<open>guarded_sync\<close> lets through: a job under it ends in its own result, in a skip exactly for a
  validation error or an HTTP error, and otherwise in the exception itself; the world is the job's.\<close>

lemma guarded_sync_classifies:
  "guarded_sync job body w =
     map_option (\<lambda>(r, w'). (case r of
         Inr a \<Rightarrow> Inr a
       | Inl PydanticValidationError \<Rightarrow> Inl (FoundrySyncSkipped (job @ '': foundry config absent''))
       | Inl TransportError \<Rightarrow> Inl (FoundrySyncSkipped (job @ '': foundry/api unreachable''))
       | Inl (HTTPStatusError _) \<Rightarrow> Inl (FoundrySyncSkipped (job @ '': foundry/api unreachable''))
       | Inl e \<Rightarrow> Inl (Propagated e), w')) (body w)"
  by (auto simp: guarded_sync_def http_error_def split: option.split sum.split exn.split)

section \<open>Worked instances\<close>


lemma enrichment_accounts_witness: "(2::nat) \<le> 0 + 2 + 0 \<and> (2::nat) \<le> 3"
proof -
  let ?run = "the (enriched_sync_flights (demo_client []) (log_api demo_objects) (demo_writer False) 5 [])"
  have "enriched_sync_flights (demo_client []) (log_api demo_objects) (demo_writer False) 5 [] =
      Some (Inr \<lparr>fer_tenant_flights = 3, fer_candidates = 2, fer_enriched = 0, fer_skipped_inactive = 2,
                 fer_fetch_failed = 0\<rparr>, [])"
    by code_simp
  from enrichment_accounts[OF this] show ?thesis by simp
qed

text \<open>A tenant whose first upsert is refused three times (so the retry is spent) while the trail stream
  still holds a line: the world is the number of POSTs so far, the trails left and the accepted chunks.\<close>

type_synonym flaky = "nat \<times> TrailResponse list \<times> params list list"

definition flaky_api :: "(string, json) dict list \<Rightarrow> flaky fapi" where
  "flaky_api objs =
     \<lparr>fa_post = (\<lambda>path chunk (n, ts, acc).
        if n < 3 then (Inl (HTTPStatusError 503), (Suc n, ts, acc)) else (Inr (), (Suc n, ts, acc @ [chunk]))),
      fa_get = (\<lambda>path query w. (Inr \<lparr>pg_data = objs, pg_nextPageToken = None\<rparr>, w)),
      fa_repr = (\<lambda>_. [])\<rparr>"

definition demo_detail :: "string \<Rightarrow> FlightDetail" where
  "demo_detail a =
     \<lparr>fd_icao24 = a, fd_callsign = None, fd_registration = None, fd_aircraft_type = None,
      fd_operator_icao = None, fd_origin_icao = None, fd_destination_icao = None,
      fd_customer_region = None, fd_position = demo_position a False, fd_eta_minutes = None,
      fd_status_timeline = [], fd_open_case_ids = []\<rparr>"

definition demo_trail :: "string \<Rightarrow> TrailResponse" where
  "demo_trail a =
     \<lparr>tr_icao24 = a,
      tr_points = [\<lparr>tp_ts = 1, tp_lat = 0, tp_lon = 0, tp_altitude_ft = None, tp_speed_kt = None\<rparr>],
      tr_lookback = ''2h'', tr_point_count = 1\<rparr>"

definition streaming_client :: "flaky afm" where
  "streaming_client = (demo_client [])
     \<lparr>am_flight := (\<lambda>a w. (Inr (demo_detail a), w)),
      am_trail_next := (\<lambda>(n, ts, acc). (Inr (case ts of [] \<Rightarrow> None | t # _ \<Rightarrow> Some t), (n, tl ts, acc)))\<rparr>"

definition trail_param :: "params \<Rightarrow> json option" where
  "trail_param ps = dget ps ''trail2h''"

text \<open>The run in its phases: the legs scanned, the first upsert refused, the last one accepted.\<close>

definition flaky_objects :: "(string, json) dict list" where
  "flaky_objects = [[(''flightId'', JStr ''aa-1'')], [(''flightId'', JStr ''bb-2'')]]"

definition flaky_legs :: "leg list" where
  "flaky_legs = [(''bb'', seconds 2, ''bb-2''), (''aa'', seconds 1, ''aa-1'')]"

lemma flaky_scan:
  "list_flight_pks (flaky_api flaky_objects) (demo_writer False) 5 w = Some (Inr [''bb-2'', ''aa-1''], w)"
  "map_option dvalues (latest_per_icao24 [] [''bb-2'', ''aa-1'']) = Some flaky_legs"
  by code_simp+

lemma flaky_details: "fetch_details streaming_client flaky_legs w = (Inr [FetchOk (demo_detail ''bb''), FetchOk (demo_detail ''aa'')], w)"
  by (simp add: flaky_legs_def fetch_detail_def fetch_flight_def transient_retry_def numeral_2_eq_2 streaming_client_def
      io_bind_def io_return_def)

lemma flaky_refused: "apply_batch (flaky_api objs) fw action [p] (0, ts, acc) = (Inl (HTTPStatusError 503), (3, ts, acc))"
  by code_simp

lemma flaky_accepted:
  "apply_batch (flaky_api objs) fw action [p, q] (3, ts, acc) =
     (Inr \<lparr>attempted = 2, succeeded = 2, failed = 0\<rparr>, (4, ts, acc @ [[p, q]]))"
  by code_simp

abbreviation flaky_flight :: "string \<Rightarrow> string \<Rightarrow> instant \<Rightarrow> TrailResponse option \<Rightarrow> Flight" where
  "flaky_flight icao24 pk takeoff trail \<equiv> flight_detail_to_flight pk takeoff (demo_detail icao24) trail"

lemma flaky_active:
  "active_flights flaky_legs [FetchOk (demo_detail ''bb''), FetchOk (demo_detail ''aa'')] =
     [(''bb'', ''bb-2'', seconds 2, demo_detail ''bb''), (''aa'', ''aa-1'', seconds 1, demo_detail ''aa'')]"
  by (simp add: active_flights_def flaky_legs_def map_filter_simps)

lemma flaky_push:
  "push_flight 1 (flaky_api objs) fw f seen \<lparr>es_buffer = [], es_seen = [], es_enriched = 0\<rparr> (0, ts, acc) =
     ((Some (HTTPStatusError 503), \<lparr>es_buffer = [f], es_seen = seen, es_enriched = 0\<rparr>), (3, ts, acc))"
  by (simp add: push_flight_def flush_def upsert_flight_batch_def flaky_refused)

lemma flaky_client:
  "am_trail_open streaming_client ks lookback w = (Inr (), w)"
  "am_trail_next streaming_client (n, t # ts, acc) = (Inr (Some t), (n, ts, acc))"
  "tr_icao24 (demo_trail a) = a" "http_error (HTTPStatusError 503)"
  by (simp_all add: streaming_client_def demo_client_def io_return_def demo_trail_def http_error_def)

lemma flaky_stream:
  "stream_trails 1 streaming_client (flaky_api objs) fw ((''bb'', pk, takeoff, detail) # rest) (Suc fuel)
     \<lparr>es_buffer = [], es_seen = [], es_enriched = 0\<rparr> (0, demo_trail ''bb'' # ts, []) =
   Some ((Some (HTTPStatusError 503),
     \<lparr>es_buffer = [flight_detail_to_flight pk takeoff detail (Some (demo_trail ''bb''))], es_seen = [''bb''], es_enriched = 0\<rparr>), (3, ts, []))"
  by (simp add: flaky_client flaky_push[unfolded One_nat_def])

lemma flaky_trails:
  "trail_phase 1 streaming_client (flaky_api objs) fw [(''bb'', ''bb-2'', seconds 2, demo_detail ''bb''), (''aa'', entry)] 5
     \<lparr>es_buffer = [], es_seen = [], es_enriched = 0\<rparr> (0, [demo_trail ''bb'', demo_trail ''aa''], []) =
   Some (Inr \<lparr>es_buffer = [flaky_flight ''bb'' ''bb-2'' (seconds 2) (Some (demo_trail ''bb''))], es_seen = [''bb''], es_enriched = 0\<rparr>,
     (3, [demo_trail ''aa''], []))"
  using flaky_stream[of objs fw "''bb-2''" "seconds 2" "demo_detail ''bb''" "[(''aa'', entry)]" 4 "[demo_trail ''aa'']"]
  by (simp add: trail_phase_def flaky_client(1,4) del: stream_trails.simps)

lemma flaky_rest:
  "detail_only 1 (flaky_api objs) fw [(''bb'', entry), (''aa'', ''aa-1'', seconds 1, demo_detail ''aa'')]
     \<lparr>es_buffer = [f], es_seen = [''bb''], es_enriched = 0\<rparr> (3, ts, acc) =
   (Inr \<lparr>es_buffer = [], es_seen = [''bb''], es_enriched = 2\<rparr>,
     (4, ts, acc @ [map (flight_params (islive_enabled fw)) [f, flaky_flight ''aa'' ''aa-1'' (seconds 1) None]]))"
  by (cases entry) (simp add: push_flight_def flush_def upsert_flight_batch_def flaky_accepted)

lemma flaky_params:
  "trail_param (flight_params False (flaky_flight ''bb'' ''bb-2'' (seconds 2) (Some (demo_trail ''bb'')))) =
     Some (JDumps (JList (map dump_trail_point (tr_points (demo_trail ''bb'')))))"
  "trail_param (flight_params False (flaky_flight ''aa'' ''aa-1'' (seconds 1) None)) = Some (JDumps (JList []))"
  by code_simp+


end
