(* ===== verification/Lakehouse.thy ===== *)
theory Lakehouse
  imports Writer
begin

text \<open>
  resources/lakehouse.py: the Parquet tree with its two partitioned tables, position snapshots by UTC
  hour and archived flights by UTC landing day. A partition directory is an entry of a dictionary from
  its hour or day number (instants divided by the length of an hour or a day; a directory name gives
  the same date back) to its committed files. The disk may fail a write, or lose a committed file: a
  list of outcomes in the state decides each write, and theorems hold for every such list. The
  uuid of a file name is a counter. Whether pyarrow converts a row's values to the schema is the
  parameter \<open>arrow\<close>; that it refuses None in a non-nullable column is written out.
\<close>

section \<open>Rows\<close>

record PositionRow =
  pr_icao24 :: string
  pr_callsign :: "string option"
  pr_origin_country :: "string option"
  pr_lat :: "real option"
  pr_lon :: "real option"
  pr_altitude_ft :: "int option"
  pr_speed_kt :: "int option"
  pr_heading_deg :: "int option"
  pr_vertical_rate_fpm :: "int option"
  pr_on_ground :: bool
  pr_squawk :: "string option"
  pr_ts_polled :: instant
  pr_ts_position :: "instant option"
  pr_customer_region :: "string option"

record ArchiveRow =
  arw_flight_id :: string
  arw_icao24 :: json
  arw_takeoff_ts :: "instant option"
  arw_landed_at :: instant
  arw_callsign :: json
  arw_registration :: json
  arw_aircraft_type :: json
  arw_operator_icao :: json
  arw_customer_region :: json
  arw_origin_icao :: json
  arw_destination_icao :: json
  arw_eta_minutes :: json
  arw_status :: json
  arw_current_stage :: json
  arw_lat :: json
  arw_lon :: json
  arw_open_case_count :: json
  arw_open_case_ids :: json
  arw_status_timeline :: json
  arw_trail_2h :: json
  arw_archived_at :: instant

section \<open>The tree\<close>

datatype disk_event = DiskOk | DiskError | DiskLost

type_synonym 'r table = "(int, (nat \<times> 'r list) list) dict"

record Lake =
  lk_positions :: "PositionRow table"
  lk_archive :: "ArchiveRow table"
  lk_uuid :: nat
  lk_disk :: "disk_event list"

definition hour_of :: "instant \<Rightarrow> int" where
  "hour_of t = t div hours 1"

definition day_of :: "instant \<Rightarrow> int" where
  "day_of t = t div days 1"

definition next_disk :: "Lake \<Rightarrow> disk_event" where
  "next_disk lake = (case lk_disk lake of [] \<Rightarrow> DiskOk | e # _ \<Rightarrow> e)"

text \<open>\<open>mkdir(parents=True, exist_ok=True)\<close>, and one more file in a directory.\<close>

definition make_dir :: "int \<Rightarrow> 'r table \<Rightarrow> 'r table" where
  "make_dir p t = (case dget t p of None \<Rightarrow> dset p [] t | Some _ \<Rightarrow> t)"

definition put_file :: "int \<Rightarrow> nat \<Rightarrow> 'r list \<Rightarrow> 'r table \<Rightarrow> 'r table" where
  "put_file p n rows t = (case dget t p of None \<Rightarrow> dset p [(n, rows)] t | Some fs \<Rightarrow> dset p (fs @ [(n, rows)]) t)"

definition dir_rows :: "(nat \<times> 'r list) list \<Rightarrow> 'r list" where
  "dir_rows fs = concat (map snd fs)"

definition rows_in :: "(int \<times> (nat \<times> 'r list) list) list \<Rightarrow> 'r list" where
  "rows_in dirs = concat (map (dir_rows \<circ> snd) dirs)"

section \<open>Position snapshots\<close>

definition int32_ok :: "int option \<Rightarrow> bool" where
  "int32_ok x = (case x of None \<Rightarrow> True | Some i \<Rightarrow> - (2 ^ 31) \<le> i \<and> i < 2 ^ 31)"

definition position_row_ok :: "PositionRow \<Rightarrow> bool" where
  "position_row_ok r \<longleftrightarrow> int32_ok (pr_altitude_ft r) \<and> int32_ok (pr_speed_kt r) \<and>
     int32_ok (pr_heading_deg r) \<and> int32_ok (pr_vertical_rate_fpm r)"

definition write_positions_snapshot :: "PositionRow list \<Rightarrow> instant \<Rightarrow> (Lake, (int \<times> nat)) io" where
  "write_positions_snapshot rows polled_at = (\<lambda>lake.
     if rows = [] then (Inl PyValueError, lake)
     else
       let h = hour_of polled_at;
           lake1 = lake\<lparr>lk_positions := make_dir h (lk_positions lake)\<rparr>;
           normalized = map (\<lambda>r. r\<lparr>pr_ts_polled := polled_at\<rparr>) rows
       in if \<not> list_all position_row_ok normalized then (Inl (OtherError ''ArrowInvalid''), lake1)
          else
            let n = lk_uuid lake1;
                lake2 = lake1\<lparr>lk_uuid := Suc n, lk_disk := drop 1 (lk_disk lake1)\<rparr>
            in case next_disk lake1 of
                 DiskError \<Rightarrow> (Inl (OtherError ''OSError''), lake2)
               | DiskLost \<Rightarrow> (Inr (h, n), lake2)
               | DiskOk \<Rightarrow> (Inr (h, n), lake2\<lparr>lk_positions := put_file h n normalized (lk_positions lake2)\<rparr>))"

text \<open>The hour loop from the cutoff's hour on: each existing directory, in order.\<close>

definition recent_partition_dirs :: "instant \<Rightarrow> instant \<Rightarrow> Lake \<Rightarrow> (int \<times> (nat \<times> PositionRow list) list) list" where
  "recent_partition_dirs cutoff now lake =
     List.map_filter (\<lambda>h. map_option (Pair h) (dget (lk_positions lake) h)) [hour_of cutoff..hour_of now]"

definition read_recent_positions :: "int \<Rightarrow> instant \<Rightarrow> Lake \<Rightarrow> PositionRow list" where
  "read_recent_positions lookback_minutes now lake =
     (let cutoff = now - minutes lookback_minutes
      in filter (\<lambda>r. pr_ts_polled r \<ge> cutoff) (rows_in (recent_partition_dirs cutoff now lake)))"

section \<open>The flights archive\<close>

definition archive_row_ok :: "(ArchiveRow \<Rightarrow> bool) \<Rightarrow> ArchiveRow \<Rightarrow> bool" where
  "archive_row_ok arrow r \<longleftrightarrow> arw_icao24 r \<noteq> JNull \<and> arw_takeoff_ts r \<noteq> None \<and> arrow r"

definition write_flights_archive ::
  "(ArchiveRow \<Rightarrow> bool) \<Rightarrow> ArchiveRow list \<Rightarrow> int \<Rightarrow> (Lake, (int \<times> nat) \<times> nat) io" where
  "write_flights_archive arrow rows landed_date = (\<lambda>lake.
     if rows = [] then (Inl PyValueError, lake)
     else
       let lake1 = lake\<lparr>lk_archive := make_dir landed_date (lk_archive lake)\<rparr>
       in if \<not> list_all (archive_row_ok arrow) rows then (Inl (OtherError ''ArrowInvalid''), lake1)
          else
            let n = lk_uuid lake1;
                lake2 = lake1\<lparr>lk_uuid := Suc n, lk_disk := drop 1 (lk_disk lake1)\<rparr>
            in case next_disk lake1 of
                 DiskError \<Rightarrow> (Inl (OtherError ''OSError''), lake2)
               | DiskLost \<Rightarrow> (Inr ((landed_date, n), length rows), lake2)
               | DiskOk \<Rightarrow> (Inr ((landed_date, n), length rows),
                            lake2\<lparr>lk_archive := put_file landed_date n rows (lk_archive lake2)\<rparr>))"

definition archive_day_dirs :: "int option \<Rightarrow> int option \<Rightarrow> Lake \<Rightarrow> (int \<times> (nat \<times> ArchiveRow list) list) list" where
  "archive_day_dirs start stop lake =
     sort_key fst (filter (\<lambda>(d, _). (case start of None \<Rightarrow> True | Some s \<Rightarrow> s \<le> d) \<and>
                                    (case stop of None \<Rightarrow> True | Some e \<Rightarrow> d \<le> e)) (lk_archive lake))"

definition read_flights_archive :: "int option \<Rightarrow> instant \<Rightarrow> Lake \<Rightarrow> ArchiveRow list" where
  "read_flights_archive lookback_days now lake =
     (case lookback_days of
        None \<Rightarrow> rows_in (archive_day_dirs None None lake)
      | Some n \<Rightarrow>
          (let cutoff = now - days n
           in filter (\<lambda>r. arw_landed_at r \<ge> cutoff)
                (rows_in (archive_day_dirs (Some (day_of cutoff)) (Some (day_of now)) lake))))"

definition file_rows :: "Lake \<Rightarrow> int \<times> nat \<Rightarrow> ArchiveRow list" where
  "file_rows lake path =
     (case dget (lk_archive lake) (fst path) of
        None \<Rightarrow> []
      | Some fs \<Rightarrow> (case dget fs (snd path) of None \<Rightarrow> [] | Some rows \<Rightarrow> rows))"

definition read_flights_archive_files :: "(int \<times> nat) list \<Rightarrow> Lake \<Rightarrow> ArchiveRow list" where
  "read_flights_archive_files paths lake = concat (map (file_rows lake) paths)"

definition count_flights_archive :: "Lake \<Rightarrow> nat" where
  "count_flights_archive lake = length (rows_in (archive_day_dirs None None lake))"

definition count_flights_archived_at :: "instant \<Rightarrow> Lake \<Rightarrow> nat" where
  "count_flights_archived_at archived_at lake =
     length (filter (\<lambda>r. arw_archived_at r = archived_at) (rows_in (archive_day_dirs None None lake)))"

definition oldest_flights_archive_partition :: "Lake \<Rightarrow> int option" where
  "oldest_flights_archive_partition lake =
     (case archive_day_dirs None None lake of [] \<Rightarrow> None | (d, _) # _ \<Rightarrow> Some d)"

definition purge_flights_archive_before :: "int \<Rightarrow> Lake \<Rightarrow> int list \<times> Lake" where
  "purge_flights_archive_before cutoff lake =
     (let dropped = map fst (archive_day_dirs None (Some (cutoff - 1)) lake)
      in (dropped, lake\<lparr>lk_archive := foldl (\<lambda>t d. dpop d t) (lk_archive lake) dropped\<rparr>))"

section \<open>Well-formed trees\<close>

definition good_dir :: "('r \<Rightarrow> int) \<Rightarrow> nat \<Rightarrow> int \<Rightarrow> (nat \<times> 'r list) list \<Rightarrow> bool" where
  "good_dir part n p fs \<longleftrightarrow> wf_dict fs \<and> (\<forall>(k, rows) \<in> set fs. k < n \<and> (\<forall>r \<in> set rows. part r = p))"

definition wf_table :: "('r \<Rightarrow> int) \<Rightarrow> nat \<Rightarrow> 'r table \<Rightarrow> bool" where
  "wf_table part n t \<longleftrightarrow> wf_dict t \<and>
     (\<forall>(p, fs) \<in> set t. good_dir part n p fs)"

definition wf_lake :: "Lake \<Rightarrow> bool" where
  "wf_lake lake \<longleftrightarrow> wf_table (hour_of \<circ> pr_ts_polled) (lk_uuid lake) (lk_positions lake) \<and>
     wf_table (day_of \<circ> arw_landed_at) (lk_uuid lake) (lk_archive lake)"

definition all_rows :: "'r table \<Rightarrow> 'r set" where
  "all_rows t = (\<Union>(p, fs) \<in> set t. \<Union>(k, rows) \<in> set fs. set rows)"

lemma set_dir_rows: "set (dir_rows fs) = (\<Union>(k, rows) \<in> set fs. set rows)"
  by (auto simp: dir_rows_def)

lemma set_rows_in: "set (rows_in dirs) = (\<Union>(p, fs) \<in> set dirs. set (dir_rows fs))"
  by (auto simp: rows_in_def)

lemma all_rows_alt: "all_rows t = set (rows_in t)"
  by (simp add: all_rows_def set_rows_in set_dir_rows)

lemma all_rows_mem: "r \<in> all_rows t \<longleftrightarrow> (\<exists>p fs. (p, fs) \<in> set t \<and> r \<in> set (dir_rows fs))"
  unfolding all_rows_alt set_rows_in by blast

lemma good_dir_mono: "good_dir part n p fs \<Longrightarrow> n \<le> m \<Longrightarrow> good_dir part m p fs"
  by (fastforce simp: good_dir_def)

lemma wf_table_dir: "wf_table part n t \<Longrightarrow> (p, fs) \<in> set t \<Longrightarrow> good_dir part n p fs"
  by (auto simp: wf_table_def)

lemma wf_table_mono: "wf_table part n t \<Longrightarrow> n \<le> m \<Longrightarrow> wf_table part m t"
  by (auto simp: wf_table_def intro: good_dir_mono)

lemma dset_absent: "dget t p = None \<Longrightarrow> dset p v t = t @ [(p, v)]"
  by (induction t) (auto split: if_splits)

lemma set_dset: "wf_dict t \<Longrightarrow> set (dset p v t) = {(q, w) \<in> set t. q \<noteq> p} \<union> {(p, v)}"
proof -
  assume wf: "wf_dict t"
  have "(q, w) \<in> set (dset p v t) \<longleftrightarrow> (q, w) \<in> {(q, w) \<in> set t. q \<noteq> p} \<union> {(p, v)}" for q w
    using wf_dict_mem_iff[OF wf_dset[OF wf], of q w p v] wf_dict_mem_iff[OF wf, of q w] by (auto split: if_splits)
  then show ?thesis by auto
qed

lemma make_dir_keeps:
  assumes "wf_table part n t"
  shows "wf_table part n (make_dir p t) \<and> all_rows (make_dir p t) = all_rows t"
proof (cases "dget t p")
  case None
  have "make_dir p t = t @ [(p, [])]" using dset_absent[OF None] by (simp only: make_dir_def None option.case)
  moreover have "p \<notin> set (dkeys t)" using None by (blast dest: dget_None_iff[THEN iffD1])
  ultimately show ?thesis
    using assms by (auto simp: wf_table_def good_dir_def all_rows_def wf_dict_def)
qed (use assms in \<open>simp add: make_dir_def\<close>)

lemma good_dir_append:
  "good_dir part n p fs \<Longrightarrow> \<forall>r \<in> set rows. part r = p \<Longrightarrow> good_dir part (Suc n) p (fs @ [(n, rows)])"
  by (fastforce simp: good_dir_def wf_dict_def)

lemma put_file_keeps:
  assumes wf: "wf_table part n t" and rows: "\<forall>r \<in> set rows. part r = p"
  shows "wf_table part (Suc n) (put_file p n rows t) \<and> all_rows (put_file p n rows t) = all_rows t \<union> set rows"
proof (cases "dget t p")
  case None
  have "put_file p n rows t = t @ [(p, [(n, rows)])]"
    using dset_absent[OF None] by (simp only: put_file_def None option.case)
  moreover have "p \<notin> set (dkeys t)" using None by (blast dest: dget_None_iff[THEN iffD1])
  moreover have "wf_table part (Suc n) t" using wf by (rule wf_table_mono) simp
  ultimately show ?thesis
    using rows by (auto simp: wf_table_def good_dir_def all_rows_def wf_dict_def)
next
  case (Some fs)
  have wft: "wf_dict t" using wf by (simp add: wf_table_def)
  have mem: "(p, fs) \<in> set t" using Some by (rule map_of_SomeD)
  have u: "gs = fs" if "(p, gs) \<in> set t" for gs
    using Some wft that by (simp add: wf_dict_mem_iff)
  have grown: "good_dir part (Suc n) p (fs @ [(n, rows)])" by (rule good_dir_append[OF wf_table_dir[OF wf mem] rows])
  have "good_dir part (Suc n) q gs" if "(q, gs) \<in> set (dset p (fs @ [(n, rows)]) t)" for q gs
  proof (cases "q = p")
    case True
    then show ?thesis using that grown unfolding set_dset[OF wft] by blast
  next
    case False
    then have "(q, gs) \<in> set t" using that unfolding set_dset[OF wft] by blast
    from good_dir_mono[OF wf_table_dir[OF wf this]] show ?thesis by simp
  qed
  then have wf2: "wf_table part (Suc n) (dset p (fs @ [(n, rows)]) t)"
    using wft by (auto simp: wf_table_def)
  have "r \<in> all_rows (dset p (fs @ [(n, rows)]) t) \<longleftrightarrow> r \<in> all_rows t \<union> set rows" for r
  proof -
    have dr: "r \<in> set (dir_rows (fs @ [(n, rows)])) \<longleftrightarrow> r \<in> set (dir_rows fs) \<or> r \<in> set rows"
      by (auto simp: dir_rows_def)
    have "r \<in> all_rows (dset p (fs @ [(n, rows)]) t) \<longleftrightarrow>
        (\<exists>q gs. (q, gs) \<in> set t \<and> q \<noteq> p \<and> r \<in> set (dir_rows gs)) \<or> r \<in> set (dir_rows fs) \<or> r \<in> set rows"
      unfolding all_rows_mem set_dset[OF wft] using dr by blast
    moreover have "r \<in> all_rows t \<longleftrightarrow>
        (\<exists>q gs. (q, gs) \<in> set t \<and> q \<noteq> p \<and> r \<in> set (dir_rows gs)) \<or> r \<in> set (dir_rows fs)"
      unfolding all_rows_mem using mem u by blast
    ultimately show ?thesis by blast
  qed
  then have "all_rows (dset p (fs @ [(n, rows)]) t) = all_rows t \<union> set rows" by blast
  with wf2 Some show ?thesis by (simp add: put_file_def)
qed

lemma wf_lake_write_archive:
  assumes "wf_lake lake" "\<forall>r \<in> set rows. day_of (arw_landed_at r) = d"
    and "write_flights_archive arrow rows d lake = (r, lake')"
  shows "wf_lake lake' \<and> all_rows (lk_archive lake) \<subseteq> all_rows (lk_archive lake') \<and>
    all_rows (lk_archive lake') \<subseteq> all_rows (lk_archive lake) \<union> set rows \<and>
    all_rows (lk_positions lake') = all_rows (lk_positions lake)"
proof -
  note md = make_dir_keeps[of "day_of \<circ> arw_landed_at" "lk_uuid lake" "lk_archive lake" d]
  have md': "wf_table (day_of \<circ> arw_landed_at) (lk_uuid lake) (make_dir d (lk_archive lake))"
      "all_rows (make_dir d (lk_archive lake)) = all_rows (lk_archive lake)"
    using md assms(1) by (simp_all add: wf_lake_def)
  have pf: "wf_table (day_of \<circ> arw_landed_at) (Suc (lk_uuid lake)) (put_file d (lk_uuid lake) rows (make_dir d (lk_archive lake)))"
      "all_rows (put_file d (lk_uuid lake) rows (make_dir d (lk_archive lake))) = all_rows (lk_archive lake) \<union> set rows"
    using put_file_keeps[OF md'(1), of rows d] assms(2) md'(2) by simp_all
  have grown: "wf_table (day_of \<circ> arw_landed_at) (Suc (lk_uuid lake)) (make_dir d (lk_archive lake))"
      "wf_table (hour_of \<circ> pr_ts_polled) (Suc (lk_uuid lake)) (lk_positions lake)"
    using md'(1) assms(1) by (auto simp: wf_lake_def elim: wf_table_mono)
  let ?T = "make_dir d (lk_archive lake)" and ?n = "lk_uuid lake"
  have frame: "lk_positions lake' = lk_positions lake"
    and outcome: "lk_archive lake' = lk_archive lake \<and> lk_uuid lake' = ?n \<or> lk_archive lake' = ?T \<and> lk_uuid lake' = ?n \<or>
      lk_archive lake' = ?T \<and> lk_uuid lake' = Suc ?n \<or> lk_archive lake' = put_file d ?n rows ?T \<and> lk_uuid lake' = Suc ?n"
    using assms(3) by (auto simp: write_flights_archive_def Let_def split: if_split_asm disk_event.split_asm)
  have "wf_table (hour_of \<circ> pr_ts_polled) ?n (lk_positions lake)" "wf_table (day_of \<circ> arw_landed_at) ?n (lk_archive lake)"
    using assms(1) by (simp_all add: wf_lake_def)
  with outcome show ?thesis
    unfolding wf_lake_def frame using md' pf grown by (elim disjE conjE) simp_all
qed

lemma wf_lake_write_positions:
  assumes "wf_lake lake" "write_positions_snapshot rows t lake = (r, lake')"
  shows "wf_lake lake' \<and>
    all_rows (lk_positions lake) \<subseteq> all_rows (lk_positions lake') \<and> lk_archive lake' = lk_archive lake"
proof -
  let ?rows = "map (\<lambda>r. r\<lparr>pr_ts_polled := t\<rparr>) rows" and ?d = "hour_of t"
  have md: "wf_table (hour_of \<circ> pr_ts_polled) (lk_uuid lake) (make_dir ?d (lk_positions lake))"
      "all_rows (make_dir ?d (lk_positions lake)) = all_rows (lk_positions lake)"
    using make_dir_keeps[of "hour_of \<circ> pr_ts_polled" "lk_uuid lake" "lk_positions lake" ?d] assms(1)
    by (simp_all add: wf_lake_def)
  have pf: "wf_table (hour_of \<circ> pr_ts_polled) (Suc (lk_uuid lake)) (put_file ?d (lk_uuid lake) ?rows (make_dir ?d (lk_positions lake)))"
      "all_rows (put_file ?d (lk_uuid lake) ?rows (make_dir ?d (lk_positions lake))) = all_rows (lk_positions lake) \<union> set ?rows"
    using put_file_keeps[OF md(1), of ?rows ?d] md(2) by simp_all
  have grown: "wf_table (hour_of \<circ> pr_ts_polled) (Suc (lk_uuid lake)) (make_dir ?d (lk_positions lake))"
      "wf_table (day_of \<circ> arw_landed_at) (Suc (lk_uuid lake)) (lk_archive lake)"
    using md(1) assms(1) by (auto simp: wf_lake_def elim: wf_table_mono)
  show ?thesis
    using assms md pf grown
    by (auto simp: write_positions_snapshot_def Let_def wf_lake_def split: if_splits disk_event.splits)
qed

section \<open>Properties\<close>

lemma archive_dirs_mem:
  "(d, fs) \<in> set (archive_day_dirs start stop lake) \<longleftrightarrow>
     (d, fs) \<in> set (lk_archive lake) \<and> (\<forall>s. start = Some s \<longrightarrow> s \<le> d) \<and> (\<forall>e. stop = Some e \<longrightarrow> d \<le> e)"
  by (auto simp: archive_day_dirs_def split: option.split)

lemma archive_dirs_all: "set (rows_in (archive_day_dirs None None lake)) = all_rows (lk_archive lake)"
proof -
  have "set (archive_day_dirs None None lake) = set (lk_archive lake)"
    by (auto simp: archive_dirs_mem)
  then show ?thesis by (simp add: all_rows_alt set_rows_in)
qed

lemma all_rowsI: "(p, fs) \<in> set t \<Longrightarrow> r \<in> set (dir_rows fs) \<Longrightarrow> r \<in> all_rows t"
  unfolding all_rows_alt set_rows_in by blast

lemma wf_table_part:
  assumes "wf_table part n t" "(p, fs) \<in> set t" "r \<in> set (dir_rows fs)"
  shows "part r = p"
proof -
  obtain k rows where "(k, rows) \<in> set fs" "r \<in> set rows" using assms(3) by (auto simp: set_dir_rows)
  then show ?thesis using wf_table_dir[OF assms(1,2)] by (fastforce simp: good_dir_def)
qed

text \<open>Partition pruning loses nothing: on a well-formed lake, the recent-positions read returns exactly
  the rows of the whole table from the cutoff to the end of the current hour, and the archive read exactly
  the archived rows from the cutoff to the end of the current day.\<close>

theorem pruned_reads_exact:
  assumes "wf_lake lake"
  shows "set (read_recent_positions n now lake) =
      {r \<in> all_rows (lk_positions lake). now - minutes n \<le> pr_ts_polled r \<and> hour_of (pr_ts_polled r) \<le> hour_of now} \<and>
    set (read_flights_archive (Some k) now lake) =
      {r \<in> all_rows (lk_archive lake). now - days k \<le> arw_landed_at r \<and> day_of (arw_landed_at r) \<le> day_of now}"
proof
  let ?P = "lk_positions lake" and ?A = "lk_archive lake"
  have wfp: "wf_table (hour_of \<circ> pr_ts_polled) (lk_uuid lake) ?P" and wfa: "wf_table (day_of \<circ> arw_landed_at) (lk_uuid lake) ?A"
    using assms by (simp_all add: wf_lake_def)
  have dictp: "wf_dict ?P" using wfp by (simp add: wf_table_def)
  have hours: "hour_of a \<le> hour_of b" and days: "day_of a \<le> day_of b" if "a \<le> b" for a b
    using that by (simp_all add: hour_of_def day_of_def zdiv_mono1)
  have dirs: "(h, fs) \<in> set (recent_partition_dirs c now lake) \<longleftrightarrow> (h, fs) \<in> set ?P \<and> hour_of c \<le> h \<and> h \<le> hour_of now" for h fs c
    using wf_dict_mem_iff[OF dictp, of h fs] by (auto simp: recent_partition_dirs_def map_filter_in_set)
  show "set (read_recent_positions n now lake) =
      {r \<in> all_rows ?P. now - minutes n \<le> pr_ts_polled r \<and> hour_of (pr_ts_polled r) \<le> hour_of now}"
  proof (intro equalityI subsetI)
    fix r assume "r \<in> set (read_recent_positions n now lake)"
    then obtain h fs where "(h, fs) \<in> set ?P" "h \<le> hour_of now" "r \<in> set (dir_rows fs)" "now - minutes n \<le> pr_ts_polled r"
      by (auto simp: read_recent_positions_def Let_def set_rows_in dirs)
    then show "r \<in> {r \<in> all_rows ?P. now - minutes n \<le> pr_ts_polled r \<and> hour_of (pr_ts_polled r) \<le> hour_of now}"
      using wf_table_part[OF wfp] by (auto intro: all_rowsI)
  next
    fix r assume r: "r \<in> {r \<in> all_rows ?P. now - minutes n \<le> pr_ts_polled r \<and> hour_of (pr_ts_polled r) \<le> hour_of now}"
    then obtain h fs where h: "(h, fs) \<in> set ?P" "r \<in> set (dir_rows fs)"
      by (auto simp: all_rows_alt set_rows_in)
    moreover have "h = hour_of (pr_ts_polled r)" using wf_table_part[OF wfp h] by simp
    ultimately show "r \<in> set (read_recent_positions n now lake)"
      using r hours[of "now - minutes n" "pr_ts_polled r"]
      by (auto simp: read_recent_positions_def Let_def set_rows_in dirs)
  qed
  show "set (read_flights_archive (Some k) now lake) =
      {r \<in> all_rows ?A. now - days k \<le> arw_landed_at r \<and> day_of (arw_landed_at r) \<le> day_of now}"
  proof (intro equalityI subsetI)
    fix r assume "r \<in> set (read_flights_archive (Some k) now lake)"
    then obtain h fs where "(h, fs) \<in> set ?A" "h \<le> day_of now" "r \<in> set (dir_rows fs)" "now - days k \<le> arw_landed_at r"
      by (auto simp: read_flights_archive_def Let_def set_rows_in archive_dirs_mem)
    then show "r \<in> {r \<in> all_rows ?A. now - days k \<le> arw_landed_at r \<and> day_of (arw_landed_at r) \<le> day_of now}"
      using wf_table_part[OF wfa] by (auto intro: all_rowsI)
  next
    fix r assume r: "r \<in> {r \<in> all_rows ?A. now - days k \<le> arw_landed_at r \<and> day_of (arw_landed_at r) \<le> day_of now}"
    then obtain h fs where h: "(h, fs) \<in> set ?A" "r \<in> set (dir_rows fs)"
      by (auto simp: all_rows_alt set_rows_in)
    moreover have "h = day_of (arw_landed_at r)" using wf_table_part[OF wfa h] by simp
    ultimately show "r \<in> set (read_flights_archive (Some k) now lake)"
      using r days[of "now - days k" "arw_landed_at r"]
      by (auto simp: read_flights_archive_def Let_def set_rows_in archive_dirs_mem)
  qed
qed

lemma foldl_dpop_mem:
  "(d, v) \<in> set (foldl (\<lambda>t k. dpop k t) t ks) \<longleftrightarrow> (d, v) \<in> set t \<and> d \<notin> set ks"
  by (induction ks arbitrary: t) (auto simp: AList.delete_eq)

lemma wf_foldl_dpop: "wf_dict t \<Longrightarrow> wf_dict (foldl (\<lambda>t k. dpop k t) t ks)"
  by (induction ks arbitrary: t) simp_all

text \<open>C15. The retention purge drops exactly the partitions before the cutoff date: afterwards the archive
  holds the rows that landed on the cutoff date or later and no others, the oldest partition passes the
  retention check, the dropped dates are listed in ascending order, and positions are untouched.\<close>

theorem purge_exact:
  assumes "wf_lake lake" and "purge_flights_archive_before cutoff lake = (dropped, lake')"
  shows "all_rows (lk_archive lake') = {r \<in> all_rows (lk_archive lake). cutoff \<le> day_of (arw_landed_at r)} \<and>
    (case oldest_flights_archive_partition lake' of None \<Rightarrow> True | Some d \<Rightarrow> cutoff \<le> d) \<and>
    sorted dropped \<and> set dropped = {d \<in> set (dkeys (lk_archive lake)). d < cutoff} \<and>
    lk_positions lake' = lk_positions lake \<and> wf_lake lake'"
proof (intro conjI)
  have out: "dropped = map fst (archive_day_dirs None (Some (cutoff - 1)) lake)"
      "lake' = lake\<lparr>lk_archive := foldl (\<lambda>t d. dpop d t) (lk_archive lake) dropped\<rparr>"
    using assms(2) by (auto simp: purge_flights_archive_before_def Let_def)
  have wfa: "wf_table (day_of \<circ> arw_landed_at) (lk_uuid lake) (lk_archive lake)"
    using assms(1) by (simp add: wf_lake_def)
  show dr: "set dropped = {d \<in> set (dkeys (lk_archive lake)). d < cutoff}"
    by (force simp: out(1) archive_dirs_mem)
  have mem: "(d, fs) \<in> set (lk_archive lake') \<longleftrightarrow> (d, fs) \<in> set (lk_archive lake) \<and> cutoff \<le> d" for d fs
    by (force simp: out(2) foldl_dpop_mem dr)
  show "all_rows (lk_archive lake') = {r \<in> all_rows (lk_archive lake). cutoff \<le> day_of (arw_landed_at r)}"
  proof (intro equalityI subsetI)
    fix r assume "r \<in> all_rows (lk_archive lake')"
    then obtain d fs where "(d, fs) \<in> set (lk_archive lake)" "cutoff \<le> d" "r \<in> set (dir_rows fs)"
      by (auto simp: all_rows_alt set_rows_in mem)
    then show "r \<in> {r \<in> all_rows (lk_archive lake). cutoff \<le> day_of (arw_landed_at r)}"
      using wf_table_part[OF wfa] by (auto intro: all_rowsI)
  next
    fix r assume r: "r \<in> {r \<in> all_rows (lk_archive lake). cutoff \<le> day_of (arw_landed_at r)}"
    then obtain d fs where "(d, fs) \<in> set (lk_archive lake)" "r \<in> set (dir_rows fs)"
      by (auto simp: all_rows_alt set_rows_in)
    moreover from this have "d = day_of (arw_landed_at r)" using wf_table_part[OF wfa] by fastforce
    ultimately show "r \<in> all_rows (lk_archive lake')" using r mem by (auto intro: all_rowsI)
  qed
  show "case oldest_flights_archive_partition lake' of None \<Rightarrow> True | Some d \<Rightarrow> cutoff \<le> d"
  proof (cases "archive_day_dirs None None lake'")
    case (Cons a rest)
    obtain d fs where a: "a = (d, fs)" by (cases a)
    have "(d, fs) \<in> set (archive_day_dirs None None lake')" by (simp add: Cons a)
    then have "cutoff \<le> d" using mem[of d fs] by (simp add: archive_dirs_mem)
    then show ?thesis by (simp add: oldest_flights_archive_partition_def Cons a)
  qed (simp add: oldest_flights_archive_partition_def)
  show "sorted dropped" by (simp add: out(1) archive_day_dirs_def)
  show "lk_positions lake' = lk_positions lake" by (simp add: out(2))
  show "wf_lake lake'"
    using assms(1) mem wf_foldl_dpop[of "lk_archive lake" dropped]
    by (auto simp: wf_lake_def wf_table_def out(2) foldl_dpop_mem)
qed

end
