(* ===== verification/Archive.thy ===== *)
theory Archive
  imports SyncJobs Lakehouse
begin

text \<open>
  assets/flight_archival.py: the hourly archive-verify-delete run that moves completed flights from
  the Foundry tenant to the lakehouse, its result checks, the retention purge and the two standalone
  checks. The state is the pair of the Foundry world and the lake; the page generator of the writer is
  unrolled into the loop, so that the deletes of one page happen before the next page is fetched.
\<close>

definition ARCHIVE_GRACE :: duration where
  "ARCHIVE_GRACE = hours 2"

definition ARCHIVE_DELETE_CAP :: nat where
  "ARCHIVE_DELETE_CAP = 5000"

definition ARCHIVE_RETENTION :: duration where
  "ARCHIVE_RETENTION = days 30"

record FlightArchiveResult =
  far_completed_seen :: nat
  far_settled :: nat
  far_archived :: nat
  far_deleted :: nat
  far_capped :: bool
  far_past_retention :: nat
  far_archived_persisted :: nat

section \<open>Rows\<close>

text \<open>A text that is not an instant makes \<open>fromisoformat\<close> raise.\<close>

definition parse_iso :: "json \<Rightarrow> exn + instant option" where
  "parse_iso v = (if \<not> truthy v then Inr None else case v of JIso t \<Rightarrow> Inr (Some t) | _ \<Rightarrow> Inl PyValueError)"

definition flight_id_of :: "'w fapi \<Rightarrow> (string, json) dict \<Rightarrow> string" where
  "flight_id_of api obj =
     py_str api (let v = obj_get obj ''flightId'' in if truthy v then v else obj_get obj ''__primaryKey'')"

definition archive_row :: "'w fapi \<Rightarrow> (string, json) dict \<Rightarrow> instant \<Rightarrow> instant \<Rightarrow> exn + ArchiveRow" where
  "archive_row api obj landed_at archived_at =
     (case parse_iso (obj_get obj ''takeoffTs'') of
        Inl e \<Rightarrow> Inl e
      | Inr takeoff \<Rightarrow> Inr
         \<lparr>arw_flight_id = flight_id_of api obj,
          arw_icao24 = obj_get obj ''icao24'',
          arw_takeoff_ts = takeoff,
          arw_landed_at = landed_at,
          arw_callsign = obj_get obj ''callsign'',
          arw_registration = obj_get obj ''registration'',
          arw_aircraft_type = obj_get obj ''aircraftType'',
          arw_operator_icao = obj_get obj ''operatorIcao'',
          arw_customer_region = obj_get obj ''customerRegion'',
          arw_origin_icao = obj_get obj ''originIcao'',
          arw_destination_icao = obj_get obj ''destinationIcao'',
          arw_eta_minutes = obj_get obj ''etaMinutes'',
          arw_status = obj_get obj ''status'',
          arw_current_stage = obj_get obj ''currentStage'',
          arw_lat = obj_get obj ''lat'',
          arw_lon = obj_get obj ''lon'',
          arw_open_case_count = obj_get obj ''openCaseCount'',
          arw_open_case_ids = obj_get obj ''openCaseIds'',
          arw_status_timeline = obj_get obj ''statusTimeline'',
          arw_trail_2h = obj_get obj ''trail2h'',
          arw_archived_at = archived_at\<rparr>)"

section \<open>One page\<close>

text \<open>The eligibility loop: the count of flights past retention, and the settled flights in order.\<close>

primrec eligible_flights ::
  "instant \<Rightarrow> instant \<Rightarrow> (string, json) dict list \<Rightarrow> exn + nat \<times> ((string, json) dict \<times> instant) list" where
  "eligible_flights settled_before retention_before [] = Inr (0, [])"
| "eligible_flights settled_before retention_before (obj # objs) =
     (case parse_iso (obj_get obj ''landedAt'') of
        Inl e \<Rightarrow> Inl e
      | Inr landed \<Rightarrow>
          (case eligible_flights settled_before retention_before objs of
             Inl e \<Rightarrow> Inl e
           | Inr (past, eligible) \<Rightarrow>
               (case landed of
                  None \<Rightarrow> Inr (past, eligible)
                | Some t \<Rightarrow> Inr (if t < retention_before then Suc past else past,
                                 if t < settled_before then (obj, t) # eligible else eligible))))"

text \<open>\<open>rows_by_date.setdefault(day, []).append(row)\<close>.\<close>

primrec group_rows ::
  "'w fapi \<Rightarrow> instant \<Rightarrow> ((string, json) dict \<times> instant) list \<Rightarrow> (int, ArchiveRow list) dict \<Rightarrow>
     exn + (int, ArchiveRow list) dict" where
  "group_rows api now [] d = Inr d"
| "group_rows api now (e # es) d =
     (case archive_row api (fst e) (snd e) now of
        Inl err \<Rightarrow> Inl err
      | Inr row \<Rightarrow>
          (let day = day_of (snd e);
               rows = (case dget d day of None \<Rightarrow> [] | Some rs \<Rightarrow> rs)
           in group_rows api now es (dset day (rows @ [row]) d)))"

primrec write_groups ::
  "(ArchiveRow \<Rightarrow> bool) \<Rightarrow> (int \<times> ArchiveRow list) list \<Rightarrow> (int \<times> nat) list \<Rightarrow> string list \<Rightarrow>
     (Lake, (int \<times> nat) list \<times> string list) io" where
  "write_groups arrow [] paths ids = io_return (paths, ids)"
| "write_groups arrow (g # gs) paths ids =
     io_bind (write_flights_archive arrow (snd g) (fst g)) (\<lambda>(path, _).
       write_groups arrow gs (paths @ [path])
         (foldl (\<lambda>acc r. List.insert (arw_flight_id r) acc) ids (snd g)))"

definition on_lake :: "(Lake, 'a) io \<Rightarrow> ('w \<times> Lake, 'a) io" where
  "on_lake m = (\<lambda>(w, lake). case m lake of (r, lake') \<Rightarrow> (r, (w, lake')))"

definition on_tenant :: "('w, 'a) io \<Rightarrow> ('w \<times> Lake, 'a) io" where
  "on_tenant m = (\<lambda>(w, lake). case m w of (r, w') \<Rightarrow> (r, (w', lake)))"

text \<open>Write, read back, and only then delete: the number of flights archived and deleted.\<close>

definition move_flights ::
  "'w fapi \<Rightarrow> (ArchiveRow \<Rightarrow> bool) \<Rightarrow> FoundryWriter \<Rightarrow> instant \<Rightarrow> ((string, json) dict \<times> instant) list \<Rightarrow>
     ('w \<times> Lake, nat \<times> nat) io" where
  "move_flights api arrow fw now eligible =
     (\<lambda>(w, lake). case group_rows api now eligible [] of
        Inl e \<Rightarrow> (Inl e, (w, lake))
      | Inr rows_by_date \<Rightarrow>
          io_bind (on_lake (write_groups arrow rows_by_date [] [])) (\<lambda>(written_paths, written_ids) (w, lake).
            let readback = map arw_flight_id (read_flights_archive_files written_paths lake);
                missing = filter (\<lambda>i. i \<notin> set readback) written_ids
            in if missing \<noteq> [] then (Inl (OtherError ''RuntimeError''), (w, lake))
               else io_bind (on_tenant (delete_flight_batch api fw (sort written_ids)))
                      (\<lambda>batch. io_return (length written_ids, succeeded batch)) (w, lake)) (w, lake))"

record ArchiveState =
  as_completed_seen :: nat
  as_settled :: nat
  as_archived :: nat
  as_deleted :: nat
  as_capped :: bool
  as_past_retention :: nat

text \<open>The body of the page loop; True means break.\<close>

definition archive_page ::
  "'w fapi \<Rightarrow> (ArchiveRow \<Rightarrow> bool) \<Rightarrow> FoundryWriter \<Rightarrow> instant \<Rightarrow> duration \<Rightarrow> nat \<Rightarrow> duration \<Rightarrow>
     (string, json) dict list \<Rightarrow> ArchiveState \<Rightarrow> ('w \<times> Lake, bool \<times> ArchiveState) io" where
  "archive_page api arrow fw now grace cap retention page st0 =
     (\<lambda>w. case eligible_flights (now - grace) (now - retention) page of
        Inl e \<Rightarrow> (Inl e, w)
      | Inr (past, eligible0) \<Rightarrow>
          (let st = st0\<lparr>as_completed_seen := as_completed_seen st0 + length page,
                        as_past_retention := as_past_retention st0 + past,
                        as_settled := as_settled st0 + length eligible0\<rparr>
           in if eligible0 = [] then (Inr (False, st), w)
              else if cap \<le> as_archived st then (Inr (True, st\<lparr>as_capped := True\<rparr>), w)
              else
                let room = cap - as_archived st;
                    capped = (as_capped st \<or> room < length eligible0);
                    eligible = take room eligible0
                in io_bind (move_flights api arrow fw now eligible) (\<lambda>(archived, deleted).
                     io_return (capped, st\<lparr>as_capped := capped, as_archived := as_archived st + archived,
                                           as_deleted := as_deleted st + deleted\<rparr>)) w))"

text \<open>\<open>async for page in writer.iter_completed_flights()\<close>: the generator yields the non-empty batches.\<close>

primrec archive_loop ::
  "'w fapi \<Rightarrow> (ArchiveRow \<Rightarrow> bool) \<Rightarrow> FoundryWriter \<Rightarrow> instant \<Rightarrow> duration \<Rightarrow> nat \<Rightarrow> duration \<Rightarrow>
     nat \<Rightarrow> ArchiveState \<Rightarrow> string option \<Rightarrow> ('w \<times> Lake, ArchiveState) iot" where
  "archive_loop api arrow fw now grace cap retention 0 st token w = None"
| "archive_loop api arrow fw now grace cap retention (Suc fuel) st token w =
     (case on_tenant (get_objects_page api fw ''Flight'' token) w of
        (Inl e, w1) \<Rightarrow> Some (Inl e, w1)
      | (Inr body, w1) \<Rightarrow>
          (let page = completed_objects api body;
               after = (if page = [] then (Inr (False, st), w1)
                        else archive_page api arrow fw now grace cap retention page st w1)
           in case after of
                (Inl e, w2) \<Rightarrow> Some (Inl e, w2)
              | (Inr (stop, st'), w2) \<Rightarrow>
                  if stop then Some (Inr st', w2)
                  else (case pg_nextPageToken body of
                          None \<Rightarrow> Some (Inr st', w2)
                        | Some t \<Rightarrow> if t = [] then Some (Inr st', w2)
                                    else archive_loop api arrow fw now grace cap retention fuel st' (Some t) w2)))"

definition run_flight_archive ::
  "'w fapi \<Rightarrow> (ArchiveRow \<Rightarrow> bool) \<Rightarrow> (exn + FoundryWriter) \<Rightarrow> instant \<Rightarrow> duration \<Rightarrow> nat \<Rightarrow> duration \<Rightarrow> nat \<Rightarrow>
     'w \<times> Lake \<Rightarrow> ((job_error + FlightArchiveResult) \<times> ('w \<times> Lake)) option" where
  "run_flight_archive api arrow settings now grace cap retention fuel w =
     (case guarded_sync ''flight_archive''
             (with_settings settings (\<lambda>fw. archive_loop api arrow fw now grace cap retention fuel
                \<lparr>as_completed_seen = 0, as_settled = 0, as_archived = 0, as_deleted = 0, as_capped = False,
                 as_past_retention = 0\<rparr> None)) w of
        None \<Rightarrow> None
      | Some (Inl e, w') \<Rightarrow> Some (Inl e, w')
      | Some (Inr st, w') \<Rightarrow>
          Some (Inr \<lparr>far_completed_seen = as_completed_seen st, far_settled = as_settled st,
                     far_archived = as_archived st, far_deleted = as_deleted st, far_capped = as_capped st,
                     far_past_retention = as_past_retention st,
                     far_archived_persisted =
                       (if as_archived st \<noteq> 0 then count_flights_archived_at now (snd w') else 0)\<rparr>, w'))"

section \<open>Checks, the asset and the purge\<close>

datatype check_severity = CheckError | CheckWarn

record CheckResult =
  ckr_name :: string
  ckr_passed :: bool
  ckr_severity :: check_severity

definition archive_check_results :: "FlightArchiveResult \<Rightarrow> CheckResult list" where
  "archive_check_results r =
     [\<lparr>ckr_name = ''archive_rowcount_matches'', ckr_passed = (far_archived r = far_archived_persisted r),
       ckr_severity = CheckError\<rparr>,
      \<lparr>ckr_name = ''no_completed_flight_past_retention'', ckr_passed = (far_past_retention r = 0),
       ckr_severity = CheckWarn\<rparr>]"

definition archive_skipped :: "FlightArchiveResult \<times> CheckResult list" where
  "archive_skipped =
     (let skipped = \<lparr>far_completed_seen = 0, far_settled = 0, far_archived = 0, far_deleted = 0,
                     far_capped = False, far_past_retention = 0, far_archived_persisted = 0\<rparr>
      in (skipped, archive_check_results skipped))"

text \<open>The asset: another run in progress, or a skip, materializes the zeroed result; any other exception
  leaves the run failed.\<close>

definition foundry_flight_archive ::
  "'w fapi \<Rightarrow> (ArchiveRow \<Rightarrow> bool) \<Rightarrow> (exn + FoundryWriter) \<Rightarrow> bool \<Rightarrow> instant \<Rightarrow> nat \<Rightarrow> 'w \<times> Lake \<Rightarrow>
     ((exn + FlightArchiveResult \<times> CheckResult list) \<times> ('w \<times> Lake)) option" where
  "foundry_flight_archive api arrow settings in_progress now fuel w =
     (if in_progress then Some (Inr archive_skipped, w)
      else case run_flight_archive api arrow settings now ARCHIVE_GRACE ARCHIVE_DELETE_CAP ARCHIVE_RETENTION fuel w of
             None \<Rightarrow> None
           | Some (Inl (FoundrySyncSkipped reason), w') \<Rightarrow> Some (Inr archive_skipped, w')
           | Some (Inl (Propagated e), w') \<Rightarrow> Some (Inl e, w')
           | Some (Inr r, w') \<Rightarrow> Some (Inr (r, archive_check_results r), w'))"

definition foundry_flight_archive_purge :: "instant \<Rightarrow> Lake \<Rightarrow> int list \<times> Lake" where
  "foundry_flight_archive_purge now lake = purge_flights_archive_before (day_of (now - ARCHIVE_RETENTION)) lake"

definition archive_and_tenant_disjoint ::
  "'w fapi \<Rightarrow> (exn + FoundryWriter) \<Rightarrow> instant \<Rightarrow> nat \<Rightarrow> 'w \<times> Lake \<Rightarrow> ((exn + CheckResult) \<times> ('w \<times> Lake)) option" where
  "archive_and_tenant_disjoint api settings now fuel = (\<lambda>(w, lake).
     let archived_ids = map arw_flight_id (read_flights_archive None now lake)
     in case guarded_sync ''flight_archive_check'' (with_settings settings (\<lambda>fw. list_flight_pks api fw fuel)) w of
          None \<Rightarrow> None
        | Some (Inl (FoundrySyncSkipped reason), w') \<Rightarrow>
            Some (Inr \<lparr>ckr_name = ''archive_and_tenant_disjoint'', ckr_passed = True, ckr_severity = CheckWarn\<rparr>, (w', lake))
        | Some (Inl (Propagated e), w') \<Rightarrow> Some (Inl e, (w', lake))
        | Some (Inr live, w') \<Rightarrow>
            Some (Inr \<lparr>ckr_name = ''archive_and_tenant_disjoint'',
                       ckr_passed = (filter (\<lambda>i. i \<in> set live) archived_ids = []),
                       ckr_severity = CheckError\<rparr>, (w', lake)))"

definition archive_retention_enforced :: "instant \<Rightarrow> Lake \<Rightarrow> CheckResult" where
  "archive_retention_enforced now lake =
     \<lparr>ckr_name = ''archive_retention_enforced'',
      ckr_passed = (case oldest_flights_archive_partition lake of
                      None \<Rightarrow> True
                    | Some oldest \<Rightarrow> oldest \<ge> day_of (now - ARCHIVE_RETENTION)),
      ckr_severity = CheckError\<rparr>"

section \<open>What the tenant keeps\<close>

definition delete_flight_path :: "FoundryWriter \<Rightarrow> string" where
  "delete_flight_path fw =
     ''/api/v2/ontologies/'' @ fw_ontology fw @ ''/actions/'' @ fw_action_delete_flight fw @ ''/applyBatch''"

text \<open>The behaviour of the tenant the move relies on: a request makes a flight disappear only when it is
  a delete-flight batch that names it (whether it is answered or fails half way).\<close>

definition tenant_law :: "'w fapi \<Rightarrow> FoundryWriter \<Rightarrow> ('w \<Rightarrow> string set) \<Rightarrow> bool" where
  "tenant_law api fw present \<longleftrightarrow>
     (\<forall>path chunk w. present w \<subseteq> present (snd (fa_post api path chunk w)) \<union>
        (if path = delete_flight_path fw then {pk. [(''Flight'', JStr pk)] \<in> set chunk} else {})) \<and>
     (\<forall>path query w. present w \<subseteq> present (snd (fa_get api path query w)))"

lemma retrying_keeps:
  assumes "\<And>w. present w \<subseteq> present (snd (m w)) \<union> D"
  shows "present w \<subseteq> present (snd (retrying n m w)) \<union> D"
proof (induction n arbitrary: w)
  case (Suc n)
  obtain r w1 where m: "m w = (r, w1)" by fastforce
  have "present w \<subseteq> present w1 \<union> D" using assms[of w] m by simp
  moreover have "present w1 \<subseteq> present (snd (retrying n m w1)) \<union> D" by (rule Suc)
  ultimately show ?case using m by (cases r) auto
qed (use assms in simp)

lemma page_get_keeps:
  "tenant_law api fw present \<Longrightarrow> present w \<subseteq> present (snd (get_objects_page api fw ot tok w))"
  unfolding get_objects_page_def transient_retry_def Let_def
  by (rule retrying_keeps[where D = "{}", simplified]) (simp add: tenant_law_def)

lemma delete_post_keeps:
  assumes "tenant_law api fw present"
  shows "present w \<subseteq> present (snd (fa_post api (delete_flight_path fw) c w)) \<union> {pk. [(''Flight'', JStr pk)] \<in> set c}"
proof -
  have "present w \<subseteq> present (snd (fa_post api (delete_flight_path fw) c w)) \<union>
      (if delete_flight_path fw = delete_flight_path fw then {pk. [(''Flight'', JStr pk)] \<in> set c} else {})"
    using assms unfolding tenant_law_def by blast
  then show ?thesis by simp
qed

lemma delete_chunks_keep:
  assumes "tenant_law api fw present"
  shows "present w \<subseteq> present (snd (post_chunks api fw (fw_action_delete_flight fw) cs k w)) \<union>
    {pk. [(''Flight'', JStr pk)] \<in> set (concat cs)}"
proof (induction cs arbitrary: k w)
  case (Cons c cs)
  obtain r w1 where p: "post_chunk api fw (fw_action_delete_flight fw) c w = (r, w1)" by fastforce
  have "present w \<subseteq> present (snd (post_chunk api fw (fw_action_delete_flight fw) c w)) \<union> {pk. [(''Flight'', JStr pk)] \<in> set c}"
    unfolding post_chunk_def transient_retry_def delete_flight_path_def[symmetric]
    by (rule retrying_keeps) (rule delete_post_keeps[OF assms])
  then have "present w \<subseteq> present w1 \<union> {pk. [(''Flight'', JStr pk)] \<in> set c}" using p by simp
  moreover have "{pk. [(''Flight'', JStr pk)] \<in> set (concat (c # cs))} =
      {pk. [(''Flight'', JStr pk)] \<in> set c} \<union> {pk. [(''Flight'', JStr pk)] \<in> set (concat cs)}" by auto
  moreover have "snd (post_chunks api fw (fw_action_delete_flight fw) (c # cs) k w) =
      (case r of Inl e \<Rightarrow> w1 | Inr _ \<Rightarrow> snd (post_chunks api fw (fw_action_delete_flight fw) cs (k + length c) w1))"
    using p by (simp add: io_bind_def split: sum.split)
  ultimately show ?case using Cons[of w1 "k + length c"] by (cases r) auto
qed (simp add: io_return_def)

lemma delete_flights_keep:
  assumes "tenant_law api fw present"
  shows "present w \<subseteq> present (snd (delete_flight_batch api fw ids w)) \<union> set ids"
proof (cases "ids = []")
  case False
  let ?ps = "map (\<lambda>pk. [(''Flight'', JStr pk)]) ids"
  have "{pk. [(''Flight'', JStr pk)] \<in> set (concat (chunks ?ps MAX_BATCH))} = set ids"
    by (auto simp: concat_chunks MAX_BATCH_def)
  moreover obtain r w1 where p: "post_chunks api fw (fw_action_delete_flight fw) (chunks ?ps MAX_BATCH) 0 w = (r, w1)"
    by fastforce
  ultimately have "present w \<subseteq> present w1 \<union> set ids"
    using delete_chunks_keep[OF assms, of w "chunks ?ps MAX_BATCH" 0] by simp
  with False p show ?thesis
    by (cases r) (simp_all add: delete_flight_batch_def apply_batch_def io_bind_def io_return_def)
qed (simp add: delete_flight_batch_def io_return_def)

section \<open>What the lake gains\<close>

definition archived_ids :: "Lake \<Rightarrow> string set" where
  "archived_ids lake = arw_flight_id ` all_rows (lk_archive lake)"

definition dated_rows :: "(int \<times> ArchiveRow list) list \<Rightarrow> bool" where
  "dated_rows gs \<longleftrightarrow> (\<forall>(d, rows) \<in> set gs. \<forall>r \<in> set rows. day_of (arw_landed_at r) = d)"

lemma archive_row_fields:
  "archive_row api obj landed now = Inr row \<Longrightarrow>
     arw_landed_at row = landed \<and> arw_archived_at row = now \<and> arw_flight_id row = flight_id_of api obj"
  by (auto simp: archive_row_def split: sum.splits)

lemma group_rows_dated:
  "group_rows api now es d = Inr d' \<Longrightarrow> wf_dict d \<Longrightarrow> dated_rows d \<Longrightarrow> wf_dict d' \<and> dated_rows d'"
proof (induction es arbitrary: d)
  case (Cons e es)
  obtain row where row: "archive_row api (fst e) (snd e) now = Inr row"
    using Cons.prems(1) by (auto split: sum.splits)
  define rows where "rows = (case dget d (day_of (snd e)) of None \<Rightarrow> [] | Some rs \<Rightarrow> rs)"
  have rest: "group_rows api now es (dset (day_of (snd e)) (rows @ [row]) d) = Inr d'"
    using Cons.prems(1) row by (simp add: Let_def rows_def)
  have "\<forall>r \<in> set rows. day_of (arw_landed_at r) = day_of (snd e)"
  proof (cases "dget d (day_of (snd e))")
    case (Some rs)
    then have "(day_of (snd e), rs) \<in> set d" by (rule map_of_SomeD)
    then show ?thesis using Cons.prems(3) Some by (auto simp: rows_def dated_rows_def)
  qed (simp add: rows_def)
  then have "dated_rows (dset (day_of (snd e)) (rows @ [row]) d)"
    using Cons.prems(2,3) archive_row_fields[OF row] by (auto simp: dated_rows_def set_dset)
  then show ?case using Cons.IH[OF rest] Cons.prems(2) by simp
qed simp

lemma write_groups_keep:
  "write_groups arrow gs paths ids lake = (r, lake') \<Longrightarrow> wf_lake lake \<Longrightarrow> dated_rows gs \<Longrightarrow>
   wf_lake lake' \<and> all_rows (lk_archive lake) \<subseteq> all_rows (lk_archive lake')"
proof (induction gs arbitrary: paths ids lake)
  case (Cons g gs)
  obtain x lake1 where w: "write_flights_archive arrow (snd g) (fst g) lake = (x, lake1)" by fastforce
  have "\<forall>r \<in> set (snd g). day_of (arw_landed_at r) = fst g" "dated_rows gs"
    using Cons.prems(3) by (cases g; auto simp: dated_rows_def)+
  note step = wf_lake_write_archive[OF Cons.prems(2) this(1) w] and rest = this(2)
  show ?case
  proof (cases x)
    case (Inl e)
    then show ?thesis using Cons.prems(1) w step by (simp add: io_bind_def)
  next
    case (Inr p)
    obtain path n where "p = (path, n)" by (cases p)
    then have "write_groups arrow gs (paths @ [path]) (foldl (\<lambda>acc r. List.insert (arw_flight_id r) acc) ids (snd g)) lake1 = (r, lake')"
      using Cons.prems(1) w Inr by (simp add: io_bind_def)
    from Cons.IH[OF this _ rest] step show ?thesis by blast
  qed
qed (simp add: io_return_def)

lemma file_rows_all: "set (file_rows lake path) \<subseteq> all_rows (lk_archive lake)"
proof
  fix r assume r: "r \<in> set (file_rows lake path)"
  obtain fs where fs: "dget (lk_archive lake) (fst path) = Some fs"
    using r by (cases "dget (lk_archive lake) (fst path)") (simp_all add: file_rows_def)
  obtain rows where "dget fs (snd path) = Some rows" "r \<in> set rows"
    using r fs by (cases "dget fs (snd path)") (simp_all add: file_rows_def)
  with fs have "dget (lk_archive lake) (fst path) = Some fs" "dget fs (snd path) = Some rows" "r \<in> set rows" by simp_all
  then have "(fst path, fs) \<in> set (lk_archive lake)" "r \<in> set (dir_rows fs)"
    by (auto simp: set_dir_rows dest!: map_of_SomeD)
  then show "r \<in> all_rows (lk_archive lake)" by (rule all_rowsI)
qed

lemma readback_archived: "arw_flight_id ` set (read_flights_archive_files paths lake) \<subseteq> archived_ids lake"
  using file_rows_all by (fastforce simp: read_flights_archive_files_def archived_ids_def)

section \<open>The move\<close>

definition moved :: "('w \<Rightarrow> string set) \<Rightarrow> 'w \<times> Lake \<Rightarrow> 'w \<times> Lake \<Rightarrow> bool" where
  "moved present s s' \<longleftrightarrow> (wf_lake (snd s) \<longrightarrow> wf_lake (snd s') \<and>
     archived_ids (snd s) \<subseteq> archived_ids (snd s') \<and> present (fst s) \<subseteq> present (fst s') \<union> archived_ids (snd s'))"

lemma moved_refl [simp]: "moved present s s"
  by (simp add: moved_def)

lemma moved_trans: "moved present s s1 \<Longrightarrow> moved present s1 s2 \<Longrightarrow> moved present s s2"
  unfolding moved_def by blast

lemma move_flights_moved:
  assumes law: "tenant_law api fw present"
  shows "moved present s (snd (move_flights api arrow fw now eligible s))"
proof -
  obtain w lake where s: "s = (w, lake)" by (cases s)
  show ?thesis
  proof (cases "group_rows api now eligible []")
    case (Inr groups)
    have dated: "dated_rows groups"
      using group_rows_dated[OF Inr] by (simp add: dated_rows_def)
    obtain x lake1 where wg: "write_groups arrow groups [] [] lake = (x, lake1)" by fastforce
    have grown: "moved present (w, lake) (w, lake1)"
      using write_groups_keep[OF wg _ dated] by (auto simp: moved_def archived_ids_def)
    show ?thesis
    proof (cases x)
      case (Inl e)
      then show ?thesis using grown Inr wg by (simp add: s move_flights_def io_bind_def on_lake_def)
    next
      case (Inr p)
      obtain paths ids where p: "p = (paths, ids)" by (cases p)
      define missing where "missing = filter (\<lambda>i. i \<notin> set (map arw_flight_id (read_flights_archive_files paths lake1))) ids"
      obtain b w1 where d: "delete_flight_batch api fw (sort ids) w = (b, w1)" by fastforce
      have out: "snd (move_flights api arrow fw now eligible s) = (if missing \<noteq> [] then (w, lake1) else (w1, lake1))"
        using \<open>group_rows api now eligible [] = Inr groups\<close> wg Inr d
        by (cases b) (auto simp: s p move_flights_def io_bind_def on_lake_def on_tenant_def missing_def io_return_def)
      have "moved present (w, lake1) (w1, lake1)" if "missing = []"
      proof -
        have "set ids \<subseteq> archived_ids lake1"
          using that readback_archived[of paths lake1] by (auto simp: missing_def filter_empty_conv)
        then show ?thesis using delete_flights_keep[OF law, of w "sort ids"] d by (auto simp: moved_def)
      qed
      then have "moved present (w, lake1) (if missing \<noteq> [] then (w, lake1) else (w1, lake1))" by simp
      from moved_trans[OF grown this] show ?thesis unfolding out by (simp only: s)
    qed
  qed (simp add: s move_flights_def)
qed

lemma archive_page_moved:
  assumes "tenant_law api fw present"
  shows "moved present s (snd (archive_page api arrow fw now grace cap retention page st s))"
  using move_flights_moved[OF assms, of s]
  by (auto simp: archive_page_def Let_def io_bind_def io_return_def split: sum.split prod.split) (metis snd_conv)+

lemma archive_loop_moved:
  assumes law: "tenant_law api fw present"
  shows "archive_loop api arrow fw now grace cap retention fuel st tok s = Some (r, s') \<Longrightarrow> moved present s s'"
proof (induction fuel arbitrary: st tok s)
  case (Suc fuel)
  obtain w lake where s: "s = (w, lake)" by (cases s)
  obtain x w1 where g: "get_objects_page api fw ''Flight'' tok w = (x, w1)" by fastforce
  have m1: "moved present s (w1, lake)"
    using page_get_keeps[OF law, of w "''Flight''" tok] g by (auto simp: moved_def s)
  show ?case
  proof (cases x)
    case (Inl e)
    then show ?thesis using Suc.prems g m1 by (auto simp: s on_tenant_def)
  next
    case (Inr body)
    define after where "after = (if completed_objects api body = [] then (Inr (False, st), (w1, lake))
        else archive_page api arrow fw now grace cap retention (completed_objects api body) st (w1, lake))"
    have m2: "moved present (w1, lake) (snd after)"
      using archive_page_moved[OF law] by (simp add: after_def)
    obtain y s2 where a: "after = (y, s2)" by (cases after)
    have m: "moved present s s2" using moved_trans[OF m1 m2] by (simp add: a)
    have run: "(case (y, s2) of (Inl e, w2) \<Rightarrow> Some (Inl e, w2)
        | (Inr (stop, st'), w2) \<Rightarrow>
            if stop then Some (Inr st', w2)
            else (case pg_nextPageToken body of
                    None \<Rightarrow> Some (Inr st', w2)
                  | Some t \<Rightarrow> if t = [] then Some (Inr st', w2)
                              else archive_loop api arrow fw now grace cap retention fuel st' (Some t) w2)) = Some (r, s')"
      using Suc.prems g Inr unfolding s a[symmetric] by (simp add: on_tenant_def after_def Let_def)
    show ?thesis
      using run m Suc.IH moved_trans[OF m]
      by (auto split: sum.splits prod.splits option.splits if_splits)
  qed
qed simp

text \<open>C2. No completed flight is lost: however an archive run ends (a result, a skip, an error in the middle,
  a disk that fails or loses files), every flight that was in the tenant is still there or is in the
  cold store, and nothing leaves the cold store.\<close>

theorem archive_loses_no_flight:
  assumes "\<And>fw. settings = Inr fw \<Longrightarrow> tenant_law api fw present" and "wf_lake lake"
    and "run_flight_archive api arrow settings now grace cap retention fuel (w, lake) = Some (r, (w', lake'))"
  shows "present w \<subseteq> present w' \<union> archived_ids lake' \<and> archived_ids lake \<subseteq> archived_ids lake' \<and> wf_lake lake'"
proof -
  let ?st = "\<lparr>as_completed_seen = 0, as_settled = 0, as_archived = 0, as_deleted = 0, as_capped = False, as_past_retention = 0\<rparr>"
  have "moved present (w, lake) (w', lake')"
  proof (cases settings)
    case (Inl e)
    then show ?thesis
      using assms(3) by (auto simp: run_flight_archive_def guarded_sync_def with_settings_def iot_raise_def)
  next
    case (Inr fw)
    have "\<exists>x. archive_loop api arrow fw now grace cap retention fuel ?st None (w, lake) = Some (x, (w', lake'))"
      using assms(3) unfolding run_flight_archive_def guarded_sync_def with_settings_def Inr
      by (auto split: option.splits sum.splits prod.splits)
    then show ?thesis using archive_loop_moved[OF assms(1)[OF Inr]] by blast
  qed
  then show ?thesis using assms(2) by (simp add: moved_def)
qed

section \<open>The counts\<close>

lemma on_lake_Inr: "on_lake m (w, lake) = (Inr a, w1) \<longleftrightarrow> (\<exists>lake1. m lake = (Inr a, lake1) \<and> w1 = (w, lake1))"
  by (auto simp: on_lake_def split: prod.split)

lemma on_tenant_Inr: "on_tenant m (w, lake) = (Inr a, w1) \<longleftrightarrow> (\<exists>w'. m w = (Inr a, w') \<and> w1 = (w', lake))"
  by (auto simp: on_tenant_def split: prod.split)

lemma foldl_insert_ids:
  "set (foldl (\<lambda>acc r. List.insert (f r) acc) ids rows) = set ids \<union> f ` set rows \<and>
   (distinct ids \<longrightarrow> distinct (foldl (\<lambda>acc r. List.insert (f r) acc) ids rows)) \<and>
   length (foldl (\<lambda>acc r. List.insert (f r) acc) ids rows) \<le> length ids + length rows"
proof (induction rows arbitrary: ids)
  case (Cons r rows)
  have "length (List.insert (f r) ids) \<le> Suc (length ids)" by (simp add: List.insert_def)
  with Cons[of "List.insert (f r) ids"] show ?case by auto
qed simp

lemma write_groups_ids:
  "write_groups arrow gs paths ids lake = (Inr (paths', ids'), lake') \<Longrightarrow>
   set ids' = set ids \<union> arw_flight_id ` (\<Union>(d, rows) \<in> set gs. set rows) \<and> (distinct ids \<longrightarrow> distinct ids') \<and>
   length ids' \<le> length ids + length (concat (map snd gs))"
proof (induction gs arbitrary: paths ids lake)
  case (Cons g gs)
  let ?ids = "foldl (\<lambda>acc r. List.insert (arw_flight_id r) acc) ids (snd g)"
  obtain path n lake1 where "write_flights_archive arrow (snd g) (fst g) lake = (Inr (path, n), lake1)"
    and "write_groups arrow gs (paths @ [path]) ?ids lake1 = (Inr (paths', ids'), lake')"
    using Cons.prems by (auto simp: io_bind_Inr)
  from Cons.IH[OF this(2)] show ?case
    using foldl_insert_ids[of arw_flight_id ids "snd g"] by (cases g) auto
qed (simp add: io_return_def)

lemma dset_size:
  "wf_dict d \<Longrightarrow> length (concat (map snd (dset k v d))) + (case dget d k of None \<Rightarrow> 0 | Some old \<Rightarrow> length old) =
     length (concat (map snd d)) + length v"
proof (induction d)
  case (Cons p d)
  obtain k' w where p: "p = (k', w)" by (cases p)
  have wf: "wf_dict d" "k' \<notin> fst ` set d" using Cons.prems by (simp_all add: wf_dict_def p)
  show ?case
  proof (cases "k' = k")
    case True
    then show ?thesis by (simp add: p)
  next
    case False
    then show ?thesis using Cons.IH[OF wf(1)] by (simp add: p)
  qed
qed simp

lemma group_rows_size:
  "group_rows api now es d = Inr d' \<Longrightarrow> wf_dict d \<Longrightarrow>
   length (concat (map snd d')) = length (concat (map snd d)) + length es"
proof (induction es arbitrary: d)
  case (Cons e es)
  obtain row where row: "archive_row api (fst e) (snd e) now = Inr row"
    using Cons.prems(1) by (auto split: sum.splits)
  define rows where "rows = (case dget d (day_of (snd e)) of None \<Rightarrow> [] | Some rs \<Rightarrow> rs)"
  have rest: "group_rows api now es (dset (day_of (snd e)) (rows @ [row]) d) = Inr d'"
    using Cons.prems(1) row by (simp add: Let_def rows_def)
  have "length (concat (map snd (dset (day_of (snd e)) (rows @ [row]) d))) = Suc (length (concat (map snd d)))"
    using dset_size[OF Cons.prems(2), of "day_of (snd e)" "rows @ [row]"]
    by (cases "dget d (day_of (snd e))") (simp_all add: rows_def)
  then show ?case using Cons.IH[OF rest] Cons.prems(2) by simp
qed simp

lemma move_flights_counts:
  assumes "move_flights api arrow fw now eligible s = (Inr (archived, deleted), s')"
  shows "deleted = archived \<and> archived \<le> length eligible"
proof -
  obtain w lake where s: "s = (w, lake)" by (cases s)
  obtain groups where g: "group_rows api now eligible [] = Inr groups"
    using assms by (cases "group_rows api now eligible []") (simp_all add: s move_flights_def)
  obtain paths ids lake1 where wg: "write_groups arrow groups [] [] lake = (Inr (paths, ids), lake1)"
    and rest: "(let missing = filter (\<lambda>i. i \<notin> set (map arw_flight_id (read_flights_archive_files paths lake1))) ids
       in if missing \<noteq> [] then (Inl (OtherError ''RuntimeError''), (w, lake1))
          else io_bind (on_tenant (delete_flight_batch api fw (sort ids)))
                 (\<lambda>batch. io_return (length ids, succeeded batch)) (w, lake1)) = (Inr (archived, deleted), s')"
    using assms unfolding s move_flights_def g by (auto simp: io_bind_Inr on_lake_Inr)
  obtain batch w1 where "delete_flight_batch api fw (sort ids) w = (Inr batch, w1)"
      "archived = length ids" "deleted = succeeded batch"
    using rest by (auto simp: Let_def io_bind_Inr on_tenant_Inr io_return_Inr split: if_splits)
  moreover have "length ids \<le> length (concat (map snd groups))" using write_groups_ids[OF wg] by simp
  ultimately show ?thesis
    using delete_flight.succeeded_all group_rows_size[OF g] by fastforce
qed

lemma eligible_flights_length:
  "eligible_flights a b objs = Inr (past, eligible) \<Longrightarrow> length eligible \<le> length objs \<and> past \<le> length objs"
  by (induction objs arbitrary: past eligible) (auto split: sum.splits option.splits if_splits)

definition counts_ok :: "nat \<Rightarrow> ArchiveState \<Rightarrow> bool" where
  "counts_ok cap st \<longleftrightarrow> as_deleted st = as_archived st \<and> as_archived st \<le> cap \<and> as_archived st \<le> as_settled st \<and>
     as_settled st \<le> as_completed_seen st \<and> as_past_retention st \<le> as_completed_seen st"

lemma archive_page_counts:
  assumes run: "archive_page api arrow fw now grace cap retention page st s = (Inr (stop, st'), s')" and ok: "counts_ok cap st"
  shows "counts_ok cap st'"
proof -
  obtain past eligible where e: "eligible_flights (now - grace) (now - retention) page = Inr (past, eligible)"
    using run by (cases "eligible_flights (now - grace) (now - retention) page") (auto simp: archive_page_def)
  note len = eligible_flights_length[OF e]
  define st1 where "st1 = st\<lparr>as_completed_seen := as_completed_seen st + length page,
      as_past_retention := as_past_retention st + past, as_settled := as_settled st + length eligible\<rparr>"
  have ok1: "counts_ok cap st1" using ok len by (simp add: counts_ok_def st1_def)
  show ?thesis
  proof (cases "eligible = [] \<or> cap \<le> as_archived st1")
    case True
    then have "st' = st1 \<or> st' = st1\<lparr>as_capped := True\<rparr>"
      using run True by (auto simp: archive_page_def e Let_def st1_def split: if_splits)
    then show ?thesis using ok1 by (auto simp: counts_ok_def)
  next
    case False
    let ?take = "take (cap - as_archived st1) eligible"
    obtain archived deleted where m: "move_flights api arrow fw now ?take s = (Inr (archived, deleted), s')"
      and st': "st' = st1\<lparr>as_capped := as_capped st1 \<or> cap - as_archived st1 < length eligible,
          as_archived := as_archived st1 + archived, as_deleted := as_deleted st1 + deleted\<rparr>"
      using run False by (auto simp: archive_page_def e Let_def st1_def io_bind_Inr io_return_Inr split: if_splits)
    have "deleted = archived" "archived \<le> cap - as_archived st1" "archived \<le> length eligible"
      using move_flights_counts[OF m] by simp_all
    moreover have "as_archived st1 \<le> as_settled st" "as_settled st1 = as_settled st + length eligible"
      using ok by (simp_all add: st1_def counts_ok_def)
    moreover have "as_archived st1 \<le> cap" using ok1 by (simp add: counts_ok_def)
    ultimately have "as_archived st1 + archived \<le> cap" "deleted = archived"
        "as_archived st1 + archived \<le> as_settled st1" by linarith+
    then show ?thesis using ok1 by (simp add: counts_ok_def st')
  qed
qed

lemma archive_loop_counts:
  "archive_loop api arrow fw now grace cap retention fuel st tok s = Some (Inr st', s') \<Longrightarrow> counts_ok cap st \<Longrightarrow> counts_ok cap st'"
proof (induction fuel arbitrary: st tok s)
  case (Suc fuel)
  obtain body s1 where g: "on_tenant (get_objects_page api fw ''Flight'' tok) s = (Inr body, s1)"
    using Suc.prems(1) by (auto split: prod.splits sum.splits)
  obtain stop st2 s2 where a: "(if completed_objects api body = [] then (Inr (False, st), s1)
        else archive_page api arrow fw now grace cap retention (completed_objects api body) st s1) = (Inr (stop, st2), s2)"
    using Suc.prems(1) g by (auto simp: Let_def split: prod.splits sum.splits if_splits)
  have ok2: "counts_ok cap st2"
  proof (cases "completed_objects api body = []")
    case False
    then have "archive_page api arrow fw now grace cap retention (completed_objects api body) st s1 = (Inr (stop, st2), s2)"
      using a by simp
    then show ?thesis using Suc.prems(2) by (rule archive_page_counts)
  qed (use a Suc.prems(2) in auto)
  show ?case using Suc.prems(1) Suc.IH[OF _ ok2] ok2 unfolding archive_loop.simps g sum.case prod.case Let_def a
    by (auto split: if_splits option.splits)
qed simp

text \<open>The counts of an archive run: as many flights are deleted from the tenant as were archived and
  verified, at most the cap, and no more than were settled, which are no more than were seen.\<close>

theorem archive_counts:
  assumes "run_flight_archive api arrow settings now grace cap retention fuel s = Some (Inr r, s')"
  shows "far_deleted r = far_archived r \<and> far_archived r \<le> cap \<and> far_archived r \<le> far_settled r \<and>
    far_settled r \<le> far_completed_seen r \<and> far_past_retention r \<le> far_completed_seen r"
proof -
  let ?st = "\<lparr>as_completed_seen = 0, as_settled = 0, as_archived = 0, as_deleted = 0, as_capped = False, as_past_retention = 0\<rparr>"
  obtain st where g: "guarded_sync ''flight_archive'' (with_settings settings (\<lambda>fw. archive_loop api arrow fw now grace cap retention fuel ?st None)) s =
      Some (Inr st, s')" "far_deleted r = as_deleted st" "far_archived r = as_archived st" "far_settled r = as_settled st"
      "far_completed_seen r = as_completed_seen st" "far_past_retention r = as_past_retention st"
    using assms by (auto simp: run_flight_archive_def split: option.splits sum.splits prod.splits)
  then obtain fw where "archive_loop api arrow fw now grace cap retention fuel ?st None s = Some (Inr st, s')"
    by (cases settings) (auto simp: guarded_sync_def with_settings_def iot_raise_def split: option.splits sum.splits prod.splits)
  from archive_loop_counts[OF this] have "counts_ok cap st" by (simp add: counts_ok_def)
  then show ?thesis using g by (simp add: counts_ok_def)
qed

section \<open>Worked instances\<close>

text \<open>A tenant that is a list of objects: one page shows them all, the delete action removes those named.\<close>

abbreviation tenant_writer :: FoundryWriter where
  "tenant_writer \<equiv> demo_writer True"

definition tenant_api :: "(string, json) dict list fapi" where
  "tenant_api =
     \<lparr>fa_post = (\<lambda>path chunk objs. (Inr (),
          if path = delete_flight_path tenant_writer
          then filter (\<lambda>o1. case obj_get o1 ''flightId'' of
                 JStr i \<Rightarrow> [(''Flight'', JStr i)] \<notin> set chunk | _ \<Rightarrow> True) objs
          else objs)),
      fa_get = (\<lambda>path query objs. (Inr \<lparr>pg_data = objs, pg_nextPageToken = None\<rparr>, objs)),
      fa_repr = (\<lambda>_. [])\<rparr>"

definition landed_object :: "string \<Rightarrow> instant \<Rightarrow> (string, json) dict" where
  "landed_object i t =
     [(''flightId'', JStr i), (''icao24'', JStr ''aa''), (''takeoffTs'', JIso 0), (''landedAt'', JIso t)]"

definition empty_lake :: "disk_event list \<Rightarrow> Lake" where
  "empty_lake events = \<lparr>lk_positions = [], lk_archive = [], lk_uuid = 0, lk_disk = events\<rparr>"

definition tenant_ids :: "(string, json) dict list \<Rightarrow> string set" where
  "tenant_ids objs = {i. \<exists>o1 \<in> set objs. obj_get o1 ''flightId'' = JStr i}"

lemma tenant_api_law:
  assumes fw: "delete_flight_path fw = delete_flight_path tenant_writer"
  shows "tenant_law tenant_api fw tenant_ids"
proof -
  have keeps: "tenant_ids objs \<subseteq> tenant_ids (snd (fa_post tenant_api path chunk objs)) \<union>
      (if path = delete_flight_path fw then {pk. [(''Flight'', JStr pk)] \<in> set chunk} else {})" for path chunk objs
  proof
    fix i assume "i \<in> tenant_ids objs"
    then obtain o1 where o1: "o1 \<in> set objs" "obj_get o1 ''flightId'' = JStr i" by (auto simp: tenant_ids_def)
    show "i \<in> tenant_ids (snd (fa_post tenant_api path chunk objs)) \<union>
        (if path = delete_flight_path fw then {pk. [(''Flight'', JStr pk)] \<in> set chunk} else {})"
    proof (cases "path = delete_flight_path tenant_writer \<and> [(''Flight'', JStr i)] \<in> set chunk")
      case False
      then have "o1 \<in> set (snd (fa_post tenant_api path chunk objs))"
        using o1 by (auto simp: tenant_api_def)
      then show ?thesis using o1(2) by (auto simp: tenant_ids_def)
    next
      case True
      then show ?thesis using fw by simp
    qed
  qed
  moreover have "tenant_ids objs \<subseteq> tenant_ids (snd (fa_get tenant_api path query objs))" for path query objs
    by (simp add: tenant_api_def)
  ultimately show ?thesis by (simp add: tenant_law_def)
qed

text \<open>Two landed flights, one of them inside the grace period.\<close>

definition demo_archive_run where
  "demo_archive_run events =
     run_flight_archive tenant_api (\<lambda>_. True) (Inr (demo_writer True)) (hours 10) ARCHIVE_GRACE ARCHIVE_DELETE_CAP
       ARCHIVE_RETENTION 1 ([landed_object ''aa-0'' (hours 3), landed_object ''bb-0'' (hours 9)], empty_lake events)"

lemma demo_archive_ok:
  "fst (the (demo_archive_run [])) =
     Inr \<lparr>far_completed_seen = 2, far_settled = 1, far_archived = 1, far_deleted = 1, far_capped = False,
          far_past_retention = 0, far_archived_persisted = 1\<rparr> \<and>
   fst (snd (the (demo_archive_run []))) = [landed_object ''bb-0'' (hours 9)] \<and> demo_archive_run [] \<noteq> None"
  by code_simp

text \<open>A lost file: the read-back misses the flight, the run fails, and the tenant is untouched.\<close>

lemma demo_archive_lost:
  "fst (the (demo_archive_run [DiskLost])) = Inl (Propagated (OtherError ''RuntimeError'')) \<and>
   fst (snd (the (demo_archive_run [DiskLost]))) = [landed_object ''aa-0'' (hours 3), landed_object ''bb-0'' (hours 9)] \<and>
   demo_archive_run [DiskLost] \<noteq> None"
  by code_simp

lemma archive_loses_no_flight_witness:
  "\<exists>objs lake. {''aa-0'', ''bb-0''} \<subseteq> tenant_ids objs \<union> archived_ids lake"
proof -
  have wf: "wf_lake (empty_lake [DiskLost])" by (simp add: wf_lake_def empty_lake_def wf_table_def)
  obtain r objs lake where run: "demo_archive_run [DiskLost] = Some (r, (objs, lake))"
    using demo_archive_lost by (metis not_None_eq prod.collapse)
  have "tenant_ids [landed_object ''aa-0'' (hours 3), landed_object ''bb-0'' (hours 9)] \<subseteq> tenant_ids objs \<union> archived_ids lake"
    using archive_loses_no_flight[OF _ wf run[unfolded demo_archive_run_def], of tenant_ids] tenant_api_law by fastforce
  moreover have "{''aa-0'', ''bb-0''} \<subseteq> tenant_ids [landed_object ''aa-0'' (hours 3), landed_object ''bb-0'' (hours 9)]"
    by (simp add: tenant_ids_def landed_object_def obj_get_def)
  ultimately show ?thesis by blast
qed

lemma archive_counts_witness: "(1::nat) = 1 \<and> (1::nat) \<le> ARCHIVE_DELETE_CAP"
proof -
  obtain s' where "demo_archive_run [] =
      Some (Inr \<lparr>far_completed_seen = 2, far_settled = 1, far_archived = 1, far_deleted = 1, far_capped = False,
          far_past_retention = 0, far_archived_persisted = 1\<rparr>, s')"
    using demo_archive_ok by (metis not_None_eq option.sel prod.collapse)
  from archive_counts[OF this[unfolded demo_archive_run_def]] show ?thesis by simp
qed

definition old_row :: "instant \<Rightarrow> ArchiveRow" where
  "old_row t =
     \<lparr>arw_flight_id = ''aa-0'', arw_icao24 = JStr ''aa'', arw_takeoff_ts = Some 0, arw_landed_at = t, arw_callsign = JNull,
      arw_registration = JNull, arw_aircraft_type = JNull, arw_operator_icao = JNull, arw_customer_region = JNull,
      arw_origin_icao = JNull, arw_destination_icao = JNull, arw_eta_minutes = JNull, arw_status = JNull,
      arw_current_stage = JNull, arw_lat = JNull, arw_lon = JNull, arw_open_case_count = JNull,
      arw_open_case_ids = JNull, arw_status_timeline = JNull, arw_trail_2h = JNull, arw_archived_at = t\<rparr>"

definition two_day_lake :: Lake where
  "two_day_lake = (empty_lake [])\<lparr>lk_archive := [(7, [(0, [old_row (days 7)])]), (2, [(1, [old_row (days 2)])])], lk_uuid := 2\<rparr>"

lemma two_day_lake_wf: "wf_lake two_day_lake"
  by (simp add: two_day_lake_def empty_lake_def wf_lake_def wf_table_def good_dir_def wf_dict_def old_row_def day_of_def days_def)

lemma pruned_reads_exact_witness:
  "set (read_flights_archive (Some 3) (days 8) two_day_lake) = {r \<in> all_rows (lk_archive two_day_lake). days 5 \<le> arw_landed_at r \<and> day_of (arw_landed_at r) \<le> 8}"
  using pruned_reads_exact[OF two_day_lake_wf, of 0 0 3] pruned_reads_exact[OF two_day_lake_wf, of 0 "days 8" 3]
  by (simp add: days_def day_of_def)

lemma purge_exact_witness:
  "\<exists>lake'. purge_flights_archive_before 5 two_day_lake = ([2], lake') \<and> old_row (days 7) \<in> all_rows (lk_archive lake') \<and>
     old_row (days 2) \<notin> all_rows (lk_archive lake')"
proof -
  obtain lake' where p: "purge_flights_archive_before 5 two_day_lake = ([2], lake')"
  proof -
    have "fst (purge_flights_archive_before 5 two_day_lake) = [2]" by code_simp
    then show ?thesis using that by (metis prod.collapse)
  qed
  from purge_exact[OF two_day_lake_wf this] have
    "all_rows (lk_archive lake') = {r \<in> all_rows (lk_archive two_day_lake). 5 \<le> day_of (arw_landed_at r)}" by blast
  then show ?thesis using p
    by (intro exI[of _ lake']) (simp add: two_day_lake_def empty_lake_def all_rows_def old_row_def day_of_def days_def)
qed

end
