(* ===== verification/PyJson.thy ===== *)
theory PyJson
  imports Writer PyString Complex_Main
begin

text \<open>
  What the clients of the two public feeds do with decoded JSON: isinstance tests, the int and float
  constructors, str.isdigit, dict access on a value that may not be a dict, and the sequencing of
  conversions that may raise. A bool is an int for isinstance and int(). The texts inf, infinity and
  nan, which float() also reads, are not numbers here.
\<close>

section \<open>Sequencing\<close>

definition rbind :: "'e + 'a \<Rightarrow> ('a \<Rightarrow> 'e + 'b) \<Rightarrow> 'e + 'b" where
  "rbind m f = (case m of Inl e \<Rightarrow> Inl e | Inr a \<Rightarrow> f a)"

lemma rbind_Inr: "rbind m f = Inr b \<longleftrightarrow> (\<exists>a. m = Inr a \<and> f a = Inr b)"
  by (cases m) (simp_all add: rbind_def)

primrec rmap :: "('a \<Rightarrow> 'e + 'b) \<Rightarrow> 'a list \<Rightarrow> 'e + 'b list" where
  "rmap f [] = Inr []"
| "rmap f (x # xs) = rbind (f x) (\<lambda>y. rbind (rmap f xs) (\<lambda>ys. Inr (y # ys)))"

lemma rmap_Inr: "rmap f xs = Inr ys \<longleftrightarrow> map f xs = map Inr ys"
  by (induction xs arbitrary: ys) (auto simp: rbind_Inr map_eq_Cons_conv)

lemma rmap_mem:
  assumes "rmap f xs = Inr ys" "y \<in> set ys"
  obtains x where "x \<in> set xs" "f x = Inr y"
proof -
  have "Inr y \<in> set (map f xs)" using assms by (simp add: rmap_Inr)
  then show ?thesis using that by auto
qed

lemma rmap_length: "rmap f xs = Inr ys \<Longrightarrow> length ys = length xs"
  by (metis length_map rmap_Inr)

section \<open>Types and conversions\<close>

abbreviation type_error :: exn where
  "type_error \<equiv> OtherError ''TypeError''"

definition is_number :: "json \<Rightarrow> bool" where
  "is_number v = (case v of JBool _ \<Rightarrow> True | JInt _ \<Rightarrow> True | JNum _ \<Rightarrow> True | _ \<Rightarrow> False)"

definition py_trunc :: "real \<Rightarrow> int" where
  "py_trunc x = (if 0 \<le> x then \<lfloor>x\<rfloor> else \<lceil>x\<rceil>)"

definition json_int :: "json \<Rightarrow> exn + int" where
  "json_int v =
     (case v of
        JBool b \<Rightarrow> Inr (if b then 1 else 0)
      | JInt i \<Rightarrow> Inr i
      | JNum x \<Rightarrow> Inr (py_trunc x)
      | JStr s \<Rightarrow> (case py_int s of None \<Rightarrow> Inl PyValueError | Some i \<Rightarrow> Inr i)
      | _ \<Rightarrow> Inl type_error)"

text \<open>float() on text: a sign, digits with single underscores between them, a point, an exponent.\<close>

primrec frac_value :: "string \<Rightarrow> real" where
  "frac_value [] = 0"
| "frac_value (c # cs) = (real (digit_val c) + frac_value cs) / 10"

definition digit_part :: "string \<Rightarrow> string option" where
  "digit_part s =
     (if s = [] then Some []
      else case read_digits 0 False s of None \<Rightarrow> None | Some _ \<Rightarrow> Some (filter is_digit s))"

definition read_mantissa :: "string \<Rightarrow> real option" where
  "read_mantissa s =
     (let whole = takeWhile (\<lambda>c. c \<noteq> CHR ''.'') s; rest = drop 1 (dropWhile (\<lambda>c. c \<noteq> CHR ''.'') s)
      in case (digit_part whole, digit_part rest) of
           (Some w, Some f) \<Rightarrow>
             if w = [] \<and> f = [] then None
             else Some (real (foldl (\<lambda>a c. 10 * a + digit_val c) 0 w) + frac_value f)
         | _ \<Rightarrow> None)"

definition signed :: "string \<Rightarrow> bool \<times> string" where
  "signed s = (case s of c # cs \<Rightarrow> if c = CHR ''-'' then (True, cs) else if c = CHR ''+'' then (False, cs) else (False, s)
               | [] \<Rightarrow> (False, []))"

definition read_exponent :: "string \<Rightarrow> int option" where
  "read_exponent s =
     (let (neg, ds) = signed s
      in map_option (\<lambda>n. if neg then - int n else int n) (read_digits 0 False ds))"

definition py_float :: "string \<Rightarrow> real option" where
  "py_float s =
     (let (neg, body) = signed (strip s);
          mantissa = takeWhile (\<lambda>c. c \<notin> {CHR ''e'', CHR ''E''}) body;
          tail = dropWhile (\<lambda>c. c \<notin> {CHR ''e'', CHR ''E''}) body
      in case (read_mantissa mantissa, if tail = [] then Some 0 else read_exponent (tl tail)) of
           (Some m, Some e) \<Rightarrow> Some ((if neg then - m else m) * 10 powi e)
         | _ \<Rightarrow> None)"

definition json_float :: "json \<Rightarrow> exn + real" where
  "json_float v =
     (case v of
        JBool b \<Rightarrow> Inr (if b then 1 else 0)
      | JInt i \<Rightarrow> Inr (of_int i)
      | JNum x \<Rightarrow> Inr x
      | JStr s \<Rightarrow> (case py_float s of None \<Rightarrow> Inl PyValueError | Some x \<Rightarrow> Inr x)
      | _ \<Rightarrow> Inl type_error)"

text \<open>\<open>f(v) if v is not None else None\<close>.\<close>

definition optional :: "(json \<Rightarrow> exn + 'a) \<Rightarrow> json \<Rightarrow> exn + 'a option" where
  "optional f v = (if v = JNull then Inr None else rbind (f v) (\<lambda>x. Inr (Some x)))"

text \<open>\<open>f(v) if isinstance(v, int | float) else None\<close>.\<close>

definition int_if_number :: "json \<Rightarrow> int option" where
  "int_if_number v = (case v of JBool b \<Rightarrow> Some (if b then 1 else 0) | JInt i \<Rightarrow> Some i | JNum x \<Rightarrow> Some (py_trunc x) | _ \<Rightarrow> None)"

definition float_if_number :: "json \<Rightarrow> real option" where
  "float_if_number v = (case v of JBool b \<Rightarrow> Some (if b then 1 else 0) | JInt i \<Rightarrow> Some (of_int i) | JNum x \<Rightarrow> Some x | _ \<Rightarrow> None)"

definition nonempty_str :: "json \<Rightarrow> string option" where
  "nonempty_str v = (case v of JStr s \<Rightarrow> if s = [] then None else Some s | _ \<Rightarrow> None)"

text \<open>str.isdigit below U+0100: the decimal digits and the three superscripts.\<close>

definition py_isdigit :: "string \<Rightarrow> bool" where
  "py_isdigit s \<longleftrightarrow> s \<noteq> [] \<and> list_all (\<lambda>c. is_digit c \<or> (of_char c :: nat) \<in> {178, 179, 185}) s"

lemma nonempty_str_Some: "nonempty_str v = Some s \<longleftrightarrow> v = JStr s \<and> s \<noteq> []"
  by (auto simp: nonempty_str_def split: json.splits)

lemma py_float_demo: "py_float ''2.5'' = Some (5/2)" "py_float ''1 1/2'' = None" "py_float '' -1_0.25e1 '' = Some (-205/2)"
  by code_simp+

end
