(* ===== verification/Geo.thy ===== *)
theory Geo
  imports Prelude Complex_Main
begin

text \<open>
  The program's great-circle geometry: the three haversine distances (services/baseline_provider.py with
  atan2, assets/detection.py with arcsin, resources/watchlist.py with a clip and in metres), the nearest
  watched airport of detection, the region inference of the watchlist, and the heuristic flight
  duration. Floats are real numbers here: rounding errors are not modelled.
\<close>

type_synonym coord = "real \<times> real"

section \<open>Distances\<close>

definition EARTH_RADIUS_NM :: real where
  "EARTH_RADIUS_NM = 3440065 / 1000"

definition EARTH_RADIUS_METERS :: real where
  "EARTH_RADIUS_METERS = 6371000"

definition radians :: "real \<Rightarrow> real" where
  "radians d = d * pi / 180"

definition py_atan2 :: "real \<Rightarrow> real \<Rightarrow> real" where
  "py_atan2 y x =
     (if x > 0 then arctan (y / x)
      else if x < 0 then (if y \<ge> 0 then arctan (y / x) + pi else arctan (y / x) - pi)
      else if y > 0 then pi / 2 else if y < 0 then - (pi / 2) else 0)"

definition haversine_nm :: "real \<Rightarrow> real \<Rightarrow> real \<Rightarrow> real \<Rightarrow> real" where
  "haversine_nm lat1 lon1 lat2 lon2 =
     (let phi1 = radians lat1; phi2 = radians lat2;
          d_phi = radians (lat2 - lat1); d_lambda = radians (lon2 - lon1);
          a = sin (d_phi / 2) ^ 2 + cos phi1 * cos phi2 * sin (d_lambda / 2) ^ 2
      in EARTH_RADIUS_NM * 2 * py_atan2 (sqrt a) (sqrt (1 - a)))"

text \<open>One entry of the (N, M) matrix of detection.py.\<close>

definition haversine_matrix :: "coord \<Rightarrow> coord \<Rightarrow> real" where
  "haversine_matrix p w =
     (let lat_r = radians (fst p); lon_r = radians (snd p); wlat_r = radians (fst w); wlon_r = radians (snd w);
          d_phi = wlat_r - lat_r; d_lambda = wlon_r - lon_r;
          a = sin (d_phi / 2) ^ 2 + cos lat_r * cos wlat_r * sin (d_lambda / 2) ^ 2
      in EARTH_RADIUS_NM * 2 * arcsin (sqrt a))"

definition haversine_meters :: "coord \<Rightarrow> coord \<Rightarrow> real" where
  "haversine_meters p w =
     (let lat1 = radians (fst p); lon1 = radians (snd p); lat2 = radians (fst w); lon2 = radians (snd w);
          dlat = lat2 - lat1; dlon = lon2 - lon1;
          a = sin (dlat / 2) ^ 2 + cos lat1 * cos lat2 * sin (dlon / 2) ^ 2;
          c = 2 * arcsin (sqrt (min 1 (max 0 a)))
      in EARTH_RADIUS_METERS * c)"

section \<open>Nearest airport and regions\<close>

record WatchedAirport =
  wa_icao :: string
  wa_lat :: real
  wa_lon :: real
  wa_customer_regions :: "string list"

definition nearest_by :: "(coord \<Rightarrow> coord \<Rightarrow> real) \<Rightarrow> ('a \<Rightarrow> coord) \<Rightarrow> coord \<Rightarrow> 'a list \<Rightarrow> ('a \<times> real) option" where
  "nearest_by metric coord_of p ws = map_option (\<lambda>w. (w, metric p (coord_of w))) (min_by (\<lambda>w. metric p (coord_of w)) ws)"

text \<open>\<open>_nearest_sites\<close> for one row; a missing coordinate or an empty watchlist gives None twice.\<close>

definition nearest_site :: "(string, coord) dict \<Rightarrow> real option \<Rightarrow> real option \<Rightarrow> string option \<times> real option" where
  "nearest_site watched_coords lat lon =
     (case (lat, lon) of
        (Some la, Some lo) \<Rightarrow>
          (case nearest_by haversine_matrix snd (la, lo) watched_coords of
             None \<Rightarrow> (None, None)
           | Some (w, d) \<Rightarrow> (Some (fst w), Some d))
      | _ \<Rightarrow> (None, None))"

definition REGION_INFERENCE_RADIUS_METERS :: real where
  "REGION_INFERENCE_RADIUS_METERS = 50 * 1852"

definition airport_coord :: "WatchedAirport \<Rightarrow> coord" where
  "airport_coord w = (wa_lat w, wa_lon w)"

definition infer_region :: "WatchedAirport list \<Rightarrow> real option \<Rightarrow> real option \<Rightarrow> string list option" where
  "infer_region airports lat lon =
     (case (lat, lon) of
        (Some la, Some lo) \<Rightarrow>
          (case nearest_by haversine_meters airport_coord (la, lo) airports of
             None \<Rightarrow> None
           | Some (w, d) \<Rightarrow> if d \<le> REGION_INFERENCE_RADIUS_METERS then Some (wa_customer_regions w) else None)
      | _ \<Rightarrow> None)"

text \<open>Loading an empty watchlist is an error; shapes must agree.\<close>

definition infer_regions :: "WatchedAirport list \<Rightarrow> real option list \<Rightarrow> real option list \<Rightarrow> string + string list option list" where
  "infer_regions airports lats lons =
     (if length lats \<noteq> length lons then Inl ''ValueError''
      else if airports = [] then Inl ''RuntimeError''
      else Inr (map (\<lambda>(la, lo). infer_region airports la lo) (zip lats lons)))"

section \<open>The heuristic baseline\<close>

definition round_half_even :: "real \<Rightarrow> int" where
  "round_half_even x =
     (let f = \<lfloor>x\<rfloor>; d = x - of_int f
      in if d < 1 / 2 \<or> (d = 1 / 2 \<and> even f) then f else f + 1)"

definition DEFAULT_CRUISE_SPEED_KT :: real where
  "DEFAULT_CRUISE_SPEED_KT = 450"

definition DEFAULT_FIXED_OVERHEAD_MIN :: real where
  "DEFAULT_FIXED_OVERHEAD_MIN = 35"

text \<open>\<open>timedelta(minutes=x)\<close>, to the nearest microsecond.\<close>

definition timedelta_minutes :: "real \<Rightarrow> duration" where
  "timedelta_minutes x = round_half_even (x * 60000000)"

definition heuristic_expected :: "(string, coord) dict \<Rightarrow> string \<Rightarrow> string \<Rightarrow> duration option" where
  "heuristic_expected airport_coords origin_icao destination_icao =
     (if origin_icao = [] \<or> destination_icao = [] then None
      else if origin_icao = destination_icao then None
      else (case (dget airport_coords origin_icao, dget airport_coords destination_icao) of
              (Some origin, Some destination) \<Rightarrow>
                let distance_nm = haversine_nm (fst origin) (snd origin) (fst destination) (snd destination);
                    cruise_minutes = distance_nm / DEFAULT_CRUISE_SPEED_KT * 60
                in Some (timedelta_minutes (cruise_minutes + DEFAULT_FIXED_OVERHEAD_MIN))
            | _ \<Rightarrow> None))"

text \<open>The provider switch: an empty name counts as unset, the environment variable comes next.\<close>

definition build_baseline_provider ::
  "(string \<Rightarrow> string) \<Rightarrow> string option \<Rightarrow> string option \<Rightarrow> (string, coord) dict \<Rightarrow>
     string + (string \<Rightarrow> string \<Rightarrow> duration option)" where
  "build_baseline_provider lower_fn provider_name env airport_coords =
     (let pick = (\<lambda>v d. case v of None \<Rightarrow> d | Some s \<Rightarrow> if s = [] then d else s);
          name = lower_fn (pick provider_name (pick env ''heuristic''))
      in if name = ''heuristic'' then Inr (heuristic_expected airport_coords) else Inl ''NotImplementedError'')"

section \<open>The haversine term\<close>

definition hav :: "real \<Rightarrow> real \<Rightarrow> real \<Rightarrow> real" where
  "hav x y l = sin ((y - x) / 2) ^ 2 + cos x * cos y * sin (l / 2) ^ 2"

lemma hav_bounds: "0 \<le> hav x y l \<and> hav x y l \<le> 1"
proof -
  let ?s = "sin (l / 2) ^ 2 :: real" and ?c = "cos (y - x) :: real" and ?d = "cos (x + y) :: real"
  have s: "0 \<le> ?s" "?s \<le> 1" by (simp_all add: abs_square_le_1)
  have "2 * ((y - x) / 2) = y - x" by simp
  then have "?c = 1 - 2 * sin ((y - x) / 2) ^ 2" by (metis cos_double_sin)
  then have "sin ((y - x) / 2) ^ 2 = (1 - ?c) / 2" by simp
  moreover have "cos x * cos y = (?c + ?d) / 2"
    by (simp add: cos_add cos_diff field_simps)
  ultimately have "hav x y l = (1 - ?c) / 2 + (?c + ?d) / 2 * ?s" by (simp only: hav_def)
  also have "\<dots> = (1 - ?s) * ((1 - ?c) / 2) + ?s * ((1 + ?d) / 2)" by (simp add: field_simps)
  finally have e: "hav x y l = (1 - ?s) * ((1 - ?c) / 2) + ?s * ((1 + ?d) / 2)" .
  have half: "0 \<le> (1 - t) / 2 \<and> (1 - t) / 2 \<le> 1 \<and> 0 \<le> (1 + t) / 2 \<and> (1 + t) / 2 \<le> 1"
    if "- 1 \<le> t" "t \<le> 1" for t :: real using that by simp
  have c: "0 \<le> (1 - ?c) / 2" and c': "(1 - ?c) / 2 \<le> 1"
    using half[of ?c] cos_ge_minus_one cos_le_one by blast+
  have d: "0 \<le> (1 + ?d) / 2" and d': "(1 + ?d) / 2 \<le> 1"
    using half[of ?d] cos_ge_minus_one cos_le_one by blast+
  have "0 \<le> (1 - ?s) * ((1 - ?c) / 2)" "0 \<le> ?s * ((1 + ?d) / 2)"
    using s c d by simp_all
  moreover have "(1 - ?s) * ((1 - ?c) / 2) \<le> (1 - ?s) * 1"
    by (rule mult_left_mono[OF c']) (use s in simp)
  moreover have "?s * ((1 + ?d) / 2) \<le> ?s * 1"
    by (rule mult_left_mono[OF d']) (use s in simp)
  moreover have "0 \<le> u + v \<and> u + v \<le> 1" if "0 \<le> u" "0 \<le> v" "u \<le> (1 - t) * 1" "v \<le> t * 1" for u v t :: real
    using that by simp
  ultimately show ?thesis unfolding e by blast
qed

lemma hav_sym: "hav x y l = hav y x (- l)"
proof -
  have "sin ((y - x) / 2) = - sin ((x - y) / 2)" by (metis minus_diff_eq minus_divide_left sin_minus)
  then show ?thesis by (simp add: hav_def mult.commute)
qed

lemma atan2_arcsin:
  assumes "0 \<le> a" "a \<le> 1"
  shows "py_atan2 (sqrt a) (sqrt (1 - a)) = arcsin (sqrt a)"
proof (cases "a = 1")
  case False
  with assms have a: "0 \<le> a" "a < 1" by simp_all
  let ?t = "arcsin (sqrt a)"
  have s: "0 \<le> sqrt a" "sqrt a < 1" using a by (simp_all add: real_sqrt_lt_1_iff)
  have "- 1 < sqrt a" using s(1) by linarith
  then have t: "- (pi / 2) < ?t" "?t < pi / 2" using s(2) arcsin_lt_bounded[of "sqrt a"] by simp_all
  have "sin ?t = sqrt a" using s \<open>- 1 < sqrt a\<close> by simp
  moreover have "cos ?t = sqrt (1 - a)" using s a cos_arcsin[of "sqrt a"] \<open>- 1 < sqrt a\<close> by simp
  ultimately have "tan ?t = sqrt a / sqrt (1 - a)" by (simp add: tan_def)
  then have "arctan (sqrt a / sqrt (1 - a)) = ?t" using arctan_tan[OF t] by simp
  then show ?thesis using a by (simp add: py_atan2_def)
qed (simp add: py_atan2_def)

lemma haversine_nm_hav:
  "haversine_nm la lo wla wlo = EARTH_RADIUS_NM * 2 * arcsin (sqrt (hav (radians la) (radians wla) (radians wlo - radians lo)))"
proof -
  have "radians (wla - la) = radians wla - radians la" "radians (wlo - lo) = radians wlo - radians lo"
    by (simp_all add: radians_def algebra_simps diff_divide_distrib)
  then have "haversine_nm la lo wla wlo =
      (let a = hav (radians la) (radians wla) (radians wlo - radians lo)
       in EARTH_RADIUS_NM * 2 * py_atan2 (sqrt a) (sqrt (1 - a)))"
    by (simp add: haversine_nm_def hav_def Let_def)
  then show ?thesis using atan2_arcsin hav_bounds by (simp add: Let_def)
qed

lemma haversine_matrix_hav:
  "haversine_matrix p w = EARTH_RADIUS_NM * 2 * arcsin (sqrt (hav (radians (fst p)) (radians (fst w)) (radians (snd w) - radians (snd p))))"
  by (simp add: haversine_matrix_def hav_def Let_def)

lemma haversine_meters_hav:
  "haversine_meters p w = EARTH_RADIUS_METERS * (2 * arcsin (sqrt (hav (radians (fst p)) (radians (fst w)) (radians (snd w) - radians (snd p)))))"
  using hav_bounds[of "radians (fst p)" "radians (fst w)" "radians (snd w) - radians (snd p)"]
  by (simp add: haversine_meters_def hav_def Let_def)

lemma arcsin_sqrt_bounds: "0 \<le> a \<Longrightarrow> a \<le> 1 \<Longrightarrow> 0 \<le> arcsin (sqrt a) \<and> arcsin (sqrt a) \<le> pi / 2"
proof -
  assume a: "0 \<le> a" "a \<le> 1"
  then have "- 1 \<le> sqrt a" using real_sqrt_ge_zero[OF a(1)] by linarith
  then show ?thesis using a arcsin_le_arcsin[of 0 "sqrt a"] arcsin_ubound[of "sqrt a"] by simp
qed

section \<open>Properties\<close>

text \<open>The three distance computations of the program agree: the atan2 form equals the arcsin form, the
  metre form is the same up to the Earth radius (its clip never acts), and the distance is symmetric,
  zero from a point to itself, and at most half the circumference.\<close>

theorem haversines_agree:
  "haversine_nm (fst p) (snd p) (fst w) (snd w) = haversine_matrix p w \<and>
   haversine_meters p w * EARTH_RADIUS_NM = haversine_matrix p w * EARTH_RADIUS_METERS \<and>
   haversine_matrix p w = haversine_matrix w p \<and> haversine_matrix p p = 0 \<and>
   0 \<le> haversine_matrix p w \<and> haversine_matrix p w \<le> EARTH_RADIUS_NM * pi"
proof (intro conjI)
  let ?h = "hav (radians (fst p)) (radians (fst w)) (radians (snd w) - radians (snd p))"
  note b = arcsin_sqrt_bounds[OF hav_bounds[THEN conjunct1] hav_bounds[THEN conjunct2],
      of "radians (fst p)" "radians (fst w)" "radians (snd w) - radians (snd p)"]
  show "haversine_nm (fst p) (snd p) (fst w) (snd w) = haversine_matrix p w"
    by (simp add: haversine_nm_hav haversine_matrix_hav)
  show "haversine_meters p w * EARTH_RADIUS_NM = haversine_matrix p w * EARTH_RADIUS_METERS"
    by (simp add: haversine_meters_hav haversine_matrix_hav)
  show "haversine_matrix p w = haversine_matrix w p"
    using hav_sym[of "radians (fst p)" "radians (fst w)" "radians (snd w) - radians (snd p)"]
    by (simp add: haversine_matrix_hav)
  show "haversine_matrix p p = 0" by (simp add: haversine_matrix_hav hav_def)
  show "0 \<le> haversine_matrix p w" using b by (simp add: haversine_matrix_hav EARTH_RADIUS_NM_def)
  show "haversine_matrix p w \<le> EARTH_RADIUS_NM * pi" using b by (simp add: haversine_matrix_hav EARTH_RADIUS_NM_def)
qed

lemma round_half_even_ge: "of_int n \<le> x \<Longrightarrow> n \<le> round_half_even x"
  using le_floor_iff[of n x] by (auto simp: round_half_even_def Let_def)

lemma heuristic_expected_overhead:
  assumes "heuristic_expected coords a b = Some t"
  shows "minutes 35 \<le> t \<and> a \<noteq> b"
proof -
  obtain x y where "t = timedelta_minutes (haversine_nm (fst x) (snd x) (fst y) (snd y) / DEFAULT_CRUISE_SPEED_KT * 60 + DEFAULT_FIXED_OVERHEAD_MIN)"
      "a \<noteq> b"
    using assms by (auto simp: heuristic_expected_def Let_def split: if_splits option.splits)
  moreover have "0 \<le> haversine_nm (fst x) (snd x) (fst y) (snd y)"
    using arcsin_sqrt_bounds[OF hav_bounds[THEN conjunct1] hav_bounds[THEN conjunct2]]
    by (simp add: haversine_nm_hav EARTH_RADIUS_NM_def)
  ultimately show ?thesis
    by (auto simp: timedelta_minutes_def minutes_def DEFAULT_CRUISE_SPEED_KT_def DEFAULT_FIXED_OVERHEAD_MIN_def
        intro!: round_half_even_ge)
qed

lemma min_by_scale:
  fixes f g :: "'a \<Rightarrow> real"
  assumes "0 < k" "\<And>x. g x = k * f x"
  shows "min_by g xs = min_by f xs"
proof -
  have "first_min g b xs = first_min f b xs" for b xs
    by (induction xs arbitrary: b) (simp_all add: assms)
  then show ?thesis by (simp add: min_by_def split: list.split)
qed

lemma min_by_map: "min_by f (map h xs) = map_option h (min_by (\<lambda>x. f (h x)) xs)"
proof -
  have "first_min f (h b) (map h xs) = h (first_min (\<lambda>x. f (h x)) b xs)" for b xs
    by (induction xs arbitrary: b) (simp_all split: if_split)
  then show ?thesis by (simp add: min_by_def split: list.split)
qed

text \<open>Ingestion and detection name the same airport: a position gets a customer region exactly when the
  nearest watched site that the detector attaches to it lies within 50 nautical miles (measured with
  the mean Earth radius of the watchlist), and the region is that site's.\<close>

theorem region_is_nearest_site:
  "infer_region airports (Some la) (Some lo) =
     (case nearest_site (map (\<lambda>w. (wa_icao w, airport_coord w)) airports) (Some la) (Some lo) of
        (Some icao, Some d) \<Rightarrow>
          if d * EARTH_RADIUS_METERS / EARTH_RADIUS_NM \<le> REGION_INFERENCE_RADIUS_METERS
          then map_option wa_customer_regions (min_by (\<lambda>w. haversine_matrix (la, lo) (airport_coord w)) airports)
          else None
      | _ \<Rightarrow> None)"
proof -
  let ?m = "min_by (\<lambda>w. haversine_matrix (la, lo) (airport_coord w)) airports"
  have scale: "haversine_meters p w = EARTH_RADIUS_METERS / EARTH_RADIUS_NM * haversine_matrix p w" for p w
    by (simp add: haversine_meters_hav haversine_matrix_hav EARTH_RADIUS_NM_def)
  have m: "min_by (\<lambda>w. haversine_meters (la, lo) (airport_coord w)) airports = ?m"
    by (rule min_by_scale[of "EARTH_RADIUS_METERS / EARTH_RADIUS_NM"])
      (simp_all add: scale EARTH_RADIUS_METERS_def EARTH_RADIUS_NM_def)
  have n: "nearest_site (map (\<lambda>w. (wa_icao w, airport_coord w)) airports) (Some la) (Some lo) =
      (case ?m of None \<Rightarrow> (None, None)
       | Some w \<Rightarrow> (Some (wa_icao w), Some (haversine_matrix (la, lo) (airport_coord w))))"
  proof (cases ?m)
    case (Some w)
    then show ?thesis by (simp add: nearest_site_def nearest_by_def min_by_map)
  next
    case None
    then have "airports = []" by simp
    then show ?thesis by (simp add: nearest_site_def nearest_by_def min_by_def)
  qed
  show ?thesis
  proof (cases ?m)
    case None
    then show ?thesis unfolding n by (simp only: infer_region_def nearest_by_def m option.case prod.case option.map)
  next
    case (Some w)
    have "infer_region airports (Some la) (Some lo) =
        (if haversine_meters (la, lo) (airport_coord w) \<le> REGION_INFERENCE_RADIUS_METERS then Some (wa_customer_regions w) else None)"
      by (simp add: infer_region_def nearest_by_def m Some)
    then show ?thesis unfolding n Some by (simp add: scale mult.commute)
  qed
qed

end
