(* ===== verification/Rules.thy ===== *)
theory Rules
  imports Lakehouse "HOL-Library.Sublist"
begin

text \<open>
  pipelines/rules: the six anomaly rules over the enriched positions frame, and the deduplication of
  their findings against the batch and the open cases. A data frame is a list of rows in frame order; a
  missing value is None (a comparison with it is False, as with NaN); groupby yields the groups in key
  order. The baseline provider is the argument \<open>baseline\<close>. Rounded minutes in the facts are the
  exact value rounded half-even to one decimal. Ties of \<open>sort_values\<close> keep the frame order.
\<close>

section \<open>Rows, anomalies, rules\<close>

record EnrichedRow = PositionRow +
  er_origin_icao :: "string option"
  er_destination_icao :: "string option"
  er_departure_time :: "instant option"
  er_nearest_site_icao :: "string option"
  er_nearest_site_distance_nm :: "real option"
  er_feed_last_ts :: "instant option"

record AirportConditions =
  apc_site_icao :: string
  apc_flight_category :: "string option"
  apc_wind_kt :: "int option"
  apc_visibility_sm :: "real option"
  apc_ceiling_ft :: "int option"

record Anomaly =
  an_rule :: string
  an_icao24 :: string
  an_site_icao :: "string option"
  an_customer_region :: string
  an_detection_facts :: "(string, json) dict"
  an_severity_hint :: "string option"

record OpenCase =
  oc_case_type :: string
  oc_flight_id :: string
  oc_site_icao :: string
  oc_detection_facts :: "(string, json) dict"
  oc_created_at :: instant

datatype Rule = LostSignalRule | DiversionRule | ExcessiveHoldRule | WeatherImpactRule | GoAroundRule | DelayRule

primrec case_type :: "Rule \<Rightarrow> string" where
  "case_type LostSignalRule = ''lost_signal''"
| "case_type DiversionRule = ''diversion''"
| "case_type ExcessiveHoldRule = ''excessive_hold''"
| "case_type WeatherImpactRule = ''weather_impact''"
| "case_type GoAroundRule = ''go_around''"
| "case_type DelayRule = ''delay''"

primrec dedup_window :: "Rule \<Rightarrow> duration" where
  "dedup_window LostSignalRule = hours 6"
| "dedup_window DiversionRule = hours 24"
| "dedup_window ExcessiveHoldRule = minutes 30"
| "dedup_window WeatherImpactRule = hours 1"
| "dedup_window GoAroundRule = minutes 30"
| "dedup_window DelayRule = hours 4"

definition ALL_RULES :: "Rule list" where
  "ALL_RULES = [LostSignalRule, DiversionRule, ExcessiveHoldRule, WeatherImpactRule, GoAroundRule, DelayRule]"

lemma case_type_inject [simp]: "case_type a = case_type b \<longleftrightarrow> a = b"
  by (cases a; cases b) simp_all

section \<open>Shared helpers\<close>

definition opt_str :: "string option \<Rightarrow> string option" where
  "opt_str v = (case v of None \<Rightarrow> None | Some s \<Rightarrow> if s = [] then None else Some s)"

definition region_of :: "EnrichedRow \<Rightarrow> string" where
  "region_of row = (case pr_customer_region row of None \<Rightarrow> ''all'' | Some r \<Rightarrow> if r = [] then ''all'' else r)"

definition is_general_aviation_callsign :: "string option \<Rightarrow> bool" where
  "is_general_aviation_callsign callsign =
     (case callsign of None \<Rightarrow> False | Some s \<Rightarrow> 2 \<le> length s \<and> s ! 0 = CHR ''N'' \<and> is_digit (s ! 1))"

text \<open>The groups of \<open>positions.groupby("icao24")\<close>.\<close>

definition groups :: "EnrichedRow list \<Rightarrow> (string \<times> EnrichedRow list) list" where
  "groups positions =
     map (\<lambda>k. (k, filter (\<lambda>r. pr_icao24 r = k) positions)) (sorted_set (map pr_icao24 positions))"

definition latest_row :: "EnrichedRow list \<Rightarrow> EnrichedRow option" where
  "latest_row frame = max_by pr_ts_polled frame"

text \<open>Division rounded to the nearest integer, a tie to the even one.\<close>

definition divide_nearest :: "int \<Rightarrow> int \<Rightarrow> int" where
  "divide_nearest a b =
     (let q = a div b; r = a mod b
      in if 2 * r > b \<or> (2 * r = b \<and> odd q) then q + 1 else q)"

definition rounded_minutes :: "duration \<Rightarrow> json" where
  "rounded_minutes d = JNum (of_int (divide_nearest d 6000000) / 10)"

text \<open>\<open>series.mode().iloc[0]\<close>: the least of the most frequent values.\<close>

definition mode_first :: "string list \<Rightarrow> string option" where
  "mode_first xs =
     (case sorted_set (filter (\<lambda>x. list_all (\<lambda>y. count_list xs y \<le> count_list xs x) xs) xs) of
        [] \<Rightarrow> None
      | m # _ \<Rightarrow> Some m)"

definition at_most :: "('a::linorder) option \<Rightarrow> 'a \<Rightarrow> bool" where
  "at_most v bound = (case v of None \<Rightarrow> False | Some x \<Rightarrow> x \<le> bound)"

section \<open>lost signal\<close>

definition CRUISE_FLOOR_FT :: int where "CRUISE_FLOOR_FT = 25000"
definition LOST_MIN_GAP :: duration where "LOST_MIN_GAP = minutes 14"
definition LOST_MAX_GAP :: duration where "LOST_MAX_GAP = minutes 30"
definition LEVEL_VRATE_FPM :: int where "LEVEL_VRATE_FPM = 500"
definition ALT_HIGH_CEILING_FT :: int where "ALT_HIGH_CEILING_FT = 30000"
definition ALT_MED_CEILING_FT :: int where "ALT_MED_CEILING_FT = 35000"
definition LONG_GAP_THRESHOLD :: duration where "LONG_GAP_THRESHOLD = minutes 20"

definition SEVERITY_TIERS :: "string list" where
  "SEVERITY_TIERS = [''low'', ''medium'', ''high'']"

text \<open>The tier index; \<open>tuple.index\<close> raises for another text (no caller passes one).\<close>

definition tier_index :: "string \<Rightarrow> int" where
  "tier_index severity = int (length (takeWhile (\<lambda>s. s \<noteq> severity) SEVERITY_TIERS))"

definition shift_tier :: "string \<Rightarrow> int \<Rightarrow> string" where
  "shift_tier severity delta =
     SEVERITY_TIERS ! nat (max 0 (min (int (length SEVERITY_TIERS) - 1) (tier_index severity + delta)))"

definition classify_severity ::
  "(int \<times> int) list \<Rightarrow> int \<Rightarrow> duration \<Rightarrow> real option \<Rightarrow> real option \<Rightarrow> string" where
  "classify_severity sparse_cells alt_ft gap lat lon =
     (let base = (if alt_ft < ALT_HIGH_CEILING_FT then ''high''
                  else if alt_ft < ALT_MED_CEILING_FT then ''medium'' else ''low'');
          demoted = (case (lat, lon) of
                       (Some la, Some lo) \<Rightarrow> if (\<lfloor>la\<rfloor>, \<lfloor>lo\<rfloor>) \<in> set sparse_cells then shift_tier base (- 1) else base
                     | _ \<Rightarrow> base)
      in if gap \<ge> LONG_GAP_THRESHOLD then shift_tier demoted 1 else demoted)"

definition feed_last :: "EnrichedRow list \<Rightarrow> EnrichedRow \<Rightarrow> instant" where
  "feed_last grp newest =
     (case grp of [] \<Rightarrow> pr_ts_polled newest
      | r # _ \<Rightarrow> (case er_feed_last_ts r of None \<Rightarrow> pr_ts_polled newest | Some t \<Rightarrow> t))"

definition lost_signal_group :: "(int \<times> int) list \<Rightarrow> instant \<Rightarrow> string \<times> EnrichedRow list \<Rightarrow> Anomaly option" where
  "lost_signal_group sparse_cells now = (\<lambda>(icao24, grp).
     case latest_row grp of
       None \<Rightarrow> None
     | Some newest \<Rightarrow>
         if pr_on_ground newest then None
         else (case pr_altitude_ft newest of
                 None \<Rightarrow> None
               | Some alt \<Rightarrow>
                   if alt < CRUISE_FLOOR_FT then None
                   else
                     let gap = now - feed_last grp newest
                     in if \<not> (LOST_MIN_GAP \<le> gap \<and> gap \<le> LOST_MAX_GAP) then None
                        else if (case pr_vertical_rate_fpm newest of None \<Rightarrow> False | Some v \<Rightarrow> \<bar>v\<bar> > LEVEL_VRATE_FPM) then None
                        else
                          let severity = classify_severity sparse_cells alt gap (pr_lat newest) (pr_lon newest)
                          in if severity = ''low'' then None
                             else Some
                               \<lparr>an_rule = ''lost_signal'', an_icao24 = icao24,
                                an_site_icao = opt_str (er_nearest_site_icao newest),
                                an_customer_region = region_of newest,
                                an_detection_facts =
                                  [(''callsign'', opt_json JStr (opt_str (pr_callsign newest))),
                                   (''last_lat'', opt_json JNum (pr_lat newest)),
                                   (''last_lon'', opt_json JNum (pr_lon newest)),
                                   (''last_altitude_ft'', JInt alt),
                                   (''last_seen'', JIso (pr_ts_polled newest)),
                                   (''gap_minutes'', rounded_minutes gap)],
                                an_severity_hint = Some severity\<rparr>))"

text \<open>\<open>positions["ts_polled"].max()\<close> of a non-empty frame.\<close>

definition newest_ts :: "EnrichedRow list \<Rightarrow> instant" where
  "newest_ts positions = Max (set (map pr_ts_polled positions))"

definition lost_signal_detect :: "(int \<times> int) list \<Rightarrow> EnrichedRow list \<Rightarrow> Anomaly list" where
  "lost_signal_detect sparse_cells positions =
     (if positions = [] then []
      else List.map_filter (lost_signal_group sparse_cells (newest_ts positions)) (groups positions))"

section \<open>diversion\<close>

definition DIVERSION_RADIUS_NM :: real where "DIVERSION_RADIUS_NM = 5"

definition diversion_group :: "string \<times> EnrichedRow list \<Rightarrow> Anomaly option" where
  "diversion_group = (\<lambda>(icao24, grp).
     case latest_row grp of
       None \<Rightarrow> None
     | Some newest \<Rightarrow>
         (case opt_str (er_destination_icao newest) of
            None \<Rightarrow> None
          | Some destination \<Rightarrow>
              if \<not> pr_on_ground newest then None
              else (case (opt_str (er_nearest_site_icao newest), er_nearest_site_distance_nm newest) of
                      (Some landing_site, Some distance) \<Rightarrow>
                        if distance > DIVERSION_RADIUS_NM then None
                        else if landing_site = destination then None
                        else Some
                          \<lparr>an_rule = ''diversion'', an_icao24 = icao24, an_site_icao = Some landing_site,
                           an_customer_region = region_of newest,
                           an_detection_facts =
                             [(''callsign'', opt_json JStr (opt_str (pr_callsign newest))),
                              (''origin'', opt_json JStr (opt_str (er_origin_icao newest))),
                              (''expected_destination'', JStr destination),
                              (''alternate'', JStr landing_site)],
                           an_severity_hint = Some ''high''\<rparr>
                    | _ \<Rightarrow> None)))"

definition diversion_detect :: "EnrichedRow list \<Rightarrow> Anomaly list" where
  "diversion_detect positions = List.map_filter diversion_group (groups positions)"

section \<open>excessive hold\<close>

definition HOLD_RADIUS_NM :: real where "HOLD_RADIUS_NM = 15"
definition HOLD_CEILING_FT :: int where "HOLD_CEILING_FT = 15000"
definition HOLD_MIN_DURATION :: duration where "HOLD_MIN_DURATION = minutes 30"
definition HOLD_MIN_SNAPSHOTS :: nat where "HOLD_MIN_SNAPSHOTS = 10"
definition MIN_DISTINCT_SECTORS :: nat where "MIN_DISTINCT_SECTORS = 6"

definition distinct_heading_sectors :: "int option list \<Rightarrow> nat" where
  "distinct_heading_sectors headings =
     length (remdups (map (\<lambda>h. h mod 360 div 45) (List.map_filter id headings)))"

definition hold_near :: "EnrichedRow list \<Rightarrow> EnrichedRow list" where
  "hold_near grp =
     filter (\<lambda>r. at_most (er_nearest_site_distance_nm r) HOLD_RADIUS_NM \<and>
                 at_most (pr_altitude_ft r) HOLD_CEILING_FT \<and> \<not> pr_on_ground r) grp"

definition site_mode :: "EnrichedRow list \<Rightarrow> string option" where
  "site_mode near = opt_str (mode_first (List.map_filter er_nearest_site_icao near))"

definition ts_span :: "EnrichedRow list \<Rightarrow> duration" where
  "ts_span near = Max (set (map pr_ts_polled near)) - Min (set (map pr_ts_polled near))"

definition excessive_hold_group :: "string \<times> EnrichedRow list \<Rightarrow> Anomaly option" where
  "excessive_hold_group = (\<lambda>(icao24, grp).
     let near = hold_near grp
     in if length near < HOLD_MIN_SNAPSHOTS then None
        else
          let span = ts_span near
          in if span < HOLD_MIN_DURATION then None
             else
               let sectors = distinct_heading_sectors (map pr_heading_deg near)
               in if sectors < MIN_DISTINCT_SECTORS then None
                  else (case latest_row near of
                          None \<Rightarrow> None
                        | Some newest \<Rightarrow>
                            if is_general_aviation_callsign (opt_str (pr_callsign newest)) then None
                            else Some
                              \<lparr>an_rule = ''excessive_hold'', an_icao24 = icao24, an_site_icao = site_mode near,
                               an_customer_region = region_of newest,
                               an_detection_facts =
                                 [(''callsign'', opt_json JStr (opt_str (pr_callsign newest))),
                                  (''duration_minutes'', rounded_minutes span),
                                  (''distinct_heading_sectors'', JInt (int sectors)),
                                  (''snapshots'', JInt (int (length near)))],
                               an_severity_hint = Some ''medium''\<rparr>))"

definition excessive_hold_detect :: "EnrichedRow list \<Rightarrow> Anomaly list" where
  "excessive_hold_detect positions = List.map_filter excessive_hold_group (groups positions)"

section \<open>go-around\<close>

definition GO_AROUND_RADIUS_NM :: real where "GO_AROUND_RADIUS_NM = 10"
definition GO_AROUND_FLOOR_FT :: int where "GO_AROUND_FLOOR_FT = 3000"
definition DESCENT_THRESHOLD_FT :: int where "DESCENT_THRESHOLD_FT = 1000"
definition CLIMB_THRESHOLD_FT :: int where "CLIMB_THRESHOLD_FT = 1000"
definition GO_AROUND_MIN_SNAPSHOTS :: nat where "GO_AROUND_MIN_SNAPSHOTS = 3"

definition go_around_near :: "EnrichedRow list \<Rightarrow> EnrichedRow list" where
  "go_around_near grp =
     sort_key pr_ts_polled
       (filter (\<lambda>r. at_most (er_nearest_site_distance_nm r) GO_AROUND_RADIUS_NM \<and> \<not> pr_on_ground r) grp)"

text \<open>The rows with an altitude, each with it: \<open>near["altitude_ft"].dropna()\<close> with its labels.\<close>

definition with_altitude :: "EnrichedRow list \<Rightarrow> (int \<times> EnrichedRow) list" where
  "with_altitude near = List.map_filter (\<lambda>r. map_option (\<lambda>a. (a, r)) (pr_altitude_ft r)) near"

definition go_around_group :: "string \<times> EnrichedRow list \<Rightarrow> Anomaly option" where
  "go_around_group = (\<lambda>(icao24, grp).
     let near = go_around_near grp
     in if length near < GO_AROUND_MIN_SNAPSHOTS then None
        else (case min_by fst (with_altitude near) of
                None \<Rightarrow> None
              | Some (min_alt, low_row) \<Rightarrow>
                  if min_alt > GO_AROUND_FLOOR_FT then None
                  else
                    let min_ts = pr_ts_polled low_row;
                        before = map fst (with_altitude (filter (\<lambda>r. pr_ts_polled r < min_ts) near));
                        after = map fst (with_altitude (filter (\<lambda>r. pr_ts_polled r > min_ts) near))
                    in if before = [] \<or> after = [] then None
                       else
                         let descent = Max (set before) - min_alt; climb = Max (set after) - min_alt
                         in if descent < DESCENT_THRESHOLD_FT \<or> climb < CLIMB_THRESHOLD_FT then None
                            else (case latest_row near of
                                    None \<Rightarrow> None
                                  | Some newest \<Rightarrow>
                                      if is_general_aviation_callsign (opt_str (pr_callsign newest)) then None
                                      else Some
                                        \<lparr>an_rule = ''go_around'', an_icao24 = icao24, an_site_icao = site_mode near,
                                         an_customer_region = region_of newest,
                                         an_detection_facts =
                                           [(''callsign'', opt_json JStr (opt_str (pr_callsign newest))),
                                            (''min_altitude_ft'', JInt min_alt), (''descent_ft'', JInt descent),
                                            (''climb_ft'', JInt climb)],
                                         an_severity_hint = Some ''medium''\<rparr>)))"

definition go_around_detect :: "EnrichedRow list \<Rightarrow> Anomaly list" where
  "go_around_detect positions = List.map_filter go_around_group (groups positions)"

section \<open>delay\<close>

text \<open>\<open>expected * 1.3\<close>: the float 1.3 is 5854679515581645 / 2^52, and the product of a timedelta with a
  float is rounded to the nearest microsecond.\<close>

definition delay_threshold :: "duration \<Rightarrow> duration" where
  "delay_threshold expected = divide_nearest (expected * 5854679515581645) 4503599627370496"

definition delay_group :: "(string \<Rightarrow> string \<Rightarrow> duration option) \<Rightarrow> instant \<Rightarrow> string \<times> EnrichedRow list \<Rightarrow> Anomaly option" where
  "delay_group baseline now = (\<lambda>(icao24, grp).
     case latest_row grp of
       None \<Rightarrow> None
     | Some newest \<Rightarrow>
         if pr_on_ground newest then None
         else (case (opt_str (er_origin_icao newest), opt_str (er_destination_icao newest), er_departure_time newest) of
                 (Some origin, Some destination, Some departure) \<Rightarrow>
                   (case baseline origin destination of
                      None \<Rightarrow> None
                    | Some expected \<Rightarrow>
                        let elapsed = now - departure
                        in if elapsed \<le> delay_threshold expected then None
                           else Some
                             \<lparr>an_rule = ''delay'', an_icao24 = icao24, an_site_icao = Some destination,
                              an_customer_region = region_of newest,
                              an_detection_facts =
                                [(''callsign'', opt_json JStr (opt_str (pr_callsign newest))),
                                 (''origin'', JStr origin), (''destination'', JStr destination),
                                 (''elapsed_minutes'', rounded_minutes elapsed),
                                 (''expected_minutes'', rounded_minutes expected)],
                              an_severity_hint = Some ''medium''\<rparr>)
               | _ \<Rightarrow> None))"

definition delay_detect :: "(string \<Rightarrow> string \<Rightarrow> duration option) \<Rightarrow> EnrichedRow list \<Rightarrow> Anomaly list" where
  "delay_detect baseline positions =
     (if positions = [] then [] else List.map_filter (delay_group baseline (newest_ts positions)) (groups positions))"

section \<open>weather impact\<close>

definition weather_impact_detect :: "(string, AirportConditions) dict \<Rightarrow> Anomaly list" where
  "weather_impact_detect weather =
     List.map_filter (\<lambda>(site_icao, cond).
       if apc_flight_category cond \<notin> {Some ''IFR'', Some ''LIFR''} then None
       else Some
         \<lparr>an_rule = ''weather_impact'', an_icao24 = [], an_site_icao = Some site_icao, an_customer_region = ''all'',
          an_detection_facts =
            [(''flight_category'', opt_json JStr (apc_flight_category cond)),
             (''ceiling_ft'', opt_json JInt (apc_ceiling_ft cond)),
             (''visibility_sm'', opt_json JNum (apc_visibility_sm cond)),
             (''wind_kt'', opt_json JInt (apc_wind_kt cond))],
          an_severity_hint = Some (if apc_flight_category cond = Some ''LIFR'' then ''high'' else ''medium'')\<rparr>) weather"

section \<open>Dispatch and deduplication\<close>

record RuleInput =
  ri_sparse_cells :: "(int \<times> int) list"
  ri_positions :: "EnrichedRow list"
  ri_weather :: "(string, AirportConditions) dict"
  ri_baseline :: "string \<Rightarrow> string \<Rightarrow> duration option"

primrec detect :: "RuleInput \<Rightarrow> Rule \<Rightarrow> Anomaly list" where
  "detect i LostSignalRule = lost_signal_detect (ri_sparse_cells i) (ri_positions i)"
| "detect i DiversionRule = diversion_detect (ri_positions i)"
| "detect i ExcessiveHoldRule = excessive_hold_detect (ri_positions i)"
| "detect i WeatherImpactRule = weather_impact_detect (ri_weather i)"
| "detect i GoAroundRule = go_around_detect (ri_positions i)"
| "detect i DelayRule = delay_detect (ri_baseline i) (ri_positions i)"

primrec dedup_key :: "Rule \<Rightarrow> string \<Rightarrow> string option \<Rightarrow> (string, json) dict \<Rightarrow> json list" where
  "dedup_key LostSignalRule icao24 site facts = [JStr ''lost_signal'', JStr icao24, opt_json JStr site]"
| "dedup_key DiversionRule icao24 site facts =
     [JStr ''diversion'', JStr icao24, obj_get facts ''expected_destination'', obj_get facts ''alternate'']"
| "dedup_key ExcessiveHoldRule icao24 site facts = [JStr ''excessive_hold'', JStr icao24, opt_json JStr site]"
| "dedup_key WeatherImpactRule icao24 site facts =
     [JStr ''weather_impact'', opt_json JStr site, obj_get facts ''flight_category'']"
| "dedup_key GoAroundRule icao24 site facts = [JStr ''go_around'', JStr icao24, opt_json JStr site]"
| "dedup_key DelayRule icao24 site facts = [JStr ''delay'', JStr icao24, obj_get facts ''destination'']"

definition anomaly_key :: "Rule \<Rightarrow> Anomaly \<Rightarrow> json list" where
  "anomaly_key rule a = dedup_key rule (an_icao24 a) (an_site_icao a) (an_detection_facts a)"

definition case_key :: "Rule \<Rightarrow> OpenCase \<Rightarrow> json list" where
  "case_key rule c = dedup_key rule (oc_flight_id c) (Some (oc_site_icao c)) (oc_detection_facts c)"

definition matches_existing :: "json list \<Rightarrow> Rule \<Rightarrow> OpenCase list \<Rightarrow> instant \<Rightarrow> bool" where
  "matches_existing key rule existing_cases now =
     list_ex (\<lambda>c. case_key rule c = key)
       (filter (\<lambda>c. oc_case_type c = case_type rule \<and> oc_created_at c \<ge> now - dedup_window rule) existing_cases)"

primrec dedup_loop ::
  "(Anomaly \<times> Rule) list \<Rightarrow> OpenCase list \<Rightarrow> instant \<Rightarrow> Anomaly list \<Rightarrow> json list list \<Rightarrow> Anomaly list" where
  "dedup_loop [] existing_cases now kept seen = kept"
| "dedup_loop (p # ps) existing_cases now kept seen =
     (let key = anomaly_key (snd p) (fst p)
      in if key \<in> set seen then dedup_loop ps existing_cases now kept seen
         else if matches_existing key (snd p) existing_cases now then dedup_loop ps existing_cases now kept seen
         else dedup_loop ps existing_cases now (kept @ [fst p]) (key # seen))"

definition deduplicate :: "(Anomaly \<times> Rule) list \<Rightarrow> OpenCase list \<Rightarrow> instant \<Rightarrow> Anomaly list" where
  "deduplicate anomalies existing_cases now = dedup_loop anomalies existing_cases now [] []"

definition paired_anomalies :: "RuleInput \<Rightarrow> Rule list \<Rightarrow> (Anomaly \<times> Rule) list" where
  "paired_anomalies i rules = concat (map (\<lambda>rule. map (\<lambda>a. (a, rule)) (detect i rule)) rules)"

definition detect_and_dedup :: "RuleInput \<Rightarrow> OpenCase list \<Rightarrow> Rule list \<Rightarrow> instant \<Rightarrow> Anomaly list" where
  "detect_and_dedup i existing_cases rules now = deduplicate (paired_anomalies i rules) existing_cases now"

section \<open>Groups and rows\<close>

lemma latest_row_Some:
  assumes "latest_row grp = Some r"
  shows "r \<in> set grp" "\<And>s. s \<in> set grp \<Longrightarrow> pr_ts_polled s \<le> pr_ts_polled r"
  using max_by_Some[of pr_ts_polled grp r] assms by (simp_all add: latest_row_def)

lemma groups_iff:
  "(k, grp) \<in> set (groups positions) \<longleftrightarrow>
     k \<in> pr_icao24 ` set positions \<and> grp = filter (\<lambda>r. pr_icao24 r = k) positions"
  by (auto simp: groups_def)

lemma groups_keys: "map fst (groups positions) = sorted_set (map pr_icao24 positions)"
  by (simp add: groups_def comp_def)

section \<open>Deduplication\<close>

abbreviation pair_key :: "Anomaly \<times> Rule \<Rightarrow> json list" where
  "pair_key p \<equiv> anomaly_key (snd p) (fst p)"

lemma dedup_loop_spec:
  "\<exists>ps. dedup_loop anomalies existing now kept seen = kept @ map fst ps \<and> subseq ps anomalies \<and>
     distinct (map pair_key ps) \<and>
     set (map pair_key ps) = {pair_key p | p. p \<in> set anomalies \<and> pair_key p \<notin> set seen \<and>
                                \<not> matches_existing (pair_key p) (snd p) existing now}"
proof (induction anomalies arbitrary: kept seen)
  case (Cons p anomalies)
  show ?case
  proof (cases "pair_key p \<in> set seen \<or> matches_existing (pair_key p) (snd p) existing now")
    case True
    then have "dedup_loop (p # anomalies) existing now kept seen = dedup_loop anomalies existing now kept seen"
      by (auto simp: Let_def)
    moreover obtain ps where ps: "dedup_loop anomalies existing now kept seen = kept @ map fst ps" "subseq ps anomalies"
      "distinct (map pair_key ps)" "set (map pair_key ps) = {pair_key p | p. p \<in> set anomalies \<and> pair_key p \<notin> set seen \<and>
                                \<not> matches_existing (pair_key p) (snd p) existing now}"
      using Cons by blast
    ultimately show ?thesis using True by (intro exI[of _ ps]) auto
  next
    case False
    then have "dedup_loop (p # anomalies) existing now kept seen =
        dedup_loop anomalies existing now (kept @ [fst p]) (pair_key p # seen)"
      by (simp add: Let_def)
    moreover obtain ps where ps: "dedup_loop anomalies existing now (kept @ [fst p]) (pair_key p # seen) = (kept @ [fst p]) @ map fst ps"
      "subseq ps anomalies" "distinct (map pair_key ps)"
      "set (map pair_key ps) = {pair_key q | q. q \<in> set anomalies \<and> pair_key q \<notin> set (pair_key p # seen) \<and>
                                \<not> matches_existing (pair_key q) (snd q) existing now}"
      using Cons by blast
    ultimately show ?thesis using False by (intro exI[of _ "p # ps"], cases p) auto
  qed
qed simp

text \<open>C19. Deduplication is exact: the kept anomalies are a subsequence of the findings with pairwise
  different identity keys, and their keys are all the keys of findings that no case inside the rule's
  window already carries: nothing is reported twice and no new identity is dropped.\<close>

theorem dedup_exact:
  "\<exists>ps. deduplicate anomalies existing now = map fst ps \<and> subseq ps anomalies \<and> distinct (map pair_key ps) \<and>
     set (map pair_key ps) =
       {pair_key p | p. p \<in> set anomalies \<and> \<not> matches_existing (pair_key p) (snd p) existing now}"
  using dedup_loop_spec[of anomalies existing now "[]" "[]"] by (simp add: deduplicate_def)

section \<open>Rule properties\<close>

lemma classify_severity_cases:
  "classify_severity cells alt gap lat lon \<in> {''low'', ''medium'', ''high''}"
proof -
  have s: "shift_tier b d \<in> {''low'', ''medium'', ''high''}" for b d
  proof -
    have "nat (max 0 (min 2 (tier_index b + d))) \<in> {0, 1, 2}" by auto
    then show ?thesis by (auto simp: shift_tier_def SEVERITY_TIERS_def)
  qed
  show ?thesis using s unfolding classify_severity_def Let_def by (auto split: option.split)
qed

lemma shift_tier_values [simp]:
  "shift_tier ''low'' 1 = ''medium''" "shift_tier ''medium'' 1 = ''high''" "shift_tier ''high'' 1 = ''high''"
  "shift_tier ''low'' (- 1) = ''low''" "shift_tier ''medium'' (- 1) = ''low''" "shift_tier ''high'' (- 1) = ''medium''"
  by (simp_all add: shift_tier_def tier_index_def SEVERITY_TIERS_def)

text \<open>The severity of a signal loss is monotone: at one place, a lower altitude or a longer silence never
  gives a lower tier; a silence of 20 minutes is never graded low, and a short one at 35000 ft always is.\<close>

theorem severity_monotone:
  assumes "alt' \<le> alt" "gap \<le> gap'"
  shows "tier_index (classify_severity cells alt gap lat lon) \<le> tier_index (classify_severity cells alt' gap' lat lon) \<and>
    (minutes 20 \<le> gap \<longrightarrow> classify_severity cells alt gap lat lon \<noteq> ''low'') \<and>
    (35000 \<le> alt \<and> gap < minutes 20 \<longrightarrow> classify_severity cells alt gap lat lon = ''low'')"
proof -
  have ti: "tier_index ''low'' = 0" "tier_index ''medium'' = 1" "tier_index ''high'' = 2"
    by (simp_all add: tier_index_def SEVERITY_TIERS_def)
  define sparse where "sparse = (case (lat, lon) of (Some la, Some lo) \<Rightarrow> (\<lfloor>la\<rfloor>, \<lfloor>lo\<rfloor>) \<in> set cells | _ \<Rightarrow> False)"
  have c: "classify_severity cells a g lat lon =
      (let b = (if a < 30000 then ''high'' else if a < 35000 then ''medium'' else ''low'');
           d = (if sparse then shift_tier b (- 1) else b)
       in if minutes 20 \<le> g then shift_tier d 1 else d)" for a g
    unfolding classify_severity_def sparse_def ALT_HIGH_CEILING_FT_def ALT_MED_CEILING_FT_def LONG_GAP_THRESHOLD_def Let_def
    by (auto split: option.split)
  show ?thesis using assms unfolding c Let_def by (simp add: ti)
qed

definition altitude_order :: "(int \<Rightarrow> int \<Rightarrow> bool) \<Rightarrow> EnrichedRow list \<Rightarrow> bool" where
  "altitude_order le near \<longleftrightarrow>
     (\<forall>r \<in> set near. \<forall>s \<in> set near. pr_ts_polled r < pr_ts_polled s \<longrightarrow>
        (case (pr_altitude_ft r, pr_altitude_ft s) of (Some a, Some b) \<Rightarrow> le a b | _ \<Rightarrow> True))"

lemma with_altitude_iff: "(a, r) \<in> set (with_altitude near) \<longleftrightarrow> r \<in> set near \<and> pr_altitude_ft r = Some a"
  by (auto simp: with_altitude_def map_filter_in_set)

text \<open>A go-around needs a valley: an aircraft whose altitude near the field only rises in time (a
  departure) or only falls (a landing) is never reported, whatever the cadence.\<close>

theorem go_around_needs_valley:
  assumes "altitude_order (\<le>) (go_around_near grp) \<or> altitude_order (\<ge>) (go_around_near grp)"
  shows "go_around_group (icao24, grp) = None"
proof (cases "min_by fst (with_altitude (go_around_near grp))")
  case (Some m)
  obtain min_alt low where m: "m = (min_alt, low)" by (cases m)
  have low: "low \<in> set (go_around_near grp)" "pr_altitude_ft low = Some min_alt"
    using min_by_Some(1)[OF Some] by (simp_all add: m with_altitude_iff)
  define before where "before = map fst (with_altitude (filter (\<lambda>r. pr_ts_polled r < pr_ts_polled low) (go_around_near grp)))"
  define after where "after = map fst (with_altitude (filter (\<lambda>r. pr_ts_polled r > pr_ts_polled low) (go_around_near grp)))"
  have flat: "Max (set before) - min_alt < DESCENT_THRESHOLD_FT \<or> Max (set after) - min_alt < CLIMB_THRESHOLD_FT"
    if ne: "before \<noteq> []" "after \<noteq> []"
    using assms
  proof
    assume rising: "altitude_order (\<le>) (go_around_near grp)"
    have "a \<le> min_alt" if "a \<in> set before" for a
      using that rising low unfolding before_def altitude_order_def by (fastforce simp: with_altitude_iff)
    then have "Max (set before) \<le> min_alt" using ne by simp
    then show ?thesis by (simp add: DESCENT_THRESHOLD_FT_def)
  next
    assume falling: "altitude_order (\<ge>) (go_around_near grp)"
    have "a \<le> min_alt" if "a \<in> set after" for a
      using that falling low unfolding after_def altitude_order_def by (fastforce simp: with_altitude_iff)
    then have "Max (set after) \<le> min_alt" using ne by simp
    then show ?thesis by (simp add: CLIMB_THRESHOLD_FT_def)
  qed
  show ?thesis
    using flat unfolding go_around_group_def before_def after_def by (auto simp: Some m Let_def)
next
  case None
  show ?thesis unfolding go_around_group_def Let_def prod.case None by simp
qed

section \<open>Worked instances\<close>

definition demo_fix :: "instant \<Rightarrow> int \<Rightarrow> EnrichedRow" where
  "demo_fix t alt =
     \<lparr>pr_icao24 = ''aa'', pr_callsign = Some ''DAL1'', pr_origin_country = None, pr_lat = Some 47, pr_lon = Some (- 122),
      pr_altitude_ft = Some alt, pr_speed_kt = None, pr_heading_deg = None, pr_vertical_rate_fpm = None,
      pr_on_ground = False, pr_squawk = None, pr_ts_polled = t, pr_ts_position = None,
      pr_customer_region = Some ''west'', er_origin_icao = None, er_destination_icao = None, er_departure_time = None,
      er_nearest_site_icao = Some ''KSEA'', er_nearest_site_distance_nm = Some 3, er_feed_last_ts = Some t\<rparr>"

text \<open>A valley fires, the climb-out alone does not.\<close>

lemma go_around_demo:
  "map an_detection_facts (go_around_detect [demo_fix 3 4000, demo_fix 1 5000, demo_fix 2 1500]) =
     [[(''callsign'', JStr ''DAL1''), (''min_altitude_ft'', JInt 1500), (''descent_ft'', JInt 3500), (''climb_ft'', JInt 2500)]]"
  by code_simp

lemma go_around_needs_valley_witness:
  "go_around_group (''aa'', [demo_fix 1 1500, demo_fix 2 4000, demo_fix 3 9000]) = None"
proof -
  have "go_around_near [demo_fix 1 1500, demo_fix 2 4000, demo_fix 3 9000] = [demo_fix 1 1500, demo_fix 2 4000, demo_fix 3 9000]"
    by (simp add: go_around_near_def demo_fix_def at_most_def GO_AROUND_RADIUS_NM_def)
  then have "altitude_order (\<le>) (go_around_near [demo_fix 1 1500, demo_fix 2 4000, demo_fix 3 9000])"
    by (simp add: altitude_order_def demo_fix_def)
  then show ?thesis using go_around_needs_valley by blast
qed

lemma severity_monotone_witness:
  "tier_index (classify_severity [(47, - 122)] 36000 (minutes 15) (Some 47.5) (Some (- 121.5))) \<le>
   tier_index (classify_severity [(47, - 122)] 31000 (minutes 21) (Some 47.5) (Some (- 121.5)))"
  by (rule severity_monotone[of 31000 36000 "minutes 15" "minutes 21" "[(47, - 122)]" "Some 47.5" "Some (- 121.5)",
        THEN conjunct1]) (simp_all add: minutes_def)

end
