(* ===== verification/Sql.thy ===== *)
theory Sql
  imports Writer
begin

text \<open>
  psycopg2's execute_values on an \<open>INSERT ... ON CONFLICT DO UPDATE\<close>, shared by the batch writers of the
  pipelines: the rows go out in pages, one statement each; Postgres refuses a statement that would touch
  one key twice, and the caller's transaction is then rolled back. \<open>put\<close> writes one row into the table.
\<close>

definition insert_page :: "('r \<Rightarrow> 'k) \<Rightarrow> ('t \<Rightarrow> 'r \<Rightarrow> 't) \<Rightarrow> 'r list \<Rightarrow> 't \<Rightarrow> exn + 't" where
  "insert_page key put page t =
     (if distinct (map key page) then Inr (foldl put t page) else Inl (OtherError ''CardinalityViolation''))"

primrec insert_pages :: "('r \<Rightarrow> 'k) \<Rightarrow> ('t \<Rightarrow> 'r \<Rightarrow> 't) \<Rightarrow> 'r list list \<Rightarrow> 't \<Rightarrow> exn + 't" where
  "insert_pages key put [] t = Inr t"
| "insert_pages key put (page # pages) t =
     (case insert_page key put page t of Inl e \<Rightarrow> Inl e | Inr t' \<Rightarrow> insert_pages key put pages t')"

definition execute_values :: "('r \<Rightarrow> 'k) \<Rightarrow> ('t \<Rightarrow> 'r \<Rightarrow> 't) \<Rightarrow> nat \<Rightarrow> 'r list \<Rightarrow> 't \<Rightarrow> exn + 't" where
  "execute_values key put page_size rows t = insert_pages key put (chunks rows page_size) t"

text \<open>\<open>cursor.rowcount\<close> after it: that of the last statement.\<close>

definition rowcount :: "nat \<Rightarrow> 'r list \<Rightarrow> nat" where
  "rowcount page_size rows = length (last (chunks rows page_size))"

lemma insert_pages_concat: "insert_pages key put pages t = Inr t' \<Longrightarrow> t' = foldl put t (concat pages)"
  by (induction pages arbitrary: t) (auto simp: insert_page_def split: sum.splits if_splits)

lemma insert_pages_ok: "distinct (map key (concat pages)) \<Longrightarrow> insert_pages key put pages t = Inr (foldl put t (concat pages))"
  by (induction pages arbitrary: t) (auto simp: insert_page_def)

lemma execute_values_foldl:
  "0 < page_size \<Longrightarrow> execute_values key put page_size rows t = Inr t' \<Longrightarrow> t' = foldl put t rows"
  unfolding execute_values_def by (drule insert_pages_concat) (simp add: concat_chunks)

lemma execute_values_ok:
  "0 < page_size \<Longrightarrow> distinct (map key rows) \<Longrightarrow> execute_values key put page_size rows t = Inr (foldl put t rows)"
  by (simp add: execute_values_def insert_pages_ok concat_chunks)

lemma rowcount_eq: "0 < n \<Longrightarrow> xs \<noteq> [] \<Longrightarrow> rowcount n xs = (length xs - 1) mod n + 1"
  unfolding rowcount_def
proof (induction xs n rule: chunks.induct)
  case (1 xs n)
  show ?case
  proof (cases "length xs \<le> n")
    case True
    then show ?thesis using 1(2,3) by (simp add: chunks.simps[of xs n] chunks.simps[of "[]" n])
  next
    case False
    then have "drop n xs \<noteq> []" by simp
    then have "length (last (chunks (drop n xs) n)) = (length xs - n - 1) mod n + 1" using 1 by simp
    moreover have "chunks (drop n xs) n \<noteq> []" using \<open>drop n xs \<noteq> []\<close> 1(2) by (simp add: chunks.simps[of "drop n xs" n])
    moreover have "length xs - n - 1 = (length xs - 1) - n" by simp
    moreover have "n \<le> length xs - 1" using False by simp
    then have "(length xs - 1 - n) mod n = (length xs - 1) mod n" by (rule le_mod_geq[symmetric])
    ultimately show ?thesis using 1(2,3) by (simp add: chunks.simps[of xs n])
  qed
qed

end
