(* ===== verification/Weather.thy ===== *)
theory Weather
  imports PyJson FlightId Geo Rules Sql
begin

text \<open>
  resources/noaa.py and the weather half of assets/ingestion.py: the METAR and TAF requests with one
  retry, the tolerant METAR parser, the ceiling and flight category, the upsert of
  app.airport_conditions and the asset. The HTTP endpoint is the parameter \<open>noaa_api\<close>, None being a
  network error. Floats are reals; \<open>round(x, 2)\<close> is to the nearest hundredth, ties to even.
\<close>

section \<open>The client\<close>

datatype noaa_error = NoaaError | NoaaRateLimited | NoaaServerError | NoaaParseError | NoaaUncaught exn

record NoaaResponse =
  nr_status :: nat
  nr_json :: "json option"

type_synonym 'w noaa_api = "string \<Rightarrow> string \<Rightarrow> 'w \<Rightarrow> NoaaResponse option \<times> 'w"

record NoaaMetarReport =
  nm_icao :: string
  nm_raw_text :: "string option"
  nm_observed_at :: "instant option"
  nm_wind_kt :: "int option"
  nm_wind_dir_deg :: "int option"
  nm_visibility_sm :: "real option"
  nm_temperature_c :: "real option"
  nm_altimeter_in_hg :: "real option"
  nm_clouds :: "(string, json) dict list"
  nm_raw_json :: json

definition HPA_TO_IN_HG :: real where
  "HPA_TO_IN_HG = 2953 / 100000"

primrec get_json_attempts :: "nat \<Rightarrow> 'w noaa_api \<Rightarrow> string \<Rightarrow> string \<Rightarrow> 'w \<Rightarrow> (noaa_error + json) \<times> 'w" where
  "get_json_attempts 0 api url ids w = (Inl NoaaServerError, w)"
| "get_json_attempts (Suc n) api url ids w =
     (case api url ids w of
        (None, w') \<Rightarrow> if n = 0 then (Inl NoaaServerError, w') else get_json_attempts n api url ids w'
      | (Some r, w') \<Rightarrow>
          if nr_status r = 429 then (Inl NoaaRateLimited, w')
          else if 500 \<le> nr_status r \<and> nr_status r < 600 then
            (if n = 0 then (Inl NoaaServerError, w') else get_json_attempts n api url ids w')
          else if nr_status r = 200 then
            (case nr_json r of None \<Rightarrow> (Inl NoaaParseError, w') | Some v \<Rightarrow> (Inr v, w'))
          else (Inl NoaaError, w'))"

text \<open>\<open>",".join(icaos)\<close>.\<close>

primrec join_commas :: "string list \<Rightarrow> string" where
  "join_commas [] = []"
| "join_commas (s # ss) = (if ss = [] then s else s @ CHR '','' # join_commas ss)"

definition get_json :: "'w noaa_api \<Rightarrow> string \<Rightarrow> string list \<Rightarrow> 'w \<Rightarrow> (noaa_error + json) \<times> 'w" where
  "get_json api url icaos = get_json_attempts 2 api url (join_commas icaos)"

section \<open>Parsing\<close>

text \<open>\<open>s.replace(".", "", 1)\<close>.\<close>

fun drop_first_point :: "string \<Rightarrow> string" where
  "drop_first_point [] = []"
| "drop_first_point (c # cs) = (if c = CHR ''.'' then cs else c # drop_first_point cs)"

definition parse_visibility :: "json \<Rightarrow> exn + real option" where
  "parse_visibility value =
     (case float_if_number value of
        Some x \<Rightarrow> Inr (Some x)
      | None \<Rightarrow>
          (case value of
             JStr t \<Rightarrow>
               (let s = strip t
                in if s \<noteq> [] \<and> last s = CHR ''+'' \<and> py_isdigit (drop_first_point (butlast s))
                   then (case py_float (butlast s) of None \<Rightarrow> Inl PyValueError | Some x \<Rightarrow> Inr (Some x))
                   else Inr (py_float s))
           | _ \<Rightarrow> Inr None))"

definition observed_at_of :: "json \<Rightarrow> exn + instant option" where
  "observed_at_of v =
     (case float_if_number v of
        None \<Rightarrow> Inr None
      | Some x \<Rightarrow>
          if x > 0 then
            (case fromtimestamp (py_trunc x) of
               Inl ValueError \<Rightarrow> Inl PyValueError
             | Inl PlatformRangeError \<Rightarrow> Inl (OtherError ''OverflowError'')
             | Inr t \<Rightarrow> Inr (Some t))
          else Inr None)"

definition parse_metar :: "(string, json) dict \<Rightarrow> exn + NoaaMetarReport" where
  "parse_metar item =
     rbind (observed_at_of (obj_get item ''obsTime'')) (\<lambda>observed_at.
     rbind (parse_visibility (obj_get item ''visib'')) (\<lambda>visibility_sm.
       Inr \<lparr>nm_icao = upper (case nonempty_str (obj_get item ''icaoId'') of None \<Rightarrow> [] | Some s \<Rightarrow> s),
            nm_raw_text = nonempty_str (obj_get item ''rawOb''),
            nm_observed_at = observed_at,
            nm_wind_kt = int_if_number (obj_get item ''wspd''),
            nm_wind_dir_deg = int_if_number (obj_get item ''wdir''),
            nm_visibility_sm = visibility_sm,
            nm_temperature_c = float_if_number (obj_get item ''temp''),
            nm_altimeter_in_hg =
              map_option (\<lambda>x. of_int (round_half_even (x * HPA_TO_IN_HG * 100)) / 100) (float_if_number (obj_get item ''altim'')),
            nm_clouds = (case obj_get item ''clouds'' of
                           JList layers \<Rightarrow> List.map_filter (\<lambda>l. case l of JObj d \<Rightarrow> Some d | _ \<Rightarrow> None) layers
                         | _ \<Rightarrow> []),
            nm_raw_json = JObj item\<rparr>))"

definition dict_items :: "json list \<Rightarrow> (string, json) dict list" where
  "dict_items payload = List.map_filter (\<lambda>v. case v of JObj d \<Rightarrow> Some d | _ \<Rightarrow> None) payload"

definition fetch_metars :: "'w noaa_api \<Rightarrow> string list \<Rightarrow> 'w \<Rightarrow> (noaa_error + NoaaMetarReport list) \<times> 'w" where
  "fetch_metars api icaos w =
     (if icaos = [] then (Inr [], w)
      else case get_json api ''/data/metar'' icaos w of
             (Inl e, w') \<Rightarrow> (Inl e, w')
           | (Inr (JList payload), w') \<Rightarrow>
               (case rmap parse_metar (dict_items payload) of Inl e \<Rightarrow> Inl (NoaaUncaught e) | Inr rs \<Rightarrow> Inr rs, w')
           | (Inr _, w') \<Rightarrow> (Inl NoaaParseError, w'))"

definition taf_entries :: "json list \<Rightarrow> (string \<times> string) list" where
  "taf_entries payload =
     List.map_filter (\<lambda>item. case (obj_get item ''icaoId'', nonempty_str (obj_get item ''rawTAF'')) of
        (JStr icao, Some raw_taf) \<Rightarrow> Some (upper icao, raw_taf)
      | _ \<Rightarrow> None) (dict_items payload)"

definition fetch_tafs :: "'w noaa_api \<Rightarrow> string list \<Rightarrow> 'w \<Rightarrow> (noaa_error + (string, string) dict) \<times> 'w" where
  "fetch_tafs api icaos w =
     (if icaos = [] then (Inr [], w)
      else case get_json api ''/data/taf'' icaos w of
             (Inl e, w') \<Rightarrow> (Inl e, w')
           | (Inr (JList payload), w') \<Rightarrow> (Inr (foldl (\<lambda>d (k, v). dset k v d) [] (taf_entries payload)), w')
           | (Inr _, w') \<Rightarrow> (Inl NoaaParseError, w'))"

section \<open>Ceiling and category\<close>

definition CEILING_COVERS :: "string list" where
  "CEILING_COVERS = [''BKN'', ''OVC'', ''OVX'', ''VV'']"

definition layer_base :: "(string, json) dict \<Rightarrow> int option" where
  "layer_base layer =
     (case obj_get layer ''cover'' of
        JStr cover \<Rightarrow> if cover \<in> set CEILING_COVERS then int_if_number (obj_get layer ''base'') else None
      | _ \<Rightarrow> None)"

primrec lowest_layer :: "int option \<Rightarrow> (string, json) dict list \<Rightarrow> int option" where
  "lowest_layer low [] = low"
| "lowest_layer low (layer # layers) =
     lowest_layer (case layer_base layer of
         None \<Rightarrow> low
       | Some base_ft \<Rightarrow> (case low of None \<Rightarrow> Some base_ft | Some c \<Rightarrow> if base_ft < c then Some base_ft else Some c)) layers"

definition extract_ceiling_ft :: "(string, json) dict list \<Rightarrow> int option" where
  "extract_ceiling_ft clouds = lowest_layer None clouds"

definition FLIGHT_CATEGORY_RANK :: "string \<Rightarrow> nat" where
  "FLIGHT_CATEGORY_RANK c = (if c = ''LIFR'' then 0 else if c = ''IFR'' then 1 else if c = ''MVFR'' then 2 else 3)"

definition compute_flight_category :: "int option \<Rightarrow> real option \<Rightarrow> string option" where
  "compute_flight_category ceiling_ft visibility_sm =
     (if ceiling_ft = None \<and> visibility_sm = None then None
      else
        let c_cat = (case ceiling_ft of None \<Rightarrow> ''VFR''
                     | Some c \<Rightarrow> if c < 500 then ''LIFR'' else if c < 1000 then ''IFR'' else if c < 3000 then ''MVFR'' else ''VFR'');
            v_cat = (case visibility_sm of None \<Rightarrow> ''VFR''
                     | Some v \<Rightarrow> if v < 1 then ''LIFR'' else if v < 3 then ''IFR'' else if v \<le> 5 then ''MVFR'' else ''VFR'')
        in min_by FLIGHT_CATEGORY_RANK [c_cat, v_cat])"

section \<open>The table and the asset\<close>

record ConditionsRow =
  cw_site_icao :: string
  cw_metar_raw :: "string option"
  cw_metar_parsed :: json
  cw_taf_raw :: "string option"
  cw_flight_category :: "string option"
  cw_wind_kt :: "int option"
  cw_wind_dir_deg :: "int option"
  cw_visibility_sm :: "real option"
  cw_ceiling_ft :: "int option"
  cw_temperature_c :: "real option"
  cw_altimeter_in_hg :: "real option"
  cw_metar_observed_at :: "instant option"
  cw_fetched_at :: instant

type_synonym conditions_table = "(string, ConditionsRow) dict"

definition condition_row :: "(string, string) dict \<Rightarrow> instant \<Rightarrow> NoaaMetarReport \<Rightarrow> ConditionsRow" where
  "condition_row taf_map fetched_at report =
     (let ceiling_ft = extract_ceiling_ft (nm_clouds report)
      in \<lparr>cw_site_icao = nm_icao report, cw_metar_raw = nm_raw_text report, cw_metar_parsed = nm_raw_json report,
          cw_taf_raw = dget taf_map (nm_icao report),
          cw_flight_category = compute_flight_category ceiling_ft (nm_visibility_sm report),
          cw_wind_kt = nm_wind_kt report, cw_wind_dir_deg = nm_wind_dir_deg report,
          cw_visibility_sm = nm_visibility_sm report, cw_ceiling_ft = ceiling_ft,
          cw_temperature_c = nm_temperature_c report, cw_altimeter_in_hg = nm_altimeter_in_hg report,
          cw_metar_observed_at = nm_observed_at report, cw_fetched_at = fetched_at\<rparr>)"

definition build_airport_condition_rows ::
  "NoaaMetarReport list \<Rightarrow> (string, string) dict \<Rightarrow> instant \<Rightarrow> ConditionsRow list" where
  "build_airport_condition_rows metar_reports taf_map fetched_at =
     map (condition_row taf_map fetched_at) (filter (\<lambda>report. nm_icao report \<noteq> []) metar_reports)"

definition CONDITIONS_PAGE_SIZE :: nat where
  "CONDITIONS_PAGE_SIZE = 100"

text \<open>A conflict overwrites every column; \<open>fetched_at\<close> becomes the statement's NOW().\<close>

definition upsert_condition :: "instant \<Rightarrow> conditions_table \<Rightarrow> ConditionsRow \<Rightarrow> conditions_table" where
  "upsert_condition now t row =
     dset (cw_site_icao row) (case dget t (cw_site_icao row) of None \<Rightarrow> row | Some _ \<Rightarrow> row\<lparr>cw_fetched_at := now\<rparr>) t"

definition upsert_airport_conditions :: "instant \<Rightarrow> ConditionsRow list \<Rightarrow> (conditions_table, nat) io" where
  "upsert_airport_conditions now rows = (\<lambda>t.
     if rows = [] then (Inr 0, t)
     else
       case execute_values cw_site_icao (upsert_condition now) CONDITIONS_PAGE_SIZE rows t of
         Inl e \<Rightarrow> (Inl e, t)
       | Inr t' \<Rightarrow> (Inr (rowcount CONDITIONS_PAGE_SIZE rows), t'))"

record WeatherResult =
  wr_metar_count :: nat
  wr_taf_count :: nat
  wr_postgres_rows_upserted :: nat
  wr_watched_airports :: nat
  wr_flight_category_distribution :: "(string, nat) dict"
  wr_skipped :: bool

definition count_categories :: "ConditionsRow list \<Rightarrow> (string, nat) dict" where
  "count_categories rows =
     foldl (\<lambda>d row. case cw_flight_category row of
         None \<Rightarrow> d
       | Some c \<Rightarrow> dset c (Suc (case dget d c of None \<Rightarrow> 0 | Some n \<Rightarrow> n)) d) [] rows"

definition noaa_weather ::
  "'w noaa_api \<Rightarrow> WatchedAirport list \<Rightarrow> instant \<Rightarrow> 'w \<times> conditions_table \<Rightarrow>
     (exn + WeatherResult) \<times> ('w \<times> conditions_table)" where
  "noaa_weather api airports fetched_at = (\<lambda>(w, t).
     let icaos = sorted_set (map wa_icao airports)
     in case fetch_metars api icaos w of
          (Inl (NoaaUncaught e), w1) \<Rightarrow> (Inl e, (w1, t))
        | (Inl _, w1) \<Rightarrow>
            (Inr \<lparr>wr_metar_count = 0, wr_taf_count = 0, wr_postgres_rows_upserted = 0, wr_watched_airports = length icaos,
                  wr_flight_category_distribution = [], wr_skipped = True\<rparr>, (w1, t))
        | (Inr metar_reports, w1) \<Rightarrow>
            let (tafs, w2) = fetch_tafs api icaos w1;
                taf_map = (case tafs of Inl _ \<Rightarrow> [] | Inr m \<Rightarrow> m);
                rows = build_airport_condition_rows metar_reports taf_map fetched_at
            in case upsert_airport_conditions fetched_at rows t of
                 (Inl e, t') \<Rightarrow> (Inl e, (w2, t'))
               | (Inr n, t') \<Rightarrow>
                   (Inr \<lparr>wr_metar_count = length metar_reports, wr_taf_count = length taf_map,
                         wr_postgres_rows_upserted = n, wr_watched_airports = length icaos,
                         wr_flight_category_distribution = count_categories rows, wr_skipped = False\<rparr>, (w2, t')))"

section \<open>Category\<close>

lemma flight_category_cases:
  "compute_flight_category ceil_ft vis =
     (if ceil_ft = None \<and> vis = None then None
      else if (\<exists>c. ceil_ft = Some c \<and> c < 500) \<or> (\<exists>v. vis = Some v \<and> v < 1) then Some ''LIFR''
      else if (\<exists>c. ceil_ft = Some c \<and> c < 1000) \<or> (\<exists>v. vis = Some v \<and> v < 3) then Some ''IFR''
      else if (\<exists>c. ceil_ft = Some c \<and> c < 3000) \<or> (\<exists>v. vis = Some v \<and> v \<le> 5) then Some ''MVFR''
      else Some ''VFR'')"
  by (cases ceil_ft; cases vis)
    (auto simp: compute_flight_category_def Let_def min_by_def FLIGHT_CATEGORY_RANK_def)

text \<open>The row of the conditions table as the detector reads it.\<close>

definition conditions_of :: "ConditionsRow \<Rightarrow> AirportConditions" where
  "conditions_of r = \<lparr>apc_site_icao = cw_site_icao r, apc_flight_category = cw_flight_category r,
     apc_wind_kt = cw_wind_kt r, apc_visibility_sm = cw_visibility_sm r, apc_ceiling_ft = cw_ceiling_ft r\<rparr>"

text \<open>C25. From a METAR to a case: the weather rule fires for a site exactly when the lowest broken, overcast or
  obscured layer is below 1000 feet or the visibility below 3 miles, and with high severity exactly when
  it is below 500 feet or below 1 mile.\<close>

theorem weather_case_minima:
  "map an_severity_hint (weather_impact_detect [(site, conditions_of (condition_row tafs t report))]) =
     (let ceil_ft = extract_ceiling_ft (nm_clouds report); vis = nm_visibility_sm report
      in if at_most ceil_ft 499 \<or> (\<exists>v. vis = Some v \<and> v < 1) then [Some ''high'']
         else if at_most ceil_ft 999 \<or> (\<exists>v. vis = Some v \<and> v < 3) then [Some ''medium'']
         else [])"
proof -
  let ?c = "extract_ceiling_ft (nm_clouds report)" and ?v = "nm_visibility_sm report"
  have cat: "apc_flight_category (conditions_of (condition_row tafs t report)) = compute_flight_category ?c ?v"
    by (simp add: conditions_of_def condition_row_def Let_def)
  have low: "at_most ?c 499 \<longleftrightarrow> (\<exists>c. ?c = Some c \<and> c < 500)" "at_most ?c 999 \<longleftrightarrow> (\<exists>c. ?c = Some c \<and> c < 1000)"
    by (auto simp: at_most_def split: option.split)
  show ?thesis
    unfolding weather_impact_detect_def map_filter_simps prod.case cat Let_def low
    unfolding flight_category_cases by auto
qed

text \<open>The ceiling is the least base of the counting layers.\<close>

lemma lowest_layer_spec:
  "lowest_layer c layers = (case (c, List.map_filter layer_base layers) of
     (None, []) \<Rightarrow> None | (None, b # bs) \<Rightarrow> Some (Min (set (b # bs))) | (Some x, bs) \<Rightarrow> Some (Min (set (x # bs))))"
proof (induction layers arbitrary: c)
  case (Cons l ls)
  show ?case
    by (cases "layer_base l"; cases c; cases "List.map_filter layer_base ls")
      (auto simp: Cons map_filter_simps min_def)
qed (auto simp: map_filter_simps split: option.split)

text \<open>A visibility text with a fraction is dropped, and a dropped visibility counts as unlimited: with a high
  overcast half a mile of visibility is filed as VFR.\<close>

lemma fraction_reads_unlimited:
  "parse_visibility (JStr ''1/2'') = Inr None \<and> compute_flight_category (Some 5000) None = Some ''VFR'' \<and>
   compute_flight_category (Some 5000) (Some (1 / 2)) = Some ''LIFR''"
proof -
  have "parse_visibility (JStr ''1/2'') = Inr None" by code_simp
  then show ?thesis by (simp add: compute_flight_category_def min_by_def FLIGHT_CATEGORY_RANK_def)
qed

end
