(* ===== verification/PositionsTable.thy ===== *)
theory PositionsTable
  imports Lakehouse Sql
begin

text \<open>
  app.current_positions: the batch upsert of assets/ingestion.py (its ON CONFLICT clauses column by
  column, in pages of 1000 rows as execute_values sends them) and the retention delete of
  assets/maintenance.py. The table is a dictionary by icao24. Postgres refuses a statement that would
  update one row twice; the transaction is then rolled back. The rounding of coordinates to the
  column's five decimals is not modelled.
\<close>

record CurrentPosition =
  cp_icao24 :: string
  cp_callsign :: "string option"
  cp_lat :: "real option"
  cp_lon :: "real option"
  cp_altitude_ft :: "int option"
  cp_speed_kt :: "int option"
  cp_heading_deg :: "int option"
  cp_vertical_rate_fpm :: "int option"
  cp_on_ground :: bool
  cp_squawk :: "string option"
  cp_customer_region :: "string option"
  cp_last_seen_at :: instant
  cp_aircraft_type :: "string option"
  cp_origin_icao :: "string option"
  cp_destination_icao :: "string option"
  cp_updated_at :: instant

type_synonym positions_table = "(string, CurrentPosition) dict"

definition UPSERT_PAGE_SIZE :: nat where
  "UPSERT_PAGE_SIZE = 1000"

section \<open>The upsert\<close>

text \<open>The tuple of one row: \<open>ts_position or ts_polled\<close>, and the registry's type.\<close>

definition position_tuple :: "(string, string) dict \<Rightarrow> instant \<Rightarrow> PositionRow \<Rightarrow> CurrentPosition" where
  "position_tuple aircraft_types now row =
     \<lparr>cp_icao24 = pr_icao24 row, cp_callsign = pr_callsign row, cp_lat = pr_lat row, cp_lon = pr_lon row,
      cp_altitude_ft = pr_altitude_ft row, cp_speed_kt = pr_speed_kt row, cp_heading_deg = pr_heading_deg row,
      cp_vertical_rate_fpm = pr_vertical_rate_fpm row, cp_on_ground = pr_on_ground row, cp_squawk = pr_squawk row,
      cp_customer_region = pr_customer_region row,
      cp_last_seen_at = (case pr_ts_position row of None \<Rightarrow> pr_ts_polled row | Some t \<Rightarrow> t),
      cp_aircraft_type = dget aircraft_types (pr_icao24 row),
      cp_origin_icao = None, cp_destination_icao = None, cp_updated_at = now\<rparr>"

text \<open>\<open>ON CONFLICT (icao24) DO UPDATE\<close> of one stored row.\<close>

definition on_conflict :: "instant \<Rightarrow> CurrentPosition \<Rightarrow> CurrentPosition \<Rightarrow> CurrentPosition" where
  "on_conflict now old new =
     (let newer = cp_last_seen_at new > cp_last_seen_at old
      in old\<lparr>cp_callsign := if newer then cp_callsign new else cp_callsign old,
             cp_lat := if newer then cp_lat new else cp_lat old,
             cp_lon := if newer then cp_lon new else cp_lon old,
             cp_altitude_ft := if newer then cp_altitude_ft new else cp_altitude_ft old,
             cp_speed_kt := if newer then cp_speed_kt new else cp_speed_kt old,
             cp_heading_deg := if newer then cp_heading_deg new else cp_heading_deg old,
             cp_vertical_rate_fpm := if newer then cp_vertical_rate_fpm new else cp_vertical_rate_fpm old,
             cp_on_ground := if newer then cp_on_ground new else cp_on_ground old,
             cp_squawk := if newer then cp_squawk new else cp_squawk old,
             cp_customer_region := if newer then cp_customer_region new else cp_customer_region old,
             cp_last_seen_at := max (cp_last_seen_at new) (cp_last_seen_at old),
             cp_aircraft_type := (case cp_aircraft_type old of None \<Rightarrow> cp_aircraft_type new | Some t \<Rightarrow> Some t),
             cp_updated_at := now\<rparr>)"

definition upsert_tuple :: "instant \<Rightarrow> positions_table \<Rightarrow> CurrentPosition \<Rightarrow> positions_table" where
  "upsert_tuple now t new =
     dset (cp_icao24 new) (case dget t (cp_icao24 new) of None \<Rightarrow> new | Some old \<Rightarrow> on_conflict now old new) t"

text \<open>\<open>cur.rowcount\<close> is that of the last statement execute_values ran.\<close>

definition upsert_current_positions ::
  "instant \<Rightarrow> PositionRow list \<Rightarrow> (string, string) dict \<Rightarrow> (positions_table, nat) io" where
  "upsert_current_positions now rows aircraft_types = (\<lambda>t.
     if rows = [] then (Inr 0, t)
     else
       let tuples = map (position_tuple aircraft_types now) rows
       in case execute_values cp_icao24 (upsert_tuple now) UPSERT_PAGE_SIZE tuples t of
            Inl e \<Rightarrow> (Inl e, t)
          | Inr t' \<Rightarrow> (Inr (rowcount UPSERT_PAGE_SIZE tuples), t'))"

definition POSITION_RETENTION :: duration where
  "POSITION_RETENTION = hours 3"

definition prune_stale_positions :: "instant \<Rightarrow> positions_table \<Rightarrow> nat \<times> positions_table" where
  "prune_stale_positions now t =
     (length (filter (\<lambda>(k, r). cp_last_seen_at r < now - POSITION_RETENTION) t),
      filter (\<lambda>(k, r). \<not> cp_last_seen_at r < now - POSITION_RETENTION) t)"

section \<open>Refinement\<close>

text \<open>The abstract table: per aircraft the report that counts. A report is what one poll says of an
  aircraft, without the columns that other writers own.\<close>

definition report_of :: "CurrentPosition \<Rightarrow> CurrentPosition" where
  "report_of r = r\<lparr>cp_aircraft_type := None, cp_origin_icao := None, cp_destination_icao := None, cp_updated_at := 0\<rparr>"

definition abs_positions :: "positions_table \<Rightarrow> (string, CurrentPosition) dict" where
  "abs_positions t = map (\<lambda>(k, r). (k, report_of r)) t"

lemma dget_abs: "dget (abs_positions t) k = map_option report_of (dget t k)"
  by (simp add: abs_positions_def map_of_map)

lemma abs_dset: "abs_positions (dset k v t) = dset k (report_of v) (abs_positions t)"
  by (induction t) (auto simp: abs_positions_def)

lemma report_of_simps [simp]:
  "cp_icao24 (report_of r) = cp_icao24 r" "cp_last_seen_at (report_of r) = cp_last_seen_at r"
  by (simp_all add: report_of_def)

lemma report_on_conflict:
  "cp_icao24 old = cp_icao24 new \<Longrightarrow>
   report_of (on_conflict now old new) = (if cp_last_seen_at new > cp_last_seen_at old then report_of new else report_of old)"
  by (cases old; cases new) (simp add: report_of_def on_conflict_def Let_def max_def)

lemma on_conflict_key [simp]: "cp_icao24 (on_conflict now old new) = cp_icao24 old"
  by (simp add: on_conflict_def Let_def)

definition keyed_by_icao :: "positions_table \<Rightarrow> bool" where
  "keyed_by_icao t \<longleftrightarrow> (\<forall>k r. dget t k = Some r \<longrightarrow> cp_icao24 r = k)"

lemma keyed_upsert: "keyed_by_icao t \<Longrightarrow> keyed_by_icao (upsert_tuple now t new)"
  by (auto simp: keyed_by_icao_def upsert_tuple_def split: option.splits if_splits)

lemma upsert_tuple_refines:
  assumes "keyed_by_icao t"
  shows "abs_positions (upsert_tuple now t new) =
    newest_step cp_icao24 cp_last_seen_at (abs_positions t) (report_of new)"
proof (cases "dget t (cp_icao24 new)")
  case None
  then show ?thesis by (simp add: upsert_tuple_def newest_step_def abs_dset dget_abs)
next
  case (Some old)
  then have "cp_icao24 old = cp_icao24 new" using assms by (simp add: keyed_by_icao_def)
  moreover have "dset (cp_icao24 new) (report_of old) (abs_positions t) = abs_positions t"
    using Some by (simp add: dget_abs update_triv)
  ultimately show ?thesis
    using Some by (simp add: upsert_tuple_def newest_step_def abs_dset dget_abs report_on_conflict)
qed

lemma upsert_tuples_refine:
  "keyed_by_icao t \<Longrightarrow> abs_positions (foldl (upsert_tuple now) t tuples) =
     newest_by cp_icao24 cp_last_seen_at (abs_positions t) (map report_of tuples) \<and>
     keyed_by_icao (foldl (upsert_tuple now) t tuples)"
proof (induction tuples arbitrary: t)
  case (Cons new tuples)
  show ?case using Cons.IH[OF keyed_upsert[OF Cons.prems, of now new]] upsert_tuple_refines[OF Cons.prems, of now new]
    by simp
qed simp

text \<open>C6. The batch upsert refines the newest-report table: whatever the order in which polls arrive, each
  column group of an aircraft is that of the first report with the largest time seen, so a late or
  repeated poll never moves an aircraft back; and the table stays keyed by aircraft.\<close>

theorem positions_table_refines:
  assumes "keyed_by_icao t" "upsert_current_positions now rows aircraft_types t = (Inr n, t')"
  shows "abs_positions t' = newest_by cp_icao24 cp_last_seen_at (abs_positions t)
           (map (report_of \<circ> position_tuple aircraft_types now) rows) \<and> keyed_by_icao t'"
proof (cases "rows = []")
  case False
  have "t' = foldl (upsert_tuple now) t (map (position_tuple aircraft_types now) rows)"
    using assms(2) False
    by (auto simp: upsert_current_positions_def Let_def UPSERT_PAGE_SIZE_def dest: execute_values_foldl[rotated] split: sum.splits)
  then show ?thesis using upsert_tuples_refine[OF assms(1)] by (simp add: comp_def)
qed (use assms in \<open>simp add: upsert_current_positions_def\<close>)

text \<open>The reported row count is that of the last page: with more than 1000 rows written it is not the
  number of rows the batch changed.\<close>

theorem upsert_rowcount:
  assumes "rows \<noteq> []" "distinct (map pr_icao24 rows)"
  shows "fst (upsert_current_positions now rows aircraft_types t) = Inr ((length rows - 1) mod 1000 + 1)"
proof -
  let ?tuples = "map (position_tuple aircraft_types now) rows"
  have "cp_icao24 \<circ> position_tuple aircraft_types now = pr_icao24" by (auto simp: position_tuple_def)
  then have "distinct (map cp_icao24 ?tuples)" using assms(2) by simp
  then show ?thesis
    using assms(1) by (simp add: upsert_current_positions_def Let_def execute_values_ok rowcount_eq UPSERT_PAGE_SIZE_def)
qed

section \<open>What readers rely on\<close>

text \<open>The retention keeps every row a reader's window can still ask for.\<close>

lemma prune_keeps_window:
  assumes "window \<le> POSITION_RETENTION"
  shows "filter (\<lambda>(k, r). now - window \<le> cp_last_seen_at r) (snd (prune_stale_positions now t)) =
    filter (\<lambda>(k, r). now - window \<le> cp_last_seen_at r) t"
  using assms by (auto simp: prune_stale_positions_def intro!: filter_cong)

end
