(* ===== verification/Query.thy ===== *)
theory Query
  imports Weather PositionsTable CaseSync
begin

text \<open>
  services/query_service.py with the Scope of models/common.py and the bounding-box parser of
  routers/positions.py: every read of the API, over the positions table, the lake, the airports, the
  conditions and the cases. A failure is the AFMException the service raises, or the pydantic error of a
  response model that refuses a row (the API answers 500). Two clocks appear where the code has two: the
  database's NOW() and Python's. Rows that tie in an ORDER BY keep the table order.
\<close>

section \<open>Scope and errors\<close>

record Scope =
  scp_region :: CustomerRegion
  scp_sites_in_scope :: "string list"

definition includes_site :: "Scope \<Rightarrow> string \<Rightarrow> bool" where
  "includes_site scope icao \<longleftrightarrow> scp_region scope = AllRegions \<or> icao \<in> set (scp_sites_in_scope scope)"

definition includes_region :: "Scope \<Rightarrow> CustomerRegion \<Rightarrow> bool" where
  "includes_region scope region \<longleftrightarrow> scp_region scope = AllRegions \<or> region = scp_region scope"

datatype query_error = Raised AFMException | InvalidModel

definition parse_region :: "string \<Rightarrow> CustomerRegion option" where
  "parse_region s =
     (if s = ''west'' then Some West else if s = ''east'' then Some East else if s = ''all'' then Some AllRegions else None)"

definition parse_category :: "string option \<Rightarrow> FlightCategory option" where
  "parse_category c =
     (if c = Some ''VFR'' then Some VFR else if c = Some ''MVFR'' then Some MVFR
      else if c = Some ''IFR'' then Some IFR else if c = Some ''LIFR'' then Some LIFR else None)"

text \<open>The region override every list endpoint checks first, and the region that counts.\<close>

definition effective_region :: "Scope \<Rightarrow> CustomerRegion option \<Rightarrow> query_error + CustomerRegion" where
  "effective_region scope region =
     (case region of
        None \<Rightarrow> Inr (scp_region scope)
      | Some r \<Rightarrow>
          if r \<noteq> scp_region scope \<and> scp_region scope \<noteq> AllRegions then Inl (Raised (ScopeViolation ''region''))
          else Inr r)"

definition check_flight_scope :: "Scope \<Rightarrow> string option \<Rightarrow> query_error + unit" where
  "check_flight_scope scope customer_region =
     (case Option.bind customer_region parse_region of
        Some r \<Rightarrow> if r \<in> {West, East} \<and> \<not> includes_region scope r then Inl (Raised (ScopeViolation ''flight'')) else Inr ()
      | None \<Rightarrow> Inr ())"

definition flight_in_scope :: "Scope \<Rightarrow> string option \<Rightarrow> bool" where
  "flight_in_scope scope customer_region =
     (case Option.bind customer_region parse_region of
        Some r \<Rightarrow> if r \<in> {West, East} then includes_region scope r else True
      | None \<Rightarrow> True)"

section \<open>Positions\<close>

definition LIVE_POSITION_WINDOW :: duration where "LIVE_POSITION_WINDOW = minutes 15"
definition LIVE_POSITION_CEILING :: nat where "LIVE_POSITION_CEILING = 50000"
definition CASE_LIST_CEILING :: nat where "CASE_LIST_CEILING = 50000"

definition DEFAULT_CASE_STATUSES :: "string list" where
  "DEFAULT_CASE_STATUSES = [''open'', ''acknowledged'', ''in_progress'']"

definition compute_staleness :: "instant \<Rightarrow> instant \<Rightarrow> Staleness" where
  "compute_staleness last_seen_at now =
     (let age = now - last_seen_at
      in if age < seconds 60 then Fresh else if age < seconds 300 then Stale else Lost)"

text \<open>\<open>float(p)\<close> of four parts, in range and in order.\<close>

definition parse_bbox :: "string option \<Rightarrow> query_error + (real \<times> real \<times> real \<times> real) option" where
  "parse_bbox bbox =
     (case bbox of
        None \<Rightarrow> Inr None
      | Some s \<Rightarrow>
          (case map py_float (split_on (CHR '','') s) of
             [a, b, c, d] \<Rightarrow>
               (case (a, b, c, d) of
                  (Some lat_min, Some lon_min, Some lat_max, Some lon_max) \<Rightarrow>
                    if \<not> (- 90 \<le> lat_min \<and> lat_min \<le> lat_max \<and> lat_max \<le> 90) then Inl (Raised (BadRequest ''bbox''))
                    else if \<not> (- 180 \<le> lon_min \<and> lon_min \<le> lon_max \<and> lon_max \<le> 180) then Inl (Raised (BadRequest ''bbox''))
                    else Inr (Some (lat_min, lon_min, lat_max, lon_max))
                | _ \<Rightarrow> Inl (Raised (BadRequest ''bbox'')))
           | _ \<Rightarrow> Inl (Raised (BadRequest ''bbox''))))"

definition in_bbox :: "(real \<times> real \<times> real \<times> real) option \<Rightarrow> CurrentPosition \<Rightarrow> bool" where
  "in_bbox bbox r =
     (case bbox of
        None \<Rightarrow> True
      | Some (lat_min, lon_min, lat_max, lon_max) \<Rightarrow>
          (case (cp_lat r, cp_lon r) of
             (Some la, Some lo) \<Rightarrow> lat_min \<le> la \<and> la \<le> lat_max \<and> lon_min \<le> lo \<and> lo \<le> lon_max
           | _ \<Rightarrow> False))"

text \<open>The Position model of a row: coordinates in range and a region of the literal.\<close>

definition position_model :: "instant \<Rightarrow> CurrentPosition \<Rightarrow> query_error + Position" where
  "position_model now r =
     (case (cp_lat r, cp_lon r) of
        (Some la, Some lo) \<Rightarrow>
          if - 90 \<le> la \<and> la \<le> 90 \<and> - 180 \<le> lo \<and> lo \<le> 180 \<and>
             (cp_customer_region r = None \<or> Option.bind (cp_customer_region r) parse_region \<noteq> None)
          then Inr \<lparr>pos_icao24 = cp_icao24 r, pos_callsign = cp_callsign r, pos_lat = la, pos_lon = lo,
                    pos_altitude_ft = cp_altitude_ft r, pos_speed_kt = cp_speed_kt r,
                    pos_heading_deg = cp_heading_deg r, pos_vertical_rate_fpm = cp_vertical_rate_fpm r,
                    pos_on_ground = cp_on_ground r,
                    pos_customer_region = Option.bind (cp_customer_region r) parse_region,
                    pos_last_seen_at = cp_last_seen_at r,
                    pos_staleness = compute_staleness (cp_last_seen_at r) now\<rparr>
          else Inl InvalidModel
      | _ \<Rightarrow> Inl InvalidModel)"

text \<open>The WHERE clause: region (NULL passes), box, recency.\<close>

definition live_row :: "CustomerRegion \<Rightarrow> (real \<times> real \<times> real \<times> real) option \<Rightarrow> instant \<Rightarrow> CurrentPosition \<Rightarrow> bool" where
  "live_row region bbox db_now r \<longleftrightarrow>
     (region = AllRegions \<or> cp_customer_region r = Some (region_str region) \<or> cp_customer_region r = None) \<and>
     in_bbox bbox r \<and> db_now - LIVE_POSITION_WINDOW \<le> cp_last_seen_at r"

definition newest_first :: "CurrentPosition list \<Rightarrow> CurrentPosition list" where
  "newest_first rows = sort_key (\<lambda>r. - cp_last_seen_at r) rows"

text \<open>\<open>LIMIT ceiling + 1\<close>, and the clip with its flag.\<close>

definition clipped :: "nat \<Rightarrow> 'a list \<Rightarrow> 'a list \<times> bool" where
  "clipped ceiling_rows rows =
     (let fetched = take (Suc ceiling_rows) rows; truncated = length fetched > ceiling_rows
      in (if truncated then take ceiling_rows fetched else fetched, truncated))"

lemma clipped_eq: "clipped n rows = (take n rows, n < length rows)"
  by (auto simp: clipped_def Let_def min_def)

definition list_live_positions ::
  "instant \<Rightarrow> instant \<Rightarrow> positions_table \<Rightarrow> Scope \<Rightarrow> (real \<times> real \<times> real \<times> real) option \<Rightarrow> CustomerRegion option \<Rightarrow>
     query_error + PositionsLiveResponse" where
  "list_live_positions db_now now table scope bbox region =
     rbind (effective_region scope region) (\<lambda>effective.
       let (rows, truncated) = clipped LIVE_POSITION_CEILING (newest_first (filter (live_row effective bbox db_now) (dvalues table)))
       in rbind (rmap (position_model now) rows) (\<lambda>positions.
            Inr \<lparr>plr_items = positions, plr_count = int (length positions), plr_server_time = now,
                 plr_pipeline_lag_seconds = (case rows of [] \<Rightarrow> 0 | r # _ \<Rightarrow> unix_seconds (now - cp_last_seen_at r)),
                 plr_truncated = truncated\<rparr>))"

section \<open>Flights\<close>

record RegistryRow =
  rg_registration :: "string option"
  rg_operator_icao :: "string option"

definition get_flight ::
  "instant \<Rightarrow> instant \<Rightarrow> positions_table \<Rightarrow> (string, RegistryRow) dict \<Rightarrow> Scope \<Rightarrow> string \<Rightarrow> query_error + FlightDetail" where
  "get_flight db_now now table registry scope icao24 =
     (case dget table (lower icao24) of
        None \<Rightarrow> Inl (Raised (NotFoundError ''flight''))
      | Some row \<Rightarrow>
          if cp_last_seen_at row < db_now - minutes 30 then Inl (Raised (NotFoundError ''flight''))
          else
            rbind (check_flight_scope scope (cp_customer_region row)) (\<lambda>_.
            rbind (position_model now row) (\<lambda>position.
              Inr \<lparr>fd_icao24 = cp_icao24 row, fd_callsign = cp_callsign row,
                   fd_registration = Option.bind (dget registry (cp_icao24 row)) rg_registration,
                   fd_aircraft_type = cp_aircraft_type row,
                   fd_operator_icao = Option.bind (dget registry (cp_icao24 row)) rg_operator_icao,
                   fd_origin_icao = cp_origin_icao row, fd_destination_icao = cp_destination_icao row,
                   fd_customer_region = pos_customer_region position, fd_position = position,
                   fd_eta_minutes = None, fd_status_timeline = [], fd_open_case_ids = []\<rparr>)))"

text \<open>The lookback interval; \<open>TRAIL_INTERVALS[lookback]\<close> for a value the router lets through.\<close>

datatype TrailLookback = L1h | L2h | L4h | SinceTakeoff

primrec TRAIL_INTERVALS :: "TrailLookback \<Rightarrow> duration" where
  "TRAIL_INTERVALS L1h = hours 1"
| "TRAIL_INTERVALS L2h = hours 2"
| "TRAIL_INTERVALS L4h = hours 4"
| "TRAIL_INTERVALS SinceTakeoff = hours 6"

primrec lookback_str :: "TrailLookback \<Rightarrow> string" where
  "lookback_str L1h = ''1h''"
| "lookback_str L2h = ''2h''"
| "lookback_str L4h = ''4h''"
| "lookback_str SinceTakeoff = ''since_takeoff''"

text \<open>\<open>read_parquet\<close> over the positions glob: a glob that matches no file is an IO error.\<close>

definition read_parquet :: "Lake \<Rightarrow> query_error + PositionRow list" where
  "read_parquet lake =
     (if list_all (\<lambda>(h, files). files = []) (lk_positions lake) then Inl (Raised (UpstreamUnavailable ''lakehouse''))
      else Inr (rows_in (lk_positions lake)))"

definition trail_point :: "PositionRow \<Rightarrow> query_error + TrailPoint" where
  "trail_point r =
     (case (pr_lat r, pr_lon r) of
        (Some la, Some lo) \<Rightarrow>
          Inr \<lparr>tp_ts = (case pr_ts_position r of None \<Rightarrow> pr_ts_polled r | Some t \<Rightarrow> t), tp_lat = la, tp_lon = lo,
               tp_altitude_ft = pr_altitude_ft r, tp_speed_kt = pr_speed_kt r\<rparr>
      | _ \<Rightarrow> Inl InvalidModel)"

definition trail_response :: "TrailLookback \<Rightarrow> string \<Rightarrow> TrailPoint list \<Rightarrow> TrailResponse" where
  "trail_response lookback icao24 points =
     \<lparr>tr_icao24 = icao24, tr_points = points, tr_lookback = lookback_str lookback, tr_point_count = int (length points)\<rparr>"

definition get_flight_trail ::
  "instant \<Rightarrow> positions_table \<Rightarrow> Lake \<Rightarrow> Scope \<Rightarrow> string \<Rightarrow> TrailLookback \<Rightarrow> query_error + TrailResponse" where
  "get_flight_trail lake_now table lake scope icao24 lookback =
     (let icao24_lower = lower icao24
      in rbind (case dget table icao24_lower of
                  None \<Rightarrow> Inr ()
                | Some row \<Rightarrow> check_flight_scope scope (cp_customer_region row)) (\<lambda>_.
         rbind (read_parquet lake) (\<lambda>all_rows.
         rbind (rmap trail_point
                 (sort_key pr_ts_polled
                   (filter (\<lambda>r. pr_icao24 r = icao24_lower \<and> lake_now - TRAIL_INTERVALS lookback \<le> pr_ts_polled r) all_rows)))
           (\<lambda>points. Inr (trail_response lookback icao24_lower points)))))"

text \<open>\<open>list(dict.fromkeys(...))\<close>: first occurrences, in order.\<close>

definition unique_in_order :: "'a list \<Rightarrow> 'a list" where
  "unique_in_order xs = rev (remdups (rev xs))"

text \<open>The run loop: a row of another aircraft closes the run.\<close>

fun trail_runs ::
  "TrailLookback \<Rightarrow> string option \<Rightarrow> TrailPoint list \<Rightarrow> (string \<times> TrailPoint) list \<Rightarrow> TrailResponse list" where
  "trail_runs lookback current points [] =
     (case current of None \<Rightarrow> [] | Some c \<Rightarrow> [trail_response lookback c points])"
| "trail_runs lookback current points ((ic, point) # rows) =
     (if Some ic \<noteq> current
      then (case current of None \<Rightarrow> [] | Some c \<Rightarrow> [trail_response lookback c points]) @ trail_runs lookback (Some ic) [point] rows
      else trail_runs lookback current (points @ [point]) rows)"

definition get_flight_trails_batch ::
  "instant \<Rightarrow> positions_table \<Rightarrow> Lake \<Rightarrow> Scope \<Rightarrow> string list \<Rightarrow> TrailLookback \<Rightarrow> query_error + TrailResponse list" where
  "get_flight_trails_batch lake_now table lake scope icao24s lookback =
     (let requested = unique_in_order (map lower icao24s);
          allowed = filter (\<lambda>i. flight_in_scope scope (Option.bind (dget table i) cp_customer_region)) requested
      in if requested = [] then Inr []
         else if allowed = [] then Inr []
         else
           rbind (read_parquet lake) (\<lambda>all_rows.
           rbind (rmap (\<lambda>r. rbind (trail_point r) (\<lambda>p. Inr (pr_icao24 r, p)))
                   (sort_key pr_icao24 (sort_key pr_ts_polled
                     (filter (\<lambda>r. pr_icao24 r \<in> set allowed \<and> lake_now - TRAIL_INTERVALS lookback \<le> pr_ts_polled r) all_rows))))
             (\<lambda>rows. Inr (trail_runs lookback None [] rows))))"

section \<open>Sites\<close>

record AirportRow =
  ap_icao :: string
  ap_iata :: "string option"
  ap_name :: string
  ap_city :: "string option"
  ap_state :: "string option"
  ap_lat :: real
  ap_lon :: real
  ap_elevation_ft :: "int option"
  ap_timezone :: "string option"
  ap_is_watched :: bool
  ap_customer_regions :: "string list"

definition list_sites :: "AirportRow list \<Rightarrow> Scope \<Rightarrow> CustomerRegion option \<Rightarrow> query_error + SiteListResponse" where
  "list_sites airports scope region =
     rbind (effective_region scope region) (\<lambda>_.
       let rows = sort_key ap_icao (filter ap_is_watched airports);
           kept = filter (\<lambda>row. case region of None \<Rightarrow> True | Some r \<Rightarrow> region_str r \<in> set (ap_customer_regions row)) rows;
           items = map (\<lambda>row.
             \<lparr>sli_icao = ap_icao row, sli_iata = ap_iata row, sli_name = ap_name row,
              sli_state = (case ap_state row of None \<Rightarrow> [] | Some s \<Rightarrow> s),
              sli_customer_regions = ap_customer_regions row,
              sli_is_in_scope = (scp_region scope = AllRegions \<or>
                list_ex (includes_region scope) (List.map_filter parse_region (ap_customer_regions row)))\<rparr>) kept
       in Inr \<lparr>slr_items = items, slr_count = int (length items)\<rparr>)"

definition count_flights :: "instant \<Rightarrow> positions_table \<Rightarrow> (CurrentPosition \<Rightarrow> string option) \<Rightarrow> string \<Rightarrow> int" where
  "count_flights db_now table direction_column icao_upper =
     int (length (filter (\<lambda>r. direction_column r = Some icao_upper \<and> db_now - minutes 60 \<le> cp_last_seen_at r) (dvalues table)))"

text \<open>The SiteWeather model of a joined row: only with a METAR text, and then with a category and an
  observation time.\<close>

definition site_weather :: "ConditionsRow option \<Rightarrow> query_error + SiteWeather option" where
  "site_weather w =
     (case Option.bind (map_option cw_metar_raw w) opt_str of
        None \<Rightarrow> Inr None
      | Some metar_raw \<Rightarrow>
          (case (Option.bind w (\<lambda>c. parse_category (cw_flight_category c)), Option.bind w cw_metar_observed_at) of
             (Some category, Some observed_at) \<Rightarrow>
               Inr (Some \<lparr>sw_metar_raw = metar_raw, sw_metar_plain_english = None, sw_flight_category = category,
                         sw_wind_kt = Option.bind w cw_wind_kt, sw_visibility_sm = Option.bind w cw_visibility_sm,
                         sw_ceiling_ft = Option.bind w cw_ceiling_ft, sw_observed_at = observed_at\<rparr>)
           | _ \<Rightarrow> Inl InvalidModel))"

definition get_site ::
  "instant \<Rightarrow> positions_table \<Rightarrow> AirportRow list \<Rightarrow> conditions_table \<Rightarrow> Scope \<Rightarrow> string \<Rightarrow> query_error + SiteDetail" where
  "get_site db_now table airports conditions scope icao =
     (let icao_upper = upper icao
      in if \<not> includes_site scope icao_upper then Inl (Raised (ScopeViolation ''site''))
         else case filter (\<lambda>a. ap_icao a = icao_upper \<and> ap_is_watched a) airports of
                [] \<Rightarrow> Inl (Raised (NotFoundError ''site''))
              | row # _ \<Rightarrow>
                  rbind (site_weather (dget conditions (ap_icao row))) (\<lambda>weather.
                    if \<not> (- 90 \<le> ap_lat row \<and> ap_lat row \<le> 90 \<and> - 180 \<le> ap_lon row \<and> ap_lon row \<le> 180) then Inl InvalidModel
                    else Inr
                    \<lparr>sd_icao = ap_icao row, sd_iata = ap_iata row, sd_name = ap_name row, sd_city = ap_city row,
                     sd_state = (case ap_state row of None \<Rightarrow> [] | Some s \<Rightarrow> s), sd_lat = ap_lat row, sd_lon = ap_lon row,
                     sd_elevation_ft = ap_elevation_ft row, sd_timezone = ap_timezone row, sd_weather = weather,
                     sd_inbound_count_60m = count_flights db_now table cp_destination_icao icao_upper,
                     sd_outbound_count_60m = count_flights db_now table cp_origin_icao icao_upper,
                     sd_active_case_count = 0, sd_customer_regions = ap_customer_regions row\<rparr>))"

definition compute_weather_impact :: "FlightCategory \<Rightarrow> WeatherImpact" where
  "compute_weather_impact flight_category =
     (if flight_category = LIFR then WiHigh else if flight_category = IFR then WiMedium else WiLow)"

definition get_site_sla :: "conditions_table \<Rightarrow> Scope \<Rightarrow> string \<Rightarrow> SlaPeriod \<Rightarrow> query_error + SiteSla" where
  "get_site_sla conditions scope icao period =
     (let icao_upper = upper icao
      in if \<not> includes_site scope icao_upper then Inl (Raised (ScopeViolation ''site''))
         else
           case (case Option.bind (Option.bind (dget conditions icao_upper) cw_flight_category) (\<lambda>c. opt_str (Some c)) of
                   None \<Rightarrow> Some VFR
                 | Some c \<Rightarrow> parse_category (Some c)) of
             None \<Rightarrow> Inl InvalidModel
           | Some flight_category \<Rightarrow>
               Inr \<lparr>sla_icao = icao_upper, sla_period = period, sla_inbound_count = 0, sla_outbound_count = 0,
                    sla_on_time_arrival_pct = None, sla_on_time_departure_pct = None, sla_avg_arrival_delay_min = None,
                    sla_avg_departure_delay_min = None, sla_weather_impact = compute_weather_impact flight_category,
                    sla_flight_category = flight_category, sla_active_cases = 0, sla_sparkline_7d = []\<rparr>)"

definition list_flow ::
  "instant \<Rightarrow> positions_table \<Rightarrow> Scope \<Rightarrow> string \<Rightarrow> (CurrentPosition \<Rightarrow> string option) \<Rightarrow> query_error + SiteFlightListResponse" where
  "list_flow db_now table scope icao direction_column =
     (let icao_upper = upper icao
      in if \<not> includes_site scope icao_upper then Inl (Raised (ScopeViolation ''site''))
         else
           let rows = take 500 (newest_first (filter (\<lambda>r. direction_column r = Some icao_upper \<and>
                         db_now - minutes 60 \<le> cp_last_seen_at r) (dvalues table)));
               items = map (\<lambda>r. \<lparr>fs_icao24 = cp_icao24 r, fs_callsign = cp_callsign r, fs_origin_icao = cp_origin_icao r,
                         fs_destination_icao = cp_destination_icao r, fs_eta_minutes = None, fs_status = StUnknown,
                         fs_aircraft_type = cp_aircraft_type r\<rparr>) rows
           in Inr \<lparr>sfl_items = items, sfl_count = int (length items)\<rparr>)"

definition list_inbound :: "instant \<Rightarrow> positions_table \<Rightarrow> Scope \<Rightarrow> string \<Rightarrow> query_error + SiteFlightListResponse" where
  "list_inbound db_now table scope icao = list_flow db_now table scope icao cp_destination_icao"

definition list_outbound :: "instant \<Rightarrow> positions_table \<Rightarrow> Scope \<Rightarrow> string \<Rightarrow> query_error + SiteFlightListResponse" where
  "list_outbound db_now table scope icao = list_flow db_now table scope icao cp_origin_icao"

section \<open>Cases\<close>

record CaseListItem =
  cli_case_id :: string
  cli_salesforce_id :: "string option"
  cli_salesforce_url :: "string option"
  cli_case_type :: string
  cli_status :: string
  cli_severity :: string
  cli_customer_region :: string
  cli_site_icao :: string
  cli_flight_id :: string
  cli_summary :: "string option"
  cli_created_at :: instant
  cli_updated_at :: instant

record CaseListResponse =
  clr_items :: "CaseListItem list"
  clr_count :: nat
  clr_truncated :: bool

record CaseTimelineEvent =
  cte_event_type :: string
  cte_detail :: json
  cte_source :: string

record CaseDetail =
  cdt_case_id :: string
  cdt_salesforce_id :: "string option"
  cdt_salesforce_url :: "string option"
  cdt_case_type :: string
  cdt_status :: string
  cdt_severity :: string
  cdt_severity_justification :: "string option"
  cdt_customer_region :: string
  cdt_site_icao :: string
  cdt_flight_id :: string
  cdt_summary :: "string option"
  cdt_detection_facts :: "(string, json) dict"
  cdt_runbook_refs :: "string list"
  cdt_timeline :: "CaseTimelineEvent list"
  cdt_created_at :: instant
  cdt_updated_at :: instant
  cdt_resolved_at :: "instant option"

definition case_list_item :: "string option \<Rightarrow> CaseRow \<Rightarrow> CaseListItem" where
  "case_list_item instance_url row =
     \<lparr>cli_case_id = cr_case_id row, cli_salesforce_id = cr_salesforce_id row,
      cli_salesforce_url = case_lightning_url instance_url (cr_salesforce_id row),
      cli_case_type = cr_case_type row, cli_status = cr_status row, cli_severity = cr_severity row,
      cli_customer_region = cr_customer_region row, cli_site_icao = cr_site_icao row, cli_flight_id = cr_flight_id row,
      cli_summary = cr_summary row, cli_created_at = cr_created_at row, cli_updated_at = cr_updated_at row\<rparr>"

definition case_row_listed ::
  "CustomerRegion \<Rightarrow> string list \<Rightarrow> string option \<Rightarrow> string option \<Rightarrow> CaseRow \<Rightarrow> bool" where
  "case_row_listed region statuses severity site row \<longleftrightarrow>
     (region = AllRegions \<or> cr_customer_region row \<in> {region_str region, ''all''}) \<and>
     cr_status row \<in> set statuses \<and>
     (case severity of None \<Rightarrow> True | Some s \<Rightarrow> cr_severity row = s) \<and>
     (case site of None \<Rightarrow> True | Some s \<Rightarrow> cr_site_icao row = upper s)"

definition list_cases ::
  "string option \<Rightarrow> AppDb \<Rightarrow> Scope \<Rightarrow> string list option \<Rightarrow> string option \<Rightarrow> string option \<Rightarrow> CustomerRegion option \<Rightarrow>
     query_error + CaseListResponse" where
  "list_cases instance_url db scope status severity site region =
     rbind (effective_region scope region) (\<lambda>effective.
       let statuses = (case status of None \<Rightarrow> DEFAULT_CASE_STATUSES | Some ss \<Rightarrow> ss);
           (rows, truncated) = clipped CASE_LIST_CEILING
             (rev (sort_key (\<lambda>r. (cr_created_at r, cr_case_id r))
               (filter (case_row_listed effective statuses severity site) (db_cases db))))
       in Inr \<lparr>clr_items = map (case_list_item instance_url) rows, clr_count = length rows, clr_truncated = truncated\<rparr>)"

definition get_case :: "string option \<Rightarrow> AppDb \<Rightarrow> Scope \<Rightarrow> string \<Rightarrow> query_error + CaseDetail" where
  "get_case instance_url db scope case_id =
     (case filter (\<lambda>r. cr_case_id r = case_id) (db_cases db) of
        [] \<Rightarrow> Inl (Raised (NotFoundError ''case''))
      | row # _ \<Rightarrow>
          if scp_region scope \<noteq> AllRegions \<and> cr_customer_region row \<noteq> ''all'' \<and>
             cr_customer_region row \<noteq> region_str (scp_region scope)
          then Inl (Raised (ScopeViolation ''case''))
          else Inr
            \<lparr>cdt_case_id = cr_case_id row, cdt_salesforce_id = cr_salesforce_id row,
             cdt_salesforce_url = case_lightning_url instance_url (cr_salesforce_id row),
             cdt_case_type = cr_case_type row, cdt_status = cr_status row, cdt_severity = cr_severity row,
             cdt_severity_justification = cr_severity_justification row, cdt_customer_region = cr_customer_region row,
             cdt_site_icao = cr_site_icao row, cdt_flight_id = cr_flight_id row, cdt_summary = cr_summary row,
             cdt_detection_facts = cr_detection_facts row, cdt_runbook_refs = cr_runbook_refs row,
             cdt_timeline = map (\<lambda>e. \<lparr>cte_event_type = te_event_type e,
                 cte_detail = (if truthy (te_detail e) then te_detail e else JObj []), cte_source = te_source e\<rparr>)
               (filter (\<lambda>e. te_case_id e = case_id) (db_timeline db)),
             cdt_created_at = cr_created_at row, cdt_updated_at = cr_updated_at row, cdt_resolved_at = cr_resolved_at row\<rparr>)"

end
