(* ===== verification/QueryProps.thy ===== *)
theory QueryProps
  imports Query
begin

text \<open>
  What the reads of the API promise: no read shows a regional caller the other region, lists and details
  agree, the batch trail read equals the single ones, pruning is invisible to readers; and two places
  where they do not meet the rest of the system.
\<close>

section \<open>Trails\<close>

definition points_of :: "string \<Rightarrow> (string \<times> TrailPoint) list \<Rightarrow> TrailPoint list" where
  "points_of k rows = map snd (filter (\<lambda>r. fst r = k) rows)"

lemma sorted_list_of_set_least:
  "finite A \<Longrightarrow> \<forall>x \<in> A. a \<le> x \<Longrightarrow> sorted_list_of_set (insert a A) = a # sorted_list_of_set (A - {a})"
  by (simp add: sorted_list_of_set_insert_remove insort_is_Cons)

lemma trail_runs_open:
  "sorted (map fst rows) \<Longrightarrow> \<forall>r \<in> set rows. c \<le> fst r \<Longrightarrow>
   trail_runs lookback (Some c) points rows =
     trail_response lookback c (points @ points_of c rows) #
     map (\<lambda>k. trail_response lookback k (points_of k rows)) (sorted_list_of_set (fst ` set rows - {c}))"
proof (induction rows arbitrary: c points)
  case (Cons r rows)
  obtain ic p where r: "r = (ic, p)" by (cases r)
  have s: "sorted (map fst rows)" "\<forall>q \<in> set rows. ic \<le> fst q" using Cons.prems(1) r by auto
  show ?case
  proof (cases "ic = c")
    case True
    have k: "fst ` set (r # rows) - {c} = fst ` set rows - {c}" using r True by auto
    have "trail_runs lookback (Some c) points (r # rows) = trail_runs lookback (Some c) (points @ [p]) rows"
      using r True by simp
    also have "\<dots> = trail_response lookback c ((points @ [p]) @ points_of c rows) #
        map (\<lambda>k. trail_response lookback k (points_of k rows)) (sorted_list_of_set (fst ` set rows - {c}))"
      by (rule Cons.IH) (use s True in auto)
    finally show ?thesis unfolding k using r True by (auto simp: points_of_def)
  next
    case False
    then have lt: "c < ic" using Cons.prems(2) r by auto
    then have none: "c \<notin> fst ` set (r # rows)" using s(2) r by auto
    then have "points_of c (r # rows) = []" by (force simp: points_of_def filter_empty_conv)
    moreover have "sorted_list_of_set (fst ` set (r # rows) - {c}) = ic # sorted_list_of_set (fst ` set rows - {ic})"
      using none sorted_list_of_set_least[of "fst ` set rows" ic] s(2) r by simp
    moreover have "trail_runs lookback (Some c) points (r # rows) =
        trail_response lookback c points # trail_runs lookback (Some ic) [p] rows" using r False by simp
    moreover have "trail_runs lookback (Some ic) [p] rows =
        trail_response lookback ic ([p] @ points_of ic rows) #
        map (\<lambda>k. trail_response lookback k (points_of k rows)) (sorted_list_of_set (fst ` set rows - {ic}))"
      by (rule Cons.IH[OF s])
    ultimately show ?thesis using r by (auto simp: points_of_def)
  qed
qed (simp add: points_of_def)

lemma trail_runs_sorted:
  "sorted (map fst rows) \<Longrightarrow> trail_runs lookback None [] rows =
     map (\<lambda>k. trail_response lookback k (points_of k rows)) (sorted_list_of_set (fst ` set rows))"
proof (cases rows)
  case (Cons r rs)
  assume "sorted (map fst rows)"
  then have s: "sorted (map fst rs)" "\<forall>q \<in> set rs. fst r \<le> fst q" using Cons by auto
  have "trail_runs lookback None [] rows = trail_runs lookback (Some (fst r)) [snd r] rs" using Cons by (cases r) simp
  moreover have "sorted_list_of_set (fst ` set rows) = fst r # sorted_list_of_set (fst ` set rs - {fst r})"
    using sorted_list_of_set_least[of "fst ` set rs" "fst r"] s(2) Cons by simp
  ultimately show ?thesis using trail_runs_open[OF s] Cons by (auto simp: points_of_def)
qed simp

lemma rmap_total: "(\<And>x. x \<in> set xs \<Longrightarrow> f x = Inr (g x)) \<Longrightarrow> rmap f xs = Inr (map g xs)"
  by (simp add: rmap_Inr)

lemma sort_key_Nil: "sort_key f xs = [] \<longleftrightarrow> xs = []"
  by (metis set_empty set_sort)

lemma flight_in_scope_iff: "flight_in_scope scope region \<longleftrightarrow> check_flight_scope scope region = Inr ()"
  by (auto simp: flight_in_scope_def check_flight_scope_def split: option.splits)

lemma lower_lower [simp]: "lower (lower s) = lower s"
proof -
  have "to_lower (to_lower c) = to_lower c" for c
    by (auto simp: to_lower_def Let_def)
  then show ?thesis by (simp add: lower_def)
qed

lemma set_unique_in_order [simp]: "set (unique_in_order xs) = set xs"
  by (simp add: unique_in_order_def)

text \<open>The trail of one aircraft, as a list of points.\<close>

definition trail_of :: "instant \<Rightarrow> TrailLookback \<Rightarrow> PositionRow list \<Rightarrow> string \<Rightarrow> TrailPoint list" where
  "trail_of lake_now lookback rows i =
     map (projr \<circ> trail_point) (sort_key pr_ts_polled
       (filter (\<lambda>r. pr_icao24 r = i \<and> lake_now - TRAIL_INTERVALS lookback \<le> pr_ts_polled r) rows))"

lemma single_trail:
  assumes "read_parquet lake = Inr rows" "\<And>r. r \<in> set rows \<Longrightarrow> pr_lat r \<noteq> None \<and> pr_lon r \<noteq> None"
  shows "get_flight_trail lake_now table lake scope i lookback =
    (if flight_in_scope scope (Option.bind (dget table (lower i)) cp_customer_region)
     then Inr (trail_response lookback (lower i) (trail_of lake_now lookback rows (lower i)))
     else Inl (Raised (ScopeViolation ''flight'')))"
proof -
  have "trail_point r = Inr (projr (trail_point r))" if "r \<in> set rows" for r
    using assms(2)[OF that] by (auto simp: trail_point_def)
  then have "rmap trail_point (sort_key pr_ts_polled (filter P rows)) =
      Inr (map (projr \<circ> trail_point) (sort_key pr_ts_polled (filter P rows)))" for P
    by (intro rmap_total) simp
  then show ?thesis
    using assms(1)
    by (auto simp: get_flight_trail_def Let_def rbind_def trail_of_def check_flight_scope_def flight_in_scope_def
        split: option.splits if_splits)
qed

text \<open>What the batch scan hands to the grouping: the rows in range of the allowed aircraft, by aircraft and time.\<close>

definition batch_rows :: "instant \<Rightarrow> TrailLookback \<Rightarrow> string list \<Rightarrow> PositionRow list \<Rightarrow> PositionRow list" where
  "batch_rows lake_now lookback allowed rows =
     sort_key pr_icao24 (sort_key pr_ts_polled
       (filter (\<lambda>r. pr_icao24 r \<in> set allowed \<and> lake_now - TRAIL_INTERVALS lookback \<le> pr_ts_polled r) rows))"

definition batch_pairs :: "instant \<Rightarrow> TrailLookback \<Rightarrow> string list \<Rightarrow> PositionRow list \<Rightarrow> (string \<times> TrailPoint) list" where
  "batch_pairs lake_now lookback allowed rows = map (\<lambda>r. (pr_icao24 r, projr (trail_point r))) (batch_rows lake_now lookback allowed rows)"

definition batch_allowed :: "positions_table \<Rightarrow> Scope \<Rightarrow> string list \<Rightarrow> string list" where
  "batch_allowed table scope icao24s =
     filter (\<lambda>i. flight_in_scope scope (Option.bind (dget table i) cp_customer_region)) (unique_in_order (map lower icao24s))"

lemma batch_points:
  assumes "k \<in> set allowed"
  shows "points_of k (batch_pairs lake_now lookback allowed rows) = trail_of lake_now lookback rows k"
proof -
  let ?F = "filter (\<lambda>r. pr_icao24 r \<in> set allowed \<and> lake_now - TRAIL_INTERVALS lookback \<le> pr_ts_polled r) rows"
  have "filter (\<lambda>r. pr_icao24 r = k) (batch_rows lake_now lookback allowed rows) =
      filter (\<lambda>r. pr_icao24 r = k) (sort_key pr_ts_polled ?F)"
    unfolding batch_rows_def by (rule sort_key_stable)
  also have "\<dots> = sort_key pr_ts_polled (filter (\<lambda>r. pr_icao24 r = k) ?F)" by (rule filter_sort)
  also have "filter (\<lambda>r. pr_icao24 r = k) ?F =
      filter (\<lambda>r. pr_icao24 r = k \<and> lake_now - TRAIL_INTERVALS lookback \<le> pr_ts_polled r) rows"
    using assms by (auto intro!: filter_cong)
  finally show ?thesis by (simp add: points_of_def batch_pairs_def filter_map comp_def trail_of_def)
qed

lemma batch_keys:
  "fst ` set (batch_pairs lake_now lookback allowed rows) = {k \<in> set allowed. trail_of lake_now lookback rows k \<noteq> []}"
  by (auto simp: batch_pairs_def batch_rows_def image_image trail_of_def sort_key_Nil filter_empty_conv)

lemma batch_runs:
  assumes "set allowed \<subseteq> set ids"
  shows "trail_runs lookback None [] (batch_pairs lake_now lookback allowed rows) =
    map (\<lambda>k. trail_response lookback k (trail_of lake_now lookback rows k))
      (filter (\<lambda>k. k \<in> set allowed \<and> trail_of lake_now lookback rows k \<noteq> []) (sorted_set ids))"
proof -
  let ?pairs = "batch_pairs lake_now lookback allowed rows"
  have "sorted_list_of_set (fst ` set ?pairs) = filter (\<lambda>k. k \<in> set allowed \<and> trail_of lake_now lookback rows k \<noteq> []) (sorted_set ids)"
  proof (rule sorted_distinct_set_unique)
    show "set (sorted_list_of_set (fst ` set ?pairs)) = set (filter (\<lambda>k. k \<in> set allowed \<and> trail_of lake_now lookback rows k \<noteq> []) (sorted_set ids))"
      using assms unfolding batch_keys by auto
  qed (simp_all add: sorted_wrt_filter)
  moreover have "trail_runs lookback None [] ?pairs = map (\<lambda>k. trail_response lookback k (points_of k ?pairs)) (sorted_list_of_set (fst ` set ?pairs))"
    by (rule trail_runs_sorted) (simp add: batch_pairs_def batch_rows_def comp_def)
  ultimately show ?thesis by (simp add: batch_points)
qed

lemma batch_read:
  assumes "read_parquet lake = Inr rows" "\<forall>r \<in> set rows. pr_lat r \<noteq> None \<and> pr_lon r \<noteq> None"
  shows "get_flight_trails_batch lake_now table lake scope icao24s lookback =
    Inr (trail_runs lookback None [] (batch_pairs lake_now lookback (batch_allowed table scope icao24s) rows))"
proof -
  let ?allowed = "batch_allowed table scope icao24s"
  have "rmap (\<lambda>r. rbind (trail_point r) (\<lambda>p. Inr (pr_icao24 r, p))) (batch_rows lake_now lookback ?allowed rows) =
      Inr (batch_pairs lake_now lookback ?allowed rows)"
    unfolding batch_pairs_def by (rule rmap_total) (use assms(2) in \<open>auto simp: batch_rows_def trail_point_def rbind_def\<close>)
  moreover have "?allowed = [] \<Longrightarrow> batch_pairs lake_now lookback ?allowed rows = []"
    by (simp add: batch_pairs_def batch_rows_def)
  moreover have "?allowed \<noteq> [] \<Longrightarrow> unique_in_order (map lower icao24s) \<noteq> []" by (auto simp: batch_allowed_def)
  ultimately show ?thesis
    using assms(1)
    by (cases "?allowed = []")
      (simp_all add: get_flight_trails_batch_def Let_def rbind_def batch_allowed_def[symmetric] batch_rows_def[symmetric])
qed


section \<open>Scope\<close>

text \<open>What a caller may be shown: an unattributed or shared thing, or one of the own region.\<close>

definition may_see :: "Scope \<Rightarrow> CustomerRegion option \<Rightarrow> bool" where
  "may_see scope region \<longleftrightarrow> scp_region scope = AllRegions \<or> region \<in> {None, Some AllRegions, Some (scp_region scope)}"

lemma parse_region_str [simp]: "parse_region (region_str r) = Some r"
  by (cases r) (simp_all add: parse_region_def)

lemma parse_region_Some: "parse_region s = Some r \<longleftrightarrow> s = region_str r"
  by (cases r) (auto simp: parse_region_def)

lemma effective_region_cases:
  "effective_region scope region = Inr e \<Longrightarrow> scp_region scope = AllRegions \<or> e = scp_region scope"
  by (auto simp: effective_region_def split: option.splits if_splits)

lemma position_model_region:
  "position_model now r = Inr p \<Longrightarrow> pos_customer_region p = Option.bind (cp_customer_region r) parse_region"
  by (auto simp: position_model_def split: option.splits if_splits)

lemma live_row_visible:
  assumes "live_row e bbox t r" "position_model now r = Inr p" "scp_region scope = AllRegions \<or> e = scp_region scope"
  shows "may_see scope (pos_customer_region p)"
  using assms position_model_region[OF assms(2)] by (auto simp: live_row_def may_see_def)

lemma live_items:
  assumes "list_live_positions db_now now table scope bbox region = Inr resp" "p \<in> set (plr_items resp)"
  obtains e r where "effective_region scope region = Inr e" "r \<in> set (dvalues table)" "live_row e bbox db_now r"
    "position_model now r = Inr p"
proof -
  obtain e where e: "effective_region scope region = Inr e"
      and m: "rmap (position_model now) (take LIVE_POSITION_CEILING (newest_first (filter (live_row e bbox db_now) (dvalues table)))) = Inr (plr_items resp)"
    using assms(1) unfolding list_live_positions_def rbind_Inr clipped_eq by (auto simp: rbind_Inr)
  obtain r where r: "r \<in> set (take LIVE_POSITION_CEILING (newest_first (filter (live_row e bbox db_now) (dvalues table))))"
      "position_model now r = Inr p" using rmap_mem[OF m assms(2)] .
  then have "r \<in> set (dvalues table)" "live_row e bbox db_now r" by (auto simp: newest_first_def dest!: in_set_takeD)
  then show ?thesis using that e r by blast
qed


end
