(* ===== verification/OpenSky.thy ===== *)
theory OpenSky
  imports PyJson
begin

text \<open>
  resources/opensky.py: the OAuth token cache, the GET with one retry, the refresh after a rejected token,
  and the two parsers. The HTTP endpoints and the clock are the parameter \<open>os_api\<close>: an answer is None
  for a network error. A Python exception that is not one of the module's errors is \<open>Uncaught\<close>. The
  fixed query parameters of the bounding box and the waits between attempts are not modelled.
\<close>

section \<open>Errors, answers, state\<close>

datatype opensky_error =
    OpenSkyError
  | OpenSkyAuthError
  | OpenSkyRateLimited
  | OpenSkyServerError
  | OpenSkyParseError
  | Uncaught exn

record HttpResponse =
  rs_status :: nat
  rs_json :: "json option"
  rs_headers :: "(string, string) dict"

record 'w os_api =
  os_clock :: "'w \<Rightarrow> real"
  os_token :: "'w \<Rightarrow> HttpResponse option \<times> 'w"
  os_get :: "string \<Rightarrow> string \<Rightarrow> (string \<times> string) list \<Rightarrow> 'w \<Rightarrow> HttpResponse option \<times> 'w"
  os_repr :: "json \<Rightarrow> string"

record OpenSkyResource =
  os_cached_token :: "string option"
  os_cached_token_expires_at :: real

type_synonym ('w, 'a) os = "OpenSkyResource \<times> 'w \<Rightarrow> (opensky_error + 'a) \<times> (OpenSkyResource \<times> 'w)"

definition os_bind :: "('w, 'a) os \<Rightarrow> ('a \<Rightarrow> ('w, 'b) os) \<Rightarrow> ('w, 'b) os" where
  "os_bind m f = (\<lambda>s. case m s of (Inl e, s') \<Rightarrow> (Inl e, s') | (Inr a, s') \<Rightarrow> f a s')"

definition TOKEN_REFRESH_LEEWAY_SECONDS :: real where
  "TOKEN_REFRESH_LEEWAY_SECONDS = 60"

record OpenSkyState =
  oss_icao24 :: string
  oss_callsign :: "string option"
  oss_origin_country :: string
  oss_time_position :: "int option"
  oss_last_contact :: int
  oss_lon :: "real option"
  oss_lat :: "real option"
  oss_baro_altitude_m :: "real option"
  oss_on_ground :: bool
  oss_velocity_ms :: "real option"
  oss_true_track_deg :: "real option"
  oss_vertical_rate_ms :: "real option"
  oss_geo_altitude_m :: "real option"
  oss_squawk :: "string option"
  oss_spi :: bool
  oss_position_source :: int

record OpenSkyResponse =
  or_api_time :: int
  or_states :: "OpenSkyState list"
  or_credits_used :: int
  or_rate_limit_remaining :: "int option"
  or_http_status :: nat

record OpenSkyFlight =
  of_icao24 :: string
  of_first_seen :: int
  of_last_seen :: int
  of_callsign :: "string option"
  of_est_departure_airport :: "string option"
  of_est_arrival_airport :: "string option"
  of_departure_airport_candidates_count :: int
  of_arrival_airport_candidates_count :: int

section \<open>Token\<close>

definition fetch_token :: "'w os_api \<Rightarrow> ('w, string \<times> real) os" where
  "fetch_token api = (\<lambda>(res, w).
     case os_token api w of
       (None, w') \<Rightarrow> (Inl OpenSkyServerError, (res, w'))
     | (Some r, w') \<Rightarrow>
         (if rs_status r \<in> {400, 401, 403} then Inl OpenSkyAuthError
          else if rs_status r \<noteq> 200 then Inl OpenSkyServerError
          else case rs_json r of
                 None \<Rightarrow> Inl OpenSkyParseError
               | Some (JObj payload) \<Rightarrow>
                   (case nonempty_str (obj_get payload ''access_token'') of
                      None \<Rightarrow> Inl OpenSkyParseError
                    | Some access_token \<Rightarrow>
                        (case float_if_number (obj_get payload ''expires_in'') of
                           None \<Rightarrow> Inl OpenSkyParseError
                         | Some expires_in \<Rightarrow>
                             if expires_in \<le> 0 then Inl OpenSkyParseError else Inr (access_token, expires_in)))
               | Some _ \<Rightarrow> Inl (Uncaught (OtherError ''AttributeError'')),
          (res, w')))"

definition get_token :: "'w os_api \<Rightarrow> ('w, string) os" where
  "get_token api = (\<lambda>(res, w).
     let now = os_clock api w
     in case os_cached_token res of
          Some t \<Rightarrow>
            if now < os_cached_token_expires_at res then (Inr t, (res, w))
            else os_bind (fetch_token api) (\<lambda>(token, expires_in) (res', w').
                   (Inr token, (\<lparr>os_cached_token = Some token,
                      os_cached_token_expires_at = now + max 0 (expires_in - TOKEN_REFRESH_LEEWAY_SECONDS)\<rparr>, w'))) (res, w)
        | None \<Rightarrow>
            os_bind (fetch_token api) (\<lambda>(token, expires_in) (res', w').
                   (Inr token, (\<lparr>os_cached_token = Some token,
                      os_cached_token_expires_at = now + max 0 (expires_in - TOKEN_REFRESH_LEEWAY_SECONDS)\<rparr>, w'))) (res, w))"

section \<open>GET\<close>

text \<open>The attempts that are left, the current one included.\<close>

primrec get_attempts ::
  "nat \<Rightarrow> 'w os_api \<Rightarrow> string \<Rightarrow> string \<Rightarrow> (string \<times> string) list \<Rightarrow> bool \<Rightarrow> ('w, HttpResponse) os" where
  "get_attempts 0 api token url params not_found_ok = (\<lambda>s. (Inl OpenSkyServerError, s))"
| "get_attempts (Suc n) api token url params not_found_ok = (\<lambda>(res, w).
     case os_get api token url params w of
       (None, w') \<Rightarrow>
         if n = 0 then (Inl OpenSkyServerError, (res, w'))
         else get_attempts n api token url params not_found_ok (res, w')
     | (Some r, w') \<Rightarrow>
         let status = rs_status r
         in if status \<in> {401, 403} then (Inl OpenSkyAuthError, (res, w'))
            else if status = 429 then (Inl OpenSkyRateLimited, (res, w'))
            else if 500 \<le> status \<and> status < 600 then
              (if n = 0 then (Inl OpenSkyServerError, (res, w'))
               else get_attempts n api token url params not_found_ok (res, w'))
            else if status = 200 then (Inr r, (res, w'))
            else if status = 404 \<and> not_found_ok then (Inr r, (res, w'))
            else (Inl OpenSkyError, (res, w')))"

definition get_with_retry ::
  "'w os_api \<Rightarrow> string \<Rightarrow> (string \<times> string) list \<Rightarrow> bool \<Rightarrow> ('w, HttpResponse) os" where
  "get_with_retry api url params not_found_ok =
     os_bind (get_token api) (\<lambda>token. get_attempts 2 api token url params not_found_ok)"

text \<open>A rejected token is dropped and the request made once more.\<close>

definition get_authorized ::
  "'w os_api \<Rightarrow> string \<Rightarrow> (string \<times> string) list \<Rightarrow> bool \<Rightarrow> ('w, HttpResponse) os" where
  "get_authorized api url params not_found_ok = (\<lambda>s.
     case get_with_retry api url params not_found_ok s of
       (Inl OpenSkyAuthError, (res, w)) \<Rightarrow>
         get_with_retry api url params not_found_ok
           (\<lparr>os_cached_token = None, os_cached_token_expires_at = 0\<rparr>, w)
     | r \<Rightarrow> r)"

section \<open>Parsing\<close>

definition state_callsign :: "json \<Rightarrow> string option" where
  "state_callsign v = (case v of JStr s \<Rightarrow> if strip s = [] then None else Some (strip s) | _ \<Rightarrow> None)"

text \<open>The row has at least 17 columns and a non-empty text in the first.\<close>

definition row_to_state :: "(json \<Rightarrow> string) \<Rightarrow> json list \<Rightarrow> exn + OpenSkyState" where
  "row_to_state repr row =
     rbind (if row ! 16 = JNull then Inr 0 else json_int (row ! 16)) (\<lambda>position_source.
     rbind (optional json_int (row ! 3)) (\<lambda>time_position.
     rbind (json_int (row ! 4)) (\<lambda>last_contact.
     rbind (optional json_float (row ! 5)) (\<lambda>lon.
     rbind (optional json_float (row ! 6)) (\<lambda>lat.
     rbind (optional json_float (row ! 7)) (\<lambda>baro_altitude_m.
     rbind (optional json_float (row ! 9)) (\<lambda>velocity_ms.
     rbind (optional json_float (row ! 10)) (\<lambda>true_track_deg.
     rbind (optional json_float (row ! 11)) (\<lambda>vertical_rate_ms.
     rbind (optional json_float (row ! 13)) (\<lambda>geo_altitude_m.
       Inr \<lparr>oss_icao24 = (case row ! 0 of JStr s \<Rightarrow> lower s | _ \<Rightarrow> []),
            oss_callsign = state_callsign (row ! 1),
            oss_origin_country = (case row ! 2 of JNull \<Rightarrow> [] | JStr s \<Rightarrow> s | v \<Rightarrow> repr v),
            oss_time_position = time_position, oss_last_contact = last_contact, oss_lon = lon, oss_lat = lat,
            oss_baro_altitude_m = baro_altitude_m, oss_on_ground = truthy (row ! 8),
            oss_velocity_ms = velocity_ms, oss_true_track_deg = true_track_deg,
            oss_vertical_rate_ms = vertical_rate_ms, oss_geo_altitude_m = geo_altitude_m,
            oss_squawk = nonempty_str (row ! 14), oss_spi = truthy (row ! 15),
            oss_position_source = position_source\<rparr>))))))))))"

definition state_rows :: "json list \<Rightarrow> json list list" where
  "state_rows raw_states =
     List.map_filter (\<lambda>row. case row of
         JList cols \<Rightarrow> if 17 \<le> length cols \<and> nonempty_str (cols ! 0) \<noteq> None then Some cols else None
       | _ \<Rightarrow> None) raw_states"

definition rate_limit_remaining :: "HttpResponse \<Rightarrow> exn + int option" where
  "rate_limit_remaining r =
     (case dget (rs_headers r) ''X-Rate-Limit-Remaining'' of
        None \<Rightarrow> Inr None
      | Some h \<Rightarrow>
          if py_isdigit (dropWhile (\<lambda>c. c = CHR ''-'') h)
          then (case py_int h of None \<Rightarrow> Inl PyValueError | Some i \<Rightarrow> Inr (Some i))
          else Inr None)"

definition uncaught :: "exn + 'a \<Rightarrow> opensky_error + 'a" where
  "uncaught r = (case r of Inl e \<Rightarrow> Inl (Uncaught e) | Inr a \<Rightarrow> Inr a)"

definition parse_response :: "(json \<Rightarrow> string) \<Rightarrow> HttpResponse \<Rightarrow> opensky_error + OpenSkyResponse" where
  "parse_response repr r =
     (case rs_json r of
        Some (JObj payload) \<Rightarrow>
          (case dget payload ''time'' of
             None \<Rightarrow> Inl OpenSkyParseError
           | Some t \<Rightarrow>
               (case json_int t of
                  Inl _ \<Rightarrow> Inl OpenSkyParseError
                | Inr api_time \<Rightarrow>
                    (let v = obj_get payload ''states''
                     in case (if truthy v then v else JList []) of
                          JList raw_states \<Rightarrow>
                            rbind (uncaught (rmap (row_to_state repr) (state_rows raw_states))) (\<lambda>states.
                            rbind (uncaught (rate_limit_remaining r)) (\<lambda>remaining.
                              Inr \<lparr>or_api_time = api_time, or_states = states, or_credits_used = 4,
                                   or_rate_limit_remaining = remaining, or_http_status = rs_status r\<rparr>))
                        | _ \<Rightarrow> Inl OpenSkyParseError)))
      | _ \<Rightarrow> Inl OpenSkyParseError)"

definition parse_flight :: "json \<Rightarrow> OpenSkyFlight option" where
  "parse_flight v =
     (case v of
        JObj row \<Rightarrow>
          (case (nonempty_str (obj_get row ''icao24''), int_if_number (obj_get row ''firstSeen''),
                 int_if_number (obj_get row ''lastSeen'')) of
             (Some icao24, Some first_seen, Some last_seen) \<Rightarrow>
               (let count = (\<lambda>k. case int_if_number (obj_get row k) of None \<Rightarrow> 0 | Some n \<Rightarrow> n)
                in Some \<lparr>of_icao24 = lower icao24, of_first_seen = first_seen, of_last_seen = last_seen,
                        of_callsign = state_callsign (obj_get row ''callsign''),
                        of_est_departure_airport = nonempty_str (obj_get row ''estDepartureAirport''),
                        of_est_arrival_airport = nonempty_str (obj_get row ''estArrivalAirport''),
                        of_departure_airport_candidates_count = count ''departureAirportCandidatesCount'',
                        of_arrival_airport_candidates_count = count ''arrivalAirportCandidatesCount''\<rparr>)
           | _ \<Rightarrow> None)
      | _ \<Rightarrow> None)"

definition parse_flights_response :: "HttpResponse \<Rightarrow> opensky_error + OpenSkyFlight list" where
  "parse_flights_response r =
     (case rs_json r of
        Some (JList payload) \<Rightarrow> Inr (List.map_filter parse_flight payload)
      | _ \<Rightarrow> Inl OpenSkyParseError)"

section \<open>The two calls\<close>

definition fetch_states :: "'w os_api \<Rightarrow> ('w, OpenSkyResponse) os" where
  "fetch_states api =
     os_bind (get_authorized api ''/states/all'' [(''lamin'', ''24.0''), (''lomin'', ''-125.0''), (''lamax'', ''49.0''), (''lomax'', ''-66.0'')] False)
       (\<lambda>r s. (parse_response (os_repr api) r, s))"

definition fetch_flight_history :: "'w os_api \<Rightarrow> string \<Rightarrow> int \<Rightarrow> int \<Rightarrow> ('w, OpenSkyFlight list) os" where
  "fetch_flight_history api icao24 begin_s end_s =
     os_bind (get_authorized api ''/flights/aircraft''
         [(''icao24'', lower icao24), (''begin'', show_int begin_s), (''end'', show_int end_s)] True)
       (\<lambda>r s. if rs_status r = 404 then (Inr [], s) else (parse_flights_response r, s))"

end
