(* ===== verification/Ingestion.thy ===== *)
theory Ingestion
  imports OpenSky PositionsTable Geo FlightId
begin

text \<open>
  assets/ingestion.py, opensky_positions: the denylist, the conversion of a poll's states to rows (units,
  region), the registry lookup and the asset itself, over the OpenSky client, the lake and the
  positions table. Floats are reals; \<open>round\<close> is to the nearest integer, ties to even.
\<close>

definition METERS_TO_FEET :: real where "METERS_TO_FEET = 3280839895 / 10 ^ 9"
definition MPS_TO_KNOTS :: real where "MPS_TO_KNOTS = 1943844492 / 10 ^ 9"
definition MPS_TO_FPM :: real where "MPS_TO_FPM = 196850393701 / 10 ^ 9"

definition HEX_CHARS :: string where
  "HEX_CHARS = ''0123456789abcdef''"

section \<open>Denylist\<close>

text \<open>The prefixes of the file's lines, up to a comment sign; a line that is not lowercase hex raises.\<close>

primrec load_denylist_prefixes :: "string list \<Rightarrow> exn + string list" where
  "load_denylist_prefixes [] = Inr []"
| "load_denylist_prefixes (raw_line # raw_lines) =
     (let line = strip (takeWhile (\<lambda>c. c \<noteq> CHR ''#'') raw_line)
      in if line = [] then load_denylist_prefixes raw_lines
         else if \<not> list_all (\<lambda>c. c \<in> set HEX_CHARS) line then Inl PyValueError
         else if line \<noteq> lower line then Inl PyValueError
         else rbind (load_denylist_prefixes raw_lines) (\<lambda>prefixes. Inr (line # prefixes)))"

definition is_denied :: "string \<Rightarrow> string list \<Rightarrow> bool" where
  "is_denied icao24 prefixes = list_ex (\<lambda>prefix. starts_with icao24 prefix) prefixes"

section \<open>Rows\<close>

definition denormalize_region :: "string list option \<Rightarrow> string option" where
  "denormalize_region customer_regions =
     (case customer_regions of
        None \<Rightarrow> None
      | Some [] \<Rightarrow> None
      | Some [r] \<Rightarrow> Some r
      | Some _ \<Rightarrow> Some ''all'')"

definition to_unit :: "real \<Rightarrow> real option \<Rightarrow> int option" where
  "to_unit factor v = map_option (\<lambda>x. round_half_even (x * factor)) v"

definition ts_position_of :: "int \<Rightarrow> exn + instant option" where
  "ts_position_of last_contact =
     (if last_contact = 0 then Inr None
      else case fromtimestamp last_contact of
             Inl ValueError \<Rightarrow> Inl PyValueError
           | Inl PlatformRangeError \<Rightarrow> Inl (OtherError ''OverflowError'')
           | Inr t \<Rightarrow> Inr (Some t))"

definition state_to_row :: "instant \<Rightarrow> OpenSkyState \<Rightarrow> string list option \<Rightarrow> exn + PositionRow" where
  "state_to_row polled_at state region =
     rbind (ts_position_of (oss_last_contact state)) (\<lambda>ts_position.
       Inr \<lparr>pr_icao24 = oss_icao24 state, pr_callsign = oss_callsign state,
            pr_origin_country = Some (oss_origin_country state), pr_lat = oss_lat state, pr_lon = oss_lon state,
            pr_altitude_ft = to_unit METERS_TO_FEET (oss_baro_altitude_m state),
            pr_speed_kt = to_unit MPS_TO_KNOTS (oss_velocity_ms state),
            pr_heading_deg = to_unit 1 (oss_true_track_deg state),
            pr_vertical_rate_fpm = to_unit MPS_TO_FPM (oss_vertical_rate_ms state),
            pr_on_ground = oss_on_ground state, pr_squawk = oss_squawk state,
            pr_ts_polled = polled_at, pr_ts_position = ts_position,
            pr_customer_region = denormalize_region region\<rparr>)"

definition convert_states_to_rows ::
  "WatchedAirport list \<Rightarrow> OpenSkyState list \<Rightarrow> instant \<Rightarrow> exn + PositionRow list" where
  "convert_states_to_rows airports states polled_at =
     (case infer_regions airports (map oss_lat states) (map oss_lon states) of
        Inl e \<Rightarrow> Inl (OtherError e)
      | Inr regions \<Rightarrow>
          rmap (\<lambda>(state, region). state_to_row polled_at state region)
            (filter (\<lambda>(state, region). oss_lat state \<noteq> None \<and> oss_lon state \<noteq> None) (zip states regions)))"

definition fetch_aircraft_types :: "(string \<times> string option) list \<Rightarrow> string list \<Rightarrow> (string, string) dict" where
  "fetch_aircraft_types registry icao24s =
     List.map_filter (\<lambda>(icao24, type_code). if icao24 \<in> set icao24s then map_option (Pair icao24) type_code else None) registry"

section \<open>The asset\<close>

record 'w IngestState =
  is_sky :: "OpenSkyResource \<times> 'w"
  is_lake :: Lake
  is_positions :: positions_table

record IngestResult =
  ir_aircraft_count :: nat
  ir_raw_state_count :: nat
  ir_filtered_denylist :: nat
  ir_filtered_no_coords :: nat
  ir_postgres_rows_upserted :: nat
  ir_aircraft_type_resolved :: nat
  ir_opensky_credits_used :: int
  ir_pipeline_lag_seconds :: int
  ir_skipped :: bool

definition skipped_result :: IngestResult where
  "skipped_result = \<lparr>ir_aircraft_count = 0, ir_raw_state_count = 0, ir_filtered_denylist = 0, ir_filtered_no_coords = 0,
     ir_postgres_rows_upserted = 0, ir_aircraft_type_resolved = 0, ir_opensky_credits_used = 0,
     ir_pipeline_lag_seconds = 0, ir_skipped = True\<rparr>"

text \<open>The lake and then the table; a failure of either leaves what was written before it.\<close>

definition store_rows ::
  "(string \<times> string option) list \<Rightarrow> instant \<Rightarrow> PositionRow list \<Rightarrow> ('w IngestState, nat \<times> nat) io" where
  "store_rows registry polled_at rows = (\<lambda>st.
     case (if rows = [] then (Inr None, is_lake st)
           else (case write_positions_snapshot rows polled_at (is_lake st) of
                   (Inl e, lake) \<Rightarrow> (Inl e, lake)
                 | (Inr path, lake) \<Rightarrow> (Inr (Some path), lake))) of
       (Inl e, lake) \<Rightarrow> (Inl e, st\<lparr>is_lake := lake\<rparr>)
     | (Inr _, lake) \<Rightarrow>
         let types = fetch_aircraft_types registry (map pr_icao24 rows)
         in case upsert_current_positions polled_at rows types (is_positions st) of
              (Inl e, t) \<Rightarrow> (Inl e, st\<lparr>is_lake := lake, is_positions := t\<rparr>)
            | (Inr n, t) \<Rightarrow> (Inr (n, length types), st\<lparr>is_lake := lake, is_positions := t\<rparr>))"

definition opensky_positions ::
  "'w os_api \<Rightarrow> (exn + string list) \<Rightarrow> WatchedAirport list \<Rightarrow> (string \<times> string option) list \<Rightarrow> instant \<Rightarrow>
     'w IngestState \<Rightarrow> (opensky_error + IngestResult) \<times> 'w IngestState" where
  "opensky_positions api denylist airports registry polled_at = (\<lambda>st.
     case denylist of
       Inl e \<Rightarrow> (Inl (Uncaught e), st)
     | Inr prefixes \<Rightarrow>
         (case fetch_states api (is_sky st) of
            (Inl OpenSkyAuthError, sky) \<Rightarrow> (Inl OpenSkyAuthError, st\<lparr>is_sky := sky\<rparr>)
          | (Inl (Uncaught e), sky) \<Rightarrow> (Inl (Uncaught e), st\<lparr>is_sky := sky\<rparr>)
          | (Inl _, sky) \<Rightarrow> (Inr skipped_result, st\<lparr>is_sky := sky\<rparr>)
          | (Inr response, sky) \<Rightarrow>
              let st1 = st\<lparr>is_sky := sky\<rparr>;
                  denied_states = filter (\<lambda>s. is_denied (oss_icao24 s) prefixes) (or_states response);
                  kept_states = filter (\<lambda>s. \<not> is_denied (oss_icao24 s) prefixes) (or_states response)
              in case convert_states_to_rows airports kept_states polled_at of
                   Inl e \<Rightarrow> (Inl (Uncaught e), st1)
                 | Inr rows \<Rightarrow>
                     (case store_rows registry polled_at rows st1 of
                        (Inl e, st2) \<Rightarrow> (Inl (Uncaught e), st2)
                      | (Inr (upserted, resolved), st2) \<Rightarrow>
                          (Inr \<lparr>ir_aircraft_count = length rows, ir_raw_state_count = length (or_states response),
                                ir_filtered_denylist = length denied_states,
                                ir_filtered_no_coords = length kept_states - length rows,
                                ir_postgres_rows_upserted = upserted, ir_aircraft_type_resolved = resolved,
                                ir_opensky_credits_used = or_credits_used response,
                                ir_pipeline_lag_seconds = max 0 (unix_seconds polled_at - or_api_time response),
                                ir_skipped = False\<rparr>, st2))))"

section \<open>Rows of a poll\<close>

lemma lower_nonempty [simp]: "lower s = [] \<longleftrightarrow> s = []"
  by (simp add: lower_def)

lemma row_to_state_names: "row_to_state repr row = Inr st \<Longrightarrow> oss_icao24 st = (case row ! 0 of JStr s \<Rightarrow> lower s | _ \<Rightarrow> [])"
  unfolding row_to_state_def rbind_Inr by (elim exE conjE) (simp only: sum.inject, hypsubst, simp only: OpenSkyState.simps)

lemma row_to_state_icao:
  assumes "row_to_state repr row = Inr st" "nonempty_str (row ! 0) \<noteq> None"
  shows "oss_icao24 st \<noteq> []"
  using assms(2) row_to_state_names[OF assms(1)] by (auto simp: nonempty_str_def split: json.splits if_splits)

lemma parse_response_named:
  assumes "parse_response repr r = Inr resp" "st \<in> set (or_states resp)"
  shows "oss_icao24 st \<noteq> []"
proof -
  obtain raw where "rmap (row_to_state repr) (state_rows raw) = Inr (or_states resp)"
    using assms(1) by (auto simp: parse_response_def rbind_Inr uncaught_def Let_def split: option.splits json.splits sum.splits)
  then obtain row where row: "row \<in> set (state_rows raw)" "row_to_state repr row = Inr st"
    using rmap_mem assms(2) by metis
  have "nonempty_str (row ! 0) \<noteq> None"
    using row(1) unfolding state_rows_def map_filter_in_set
    by clarify (case_tac x; auto split: if_splits)
  then show ?thesis using row_to_state_icao row(2) by blast
qed

lemma fetch_states_parsed:
  assumes "fetch_states api sky = (Inr resp, sky')"
  obtains r where "parse_response (os_repr api) r = Inr resp"
  using assms that by (auto simp: fetch_states_def os_bind_def split: prod.splits sum.splits)

lemma convert_rows:
  assumes "convert_states_to_rows airports states polled_at = Inr rows" "row \<in> set rows"
  obtains st region where "st \<in> set states" "oss_lat st \<noteq> None" "oss_lon st \<noteq> None" "state_to_row polled_at st region = Inr row"
proof -
  obtain regions where r: "rmap (\<lambda>(state, region). state_to_row polled_at state region)
      (filter (\<lambda>(state, region). oss_lat state \<noteq> None \<and> oss_lon state \<noteq> None) (zip states regions)) = Inr rows"
    using assms(1) by (auto simp: convert_states_to_rows_def split: sum.splits)
  from rmap_mem[OF r assms(2)] obtain state region where
    "(state, region) \<in> set (filter (\<lambda>(state, region). oss_lat state \<noteq> None \<and> oss_lon state \<noteq> None) (zip states regions))"
    "state_to_row polled_at state region = Inr row" by (metis (no_types, lifting) case_prod_conv surj_pair)
  then show ?thesis using that[of state region] by (auto dest: set_zip_leftD)
qed

text \<open>What a poll writes: every row names its aircraft, has coordinates and is stamped with the poll.\<close>

definition named_row :: "PositionRow \<Rightarrow> bool" where
  "named_row r \<longleftrightarrow> pr_icao24 r \<noteq> [] \<and> pr_lat r \<noteq> None \<and> pr_lon r \<noteq> None"

lemma converted_named:
  assumes "\<And>st. st \<in> set states \<Longrightarrow> oss_icao24 st \<noteq> []" "convert_states_to_rows airports states polled_at = Inr rows" "row \<in> set rows"
  shows "named_row row \<and> pr_ts_polled row = polled_at"
proof -
  obtain st region where "st \<in> set states" "oss_lat st \<noteq> None" "oss_lon st \<noteq> None" "state_to_row polled_at st region = Inr row"
    using convert_rows[OF assms(2,3)] .
  then show ?thesis using assms(1) by (auto simp: state_to_row_def rbind_Inr named_row_def)
qed

end
