(* ===== verification/QueryEdges.thy ===== *)
theory QueryEdges
  imports QueryProps Ingestion
begin

text \<open>
  Where the reads of the API meet the jobs that write what they read: the retention delete is invisible
  to them, and two places where writer and reader disagree.
\<close>

section \<open>Retention\<close>

lemma dget_filter:
  "wf_dict t \<Longrightarrow> dget (filter (\<lambda>(k, r). P r) t) k =
     (case dget t k of None \<Rightarrow> None | Some r \<Rightarrow> if P r then Some r else None)"
proof (induction t)
  case (Cons e t)
  obtain k' r where e: "e = (k', r)" by (cases e)
  have "dget t k' = None" using Cons.prems e by (simp add: wf_dict_def dget_None_iff)
  then show ?case using Cons e by (auto simp: wf_dict_def split: option.splits)
qed simp

lemma pruned_values:
  assumes "\<And>r. P r \<Longrightarrow> \<not> cp_last_seen_at r < prune_now - POSITION_RETENTION"
  shows "filter P (dvalues (snd (prune_stale_positions prune_now table))) = filter P (dvalues table)"
  using assms by (induction table) (auto simp: prune_stale_positions_def)

lemma pruned_dget:
  "wf_dict table \<Longrightarrow> dget (snd (prune_stale_positions prune_now table)) k =
     (case dget table k of None \<Rightarrow> None
      | Some r \<Rightarrow> if cp_last_seen_at r < prune_now - POSITION_RETENTION then None else Some r)"
  using dget_filter[of table "\<lambda>r. \<not> cp_last_seen_at r < prune_now - POSITION_RETENTION" k]
  by (simp add: prune_stale_positions_def split: option.splits)

lemma pruned_flow:
  "prune_now \<le> db_now \<Longrightarrow>
   filter (\<lambda>r. D r = Some i \<and> db_now - minutes 60 \<le> cp_last_seen_at r) (dvalues (snd (prune_stale_positions prune_now table))) =
   filter (\<lambda>r. D r = Some i \<and> db_now - minutes 60 \<le> cp_last_seen_at r) (dvalues table)"
  by (rule pruned_values) (simp add: POSITION_RETENTION_def hours_def minutes_def)

lemma pruned_flow_reads:
  "prune_now \<le> db_now \<Longrightarrow> list_flow db_now (snd (prune_stale_positions prune_now table)) scope i D = list_flow db_now table scope i D"
  "prune_now \<le> db_now \<Longrightarrow> count_flights db_now (snd (prune_stale_positions prune_now table)) D i = count_flights db_now table D i"
  by (simp_all add: list_flow_def count_flights_def Let_def pruned_flow)

lemma pruned_live:
  "prune_now \<le> db_now \<Longrightarrow>
   filter (live_row e bbox db_now) (dvalues (snd (prune_stale_positions prune_now table))) = filter (live_row e bbox db_now) (dvalues table)"
  by (rule pruned_values) (auto simp: live_row_def LIVE_POSITION_WINDOW_def POSITION_RETENTION_def hours_def minutes_def)


section \<open>Shared traffic and the live map\<close>

text \<open>C34. The live map hides shared traffic: an aircraft near an airport that serves both regions is tagged
  'all', every caller may open it, and yet no regional caller finds it on the live map, whatever the
  filters.\<close>

theorem live_map_hides_shared:
  assumes "scp_region scope \<noteq> AllRegions" "list_live_positions db_now now table scope bbox region = Inr resp"
  shows "check_flight_scope scope (denormalize_region (Some [''west'', ''east''])) = Inr () \<and>
    Some AllRegions \<notin> pos_customer_region ` set (plr_items resp)"
proof -
  have "pos_customer_region p \<noteq> Some AllRegions" if "p \<in> set (plr_items resp)" for p
  proof -
    from live_items[OF assms(2) that] obtain e r where e: "effective_region scope region = Inr e"
      and r: "live_row e bbox db_now r" "position_model now r = Inr p" .
    have "e = scp_region scope" using effective_region_cases[OF e] assms(1) by blast
    then show ?thesis using r(1) assms(1) position_model_region[OF r(2)]
      by (auto simp: live_row_def)
  qed
  then have "Some AllRegions \<notin> pos_customer_region ` set (plr_items resp)" by fastforce
  then show ?thesis by (simp add: denormalize_region_def check_flight_scope_def parse_region_def)
qed

section \<open>Sites without a category\<close>

text \<open>A site whose report has a text but neither a counting cloud layer nor a readable visibility is stored
  without a flight category, and from then on the site cannot be read at all: the response model demands
  a category and refuses the row.\<close>

theorem unclassified_site_fails:
  assumes "nm_raw_text report \<noteq> None" "\<forall>layer \<in> set (nm_clouds report). layer_base layer = None" "nm_visibility_sm report = None"
    "nm_raw_text report \<noteq> Some []" "nm_icao report = upper icao" "includes_site scope (upper icao)"
    "\<exists>a \<in> set airports. ap_icao a = upper icao \<and> ap_is_watched a"
  shows "get_site db_now table airports (upsert_condition t conditions (condition_row tafs t report)) scope icao = Inl InvalidModel"
proof -
  let ?row = "condition_row tafs t report"
  have none: "List.map_filter layer_base (nm_clouds report) = []"
    using assms(2) by (induction "nm_clouds report") (auto simp: map_filter_def filter_empty_conv)
  then have "extract_ceiling_ft (nm_clouds report) = None" by (simp add: extract_ceiling_ft_def lowest_layer_spec)
  then have cat: "cw_flight_category ?row = None" "cw_metar_raw ?row = nm_raw_text report" "cw_site_icao ?row = upper icao"
    using assms(3,5) by (simp_all add: condition_row_def Let_def compute_flight_category_def)
  have stored: "\<exists>w. dget (upsert_condition t conditions ?row) (upper icao) = Some w \<and> cw_flight_category w = None \<and> cw_metar_raw w = nm_raw_text report"
    using cat by (auto simp: upsert_condition_def split: option.split)
  obtain s where "nm_raw_text report = Some s" "s \<noteq> []" using assms(1,4) by auto
  then have weather: "site_weather (dget (upsert_condition t conditions ?row) (upper icao)) = Inl InvalidModel"
    using stored by (auto simp: site_weather_def opt_str_def parse_category_def)
  obtain a as where a: "filter (\<lambda>a. ap_icao a = upper icao \<and> ap_is_watched a) airports = a # as"
    using assms(7) by (cases "filter (\<lambda>a. ap_icao a = upper icao \<and> ap_is_watched a) airports") (auto simp: filter_empty_conv)
  have "a \<in> set (filter (\<lambda>a. ap_icao a = upper icao \<and> ap_is_watched a) airports)" unfolding a by simp
  then have "ap_icao a = upper icao" by simp
  then show ?thesis using a weather assms(6) by (simp add: get_site_def Let_def rbind_def)
qed

section \<open>Worked reads\<close>

definition seen :: "string \<Rightarrow> CustomerRegion option \<Rightarrow> instant \<Rightarrow> CurrentPosition" where
  "seen icao24 region t =
     \<lparr>cp_icao24 = icao24, cp_callsign = None, cp_lat = Some 47, cp_lon = Some (- 122), cp_altitude_ft = Some 9000,
      cp_speed_kt = None, cp_heading_deg = None, cp_vertical_rate_fpm = None, cp_on_ground = False, cp_squawk = None,
      cp_customer_region = map_option region_str region, cp_last_seen_at = t, cp_aircraft_type = None,
      cp_origin_icao = None, cp_destination_icao = Some ''KSEA'', cp_updated_at = t\<rparr>"

text \<open>A fleet with an aircraft of each kind, and one that the retention removes.\<close>

definition fleet :: positions_table where
  "fleet = [(''aa'', seen ''aa'' (Some West) (hours 5)), (''bb'', seen ''bb'' (Some AllRegions) (hours 5)),
            (''cc'', seen ''cc'' (Some East) (hours 5)), (''dd'', seen ''dd'' None 0)]"

definition west_scope :: Scope where
  "west_scope = \<lparr>scp_region = West, scp_sites_in_scope = [''KSEA'']\<rparr>"

definition fleet_live :: PositionsLiveResponse where
  "fleet_live = \<lparr>plr_items = [projr (position_model (hours 5) (seen ''aa'' (Some West) (hours 5)))], plr_count = 1,
     plr_server_time = hours 5, plr_pipeline_lag_seconds = 0, plr_truncated = False\<rparr>"

lemma fleet_live: "list_live_positions (hours 5) (hours 5) fleet west_scope None None = Inr fleet_live"
  by (simp add: list_live_positions_def effective_region_def west_scope_def fleet_def seen_def live_row_def in_bbox_def
      clipped_def newest_first_def rbind_def position_model_def fleet_live_def hours_def minutes_def
      LIVE_POSITION_WINDOW_def LIVE_POSITION_CEILING_def unix_seconds_def parse_region_def)

lemma fleet_wf: "wf_dict fleet"
  by (simp add: fleet_def wf_dict_def)

lemma live_map_hides_shared_witness: "Some AllRegions \<notin> pos_customer_region ` set (plr_items fleet_live)"
  using live_map_hides_shared[OF _ fleet_live] by (simp add: west_scope_def)



definition polled :: "string \<Rightarrow> instant \<Rightarrow> PositionRow" where
  "polled icao24 t =
     \<lparr>pr_icao24 = icao24, pr_callsign = None, pr_origin_country = None, pr_lat = Some 47, pr_lon = Some (- 122),
      pr_altitude_ft = Some 9000, pr_speed_kt = None, pr_heading_deg = None, pr_vertical_rate_fpm = None,
      pr_on_ground = False, pr_squawk = None, pr_ts_polled = t, pr_ts_position = None, pr_customer_region = Some ''west''\<rparr>"

definition track_lake :: Lake where
  "track_lake = \<lparr>lk_positions = [(4, [(0, [polled ''cc'' (hours 4), polled ''aa'' (hours 4 + 1)])]), (5, [(1, [polled ''aa'' (hours 5)])])],
     lk_archive = [], lk_uuid = 2, lk_disk = []\<rparr>"

lemma track_read: "read_parquet track_lake = Inr [polled ''cc'' (hours 4), polled ''aa'' (hours 4 + 1), polled ''aa'' (hours 5)]"
  by (simp add: read_parquet_def track_lake_def rows_in_def dir_rows_def)


definition murky :: NoaaMetarReport where
  "murky = \<lparr>nm_icao = ''KSEA'', nm_raw_text = Some ''KSEA 1/2SM FG'', nm_observed_at = Some 0, nm_wind_kt = None, nm_wind_dir_deg = None,
     nm_visibility_sm = None, nm_temperature_c = None, nm_altimeter_in_hg = None, nm_clouds = [], nm_raw_json = JNull\<rparr>"

definition seattle :: AirportRow where
  "seattle = \<lparr>ap_icao = ''KSEA'', ap_iata = Some ''SEA'', ap_name = ''Seattle'', ap_city = None, ap_state = None, ap_lat = 47, ap_lon = - 122,
     ap_elevation_ft = None, ap_timezone = None, ap_is_watched = True, ap_customer_regions = [''west'']\<rparr>"

lemma unclassified_site_fails_witness:
  "get_site 0 fleet [seattle] (upsert_condition 0 [] (condition_row [] 0 murky)) west_scope ''ksea'' = Inl InvalidModel"
proof -
  have ksea: "upper ''ksea'' = ''KSEA''" by code_simp
  show ?thesis
    by (rule unclassified_site_fails) (simp_all add: ksea murky_def seattle_def west_scope_def includes_site_def)
qed

end
