(* ===== verification/FlightPlans.thy ===== *)
theory FlightPlans
  imports OpenSky PositionsTable FlightId "HOL-Library.Product_Lexorder"
begin

text \<open>
  assets/flight_plan_enrichment.py: the hourly cycle that caches origin, destination and times of the
  active aircraft in app.flight_plans. The OpenSky client is that of resources/opensky.py; the database
  clock NOW() is a function of the world, read at the selection and again at each upsert.
\<close>

section \<open>The table and the cycle\<close>

definition FETCH_WINDOW_SECONDS :: int where "FETCH_WINDOW_SECONDS = 6 * 3600"
definition CACHE_TTL_SECONDS :: int where "CACHE_TTL_SECONDS = 12 * 3600"
definition MAX_FETCHES_PER_CYCLE :: nat where "MAX_FETCHES_PER_CYCLE = 30"
definition ACTIVE_WINDOW_SECONDS :: int where "ACTIVE_WINDOW_SECONDS = 3600"

record CachedPlan =
  cpl_icao24 :: string
  cpl_origin_icao :: "string option"
  cpl_destination_icao :: "string option"
  cpl_callsign :: "string option"
  cpl_departure_time :: "instant option"
  cpl_arrival_time :: "instant option"
  cpl_refreshed_at :: instant
  cpl_fetch_status :: string

type_synonym flight_plans = "(string, CachedPlan) dict"

record PlanEnrichmentResult =
  per_candidates :: nat
  per_fetch_attempts :: nat
  per_fetched_success :: nat
  per_fetched_not_found :: nat
  per_fetched_error :: nat
  per_rate_limited :: bool
  per_deferred :: nat

text \<open>The WHERE and ORDER BY of the selection; the column is NOT NULL, so a NULL means no plan.\<close>

definition stale :: "instant \<Rightarrow> flight_plans \<Rightarrow> CurrentPosition \<Rightarrow> bool" where
  "stale now plans cp \<longleftrightarrow>
     now - seconds ACTIVE_WINDOW_SECONDS \<le> cp_last_seen_at cp \<and> cp_customer_region cp \<noteq> None \<and>
     (case dget plans (cp_icao24 cp) of
        None \<Rightarrow> True
      | Some p \<Rightarrow> cpl_refreshed_at p < now - seconds CACHE_TTL_SECONDS)"

definition refresh_order :: "flight_plans \<Rightarrow> string \<Rightarrow> bool \<times> int \<times> string" where
  "refresh_order plans icao24 =
     (case dget plans icao24 of None \<Rightarrow> (False, 0, icao24) | Some p \<Rightarrow> (True, cpl_refreshed_at p, icao24))"

definition select_stale_icao24s :: "instant \<Rightarrow> positions_table \<Rightarrow> flight_plans \<Rightarrow> string list" where
  "select_stale_icao24s now positions plans =
     sort_key (refresh_order plans) (map cp_icao24 (filter (stale now plans) (dvalues positions)))"

definition pick_most_recent :: "OpenSkyFlight list \<Rightarrow> OpenSkyFlight option" where
  "pick_most_recent flights = max_by of_last_seen flights"

definition plan_timestamp :: "int \<Rightarrow> exn + instant" where
  "plan_timestamp n =
     (case fromtimestamp n of
        Inl ValueError \<Rightarrow> Inl PyValueError
      | Inl PlatformRangeError \<Rightarrow> Inl (OtherError ''OverflowError'')
      | Inr t \<Rightarrow> Inr t)"

definition upsert_flight_plan ::
  "instant \<Rightarrow> string \<Rightarrow> OpenSkyFlight option \<Rightarrow> string \<Rightarrow> flight_plans \<Rightarrow> exn + flight_plans" where
  "upsert_flight_plan now icao24 flight fetch_status plans =
     rbind (case flight of None \<Rightarrow> Inr None | Some f \<Rightarrow> map_sum id Some (plan_timestamp (of_first_seen f))) (\<lambda>departure.
     rbind (case flight of None \<Rightarrow> Inr None | Some f \<Rightarrow> map_sum id Some (plan_timestamp (of_last_seen f))) (\<lambda>arrival.
       Inr (dset icao24
         \<lparr>cpl_icao24 = icao24, cpl_origin_icao = Option.bind flight of_est_departure_airport,
          cpl_destination_icao = Option.bind flight of_est_arrival_airport, cpl_callsign = Option.bind flight of_callsign,
          cpl_departure_time = departure, cpl_arrival_time = arrival, cpl_refreshed_at = now, cpl_fetch_status = fetch_status\<rparr>
         plans)))"

record 'w PlanState =
  pst_sky :: "OpenSkyResource \<times> 'w"
  pst_plans :: flight_plans

text \<open>One upsert of the loop body, with the counter that follows it; an exception of the timestamps leaves the run.\<close>

definition store_plan ::
  "('w \<Rightarrow> instant) \<Rightarrow> string \<Rightarrow> OpenSkyFlight option \<Rightarrow> string \<Rightarrow> 'w PlanState \<Rightarrow> (opensky_error + unit) \<times> 'w PlanState" where
  "store_plan db_now icao24 flight fetch_status st =
     (case upsert_flight_plan (db_now (snd (pst_sky st))) icao24 flight fetch_status (pst_plans st) of
        Inl e \<Rightarrow> (Inl (Uncaught e), st)
      | Inr plans \<Rightarrow> (Inr (), st\<lparr>pst_plans := plans\<rparr>))"

primrec plan_loop ::
  "'w os_api \<Rightarrow> ('w \<Rightarrow> instant) \<Rightarrow> int \<Rightarrow> string list \<Rightarrow> PlanEnrichmentResult \<Rightarrow> 'w PlanState \<Rightarrow>
     (opensky_error + PlanEnrichmentResult) \<times> 'w PlanState" where
  "plan_loop api db_now now [] res st = (Inr res, st)"
| "plan_loop api db_now now (icao24 # rest) res st =
     (let (flights, sky) = fetch_flight_history api icao24 (now - FETCH_WINDOW_SECONDS) now (pst_sky st);
          st = st\<lparr>pst_sky := sky\<rparr>;
          attempted = res\<lparr>per_fetch_attempts := Suc (per_fetch_attempts res)\<rparr>;
          next = (\<lambda>flight fetch_status res'.
            case store_plan db_now icao24 flight fetch_status st of
              (Inl e, st') \<Rightarrow> (Inl e, st')
            | (Inr _, st') \<Rightarrow> plan_loop api db_now now rest res' st')
      in case flights of
           Inl OpenSkyRateLimited \<Rightarrow> (Inr (res\<lparr>per_rate_limited := True\<rparr>), st)
         | Inl OpenSkyAuthError \<Rightarrow> (Inl OpenSkyAuthError, st)
         | Inl (Uncaught e) \<Rightarrow> (Inl (Uncaught e), st)
         | Inl _ \<Rightarrow> next None ''error'' (attempted\<lparr>per_fetched_error := Suc (per_fetched_error res)\<rparr>)
         | Inr fs \<Rightarrow>
             (case pick_most_recent fs of
                None \<Rightarrow> next None ''not_found'' (attempted\<lparr>per_fetched_not_found := Suc (per_fetched_not_found res)\<rparr>)
              | Some chosen \<Rightarrow> next (Some chosen) ''success'' (attempted\<lparr>per_fetched_success := Suc (per_fetched_success res)\<rparr>)))"

definition run_flight_plan_enrichment ::
  "'w os_api \<Rightarrow> ('w \<Rightarrow> instant) \<Rightarrow> int \<Rightarrow> positions_table \<Rightarrow> 'w PlanState \<Rightarrow>
     (opensky_error + PlanEnrichmentResult) \<times> 'w PlanState" where
  "run_flight_plan_enrichment api db_now now positions st =
     (let chosen = select_stale_icao24s (db_now (snd (pst_sky st))) positions (pst_plans st);
          to_fetch = take MAX_FETCHES_PER_CYCLE chosen
      in plan_loop api db_now now to_fetch
           \<lparr>per_candidates = length chosen, per_fetch_attempts = 0, per_fetched_success = 0, per_fetched_not_found = 0,
            per_fetched_error = 0, per_rate_limited = False, per_deferred = length chosen - length to_fetch\<rparr> st)"

section \<open>The world of a request\<close>

text \<open>A predicate on worlds that no request falsifies holds after a call of the client, too.\<close>

definition kept_by :: "'w os_api \<Rightarrow> ('w \<Rightarrow> bool) \<Rightarrow> bool" where
  "kept_by api P \<longleftrightarrow>
     (\<forall>token url params w. P w \<longrightarrow> P (snd (os_get api token url params w))) \<and> (\<forall>w. P w \<longrightarrow> P (snd (os_token api w)))"

lemma kept_get: "kept_by api P \<Longrightarrow> P w \<Longrightarrow> os_get api token url params w = (r, w') \<Longrightarrow> P w'"
  unfolding kept_by_def by (metis snd_conv)

lemma kept_attempts:
  "kept_by api P \<Longrightarrow> P w \<Longrightarrow> get_attempts n api token url params nf (res, w) = (r, (res', w')) \<Longrightarrow> P w'"
  by (induction n arbitrary: w) (auto simp: Let_def dest: kept_get split: prod.splits option.splits if_splits)

lemma kept_token: "kept_by api P \<Longrightarrow> P w \<Longrightarrow> get_token api (res, w) = (r, (res', w')) \<Longrightarrow> P w'"
  using kept_by_def[of api P]
  by (auto simp: get_token_def fetch_token_def os_bind_def Let_def split: option.splits if_splits prod.splits sum.splits json.splits)

lemma kept_retry:
  "kept_by api P \<Longrightarrow> P w \<Longrightarrow> get_with_retry api url params nf (res, w) = (r, (res', w')) \<Longrightarrow> P w'"
  by (auto simp: get_with_retry_def os_bind_def dest: kept_token kept_attempts split: prod.splits sum.splits)

lemma kept_authorized:
  "kept_by api P \<Longrightarrow> P w \<Longrightarrow> get_authorized api url params nf (res, w) = (r, (res', w')) \<Longrightarrow> P w'"
  by (auto simp: get_authorized_def dest: kept_retry split: prod.splits sum.splits opensky_error.splits)

lemma kept_history:
  "kept_by api P \<Longrightarrow> P (snd s) \<Longrightarrow> fetch_flight_history api icao24 b e s = (r, s') \<Longrightarrow> P (snd s')"
  by (cases s; cases s') (auto simp: fetch_flight_history_def os_bind_def dest: kept_authorized split: prod.splits sum.splits if_splits)

end
