(* ===== verification/Detector.thy ===== *)
theory Detector
  imports Rules Geo CaseStore
begin

text \<open>
  assets/detection.py: the enrichment of the positions frame, the run over every rule, the insertion of
  the surviving anomalies as cases, and the run of the detector over the lake and the database. The
  tables the detector reads are a record; the case sequence is a counter of the database state.
\<close>

definition LOOKBACK_MINUTES :: int where
  "LOOKBACK_MINUTES = 30"

definition SF_PUSH_SEVERITIES :: "string list" where
  "SF_PUSH_SEVERITIES = [''high'']"

record DetectionResult =
  dr_in_scope_aircraft :: nat
  dr_anomalies_detected :: nat
  dr_cases_created :: nat
  dr_by_rule :: "(string, nat) dict"

record FlightPlanRow =
  fpr_icao24 :: string
  fpr_origin_icao :: "string option"
  fpr_destination_icao :: "string option"
  fpr_departure_time :: "instant option"
  fpr_fetch_status :: string

section \<open>Enrichment\<close>

definition to_enriched :: "PositionRow \<Rightarrow> FlightPlanRow option \<Rightarrow> string option \<times> real option \<Rightarrow> EnrichedRow" where
  "to_enriched r plan site =
     PositionRow.extend r
       (EnrichedRow.fields (Option.bind plan fpr_origin_icao) (Option.bind plan fpr_destination_icao)
          (Option.bind plan fpr_departure_time) (fst site) (snd site) None)"

text \<open>The left merge on icao24: one row per matching plan, or one without a plan.\<close>

definition plan_matches :: "FlightPlanRow list \<Rightarrow> PositionRow \<Rightarrow> FlightPlanRow option list" where
  "plan_matches flight_plans r =
     (case filter (\<lambda>p. fpr_icao24 p = pr_icao24 r) flight_plans of [] \<Rightarrow> [None] | ps \<Rightarrow> map Some ps)"

definition enrich_positions ::
  "(string, coord) dict \<Rightarrow> FlightPlanRow list \<Rightarrow> PositionRow list \<Rightarrow> EnrichedRow list" where
  "enrich_positions watched_coords flight_plans positions =
     concat (map (\<lambda>r. map (\<lambda>p. to_enriched r p (nearest_site watched_coords (pr_lat r) (pr_lon r)))
                        (plan_matches flight_plans r)) positions)"

text \<open>\<open>positions.groupby("icao24")["ts_polled"].max()\<close>, and the column mapped from it.\<close>

definition feed_last_seen :: "PositionRow list \<Rightarrow> string \<Rightarrow> instant option" where
  "feed_last_seen positions icao24 =
     map_option pr_ts_polled (max_by pr_ts_polled (filter (\<lambda>r. pr_icao24 r = icao24) positions))"

definition attach_feed_last :: "PositionRow list \<Rightarrow> EnrichedRow list \<Rightarrow> EnrichedRow list" where
  "attach_feed_last positions enriched =
     map (\<lambda>r. r\<lparr>er_feed_last_ts := feed_last_seen positions (pr_icao24 r)\<rparr>) enriched"

section \<open>Cases\<close>

record DetectorDb =
  dd_app :: AppDb
  dd_seq :: nat
  dd_flight_plans :: "FlightPlanRow list"
  dd_weather :: "AirportConditions list"
  dd_airport_coords :: "(string, coord) dict"
  dd_watched_coords :: "(string, coord) dict"
  dd_runbooks :: "(string \<times> string list) list"

definition load_flight_plans :: "DetectorDb \<Rightarrow> FlightPlanRow list" where
  "load_flight_plans db = filter (\<lambda>p. fpr_fetch_status p = ''success'') (dd_flight_plans db)"

definition load_weather :: "DetectorDb \<Rightarrow> (string, AirportConditions) dict" where
  "load_weather db = foldl (\<lambda>out c. dset (apc_site_icao c) c out) [] (dd_weather db)"

definition load_open_cases :: "DetectorDb \<Rightarrow> OpenCase list" where
  "load_open_cases db =
     map (\<lambda>r. \<lparr>oc_case_type = cr_case_type r, oc_flight_id = cr_flight_id r, oc_site_icao = cr_site_icao r,
               oc_detection_facts = cr_detection_facts r, oc_created_at = cr_created_at r\<rparr>)
       (filter (\<lambda>r. cr_status r \<notin> {''resolved'', ''closed''}) (db_cases (dd_app db)))"

definition load_runbook_refs :: "DetectorDb \<Rightarrow> string \<Rightarrow> string list" where
  "load_runbook_refs db ct = map fst (filter (\<lambda>(i, cts). ct \<in> set cts) (dd_runbooks db))"

definition case_flight_id :: "Anomaly \<Rightarrow> string" where
  "case_flight_id a =
     (if an_icao24 a \<noteq> [] then an_icao24 a
      else ''WX-'' @ (case opt_str (an_site_icao a) of None \<Rightarrow> ''UNKN'' | Some s \<Rightarrow> s))"

definition case_severity :: "Anomaly \<Rightarrow> string" where
  "case_severity a = (case opt_str (an_severity_hint a) of None \<Rightarrow> ''low'' | Some s \<Rightarrow> s)"

text \<open>The inserted row: the columns of the INSERT, the rest from the table's defaults.\<close>

definition new_case :: "instant \<Rightarrow> Anomaly \<Rightarrow> string \<Rightarrow> string list \<Rightarrow> CaseRow" where
  "new_case now a case_id runbook_refs =
     \<lparr>cr_case_id = case_id, cr_salesforce_id = None, cr_flight_id = case_flight_id a,
      cr_site_icao = (case an_site_icao a of None \<Rightarrow> [] | Some s \<Rightarrow> s),
      cr_customer_region = an_customer_region a, cr_case_type = an_rule a, cr_status = ''open'',
      cr_severity = case_severity a, cr_summary = None, cr_severity_justification = None,
      cr_detection_facts = an_detection_facts a, cr_runbook_refs = runbook_refs,
      cr_created_at = now, cr_updated_at = now, cr_resolved_at = None,
      cr_sf_sync_status = (if case_severity a \<in> set SF_PUSH_SEVERITIES then ''pending'' else ''skipped''),
      cr_sf_sync_attempts = 0, cr_sf_sync_last_error = None\<rparr>"

definition insert_case :: "instant \<Rightarrow> Anomaly \<Rightarrow> string \<Rightarrow> string list \<Rightarrow> AppDb \<Rightarrow> AppDb" where
  "insert_case now a case_id runbook_refs db =
     add_event case_id ''created'' (JObj [(''rule'', JStr (an_rule a))]) ''detector''
       (db\<lparr>db_cases := db_cases db @ [new_case now a case_id runbook_refs]\<rparr>)"

primrec insert_cases ::
  "nat \<Rightarrow> (Anomaly \<Rightarrow> instant) \<Rightarrow> Anomaly list \<Rightarrow> (string, nat) dict \<Rightarrow> DetectorDb \<Rightarrow> (string, nat) dict \<times> DetectorDb" where
  "insert_cases year now [] by_rule db = (by_rule, db)"
| "insert_cases year now (a # as) by_rule db =
     (let seq = Suc (dd_seq db);
          case_id = next_case_id year seq;
          db' = db\<lparr>dd_seq := seq,
                    dd_app := insert_case (now a) a case_id (load_runbook_refs db (an_rule a)) (dd_app db)\<rparr>;
          n = (case dget by_rule (an_rule a) of None \<Rightarrow> 0 | Some k \<Rightarrow> k)
      in insert_cases year now as (dset (an_rule a) (Suc n) by_rule) db')"

section \<open>The run\<close>

definition detector_input :: "(int \<times> int) list \<Rightarrow> DetectorDb \<Rightarrow> PositionRow list \<Rightarrow> RuleInput" where
  "detector_input sparse_cells db positions =
     (let in_scope = filter (\<lambda>r. pr_customer_region r \<noteq> None) positions
      in \<lparr>ri_sparse_cells = sparse_cells,
          ri_positions = attach_feed_last positions
             (enrich_positions (dd_watched_coords db) (load_flight_plans db) in_scope),
          ri_weather = load_weather db,
          ri_baseline = heuristic_expected (dd_airport_coords db)\<rparr>)"

definition run_case_detection ::
  "(int \<times> int) list \<Rightarrow> nat \<Rightarrow> instant \<Rightarrow> (Anomaly \<Rightarrow> instant) \<Rightarrow> Lake \<Rightarrow> DetectorDb \<Rightarrow> DetectionResult \<times> DetectorDb" where
  "run_case_detection sparse_cells year clock now lake db =
     (let nothing = \<lparr>dr_in_scope_aircraft = 0, dr_anomalies_detected = 0, dr_cases_created = 0, dr_by_rule = []\<rparr>;
          positions = read_recent_positions LOOKBACK_MINUTES clock lake;
          in_scope = filter (\<lambda>r. pr_customer_region r \<noteq> None) positions
      in if positions = [] then (nothing, db)
         else if in_scope = [] then (nothing, db)
         else
           let input = detector_input sparse_cells db positions;
               anomalies = detect_and_dedup input (load_open_cases db) ALL_RULES (newest_ts (ri_positions input));
               (by_rule, db') = insert_cases year now anomalies [] db
           in (\<lparr>dr_in_scope_aircraft = length (remdups (map pr_icao24 in_scope)),
                dr_anomalies_detected = length anomalies, dr_cases_created = length anomalies,
                dr_by_rule = by_rule\<rparr>, db'))"

section \<open>Inserting cases\<close>

lemma insert_cases_rows:
  "insert_cases year now as by_rule db = (by_rule', db') \<Longrightarrow>
   \<exists>rows. db_cases (dd_app db') = db_cases (dd_app db) @ rows \<and> length rows = length as \<and>
     dd_seq db' = dd_seq db + length as \<and>
     (\<forall>i < length as. \<exists>refs. rows ! i = new_case (now (as ! i)) (as ! i) (next_case_id year (dd_seq db + Suc i)) refs)"
proof (induction as arbitrary: by_rule db)
  case (Cons a as)
  let ?id = "next_case_id year (Suc (dd_seq db))" and ?refs = "load_runbook_refs db (an_rule a)"
  let ?db = "db\<lparr>dd_seq := Suc (dd_seq db), dd_app := insert_case (now a) a ?id ?refs (dd_app db)\<rparr>"
  obtain br where "insert_cases year now as br ?db = (by_rule', db')"
    using Cons.prems by (auto simp: Let_def)
  from Cons.IH[OF this] obtain rows where rows:
    "db_cases (dd_app db') = db_cases (dd_app ?db) @ rows" "length rows = length as" "dd_seq db' = dd_seq ?db + length as"
    "\<forall>i < length as. \<exists>refs. rows ! i = new_case (now (as ! i)) (as ! i) (next_case_id year (dd_seq ?db + Suc i)) refs"
    by blast
  let ?rows = "new_case (now a) a ?id ?refs # rows"
  have "\<forall>i < length (a # as). \<exists>refs. ?rows ! i = new_case (now ((a # as) ! i)) ((a # as) ! i) (next_case_id year (dd_seq db + Suc i)) refs"
    using rows(4) by (auto simp: nth_Cons split: nat.split)
  moreover have "db_cases (dd_app db') = db_cases (dd_app db) @ ?rows"
    using rows(1) by (simp add: insert_case_def)
  ultimately show ?case using rows(2,3) by (intro exI[of _ ?rows]) simp
qed simp

lemma insert_cases_count:
  "insert_cases year now as by_rule db = (by_rule', db') \<Longrightarrow>
   (case dget by_rule' r of None \<Rightarrow> 0 | Some k \<Rightarrow> k) =
   (case dget by_rule r of None \<Rightarrow> 0 | Some k \<Rightarrow> k) + length (filter (\<lambda>a. an_rule a = r) as)"
proof (induction as arbitrary: by_rule db)
  case (Cons a as)
  obtain br d where "insert_cases year now as br d = (by_rule', db')"
      "br = dset (an_rule a) (Suc (case dget by_rule (an_rule a) of None \<Rightarrow> 0 | Some k \<Rightarrow> k)) by_rule"
    using Cons.prems by (auto simp: Let_def)
  with Cons.IH[of br d] show ?case by (auto split: option.split)
qed simp

text \<open>What a run reports: nothing without in-scope positions.\<close>

definition surviving_anomalies :: "(int \<times> int) list \<Rightarrow> instant \<Rightarrow> Lake \<Rightarrow> DetectorDb \<Rightarrow> Anomaly list" where
  "surviving_anomalies sparse_cells clock lake db =
     (let positions = read_recent_positions LOOKBACK_MINUTES clock lake;
          input = detector_input sparse_cells db positions
      in if list_all (\<lambda>r. pr_customer_region r = None) positions then []
         else detect_and_dedup input (load_open_cases db) ALL_RULES (newest_ts (ri_positions input)))"

lemma run_case_detection_inserts:
  "run_case_detection sparse_cells year clock now lake db = (r, db') \<Longrightarrow>
     insert_cases year now (surviving_anomalies sparse_cells clock lake db) [] db = (dr_by_rule r, db') \<and>
     dr_cases_created r = length (surviving_anomalies sparse_cells clock lake db)"
  by (auto simp: run_case_detection_def surviving_anomalies_def Let_def filter_empty_conv list_all_iff
      split: if_splits prod.splits)

text \<open>A detector run adds exactly one open case per surviving anomaly, in order,
  numbered on from the sequence; only the severities listed for the push are queued for Salesforce, all
  others are skipped, existing cases are untouched, and the counts by rule are those of the anomalies.\<close>

theorem detection_inserts:
  assumes "run_case_detection sparse_cells year clock now lake db = (r, db')"
  shows "\<exists>rows. let anomalies = surviving_anomalies sparse_cells clock lake db in
     db_cases (dd_app db') = db_cases (dd_app db) @ rows \<and>
     length rows = length anomalies \<and> dr_cases_created r = length rows \<and> dd_seq db' = dd_seq db + length rows \<and>
     (\<forall>i < length rows. cr_case_id (rows ! i) = next_case_id year (dd_seq db + Suc i) \<and>
        cr_case_type (rows ! i) = an_rule (anomalies ! i) \<and> cr_status (rows ! i) = ''open'' \<and>
        (cr_sf_sync_status (rows ! i) = ''pending'' \<longleftrightarrow> cr_severity (rows ! i) = ''high'') \<and>
        (cr_sf_sync_status (rows ! i) = ''skipped'' \<longleftrightarrow> cr_severity (rows ! i) \<noteq> ''high'')) \<and>
     (\<forall>ct. (case dget (dr_by_rule r) ct of None \<Rightarrow> 0 | Some k \<Rightarrow> k) = length (filter (\<lambda>c. cr_case_type c = ct) rows))"
proof -
  define as where "as = surviving_anomalies sparse_cells clock lake db"
  have ins: "insert_cases year now as [] db = (dr_by_rule r, db')" and r: "dr_cases_created r = length as"
    using run_case_detection_inserts[OF assms] by (simp_all add: as_def)
  obtain rows where rows: "db_cases (dd_app db') = db_cases (dd_app db) @ rows" "length rows = length as"
      "dd_seq db' = dd_seq db + length as"
      "\<forall>i < length as. \<exists>refs. rows ! i = new_case (now (as ! i)) (as ! i) (next_case_id year (dd_seq db + Suc i)) refs"
    using insert_cases_rows[OF ins] by blast
  have fields: "cr_case_id (rows ! i) = next_case_id year (dd_seq db + Suc i) \<and>
        cr_case_type (rows ! i) = an_rule (as ! i) \<and> cr_status (rows ! i) = ''open'' \<and>
        (cr_sf_sync_status (rows ! i) = ''pending'' \<longleftrightarrow> cr_severity (rows ! i) = ''high'') \<and>
        (cr_sf_sync_status (rows ! i) = ''skipped'' \<longleftrightarrow> cr_severity (rows ! i) \<noteq> ''high'')" if i: "i < length rows" for i
  proof -
    obtain refs where "rows ! i = new_case (now (as ! i)) (as ! i) (next_case_id year (dd_seq db + Suc i)) refs"
      using rows(2,4) i by auto
    then show ?thesis by (simp add: new_case_def SF_PUSH_SEVERITIES_def)
  qed
  then have "map cr_case_type rows = map an_rule as"
    using rows(2) by (auto intro: nth_equalityI)
  then have "length (filter (\<lambda>c. cr_case_type c = ct) rows) = length (filter (\<lambda>a. an_rule a = ct) as)" for ct
  proof -
    have named: "length (filter (\<lambda>x. f x = ct) xs) = length (filter (\<lambda>n. n = ct) (map f xs))" for f :: "'x \<Rightarrow> string" and xs
      by (simp add: filter_map comp_def)
    show ?thesis unfolding named[of cr_case_type] named[of an_rule] using \<open>map cr_case_type rows = map an_rule as\<close> by simp
  qed
  then have "(case dget (dr_by_rule r) ct of None \<Rightarrow> 0 | Some k \<Rightarrow> k) = length (filter (\<lambda>c. cr_case_type c = ct) rows)" for ct
    using insert_cases_count[OF ins, of ct] r by simp
  then show ?thesis using rows fields r by (intro exI[of _ rows]) (simp add: as_def[symmetric] Let_def)
qed

lemma subseq_in_set: "x \<in> set xs \<Longrightarrow> subseq xs ys \<Longrightarrow> x \<in> set ys"
proof (induction xs arbitrary: ys)
  case (Cons a xs)
  then obtain us vs where "ys = us @ a # vs" "subseq xs vs" by (auto dest: list_emb_ConsD)
  with Cons show ?case by auto
qed simp

lemma deduplicate_all_matched:
  assumes "\<And>p. p \<in> set ps \<Longrightarrow> matches_existing (pair_key p) (snd p) existing now"
  shows "deduplicate ps existing now = []"
proof -
  have "dedup_loop ps existing now kept seen = kept" for kept seen
    using assms by (induction ps arbitrary: kept seen) (simp_all add: Let_def)
  then show ?thesis by (simp add: deduplicate_def)
qed

section \<open>Stored cases suppress their anomaly\<close>

definition as_open_case :: "CaseRow \<Rightarrow> OpenCase" where
  "as_open_case r = \<lparr>oc_case_type = cr_case_type r, oc_flight_id = cr_flight_id r, oc_site_icao = cr_site_icao r,
     oc_detection_facts = cr_detection_facts r, oc_created_at = cr_created_at r\<rparr>"

lemma load_open_cases_alt:
  "load_open_cases db = map as_open_case (filter (\<lambda>r. cr_status r \<notin> {''resolved'', ''closed''}) (db_cases (dd_app db)))"
  by (simp add: load_open_cases_def as_open_case_def)

text \<open>What the stored row keeps of the identity: the aircraft, and the site where the key reads it.\<close>

definition identified :: "Rule \<Rightarrow> Anomaly \<Rightarrow> bool" where
  "identified rule a \<longleftrightarrow>
     (rule \<noteq> WeatherImpactRule \<longrightarrow> an_icao24 a \<noteq> []) \<and>
     (rule \<notin> {DiversionRule, DelayRule} \<longrightarrow> an_site_icao a \<noteq> None)"

lemma stored_case_key:
  "identified rule a \<Longrightarrow> case_key rule (as_open_case (new_case t a i refs)) = anomaly_key rule a"
  by (cases rule) (auto simp: identified_def case_key_def anomaly_key_def as_open_case_def new_case_def case_flight_id_def opt_json_def)

lemma divide_nearest_ge: "0 < b \<Longrightarrow> n * b \<le> a \<Longrightarrow> n \<le> divide_nearest a b"
proof -
  assume "0 < b" "n * b \<le> a"
  then have "n \<le> a div b" by (metis nonzero_mult_div_cancel_right zdiv_mono1 less_irrefl)
  then show ?thesis by (simp add: divide_nearest_def Let_def)
qed

section \<open>The contract of a per-aircraft rule\<close>

text \<open>Five of the six rules look at one aircraft's rows at a time; what they share is proved once.\<close>

locale grouped_rule =
  fixes check :: "string \<times> EnrichedRow list \<Rightarrow> Anomaly option"
    and rule :: Rule
  assumes names_group: "check (k, grp) = Some a \<Longrightarrow> an_icao24 a = k"
    and names_rule: "check (k, grp) = Some a \<Longrightarrow> an_rule a = case_type rule"
begin

definition found :: "EnrichedRow list \<Rightarrow> Anomaly list" where
  "found positions = List.map_filter check (groups positions)"

lemma found_rule: "a \<in> set (found positions) \<Longrightarrow> an_rule a = case_type rule"
  using names_rule by (auto simp: found_def map_filter_in_set)

lemma found_group:
  "a \<in> set (found positions) \<Longrightarrow>
     check (an_icao24 a, filter (\<lambda>r. pr_icao24 r = an_icao24 a) positions) = Some a \<and> an_icao24 a \<in> pr_icao24 ` set positions"
  using names_group by (auto simp: found_def map_filter_in_set groups_iff)

lemma found_keys: "map an_icao24 (List.map_filter check gs) = map fst (filter (\<lambda>g. check g \<noteq> None) gs)"
proof (induction gs)
  case (Cons g gs)
  then show ?case using names_group[of "fst g" "snd g"]
    by (cases "check g") (simp_all add: map_filter_simps)
qed (simp add: map_filter_simps)

lemma found_once: "distinct (map an_icao24 (found positions))"
proof -
  have "distinct (map fst (filter (\<lambda>g. check g \<noteq> None) (groups positions)))"
    by (rule distinct_map_filter) (simp add: groups_keys)
  then show ?thesis by (simp add: found_def found_keys)
qed

end

interpretation lost_signal: grouped_rule "lost_signal_group cells now" LostSignalRule for cells now
  by unfold_locales (auto simp: lost_signal_group_def Let_def split: option.splits if_splits)

interpretation diversion: grouped_rule diversion_group DiversionRule
  by unfold_locales (auto simp: diversion_group_def split: option.splits if_splits)

interpretation excessive_hold: grouped_rule excessive_hold_group ExcessiveHoldRule
  by unfold_locales (auto simp: excessive_hold_group_def Let_def split: option.splits if_splits)

interpretation go_around: grouped_rule go_around_group GoAroundRule
  by unfold_locales (auto simp: go_around_group_def Let_def split: option.splits if_splits prod.splits)

interpretation delay: grouped_rule "delay_group baseline now" DelayRule for baseline now
  by unfold_locales (auto simp: delay_group_def Let_def split: option.splits if_splits)

lemmas rule_detects = lost_signal_detect_def diversion_detect_def excessive_hold_detect_def go_around_detect_def
  delay_detect_def weather_impact_detect_def
  lost_signal.found_def diversion.found_def excessive_hold.found_def go_around.found_def delay.found_def

lemma detect_found:
  "detect i LostSignalRule = (if ri_positions i = [] then [] else lost_signal.found (ri_sparse_cells i) (newest_ts (ri_positions i)) (ri_positions i))"
  "detect i DiversionRule = diversion.found (ri_positions i)"
  "detect i ExcessiveHoldRule = excessive_hold.found (ri_positions i)"
  "detect i GoAroundRule = go_around.found (ri_positions i)"
  "detect i DelayRule = (if ri_positions i = [] then [] else delay.found (ri_baseline i) (newest_ts (ri_positions i)) (ri_positions i))"
  by (simp_all add: rule_detects)

lemma detect_rule: "a \<in> set (detect i rule) \<Longrightarrow> an_rule a = case_type rule"
proof (cases rule)
  case WeatherImpactRule
  then show "a \<in> set (detect i rule) \<Longrightarrow> an_rule a = case_type rule"
    by (auto simp: weather_impact_detect_def map_filter_in_set split: if_splits)
qed (auto simp: detect_found simp del: detect.simps dest: lost_signal.found_rule diversion.found_rule excessive_hold.found_rule
    go_around.found_rule delay.found_rule split: if_splits)

lemma weather_impact_sites: "an_site_icao a \<in> Some ` set (dkeys weather)" if "a \<in> set (weather_impact_detect weather)"
  using that by (force simp: weather_impact_detect_def map_filter_in_set split: if_splits)

lemma one_finding_subject_in:
  "a \<in> set (detect i rule) \<Longrightarrow> rule \<noteq> WeatherImpactRule \<Longrightarrow> an_icao24 a \<in> pr_icao24 ` set (ri_positions i)"
  by (cases rule) (auto simp: detect_found simp del: detect.simps split: if_splits
      dest!: lost_signal.found_group diversion.found_group excessive_hold.found_group go_around.found_group delay.found_group)

text \<open>Each rule reports an aircraft at most once per run, under its own case type, and only aircraft of
  the frame; the weather rule reports only sites of the weather table.\<close>

theorem one_finding_per_subject:
  "list_all (\<lambda>a. an_rule a = case_type rule) (detect i rule) \<and>
   (if rule = WeatherImpactRule
    then set (map an_site_icao (detect i rule)) \<subseteq> Some ` set (dkeys (ri_weather i))
    else distinct (map an_icao24 (detect i rule)) \<and>
         set (map an_icao24 (detect i rule)) \<subseteq> pr_icao24 ` set (ri_positions i))"
proof (rule conjI)
  show "list_all (\<lambda>a. an_rule a = case_type rule) (detect i rule)"
    by (simp only: list_all_iff) (blast dest: detect_rule)
  show "if rule = WeatherImpactRule then set (map an_site_icao (detect i rule)) \<subseteq> Some ` set (dkeys (ri_weather i))
    else distinct (map an_icao24 (detect i rule)) \<and> set (map an_icao24 (detect i rule)) \<subseteq> pr_icao24 ` set (ri_positions i)"
  proof (cases rule)
    case WeatherImpactRule
    then show ?thesis using weather_impact_sites by auto
  qed (auto simp: detect_found simp del: detect.simps
      intro: lost_signal.found_once diversion.found_once excessive_hold.found_once go_around.found_once delay.found_once
      dest!: lost_signal.found_group diversion.found_group excessive_hold.found_group go_around.found_group delay.found_group)
qed

section \<open>Where the identity of a finding comes from\<close>

definition wf_feed :: "PositionRow list \<Rightarrow> bool" where
  "wf_feed positions \<longleftrightarrow> (\<forall>r \<in> set positions. pr_icao24 r \<noteq> [] \<and> pr_lat r \<noteq> None \<and> pr_lon r \<noteq> None)"

definition wf_watchlist :: "(string, coord) dict \<Rightarrow> bool" where
  "wf_watchlist coords \<longleftrightarrow> coords \<noteq> [] \<and> [] \<notin> set (dkeys coords)"

lemma nearest_site_named:
  assumes "wf_watchlist coords" "lat \<noteq> None" "lon \<noteq> None"
  obtains w where "fst (nearest_site coords lat lon) = Some w" "w \<noteq> []"
proof -
  obtain la lo where ll: "lat = Some la" "lon = Some lo" using assms by auto
  obtain w where w: "min_by (\<lambda>w. haversine_matrix (la, lo) (snd w)) coords = Some w"
    using assms(1) by (cases "min_by (\<lambda>w. haversine_matrix (la, lo) (snd w)) coords") (simp_all add: wf_watchlist_def)
  then have "fst w \<noteq> []" using min_by_Some(1)[OF w] assms(1) by (metis image_eqI set_map wf_watchlist_def)
  then show ?thesis using that w by (simp add: nearest_site_def nearest_by_def ll)
qed

lemma detector_input_rows:
  assumes "e \<in> set (ri_positions (detector_input cells db positions))" "wf_feed positions" "wf_watchlist (dd_watched_coords db)"
  obtains w where "pr_icao24 e \<noteq> []" "er_nearest_site_icao e = Some w" "w \<noteq> []"
proof -
  obtain r p where r: "r \<in> set positions" and
      e: "e = (to_enriched r p (nearest_site (dd_watched_coords db) (pr_lat r) (pr_lon r)))\<lparr>er_feed_last_ts := feed_last_seen positions (pr_icao24 e)\<rparr>"
    using assms(1) by (force simp: detector_input_def Let_def attach_feed_last_def enrich_positions_def to_enriched_def PositionRow.defs EnrichedRow.defs)
  obtain w where "fst (nearest_site (dd_watched_coords db) (pr_lat r) (pr_lon r)) = Some w" "w \<noteq> []"
    using nearest_site_named assms(2,3) r unfolding wf_feed_def by metis
  moreover have "pr_icao24 e = pr_icao24 r" by (subst e) (simp add: to_enriched_def PositionRow.defs EnrichedRow.defs)
  moreover have "er_nearest_site_icao e = fst (nearest_site (dd_watched_coords db) (pr_lat r) (pr_lon r))"
    by (subst e) (simp add: to_enriched_def PositionRow.defs EnrichedRow.defs)
  ultimately show ?thesis using that assms(2) r by (simp add: wf_feed_def)
qed

lemma mode_first_Some: "mode_first xs = Some m \<Longrightarrow> m \<in> set xs"
proof -
  assume "mode_first xs = Some m"
  then have "m \<in> set (sorted_set (filter (\<lambda>x. list_all (\<lambda>y. count_list xs y \<le> count_list xs x) xs) xs))"
    by (metis (no_types, lifting) list.case_eq_if list.set_sel(1) mode_first_def option.distinct(1) option.inject)
  then show ?thesis by simp
qed

lemma mode_first_total:
  assumes "xs \<noteq> []"
  obtains m where "mode_first xs = Some m" "m \<in> set xs"
proof -
  obtain m where "max_by (count_list xs) xs = Some m" using assms by fastforce
  then have "m \<in> set (filter (\<lambda>x. list_all (\<lambda>y. count_list xs y \<le> count_list xs x) xs) xs)"
    using max_by_Some[of "count_list xs" xs m] by (simp add: list_all_iff)
  then have "sorted_set (filter (\<lambda>x. list_all (\<lambda>y. count_list xs y \<le> count_list xs x) xs) xs) \<noteq> []"
    by (metis empty_iff list.set(1) sorted_set_eq_Nil)
  then obtain m' ms where eq: "sorted_set (filter (\<lambda>x. list_all (\<lambda>y. count_list xs y \<le> count_list xs x) xs) xs) = m' # ms"
    by (meson list.exhaust)
  have "mode_first xs = Some m'" unfolding mode_first_def eq by simp
  then show ?thesis using that mode_first_Some by blast
qed

lemma site_mode_named:
  assumes "near \<noteq> []" "\<And>e. e \<in> set near \<Longrightarrow> \<exists>w. er_nearest_site_icao e = Some w \<and> w \<noteq> []"
  shows "site_mode near \<noteq> None"
proof -
  let ?sites = "List.map_filter er_nearest_site_icao near"
  have "hd near \<in> set near" using assms(1) by simp
  then have "?sites \<noteq> []" using assms(2) by (metis (mono_tags, lifting) empty_iff list.set(1) map_filter_in_set mem_Collect_eq)
  then obtain m where m: "mode_first ?sites = Some m" "m \<in> set ?sites" by (rule mode_first_total)
  then have "m \<noteq> []" using assms(2) by (force simp: map_filter_in_set)
  then show ?thesis by (simp add: site_mode_def m(1) opt_str_def)
qed

lemma grouped_site:
  assumes named: "\<And>e. e \<in> set grp \<Longrightarrow> \<exists>w. er_nearest_site_icao e = Some w \<and> w \<noteq> []"
  shows "lost_signal_group cells now (k, grp) = Some a \<Longrightarrow> an_site_icao a \<noteq> None"
    and "excessive_hold_group (k, grp) = Some a \<Longrightarrow> an_site_icao a \<noteq> None"
    and "go_around_group (k, grp) = Some a \<Longrightarrow> an_site_icao a \<noteq> None"
proof -
  show "lost_signal_group cells now (k, grp) = Some a \<Longrightarrow> an_site_icao a \<noteq> None"
    using latest_row_Some(1) named
    by (fastforce simp: lost_signal_group_def Let_def opt_str_def split: option.splits if_splits)
  have hold: "hold_near grp \<noteq> [] \<Longrightarrow> site_mode (hold_near grp) \<noteq> None"
    by (rule site_mode_named) (simp_all add: hold_near_def named)
  show "excessive_hold_group (k, grp) = Some a \<Longrightarrow> an_site_icao a \<noteq> None"
    using hold by (cases "hold_near grp = []") (auto simp: excessive_hold_group_def Let_def HOLD_MIN_SNAPSHOTS_def split: option.splits if_splits)
  have near: "go_around_near grp \<noteq> [] \<Longrightarrow> site_mode (go_around_near grp) \<noteq> None"
    by (rule site_mode_named) (simp_all add: go_around_near_def named)
  show "go_around_group (k, grp) = Some a \<Longrightarrow> an_site_icao a \<noteq> None"
    using near by (cases "go_around_near grp = []") (auto simp: go_around_group_def Let_def GO_AROUND_MIN_SNAPSHOTS_def split: option.splits if_splits prod.splits)
qed

text \<open>With a named aircraft and position in every row and a named, non-empty watchlist, every finding of
  the detector carries the identity its rule keys on.\<close>

lemma detected_identified:
  assumes "wf_feed positions" "wf_watchlist (dd_watched_coords db)"
    and a: "a \<in> set (detect (detector_input cells db positions) rule)"
  shows "identified rule a"
proof -
  let ?i = "detector_input cells db positions"
  let ?grp = "filter (\<lambda>r. pr_icao24 r = an_icao24 a) (ri_positions ?i)"
  have row: "pr_icao24 e \<noteq> [] \<and> (\<exists>w. er_nearest_site_icao e = Some w \<and> w \<noteq> [])" if "e \<in> set (ri_positions ?i)" for e
    using detector_input_rows[OF that assms(1,2)] by metis
  have aircraft: "an_icao24 a \<noteq> []" if nw: "rule \<noteq> WeatherImpactRule"
  proof -
    obtain e where "e \<in> set (ri_positions ?i)" "an_icao24 a = pr_icao24 e"
      using one_finding_subject_in[OF a nw] by blast
    then show ?thesis using row by metis
  qed
  have site: "an_site_icao a \<noteq> None" if "rule \<in> {LostSignalRule, ExcessiveHoldRule, GoAroundRule}"
    using that a grouped_site[of ?grp] row
      lost_signal.found_group[of a] excessive_hold.found_group[of a] go_around.found_group[of a]
    by (auto simp: detect_found simp del: detect.simps split: if_splits) blast+
  have weather: "an_site_icao a \<noteq> None" if "rule = WeatherImpactRule"
    using a weather_impact_sites that by auto
  show ?thesis using aircraft site weather unfolding identified_def by (cases rule) simp_all
qed

lemma insert_cases_frame:
  "insert_cases year now as by_rule db = (br, db') \<Longrightarrow>
   dd_flight_plans db' = dd_flight_plans db \<and> dd_weather db' = dd_weather db \<and>
   dd_airport_coords db' = dd_airport_coords db \<and> dd_watched_coords db' = dd_watched_coords db"
proof (induction as arbitrary: by_rule db)
  case (Cons a as)
  then show ?case by (auto simp: Let_def dest!: Cons.IH)
qed simp

lemma pair_key_rule: "pair_key q = pair_key p \<Longrightarrow> snd q = snd p"
  by (cases "snd q"; cases "snd p"; simp add: anomaly_key_def)

lemma more_cases_match:
  assumes "db_cases (dd_app db') = db_cases (dd_app db) @ rows" "matches_existing k rule (load_open_cases db) now"
  shows "matches_existing k rule (load_open_cases db') now"
  using assms by (auto simp: matches_existing_def load_open_cases_alt list_ex_iff)

text \<open>A stored case answers for every later finding with the key of the anomaly it was made from.\<close>

lemma stored_case_matches:
  assumes "identified (snd q) (fst q)" "an_rule (fst q) = case_type (snd q)"
    and "new_case t (fst q) case_id refs \<in> set (db_cases (dd_app db))" "now \<le> t"
  shows "matches_existing (pair_key q) (snd q) (load_open_cases db) now"
proof -
  let ?c = "as_open_case (new_case t (fst q) case_id refs)"
  have "?c \<in> set (load_open_cases db)" using assms(3) by (auto simp: load_open_cases_alt new_case_def)
  moreover have "case_key (snd q) ?c = pair_key q" using stored_case_key[OF assms(1)] by simp
  moreover have "oc_case_type ?c = case_type (snd q)" using assms(2) by (simp add: as_open_case_def new_case_def)
  moreover have "oc_created_at ?c \<ge> now - dedup_window (snd q)"
  proof -
    have "0 \<le> dedup_window (snd q)" by (cases "snd q") (simp_all add: hours_def minutes_def)
    then show ?thesis using assms(4) by (simp add: as_open_case_def new_case_def)
  qed
  ultimately show ?thesis by (auto simp: matches_existing_def list_ex_iff)
qed

lemma paired_identified:
  assumes "q \<in> set (paired_anomalies (detector_input cells db positions) rules)" "wf_feed positions" "wf_watchlist (dd_watched_coords db)"
  shows "identified (snd q) (fst q) \<and> an_rule (fst q) = case_type (snd q)"
proof -
  have "fst q \<in> set (detect (detector_input cells db positions) (snd q))" using assms(1) by (auto simp: paired_anomalies_def)
  then show ?thesis using detected_identified assms(2,3) detect_rule by blast
qed

text \<open>After a run every finding of its frame is matched by an open case.\<close>

lemma run_matches_findings:
  fixes sparse_cells clock lake db
  defines "positions \<equiv> read_recent_positions LOOKBACK_MINUTES clock lake"
  defines "input \<equiv> detector_input sparse_cells db positions"
  assumes ins: "insert_cases year now (deduplicate (paired_anomalies input ALL_RULES) (load_open_cases db) t) [] db = (br, db')"
    and stamps: "\<And>a. t \<le> now a" and wf: "wf_feed positions" "wf_watchlist (dd_watched_coords db)"
    and p: "p \<in> set (paired_anomalies input ALL_RULES)"
  shows "matches_existing (pair_key p) (snd p) (load_open_cases db') t"
proof -
  let ?ps = "paired_anomalies input ALL_RULES" and ?as = "deduplicate (paired_anomalies input ALL_RULES) (load_open_cases db) t"
  obtain kept where kept: "?as = map fst kept" "subseq kept ?ps"
      "set (map pair_key kept) = {pair_key p | p. p \<in> set ?ps \<and> \<not> matches_existing (pair_key p) (snd p) (load_open_cases db) t}"
    using dedup_loop_spec[of ?ps "load_open_cases db" t "[]" "[]"] unfolding deduplicate_def by auto
  obtain rows where rows: "db_cases (dd_app db') = db_cases (dd_app db) @ rows" "length rows = length ?as"
      "\<forall>i < length ?as. \<exists>refs. rows ! i = new_case (now (?as ! i)) (?as ! i) (next_case_id year (dd_seq db + Suc i)) refs"
    using insert_cases_rows[OF ins] by blast
  show ?thesis
  proof (cases "matches_existing (pair_key p) (snd p) (load_open_cases db) t")
    case False
    then have "pair_key p \<in> set (map pair_key kept)" using p kept(3) by blast
    then obtain q where q: "q \<in> set kept" "pair_key q = pair_key p" by auto
    have idq: "identified (snd q) (fst q)" "an_rule (fst q) = case_type (snd q)"
      using paired_identified subseq_in_set[OF q(1) kept(2)] wf unfolding input_def by blast+
    obtain n where n: "n < length ?as" "?as ! n = fst q" using q(1) kept(1) by (metis in_set_conv_nth length_map nth_map)
    then obtain refs where "rows ! n = new_case (now (fst q)) (fst q) (next_case_id year (dd_seq db + Suc n)) refs"
      using rows(3) by metis
    then have "new_case (now (fst q)) (fst q) (next_case_id year (dd_seq db + Suc n)) refs \<in> set (db_cases (dd_app db'))"
      using n(1) rows(1,2) by (metis in_set_conv_decomp nth_mem append_assoc)
    from stored_case_matches[OF idq this stamps] show ?thesis using q(2) pair_key_rule[OF q(2)] by simp
  qed (rule more_cases_match[OF rows(1)])
qed

text \<open>C4. The detector is quiet about what it has already reported: run again over the same lake, with the
  new cases still open and stamped no earlier than the newest poll, it creates no case, provided every
  position names its aircraft and has coordinates, and the watchlist is not empty and its codes are not.\<close>

theorem detector_idempotent:
  assumes run: "run_case_detection sparse_cells year clock now lake db = (r, db')"
    and stamps: "\<And>a. newest_ts (ri_positions (detector_input sparse_cells db (read_recent_positions LOOKBACK_MINUTES clock lake))) \<le> now a"
    and wf: "wf_feed (read_recent_positions LOOKBACK_MINUTES clock lake)" "wf_watchlist (dd_watched_coords db)"
  shows "dr_cases_created (fst (run_case_detection sparse_cells year' clock now' lake db')) = 0"
proof -
  define positions where "positions = read_recent_positions LOOKBACK_MINUTES clock lake"
  define input where "input = detector_input sparse_cells db positions"
  let ?now = "newest_ts (ri_positions input)" and ?ps = "paired_anomalies input ALL_RULES"
  have ins: "insert_cases year now (surviving_anomalies sparse_cells clock lake db) [] db = (dr_by_rule r, db')"
    using run_case_detection_inserts[OF run] by simp
  have same: "detector_input sparse_cells db' positions = input"
    using insert_cases_frame[OF ins] by (simp add: input_def detector_input_def load_flight_plans_def load_weather_def)
  obtain r2 db2 where run2: "run_case_detection sparse_cells year' clock now' lake db' = (r2, db2)" by fastforce
  have created: "dr_cases_created r2 = length (surviving_anomalies sparse_cells clock lake db')"
    using run_case_detection_inserts[OF run2] by simp
  have "surviving_anomalies sparse_cells clock lake db' = []"
  proof (cases "list_all (\<lambda>r. pr_customer_region r = None) positions")
    case False
    have "surviving_anomalies sparse_cells clock lake db = deduplicate ?ps (load_open_cases db) ?now"
      using False by (simp add: surviving_anomalies_def positions_def[symmetric] input_def[symmetric] Let_def detect_and_dedup_def)
    then have "matches_existing (pair_key p) (snd p) (load_open_cases db') ?now" if "p \<in> set ?ps" for p
      using run_matches_findings[of year now sparse_cells db clock lake ?now "dr_by_rule r" db' p] ins stamps wf that
      unfolding input_def positions_def by simp
    moreover have "surviving_anomalies sparse_cells clock lake db' = deduplicate ?ps (load_open_cases db') ?now"
      using False by (simp add: surviving_anomalies_def positions_def[symmetric] same Let_def detect_and_dedup_def)
    ultimately show ?thesis using deduplicate_all_matched[of ?ps "load_open_cases db'" ?now] by simp
  qed (simp add: surviving_anomalies_def positions_def[symmetric])
  then show ?thesis using created run2 by simp
qed

end
