(* ===== verification/DetectorRuns.thy ===== *)
theory DetectorRuns
  imports Detector
begin

text \<open>
  The detector against the feed and the baseline: what keeps an aircraft from being called lost, what a
  baseline provider owes the delay rule, and worked runs of the whole detector.
\<close>

section \<open>Signal loss\<close>

lemma feed_last_seen_ge:
  assumes "r \<in> set positions"
  obtains t where "feed_last_seen positions (pr_icao24 r) = Some t" "pr_ts_polled r \<le> t"
proof -
  let ?mine = "filter (\<lambda>q. pr_icao24 q = pr_icao24 r) positions"
  have "r \<in> set ?mine" using assms by simp
  then have "?mine \<noteq> []" by (metis empty_iff list.set(1))
  then obtain m where m: "max_by pr_ts_polled ?mine = Some m" by (metis max_by_None not_Some_eq)
  then have "pr_ts_polled r \<le> pr_ts_polled m" using max_by_Some(2)[OF m] assms by simp
  then show ?thesis using that m by (simp add: feed_last_seen_def)
qed

lemma detector_input_feed_last:
  "e \<in> set (ri_positions (detector_input cells db positions)) \<Longrightarrow>
     er_feed_last_ts e = feed_last_seen positions (pr_icao24 e)"
  by (auto simp: detector_input_def Let_def attach_feed_last_def)

lemma lost_signal_gap:
  assumes "lost_signal_group cells now (k, grp) = Some a"
  obtains newest where "newest \<in> set grp" "LOST_MIN_GAP \<le> now - feed_last grp newest"
  using assms latest_row_Some(1)
  by (auto simp: lost_signal_group_def Let_def split: option.splits if_splits)

text \<open>C27. Only a silent aircraft is lost: one with any position, in scope or not, polled less than 14 minutes
  before the newest in-scope poll is not reported, however old its in-scope rows are.\<close>

theorem present_in_feed_not_lost:
  assumes "r \<in> set positions"
    and "newest_ts (ri_positions (detector_input cells db positions)) - pr_ts_polled r < LOST_MIN_GAP"
    and "a \<in> set (detect (detector_input cells db positions) LostSignalRule)"
  shows "an_icao24 a \<noteq> pr_icao24 r"
proof
  assume k: "an_icao24 a = pr_icao24 r"
  let ?i = "detector_input cells db positions"
  let ?grp = "filter (\<lambda>e. pr_icao24 e = pr_icao24 r) (ri_positions ?i)"
  have "lost_signal_group (ri_sparse_cells ?i) (newest_ts (ri_positions ?i)) (pr_icao24 r, ?grp) = Some a"
    using assms(3) lost_signal.found_group[of a] k by (auto simp: detect_found simp del: detect.simps split: if_splits)
  then obtain newest where n: "newest \<in> set ?grp" "LOST_MIN_GAP \<le> newest_ts (ri_positions ?i) - feed_last ?grp newest"
    by (rule lost_signal_gap)
  obtain t where t: "feed_last_seen positions (pr_icao24 r) = Some t" "pr_ts_polled r \<le> t"
    using feed_last_seen_ge[OF assms(1)] .
  obtain e es where grp: "?grp = e # es" using n(1) by (cases ?grp) simp_all
  have "e \<in> set ?grp" using grp by simp
  then have "e \<in> set (ri_positions ?i)" "pr_icao24 e = pr_icao24 r" by simp_all
  then have "er_feed_last_ts e = Some t" using detector_input_feed_last[of e] t(1) by simp
  then have "feed_last ?grp newest = t" unfolding grp by (simp add: feed_last_def)
  then show False using n(2) t(2) assms(2) by simp
qed

section \<open>Baselines\<close>

text \<open>What the delay rule relies on: a known duration is at least the fixed overhead, and a flight has two
  different ends.\<close>

locale baseline_provider =
  fixes expected :: "string \<Rightarrow> string \<Rightarrow> duration option"
  assumes overhead: "expected origin destination = Some t \<Longrightarrow> minutes 35 \<le> t"
    and two_ends: "expected origin destination = Some t \<Longrightarrow> origin \<noteq> destination"
begin

lemma delay_group_overdue:
  assumes "delay_group expected now (k, grp) = Some a"
  shows "\<exists>r \<in> set grp. \<exists>departure. \<not> pr_on_ground r \<and> er_departure_time r = Some departure \<and>
           er_origin_icao r \<noteq> er_destination_icao r \<and> seconds (45 * 60 + 30) < now - departure"
proof -
  obtain r departure origin destination e where r: "latest_row grp = Some r" "\<not> pr_on_ground r"
      "opt_str (er_origin_icao r) = Some origin" "opt_str (er_destination_icao r) = Some destination"
      "er_departure_time r = Some departure" "expected origin destination = Some e"
      "delay_threshold e < now - departure"
    using assms by (auto simp: delay_group_def Let_def not_le split: option.splits if_splits)
  have "origin \<noteq> destination" using two_ends[OF r(6)] .
  then have "er_origin_icao r \<noteq> er_destination_icao r" using r(3,4) by auto
  moreover have "seconds (45 * 60 + 30) \<le> delay_threshold e"
    unfolding delay_threshold_def
    by (rule divide_nearest_ge) (use overhead[OF r(6)] in \<open>simp_all add: seconds_def minutes_def\<close>)
  ultimately show ?thesis using r latest_row_Some(1)[OF r(1)] by fastforce
qed

end

interpretation heuristic: baseline_provider "heuristic_expected coords" for coords
  by unfold_locales (blast dest: heuristic_expected_overhead)+

text \<open>A delay case is a real overrun: with the heuristic baseline every delayed aircraft is in the air, has
  a recorded departure and different ends, and has been flying for more than 45 minutes and 30 seconds.\<close>

theorem delay_cases_overdue:
  assumes "a \<in> set (delay_detect (heuristic_expected coords) positions)"
  shows "\<exists>r \<in> set positions. \<exists>departure. pr_icao24 r = an_icao24 a \<and> \<not> pr_on_ground r \<and>
     er_departure_time r = Some departure \<and> er_origin_icao r \<noteq> er_destination_icao r \<and>
     seconds (45 * 60 + 30) < newest_ts positions - departure"
proof -
  have "delay_group (heuristic_expected coords) (newest_ts positions)
      (an_icao24 a, filter (\<lambda>r. pr_icao24 r = an_icao24 a) positions) = Some a"
    using assms delay.found_group[of a] by (auto simp: delay_detect_def delay.found_def split: if_splits)
  from heuristic.delay_group_overdue[OF this] show ?thesis by auto
qed

section \<open>Holding patterns\<close>

lemma recent_positions_bounds:
  "r \<in> set (read_recent_positions lookback clock lake) \<Longrightarrow> clock - minutes lookback \<le> pr_ts_polled r"
  by (simp add: read_recent_positions_def Let_def)

lemma detector_input_times:
  assumes "e \<in> set (ri_positions (detector_input cells db positions))"
  obtains r where "r \<in> set positions" "pr_ts_polled e = pr_ts_polled r"
  using assms by (auto simp: detector_input_def Let_def attach_feed_last_def enrich_positions_def to_enriched_def
      PositionRow.defs EnrichedRow.defs)

lemma short_span_no_hold:
  assumes "\<And>r. r \<in> set grp \<Longrightarrow> lo \<le> pr_ts_polled r \<and> pr_ts_polled r < lo + HOLD_MIN_DURATION"
  shows "excessive_hold_group (k, grp) = None"
proof (cases "hold_near grp = []")
  case False
  let ?ts = "set (map pr_ts_polled (hold_near grp))"
  have "?ts \<noteq> {}" "finite ?ts" using False by simp_all
  then have "Max ?ts \<in> ?ts" "Min ?ts \<in> ?ts" by (rule Max_in[rotated], rule Min_in[rotated])
  moreover have "lo \<le> t \<and> t < lo + HOLD_MIN_DURATION" if "t \<in> ?ts" for t
    using that assms by (auto simp: hold_near_def)
  ultimately have "lo \<le> Min ?ts" "Max ?ts < lo + HOLD_MIN_DURATION" by blast+
  then have "ts_span (hold_near grp) < HOLD_MIN_DURATION" unfolding ts_span_def by linarith
  then show ?thesis by (simp add: excessive_hold_group_def Let_def)
qed (simp add: excessive_hold_group_def HOLD_MIN_SNAPSHOTS_def Let_def)

text \<open>C30. The holding rule cannot fire: the detector reads the last 30 minutes, the rule wants a span of at
  least 30 minutes, and a snapshot is always polled before the detector's clock is read, so the span
  stays below the limit, whatever the aircraft did.\<close>

theorem holds_never_detected:
  assumes "\<forall>r \<in> set (read_recent_positions LOOKBACK_MINUTES clock lake). pr_ts_polled r < clock"
  shows "detect (detector_input cells db (read_recent_positions LOOKBACK_MINUTES clock lake)) ExcessiveHoldRule = []"
proof -
  let ?i = "detector_input cells db (read_recent_positions LOOKBACK_MINUTES clock lake)"
  have "clock - HOLD_MIN_DURATION \<le> pr_ts_polled e \<and> pr_ts_polled e < clock - HOLD_MIN_DURATION + HOLD_MIN_DURATION"
    if e: "e \<in> set (ri_positions ?i)" for e
    using detector_input_times[OF e] assms recent_positions_bounds
    by (metis HOLD_MIN_DURATION_def LOOKBACK_MINUTES_def diff_add_cancel)
  then have "excessive_hold_group g = None" if "g \<in> set (groups (ri_positions ?i))" for g
    using that short_span_no_hold[of "snd g" "clock - HOLD_MIN_DURATION" "fst g"] by (cases g) (auto simp: groups_iff)
  then have "a \<notin> set (excessive_hold_detect (ri_positions ?i))" for a
    by (auto simp: excessive_hold_detect_def map_filter_in_set)
  then have "excessive_hold_detect (ri_positions ?i) = []" by (metis last_in_set)
  then show ?thesis by simp
qed

section \<open>Worked runs\<close>

definition demo_position :: "string \<Rightarrow> instant \<Rightarrow> string option \<Rightarrow> PositionRow" where
  "demo_position icao24 t region =
     \<lparr>pr_icao24 = icao24, pr_callsign = Some ''DAL1'', pr_origin_country = None, pr_lat = Some 47, pr_lon = Some (- 122),
      pr_altitude_ft = Some 26000, pr_speed_kt = None, pr_heading_deg = None, pr_vertical_rate_fpm = None,
      pr_on_ground = False, pr_squawk = None, pr_ts_polled = t, pr_ts_position = None, pr_customer_region = region\<rparr>"

definition demo_db :: DetectorDb where
  "demo_db = \<lparr>dd_app = \<lparr>db_cases = [], db_timeline = [], db_watermark = None, db_push_locked = False\<rparr>, dd_seq = 0,
     dd_flight_plans = [\<lparr>fpr_icao24 = ''bb'', fpr_origin_icao = Some ''KSFO'', fpr_destination_icao = Some ''KSEA'',
        fpr_departure_time = Some 0, fpr_fetch_status = ''success''\<rparr>],
     dd_weather = [\<lparr>apc_site_icao = ''KSEA'', apc_flight_category = Some ''LIFR'', apc_wind_kt = Some 9,
        apc_visibility_sm = Some (1/2), apc_ceiling_ft = Some 200\<rparr>],
     dd_airport_coords = [], dd_watched_coords = [(''KSEA'', (47, - 122))], dd_runbooks = [(''RB-1'', [''weather_impact''])]\<rparr>"

definition demo_feed :: "PositionRow list" where
  "demo_feed = [demo_position ''aa'' 0 (Some ''west''), demo_position ''bb'' 0 (Some ''west''),
     demo_position ''aa'' (minutes 15) None, demo_position ''cc'' (minutes 15) (Some ''west'')]"

definition demo_row :: "string \<Rightarrow> instant \<Rightarrow> instant \<Rightarrow> EnrichedRow" where
  "demo_row icao24 t last_seen =
     (to_enriched (demo_position icao24 t (Some ''west''))
        (if icao24 = ''bb'' then Some (hd (dd_flight_plans demo_db)) else None)
        (Some ''KSEA'', Some (haversine_matrix (47, - 122) (47, - 122))))\<lparr>er_feed_last_ts := Some last_seen\<rparr>"

lemma demo_input:
  "ri_positions (detector_input [] demo_db demo_feed) =
     [demo_row ''aa'' 0 (minutes 15), demo_row ''bb'' 0 0, demo_row ''cc'' (minutes 15) (minutes 15)]"
  by (simp add: detector_input_def demo_feed_def demo_position_def attach_feed_last_def enrich_positions_def
      demo_row_def plan_matches_def load_flight_plans_def demo_db_def feed_last_seen_def max_by_def
      nearest_site_def nearest_by_def min_by_def to_enriched_def PositionRow.defs EnrichedRow.defs minutes_def)

lemma demo_groups: "groups (ri_positions (detector_input [] demo_db demo_feed)) =
    [(''aa'', [demo_row ''aa'' 0 (minutes 15)]), (''bb'', [demo_row ''bb'' 0 0]), (''cc'', [demo_row ''cc'' (minutes 15) (minutes 15)])]"
proof -
  have "sorted_set [''aa'', ''bb'', ''cc''] = [''aa'', ''bb'', ''cc'']" by code_simp
  then show ?thesis
    by (simp add: groups_def demo_input demo_row_def demo_position_def to_enriched_def PositionRow.defs EnrichedRow.defs)
qed

lemma demo_newest: "newest_ts (ri_positions (detector_input [] demo_db demo_feed)) = minutes 15"
  by (simp add: newest_ts_def demo_input demo_row_def demo_position_def to_enriched_def PositionRow.defs EnrichedRow.defs minutes_def)

lemmas demo_rows = demo_row_def demo_position_def to_enriched_def PositionRow.defs EnrichedRow.defs demo_db_def

lemmas group_checks = lost_signal_group_def diversion_group_def excessive_hold_group_def go_around_group_def
  delay_group_def latest_row_def max_by_def feed_last_def CRUISE_FLOOR_FT_def LOST_MIN_GAP_def LOST_MAX_GAP_def
  opt_str_def HOLD_MIN_SNAPSHOTS_def GO_AROUND_MIN_SNAPSHOTS_def

lemma demo_present: "lost_signal_group [] (minutes 15) (k, [demo_row k t (minutes 15)]) = None"
  by (simp add: demo_rows group_checks minutes_def)

lemma demo_silent: "map_option an_icao24 (lost_signal_group [] (minutes 15) (''bb'', [demo_row ''bb'' 0 0])) = Some ''bb''"
  by (simp add: demo_rows group_checks minutes_def classify_severity_def ALT_HIGH_CEILING_FT_def LONG_GAP_THRESHOLD_def)

lemma demo_lost: "map an_icao24 (detect (detector_input [] demo_db demo_feed) LostSignalRule) = [''bb'']"
proof -
  obtain b where "lost_signal_group [] (minutes 15) (''bb'', [demo_row ''bb'' 0 0]) = Some b" "an_icao24 b = ''bb''"
    using demo_silent by (auto simp del: map_option_eq_Some dest!: map_option_eq_Some[THEN iffD1])
  moreover have "ri_sparse_cells (detector_input [] demo_db demo_feed) = []" by (simp add: detector_input_def Let_def)
  moreover have "ri_positions (detector_input [] demo_db demo_feed) \<noteq> []" by (simp add: demo_input)
  ultimately show ?thesis
    by (simp add: lost_signal_detect_def demo_groups demo_newest demo_present map_filter_simps)
qed

lemma present_in_feed_not_lost_witness:
  "an_icao24 (hd (detect (detector_input [] demo_db demo_feed) LostSignalRule)) \<noteq> ''aa''"
proof -
  have "detect (detector_input [] demo_db demo_feed) LostSignalRule \<noteq> []" using demo_lost by (metis list.distinct(1) list.map_disc_iff)
  then have "hd (detect (detector_input [] demo_db demo_feed) LostSignalRule) \<in> set (detect (detector_input [] demo_db demo_feed) LostSignalRule)"
    by (rule hd_in_set)
  moreover have "demo_position ''aa'' (minutes 15) None \<in> set demo_feed" by (simp add: demo_feed_def)
  moreover have "newest_ts (ri_positions (detector_input [] demo_db demo_feed)) - pr_ts_polled (demo_position ''aa'' (minutes 15) None) < LOST_MIN_GAP"
    unfolding demo_newest by (simp add: demo_position_def LOST_MIN_GAP_def minutes_def)
  ultimately have "an_icao24 (hd (detect (detector_input [] demo_db demo_feed) LostSignalRule)) \<noteq> pr_icao24 (demo_position ''aa'' (minutes 15) None)"
    using present_in_feed_not_lost by blast
  then show ?thesis by (simp add: demo_position_def)
qed

text \<open>A delayed flight: two airports at one place, airborne for an hour.\<close>

definition demo_coords :: "(string, coord) dict" where
  "demo_coords = [(''KAAA'', (40, - 120)), (''KBBB'', (40, - 120))]"

definition demo_delayed :: EnrichedRow where
  "demo_delayed = (demo_fix (hours 1) 30000)\<lparr>er_origin_icao := Some ''KAAA'', er_destination_icao := Some ''KBBB'',
     er_departure_time := Some 0\<rparr>"

lemma demo_flight_time: "heuristic_expected demo_coords ''KAAA'' ''KBBB'' = Some (minutes 35)"
  by (simp add: heuristic_expected_def demo_coords_def haversine_nm_def radians_def py_atan2_def Let_def
      DEFAULT_CRUISE_SPEED_KT_def DEFAULT_FIXED_OVERHEAD_MIN_def timedelta_minutes_def round_half_even_def minutes_def)

lemma delay_cases_overdue_witness:
  "\<exists>r \<in> set [demo_delayed]. \<exists>departure. pr_icao24 r = ''aa'' \<and> \<not> pr_on_ground r \<and>
     er_departure_time r = Some departure \<and> er_origin_icao r \<noteq> er_destination_icao r \<and>
     seconds (45 * 60 + 30) < newest_ts [demo_delayed] - departure"
proof -
  have "delay_threshold (minutes 35) < hours 1" by (simp add: delay_threshold_def divide_nearest_def minutes_def hours_def)
  then have "map an_icao24 (delay_detect (heuristic_expected demo_coords) [demo_delayed]) = [''aa'']"
    by (simp add: delay_detect_def groups_def map_filter_simps delay_group_def latest_row_def max_by_def opt_str_def
        demo_flight_time demo_delayed_def demo_fix_def newest_ts_def sorted_set_def Let_def)
  then obtain a where a: "a \<in> set (delay_detect (heuristic_expected demo_coords) [demo_delayed])" "an_icao24 a = ''aa''"
    by (auto simp: map_eq_Cons_conv)
  show ?thesis using delay_cases_overdue[OF a(1)] a(2) by metis
qed

text \<open>A whole run: one aircraft, and an airport in low visibility.\<close>

definition demo_lake :: Lake where
  "demo_lake = \<lparr>lk_positions = [(0, [(0, [demo_position ''cc'' (minutes 15) (Some ''west'')])])],
     lk_archive = [], lk_uuid = 1, lk_disk = []\<rparr>"

definition demo_anomaly :: Anomaly where
  "demo_anomaly = hd (weather_impact_detect (load_weather demo_db))"

lemma demo_read: "read_recent_positions LOOKBACK_MINUTES (minutes 16) demo_lake = [demo_position ''cc'' (minutes 15) (Some ''west'')]"
  by code_simp

lemma demo_input1: "ri_positions (detector_input [] demo_db [demo_position ''cc'' (minutes 15) (Some ''west'')]) =
    [demo_row ''cc'' (minutes 15) (minutes 15)]"
  by (simp add: detector_input_def demo_position_def attach_feed_last_def enrich_positions_def
      demo_row_def plan_matches_def load_flight_plans_def demo_db_def feed_last_seen_def max_by_def
      nearest_site_def nearest_by_def min_by_def to_enriched_def PositionRow.defs EnrichedRow.defs minutes_def)

lemma demo_paired:
  "paired_anomalies (detector_input [] demo_db [demo_position ''cc'' (minutes 15) (Some ''west'')]) ALL_RULES =
     [(demo_anomaly, WeatherImpactRule)]"
proof -
  let ?i = "detector_input [] demo_db [demo_position ''cc'' (minutes 15) (Some ''west'')]" and ?r = "demo_row ''cc'' (minutes 15) (minutes 15)"
  have k: "pr_icao24 ?r = ''cc''" "pr_ts_polled ?r = minutes 15" by (simp_all add: demo_rows)
  have g: "groups (ri_positions ?i) = [(''cc'', [?r])]" by (simp add: demo_input1 groups_def k sorted_set_def)
  have n: "newest_ts (ri_positions ?i) = minutes 15" by (simp add: demo_input1 newest_ts_def k)
  have "lost_signal_group c (minutes 15) (''cc'', [?r]) = None" "diversion_group (''cc'', [?r]) = None" "excessive_hold_group (''cc'', [?r]) = None"
    "go_around_group (''cc'', [?r]) = None" "delay_group bl (minutes 15) (''cc'', [?r]) = None" for c bl
    by (simp_all add: demo_rows group_checks minutes_def hold_near_def go_around_near_def)
  then have "detect ?i LostSignalRule = []" "detect ?i DiversionRule = []" "detect ?i ExcessiveHoldRule = []"
    "detect ?i GoAroundRule = []" "detect ?i DelayRule = []"
    by (simp_all add: rule_detects g n map_filter_simps)
  moreover have "detect ?i WeatherImpactRule = [demo_anomaly]"
    by (simp add: demo_anomaly_def detector_input_def Let_def weather_impact_detect_def load_weather_def demo_db_def map_filter_simps)
  ultimately show ?thesis by (simp add: paired_anomalies_def ALL_RULES_def)
qed

lemma demo_surviving: "surviving_anomalies [] (minutes 16) demo_lake demo_db = [demo_anomaly]"
proof -
  have "detect_and_dedup (detector_input [] demo_db [demo_position ''cc'' (minutes 15) (Some ''west'')]) [] ALL_RULES now = [demo_anomaly]" for now
    by (simp add: detect_and_dedup_def demo_paired deduplicate_def matches_existing_def)
  moreover have "load_open_cases demo_db = []" by (simp add: load_open_cases_def demo_db_def)
  ultimately show ?thesis
    by (simp add: surviving_anomalies_def demo_read demo_position_def[of _ _ "Some ''west''"])
qed

lemma detection_inserts_witness:
  "\<exists>rows. let (r, db') = run_case_detection [] 2026 (minutes 16) (\<lambda>_. minutes 16) demo_lake demo_db in
     db_cases (dd_app db') = rows \<and> map cr_case_id rows = [''CASE-2026-000001''] \<and>
     map cr_case_type rows = [''weather_impact''] \<and> dr_cases_created r = 1"
proof -
  obtain r db' where run: "run_case_detection [] 2026 (minutes 16) (\<lambda>_. minutes 16) demo_lake demo_db = (r, db')"
    by fastforce
  have db: "db_cases (dd_app demo_db) = []" "dd_seq demo_db = 0" by (simp_all add: demo_db_def)
  have id: "next_case_id 2026 (Suc 0) = ''CASE-2026-000001''" by code_simp
  have "an_rule demo_anomaly = ''weather_impact''"
    by (simp add: demo_anomaly_def weather_impact_detect_def load_weather_def demo_db_def map_filter_simps)
  then show ?thesis using detection_inserts[OF run] unfolding run
    by (auto simp: demo_surviving Let_def db length_Suc_conv id)
qed

lemma detector_idempotent_witness:
  "dr_cases_created (fst (run_case_detection [] 2026 (minutes 16) (\<lambda>_. minutes 17) demo_lake
     (snd (run_case_detection [] 2026 (minutes 16) (\<lambda>_. minutes 16) demo_lake demo_db)))) = 0"
proof -
  obtain r db' where run: "run_case_detection [] 2026 (minutes 16) (\<lambda>_. minutes 16) demo_lake demo_db = (r, db')"
    by fastforce
  have "newest_ts (ri_positions (detector_input [] demo_db (read_recent_positions LOOKBACK_MINUTES (minutes 16) demo_lake))) \<le> minutes 16"
    unfolding demo_read demo_input1 by (simp add: newest_ts_def demo_rows minutes_def)
  moreover have "wf_feed (read_recent_positions LOOKBACK_MINUTES (minutes 16) demo_lake)"
    by (simp add: demo_read wf_feed_def demo_position_def)
  moreover have "wf_watchlist (dd_watched_coords demo_db)" by (simp add: wf_watchlist_def demo_db_def)
  ultimately show ?thesis using detector_idempotent[OF run, of 2026 "\<lambda>_. minutes 17"] by (simp add: run)
qed

text \<open>An aircraft that circles at one place for an hour, polled every minute.\<close>

definition circling_lake :: Lake where
  "circling_lake = \<lparr>lk_positions = [(0, [(0, map (\<lambda>i. (demo_position ''dd'' (minutes i) (Some ''west''))
       \<lparr>pr_altitude_ft := Some 6000, pr_heading_deg := Some (i * 30)\<rparr>) [0..59])])], lk_archive = [], lk_uuid = 1, lk_disk = []\<rparr>"

lemma holds_never_detected_witness:
  "detect (detector_input [] demo_db (read_recent_positions LOOKBACK_MINUTES (hours 1 - 1) circling_lake)) ExcessiveHoldRule = []"
proof (rule holds_never_detected)
  show "\<forall>r \<in> set (read_recent_positions LOOKBACK_MINUTES (hours 1 - 1) circling_lake). pr_ts_polled r < hours 1 - 1"
    by (auto simp: read_recent_positions_def circling_lake_def rows_in_def dir_rows_def recent_partition_dirs_def
        hour_of_def demo_position_def hours_def minutes_def LOOKBACK_MINUTES_def map_filter_simps upto_rec1
        simp del: upto_rec_numeral split: if_splits)
qed

end
