(* ===== verification/FlightPlanRuns.thy ===== *)
theory FlightPlanRuns
  imports FlightPlans DetectorRuns
begin

text \<open>
  What a cycle of the flight-plan cache leaves behind: which aircraft it serves, how long an answer is kept,
  and what a kept answer does to the delay rule.
\<close>

section \<open>One cycle\<close>

text \<open>After a cycle every served aircraft has a plan refreshed since the start, every other plan is untouched.\<close>

definition refreshed_since :: "instant \<Rightarrow> flight_plans \<Rightarrow> string \<Rightarrow> bool" where
  "refreshed_since t0 plans i \<longleftrightarrow> (\<exists>p. dget plans i = Some p \<and> t0 \<le> cpl_refreshed_at p)"

lemma store_plan_effect:
  assumes "store_plan db_now i flight status st = (Inr u, st')" "t0 \<le> db_now (snd (pst_sky st))"
  shows "pst_sky st' = pst_sky st" "refreshed_since t0 (pst_plans st') i"
    "\<And>j. j \<noteq> i \<Longrightarrow> dget (pst_plans st') j = dget (pst_plans st) j"
  using assms by (auto simp: store_plan_def upsert_flight_plan_def rbind_Inr refreshed_since_def split: sum.splits)

definition counts_ok :: "PlanEnrichmentResult \<Rightarrow> bool" where
  "counts_ok res \<longleftrightarrow> per_fetch_attempts res = per_fetched_success res + per_fetched_not_found res + per_fetched_error res"

text \<open>The step of the loop: a rate limit ends it with the state of the client only; anything else that goes on
  has stored one plan and counted one attempt.\<close>

lemma plan_loop_step:
  assumes "plan_loop api db_now now (i # is) res st = (Inr out, st')"
  obtains (limited) sky where "snd (fetch_flight_history api i (now - FETCH_WINDOW_SECONDS) now (pst_sky st)) = sky"
      "out = res\<lparr>per_rate_limited := True\<rparr>" "pst_plans st' = pst_plans st"
  | (served) sky flight status res' st1 u where "snd (fetch_flight_history api i (now - FETCH_WINDOW_SECONDS) now (pst_sky st)) = sky"
      "store_plan db_now i flight status (st\<lparr>pst_sky := sky\<rparr>) = (Inr u, st1)"
      "plan_loop api db_now now is res' st1 = (Inr out, st')"
      "per_fetch_attempts res' = Suc (per_fetch_attempts res)" "counts_ok res \<Longrightarrow> counts_ok res'"
      "per_rate_limited res' = per_rate_limited res" "per_candidates res' = per_candidates res" "per_deferred res' = per_deferred res"
proof -
  obtain flights sky where f: "fetch_flight_history api i (now - FETCH_WINDOW_SECONDS) now (pst_sky st) = (flights, sky)" by (metis surj_pair)
  show thesis
  proof (cases "flights = Inl OpenSkyRateLimited")
    case True
    then show thesis using assms f limited by (auto simp: Let_def)
  next
    case False
    then have "\<exists>flight status res' st1 u. store_plan db_now i flight status (st\<lparr>pst_sky := sky\<rparr>) = (Inr u, st1) \<and>
        plan_loop api db_now now is res' st1 = (Inr out, st') \<and> per_fetch_attempts res' = Suc (per_fetch_attempts res) \<and>
        (counts_ok res \<longrightarrow> counts_ok res') \<and> per_rate_limited res' = per_rate_limited res \<and>
        per_candidates res' = per_candidates res \<and> per_deferred res' = per_deferred res"
      using assms f
      by (auto simp: Let_def counts_ok_def split: sum.splits opensky_error.splits option.splits prod.splits)
        (fastforce simp: counts_ok_def)+
    then show thesis using served f by (metis snd_conv)
  qed
qed

lemma plan_loop_effect:
  assumes "plan_loop api db_now now is res st = (Inr out, st')" "kept_by api (\<lambda>w. t0 \<le> db_now w)"
    "t0 \<le> db_now (snd (pst_sky st))" "counts_ok res"
  shows "\<exists>k \<le> length is. per_fetch_attempts out = per_fetch_attempts res + k \<and> counts_ok out \<and>
     (per_rate_limited out \<or> k = length is) \<and> per_candidates out = per_candidates res \<and> per_deferred out = per_deferred res \<and>
     (\<forall>i. if i \<in> set (take k is) \<or> refreshed_since t0 (pst_plans st) i then refreshed_since t0 (pst_plans st') i
          else dget (pst_plans st') i = dget (pst_plans st) i)"
  using assms
proof (induction "is" arbitrary: res st)
  case (Cons i "is")
  from Cons.prems(1) show ?case
  proof (cases rule: plan_loop_step)
    case limited
    then show ?thesis using Cons.prems(4) by (intro exI[of _ 0]) (auto simp: counts_ok_def refreshed_since_def)
  next
    case (served sky flight status res' st1 u)
    have "t0 \<le> db_now (snd sky)"
      using kept_history[OF Cons.prems(2), of "pst_sky st"] Cons.prems(3) served(1) by (metis surjective_pairing)
    then have now1: "t0 \<le> db_now (snd (pst_sky (st\<lparr>pst_sky := sky\<rparr>)))" by simp
    note stored = store_plan_effect[OF served(2) now1]
    have "t0 \<le> db_now (snd (pst_sky st1))" using now1 stored(1) by simp
    from Cons.IH[OF served(3) Cons.prems(2) this served(5)[OF Cons.prems(4)]]
    obtain k where k: "k \<le> length is" "per_fetch_attempts out = per_fetch_attempts res' + k" "counts_ok out"
        "per_rate_limited out \<or> k = length is" "per_candidates out = per_candidates res'" "per_deferred out = per_deferred res'"
        "\<forall>j. if j \<in> set (take k is) \<or> refreshed_since t0 (pst_plans st1) j then refreshed_since t0 (pst_plans st') j
            else dget (pst_plans st') j = dget (pst_plans st1) j"
      by blast
    have "if j \<in> set (take (Suc k) (i # is)) \<or> refreshed_since t0 (pst_plans st) j then refreshed_since t0 (pst_plans st') j
          else dget (pst_plans st') j = dget (pst_plans st) j" for j
      using k(7)[rule_format, of j] stored(2) stored(3)[of j] by (cases "j = i") (auto simp: refreshed_since_def split: if_splits)
    then show ?thesis using k(1-6) served(4,6,7,8) by (intro exI[of _ "Suc k"]) auto
  qed
qed (intro exI[of _ 0], auto simp: refreshed_since_def)

lemma run_effect:
  assumes "run_flight_plan_enrichment api db_now now positions st = (Inr out, st')"
    "kept_by api (\<lambda>w. db_now (snd (pst_sky st)) \<le> db_now w)"
  defines "t0 \<equiv> db_now (snd (pst_sky st))"
  defines "chosen \<equiv> select_stale_icao24s t0 positions (pst_plans st)"
  shows "per_fetch_attempts out \<le> min 30 (length chosen)" "counts_ok out"
    "per_rate_limited out \<or> per_fetch_attempts out = min 30 (length chosen)"
    "per_candidates out = length chosen" "per_deferred out = length chosen - 30"
    "i \<in> set (take (per_fetch_attempts out) chosen) \<Longrightarrow> refreshed_since t0 (pst_plans st') i"
    "i \<notin> set (take (per_fetch_attempts out) chosen) \<Longrightarrow> \<not> refreshed_since t0 (pst_plans st) i \<Longrightarrow>
       dget (pst_plans st') i = dget (pst_plans st) i"
proof -
  have run: "plan_loop api db_now now (take MAX_FETCHES_PER_CYCLE chosen)
      \<lparr>per_candidates = length chosen, per_fetch_attempts = 0, per_fetched_success = 0, per_fetched_not_found = 0,
       per_fetched_error = 0, per_rate_limited = False, per_deferred = length chosen - length (take MAX_FETCHES_PER_CYCLE chosen)\<rparr> st
      = (Inr out, st')"
    using assms(1) unfolding run_flight_plan_enrichment_def Let_def chosen_def t0_def .
  have t0: "t0 \<le> db_now (snd (pst_sky st))" "kept_by api (\<lambda>w. t0 \<le> db_now w)" using assms(2) by (simp_all add: t0_def)
  obtain k where k: "k \<le> length (take MAX_FETCHES_PER_CYCLE chosen)" "per_fetch_attempts out = k" "counts_ok out"
      "per_rate_limited out \<or> k = length (take MAX_FETCHES_PER_CYCLE chosen)" "per_candidates out = length chosen"
      "per_deferred out = length chosen - length (take MAX_FETCHES_PER_CYCLE chosen)"
      "\<forall>i. if i \<in> set (take k (take MAX_FETCHES_PER_CYCLE chosen)) \<or> refreshed_since t0 (pst_plans st) i
          then refreshed_since t0 (pst_plans st') i else dget (pst_plans st') i = dget (pst_plans st) i"
    using plan_loop_effect[OF run t0(2) t0(1)] by (auto simp: counts_ok_def)
  have tk: "take k (take MAX_FETCHES_PER_CYCLE chosen) = take (per_fetch_attempts out) chosen" using k(1,2) by simp
  show "per_fetch_attempts out \<le> min 30 (length chosen)" "counts_ok out"
    "per_rate_limited out \<or> per_fetch_attempts out = min 30 (length chosen)"
    "per_candidates out = length chosen" "per_deferred out = length chosen - 30"
    using k(1-6) by (auto simp: MAX_FETCHES_PER_CYCLE_def)
  show "i \<in> set (take (per_fetch_attempts out) chosen) \<Longrightarrow> refreshed_since t0 (pst_plans st') i"
    "i \<notin> set (take (per_fetch_attempts out) chosen) \<Longrightarrow> \<not> refreshed_since t0 (pst_plans st) i \<Longrightarrow>
       dget (pst_plans st') i = dget (pst_plans st) i"
    using k(7)[rule_format, of i] unfolding tk by auto
qed

text \<open>The cycle keeps its budget and its books: it tries at most 30 aircraft, its three outcome counters add
  up to the attempts, every candidate is attempted, deferred past the cap or left behind by a rate limit, and
  without a rate limit none is left behind.\<close>

theorem plan_cycle_accounts:
  assumes "run_flight_plan_enrichment api db_now now positions st = (Inr out, st')"
    "kept_by api (\<lambda>w. db_now (snd (pst_sky st)) \<le> db_now w)"
  shows "per_fetch_attempts out \<le> 30 \<and>
    per_fetch_attempts out = per_fetched_success out + per_fetched_not_found out + per_fetched_error out \<and>
    per_fetch_attempts out + per_deferred out \<le> per_candidates out \<and>
    (\<not> per_rate_limited out \<longrightarrow> per_candidates out = per_fetch_attempts out + per_deferred out)"
  using run_effect(1-5)[OF assms] unfolding counts_ok_def by (auto simp: min_def split: if_splits)


section \<open>A plan that outlives its flight\<close>

text \<open>The detector's query of the table.\<close>

definition plan_row :: "CachedPlan \<Rightarrow> FlightPlanRow" where
  "plan_row p = \<lparr>fpr_icao24 = cpl_icao24 p, fpr_origin_icao = cpl_origin_icao p, fpr_destination_icao = cpl_destination_icao p,
     fpr_departure_time = cpl_departure_time p, fpr_fetch_status = cpl_fetch_status p\<rparr>"

text \<open>A plan outlives its flight: for twelve hours after a refresh no cycle asks for the aircraft again, and
  as long as the stored departure lies far enough back the delay rule reports the aircraft whenever it is in
  the air, on whatever flight - the stored arrival, which tells that the flight has ended, is never
  consulted.\<close>

theorem plan_outlives_flight:
  assumes "dget plans i = Some p" "cpl_icao24 p = i" "cpl_fetch_status p = ''success''"
    "cpl_origin_icao p = Some origin" "cpl_destination_icao p = Some destination" "origin \<noteq> []" "destination \<noteq> []"
    "cpl_departure_time p = Some departure" "heuristic_expected coords origin destination = Some expected"
    "t \<le> cpl_refreshed_at p + hours 12"
    "latest_row grp = Some (to_enriched r (Some (plan_row p)) site)" "\<not> pr_on_ground r"
    "delay_threshold expected < now - departure"
  shows "i \<notin> set (select_stale_icao24s t positions plans) \<and>
    delay_group (heuristic_expected coords) now (i, grp) \<noteq> None"
proof -
  have "\<not> stale t plans cp" if "cp_icao24 cp = i" for cp
    using assms(1,10) that by (simp add: stale_def CACHE_TTL_SECONDS_def seconds_def hours_def)
  then have "i \<notin> set (select_stale_icao24s t positions plans)" by (auto simp: select_stale_icao24s_def)
  moreover have "delay_group (heuristic_expected coords) now (i, grp) \<noteq> None"
    using assms(4-9,11-13)
    by (simp add: delay_group_def Let_def to_enriched_def plan_row_def opt_str_def PositionRow.defs EnrichedRow.defs)
  ultimately show ?thesis by simp
qed

section \<open>A worked cycle\<close>

text \<open>Two active aircraft; the first is unknown to the server (404), the second request meets the rate limit.\<close>

definition meager_sky :: "nat os_api" where
  "meager_sky = \<lparr>os_clock = (\<lambda>_. 0), os_token = (\<lambda>w. (None, w)),
     os_get = (\<lambda>token url params w. (Some \<lparr>rs_status = (if w = 0 then 404 else 429), rs_json = None, rs_headers = []\<rparr>, Suc w)),
     os_repr = (\<lambda>_. [])\<rparr>"

definition active :: "string \<Rightarrow> CurrentPosition" where
  "active icao24 = (position_tuple [] 0 (demo_position icao24 0 (Some ''west'')))"

definition meager_state :: "nat PlanState" where
  "meager_state = \<lparr>pst_sky = (\<lparr>os_cached_token = Some ''t'', os_cached_token_expires_at = 9\<rparr>, 0), pst_plans = []\<rparr>"

definition meager_run :: "(opensky_error + PlanEnrichmentResult) \<times> nat PlanState" where
  "meager_run = run_flight_plan_enrichment meager_sky (\<lambda>_. 60) 0 [(''bb'', active ''bb''), (''aa'', active ''aa'')] meager_state"

lemma meager_chosen: "select_stale_icao24s 60 [(''bb'', active ''bb''), (''aa'', active ''aa'')] [] = [''aa'', ''bb'']"
  by (simp add: select_stale_icao24s_def stale_def active_def position_tuple_def demo_position_def ACTIVE_WINDOW_SECONDS_def
      seconds_def refresh_order_def)

lemma meager_kept: "kept_by meager_sky (\<lambda>w. 60 \<le> (60 :: int))"
  by (simp add: kept_by_def)

lemma meager_out:
  obtains out st' where "run_flight_plan_enrichment meager_sky (\<lambda>_. 60) 0 [(''bb'', active ''bb''), (''aa'', active ''aa'')] meager_state = (Inr out, st')"
    "per_fetch_attempts out = 1" "per_rate_limited out" "meager_run = (Inr out, st')"
proof -
  let ?run = "run_flight_plan_enrichment meager_sky (\<lambda>_. 60) 0 [(''bb'', active ''bb''), (''aa'', active ''aa'')] meager_state"
  have "map_option (\<lambda>out. (per_fetch_attempts out, per_rate_limited out)) (case fst ?run of Inl _ \<Rightarrow> None | Inr out \<Rightarrow> Some out) = Some (1, True)"
    by (simp add: run_flight_plan_enrichment_def Let_def meager_state_def meager_chosen MAX_FETCHES_PER_CYCLE_def meager_sky_def
        fetch_flight_history_def get_authorized_def get_with_retry_def get_token_def os_bind_def numeral_2_eq_2
        pick_most_recent_def max_by_def store_plan_def upsert_flight_plan_def rbind_def)
  then obtain out where "fst ?run = Inr out" "per_fetch_attempts out = 1" "per_rate_limited out"
    by (auto split: sum.splits)
  then show thesis using that by (metis meager_run_def prod.collapse)
qed

lemma plan_cycle_accounts_witness:
  "case fst meager_run of Inl _ \<Rightarrow> False | Inr out \<Rightarrow> per_fetch_attempts out \<le> 30"
proof (rule meager_out)
  fix out st'
  assume run: "run_flight_plan_enrichment meager_sky (\<lambda>_. 60) 0 [(''bb'', active ''bb''), (''aa'', active ''aa'')] meager_state = (Inr out, st')"
    and out: "meager_run = (Inr out, st')"
  show ?thesis unfolding out using plan_cycle_accounts[OF run] meager_kept by (simp add: meager_state_def)
qed


text \<open>A flight that took less time than expected, seen as delayed hours after it has landed.\<close>

definition flown :: CachedPlan where
  "flown = \<lparr>cpl_icao24 = ''aa'', cpl_origin_icao = Some ''KAAA'', cpl_destination_icao = Some ''KBBB'', cpl_callsign = None,
     cpl_departure_time = Some 0, cpl_arrival_time = Some (minutes 30), cpl_refreshed_at = minutes 40, cpl_fetch_status = ''success''\<rparr>"

lemma plan_outlives_flight_witness:
  "''aa'' \<notin> set (select_stale_icao24s (hours 3) [(''aa'', active ''aa'')] [(''aa'', flown)]) \<and>
   delay_group (heuristic_expected demo_coords) (hours 3)
     (''aa'', [to_enriched (demo_position ''aa'' (hours 3) (Some ''west'')) (Some (plan_row flown)) (None, None)]) \<noteq> None"
  by (rule plan_outlives_flight[where p = flown and expected = "minutes 35" and departure = 0 and
        r = "demo_position ''aa'' (hours 3) (Some ''west'')" and site = "(None, None)", OF _ _ _ _ _ _ _ _ demo_flight_time])
    (simp_all add: flown_def latest_row_def max_by_def demo_position_def delay_threshold_def divide_nearest_def minutes_def hours_def)

end
