(* ===== verification/FoundryAssets.thy ===== *)
theory FoundryAssets
  imports SyncJobs
begin

text \<open>
  assets/foundry_sync.py: the seven assets around the sync jobs. What a run leaves for the next one is the
  metadata of its materialization: a dictionary of texts and numbers, of which the orchestrator keeps the
  latest event per asset. The text of an isoformat is \<open>JIso\<close> and that of a json.dumps \<open>JDumps\<close>, read back
  by fromisoformat and json.loads; no other value is written under the state keys. A run that is skipped
  materializes, too; a run that raises does not.
\<close>

section \<open>Materializations\<close>

type_synonym metadata = "(string, json) dict"

record 'w AssetState =
  as_world :: 'w
  as_events :: "(string, metadata) dict"

definition CURSOR_KEY :: string where "CURSOR_KEY = ''cursor''"
definition DETECTOR_STATE_KEY :: string where "DETECTOR_STATE_KEY = ''detector_state''"
definition OPEN_FLIGHT_STATE_KEY :: string where "OPEN_FLIGHT_STATE_KEY = ''open_flight_state''"

definition latest_entry :: "(string, metadata) dict \<Rightarrow> string \<Rightarrow> string \<Rightarrow> json option" where
  "latest_entry events asset_key entry_key = Option.bind (dget events asset_key) (\<lambda>meta. dget meta entry_key)"

definition prior_cursor :: "(string, metadata) dict \<Rightarrow> string \<Rightarrow> instant option" where
  "prior_cursor events asset_key =
     (case latest_entry events asset_key CURSOR_KEY of Some (JIso t) \<Rightarrow> Some t | _ \<Rightarrow> None)"

definition loads_dict :: "json option \<Rightarrow> (string, json) dict option" where
  "loads_dict entry = (case entry of Some (JDumps (JObj raw)) \<Rightarrow> Some raw | _ \<Rightarrow> None)"

definition prior_detector_state :: "(string, metadata) dict \<Rightarrow> string \<Rightarrow> (string, bool) dict option" where
  "prior_detector_state events asset_key =
     map_option (map (map_prod id truthy)) (loads_dict (latest_entry events asset_key DETECTOR_STATE_KEY))"

definition prior_open_flight_state :: "(json \<Rightarrow> string) \<Rightarrow> (string, metadata) dict \<Rightarrow> string \<Rightarrow> (string, string) dict option" where
  "prior_open_flight_state str_of events asset_key =
     map_option (map (map_prod id (\<lambda>v. case v of JStr s \<Rightarrow> s | _ \<Rightarrow> str_of v)))
       (loads_dict (latest_entry events asset_key OPEN_FLIGHT_STATE_KEY))"

definition skipped :: "string \<Rightarrow> metadata" where
  "skipped reason = [(''attempted'', JInt 0), (''succeeded'', JInt 0), (''failed'', JInt 0), (''skip_reason'', JStr reason)]"

definition opt_entry :: "string \<Rightarrow> ('a \<Rightarrow> json) \<Rightarrow> 'a option \<Rightarrow> metadata" where
  "opt_entry k f v = (case v of None \<Rightarrow> [] | Some x \<Rightarrow> [(k, f x)])"

definition result_metadata :: "SyncResult \<Rightarrow> metadata" where
  "result_metadata result =
     [(''attempted'', JInt (int (sr_attempted result))), (''succeeded'', JInt (int (sr_succeeded result))),
      (''failed'', JInt (int (sr_failed result))), (''takeoffs_detected'', JInt (int (sr_takeoffs_detected result))),
      (''flights_written'', JInt (int (sr_flights_written result))),
      (''landings_detected'', JInt (int (sr_landings_detected result))),
      (''flights_landed'', JInt (int (sr_flights_landed result)))] @
     opt_entry CURSOR_KEY JIso (sr_cursor result) @
     opt_entry DETECTOR_STATE_KEY (\<lambda>d. JDumps (JObj (map (map_prod id JBool) d))) (sr_detector_state result) @
     opt_entry OPEN_FLIGHT_STATE_KEY (\<lambda>d. JDumps (JObj (map (map_prod id JStr) d))) (sr_open_flight_state result)"

definition reconcile_metadata :: "ReconcileResult \<Rightarrow> metadata" where
  "reconcile_metadata result =
     [(''live'', JInt (int (rr_live result))), (''tenant'', JInt (int (rr_tenant result))),
      (''orphans'', JInt (int (rr_orphans result))), (''deleted'', JInt (int (rr_deleted result))),
      (''remaining'', JInt (int (rr_remaining result))), (''skipped_empty_live'', JBool (rr_skipped_empty_live result))]"

definition enrichment_metadata :: "FlightEnrichmentResult \<Rightarrow> metadata" where
  "enrichment_metadata result =
     [(''tenant_flights'', JInt (int (fer_tenant_flights result))), (''candidates'', JInt (int (fer_candidates result))),
      (''enriched'', JInt (int (fer_enriched result))), (''skipped_inactive'', JInt (int (fer_skipped_inactive result))),
      (''fetch_failed'', JInt (int (fer_fetch_failed result)))]"

definition cases_metadata :: "CaseSyncResult \<Rightarrow> metadata" where
  "cases_metadata result =
     [(''attempted'', JInt (int (csr_attempted result))), (''succeeded'', JInt (int (csr_succeeded result))),
      (''failed'', JInt (int (csr_failed result)))] @ opt_entry CURSOR_KEY JIso (csr_cursor result)"

definition flight_reconcile_metadata :: "FlightReconcileResult \<Rightarrow> metadata" where
  "flight_reconcile_metadata result =
     [(''live_airborne'', JInt (int (frr_live_airborne result))), (''tenant'', JInt (int (frr_tenant result))),
      (''keep'', JInt (int (frr_keep result))), (''orphans'', JInt (int (frr_orphans result))),
      (''completed_skipped'', JInt (int (frr_completed_skipped result))), (''deleted'', JInt (int (frr_deleted result))),
      (''remaining'', JInt (int (frr_remaining result))), (''skipped_empty_live'', JBool (frr_skipped_empty_live result)),
      (''live_marked_true'', JInt (int (frr_live_marked_true result))),
      (''live_marked_false'', JInt (int (frr_live_marked_false result)))]"

definition case_reconcile_metadata :: "CaseReconcileResult \<Rightarrow> metadata" where
  "case_reconcile_metadata result =
     [(''pg_cases'', JInt (int (crr_pg_cases result))), (''tenant'', JInt (int (crr_tenant result))),
      (''orphans'', JInt (int (crr_orphans result))), (''deleted'', JInt (int (crr_deleted result))),
      (''remaining'', JInt (int (crr_remaining result))), (''skipped_empty_keep'', JBool (crr_skipped_empty_keep result))]"

section \<open>The assets\<close>

text \<open>The body of every asset: a skip becomes a successful materialization, any other exception a failed run.\<close>

definition materialized ::
  "string \<Rightarrow> ('a \<Rightarrow> metadata) \<Rightarrow> ('w \<Rightarrow> ((job_error + 'a) \<times> 'w) option) \<Rightarrow> 'w AssetState \<Rightarrow>
     ((exn + metadata) \<times> 'w AssetState) option" where
  "materialized asset_key to_meta job st =
     (case job (as_world st) of
        None \<Rightarrow> None
      | Some (Inl (Propagated e), w) \<Rightarrow> Some (Inl e, st\<lparr>as_world := w\<rparr>)
      | Some (Inl (FoundrySyncSkipped reason), w) \<Rightarrow>
          Some (Inr (skipped reason), \<lparr>as_world = w, as_events = dset asset_key (skipped reason) (as_events st)\<rparr>)
      | Some (Inr result, w) \<Rightarrow>
          Some (Inr (to_meta result), \<lparr>as_world = w, as_events = dset asset_key (to_meta result) (as_events st)\<rparr>))"

text \<open>The overlap guard: another run of the job in progress. Its reason text has a long dash, written as a hyphen here.\<close>

definition overlapping :: "string list \<Rightarrow> string \<Rightarrow> bool" where
  "overlapping in_progress run_id = list_ex (\<lambda>r. r \<noteq> run_id) in_progress"

definition guarded_asset ::
  "string list \<Rightarrow> string \<Rightarrow> string \<Rightarrow> ('a \<Rightarrow> metadata) \<Rightarrow> ('w \<Rightarrow> ((job_error + 'a) \<times> 'w) option) \<Rightarrow> 'w AssetState \<Rightarrow>
     ((exn + metadata) \<times> 'w AssetState) option" where
  "guarded_asset in_progress run_id asset_key to_meta job st =
     (if overlapping in_progress run_id
      then let meta = skipped (''another '' @ asset_key @ '' run is already in progress (coalesced - the previous run is still draining)'')
           in Some (Inr meta, st\<lparr>as_events := dset asset_key meta (as_events st)\<rparr>)
      else materialized asset_key to_meta job st)"

definition foundry_positions_sync ::
  "(exn + FoundryWriter) \<Rightarrow> 'w afm \<Rightarrow> 'w fapi \<Rightarrow> 'w AssetState \<Rightarrow> ((exn + metadata) \<times> 'w AssetState) option" where
  "foundry_positions_sync settings client api st =
     (let detector = init_detector (prior_detector_state (as_events st) ''foundry_positions_sync'')
            (prior_open_flight_state (py_str api) (as_events st) ''foundry_positions_sync'')
      in materialized ''foundry_positions_sync'' (result_metadata \<circ> fst) (run_positions_sync settings client api (Some detector)) st)"

definition foundry_sites_sync ::
  "(exn + FoundryWriter) \<Rightarrow> 'w afm \<Rightarrow> 'w fapi \<Rightarrow> 'w AssetState \<Rightarrow> ((exn + metadata) \<times> 'w AssetState) option" where
  "foundry_sites_sync settings client api st =
     materialized ''foundry_sites_sync'' result_metadata (run_sites_sync settings client api) st"

definition foundry_aircraft_reconcile ::
  "(exn + FoundryWriter) \<Rightarrow> 'w afm \<Rightarrow> 'w fapi \<Rightarrow> nat \<Rightarrow> string list \<Rightarrow> string \<Rightarrow> 'w AssetState \<Rightarrow>
     ((exn + metadata) \<times> 'w AssetState) option" where
  "foundry_aircraft_reconcile settings client api fuel in_progress run_id st =
     guarded_asset in_progress run_id ''foundry_aircraft_reconcile'' reconcile_metadata (run_aircraft_reconcile settings client api fuel) st"

definition foundry_flight_enrichment ::
  "(exn + FoundryWriter) \<Rightarrow> 'w afm \<Rightarrow> 'w fapi \<Rightarrow> nat \<Rightarrow> string list \<Rightarrow> string \<Rightarrow> 'w AssetState \<Rightarrow>
     ((exn + metadata) \<times> 'w AssetState) option" where
  "foundry_flight_enrichment settings client api fuel in_progress run_id st =
     guarded_asset in_progress run_id ''foundry_flight_enrichment'' enrichment_metadata (run_flight_enrichment settings client api fuel) st"

definition foundry_flight_reconcile ::
  "(exn + FoundryWriter) \<Rightarrow> 'w afm \<Rightarrow> 'w fapi \<Rightarrow> nat \<Rightarrow> instant \<Rightarrow> string list \<Rightarrow> string \<Rightarrow> 'w AssetState \<Rightarrow>
     ((exn + metadata) \<times> 'w AssetState) option" where
  "foundry_flight_reconcile settings client api fuel now in_progress run_id st =
     guarded_asset in_progress run_id ''foundry_flight_reconcile'' flight_reconcile_metadata
       (run_flight_reconcile settings client api fuel now) st"

definition foundry_cases_sync ::
  "(exn + FoundryWriter) \<Rightarrow> 'w afm \<Rightarrow> 'w fapi \<Rightarrow> nat \<Rightarrow> 'w AssetState \<Rightarrow> ((exn + metadata) \<times> 'w AssetState) option" where
  "foundry_cases_sync settings client api fuel st =
     materialized ''foundry_cases_sync'' cases_metadata
       (run_cases_sync settings client api fuel (prior_cursor (as_events st) ''foundry_cases_sync'')) st"

definition foundry_cases_reconcile ::
  "(exn + FoundryWriter) \<Rightarrow> 'w afm \<Rightarrow> 'w fapi \<Rightarrow> nat \<Rightarrow> string list \<Rightarrow> string \<Rightarrow> 'w AssetState \<Rightarrow>
     ((exn + metadata) \<times> 'w AssetState) option" where
  "foundry_cases_reconcile settings client api fuel in_progress run_id st =
     guarded_asset in_progress run_id ''foundry_cases_reconcile'' case_reconcile_metadata
       (run_cases_reconcile settings client api fuel) st"

end
