(* ===== verification/FoundryTicks.thy ===== *)
theory FoundryTicks
  imports FoundryAssets
begin

text \<open>
  Runs of the Foundry assets in sequence: what the metadata of one run is to the next, with and without a
  skipped run in between.
\<close>

section \<open>What a run leaves behind\<close>

abbreviation positions_key :: string where
  "positions_key \<equiv> ''foundry_positions_sync''"

text \<open>The detector the next run starts with.\<close>

definition tick_detector :: "'w fapi \<Rightarrow> 'w AssetState \<Rightarrow> FlightLifecycleDetector" where
  "tick_detector api st =
     init_detector (prior_detector_state (as_events st) positions_key) (prior_open_flight_state (py_str api) (as_events st) positions_key)"

lemmas metadata_keys = CURSOR_KEY_def DETECTOR_STATE_KEY_def OPEN_FLIGHT_STATE_KEY_def

lemma result_metadata_entries:
  "dget (result_metadata r) CURSOR_KEY = map_option JIso (sr_cursor r)"
  "dget (result_metadata r) DETECTOR_STATE_KEY = map_option (\<lambda>d. JDumps (JObj (map (map_prod id JBool) d))) (sr_detector_state r)"
  "dget (result_metadata r) OPEN_FLIGHT_STATE_KEY = map_option (\<lambda>d. JDumps (JObj (map (map_prod id JStr) d))) (sr_open_flight_state r)"
  "dget (result_metadata r) ''skip_reason'' = None"
  "dget (result_metadata r) ''takeoffs_detected'' = Some (JInt (int (sr_takeoffs_detected r)))"
  "dget (result_metadata r) ''landings_detected'' = Some (JInt (int (sr_landings_detected r)))"
  by (simp_all add: result_metadata_def opt_entry_def metadata_keys map_of_append map_add_def id_def split: option.split)

lemma skipped_entries:
  "dget (skipped reason) ''skip_reason'' = Some (JStr reason)" "dget (skipped reason) CURSOR_KEY = None"
  "dget (skipped reason) DETECTOR_STATE_KEY = None" "dget (skipped reason) OPEN_FLIGHT_STATE_KEY = None"
  by (simp_all add: skipped_def metadata_keys)

lemma map_prod_inv: "(\<And>v. g (f v) = v) \<Longrightarrow> map (map_prod id g) (map (map_prod id f) d) = d"
  by (induction d) auto

lemma read_back:
  assumes "dget events k = Some (result_metadata r)"
  shows "prior_cursor events k = sr_cursor r" "prior_detector_state events k = sr_detector_state r"
    "prior_open_flight_state str_of events k = sr_open_flight_state r"
proof -
  note entry = assms latest_entry_def result_metadata_entries
  show "prior_cursor events k = sr_cursor r"
    by (cases "sr_cursor r") (simp_all add: prior_cursor_def entry)
  have "map (map_prod id truthy) (map (map_prod id JBool) d) = d" for d :: "(string, bool) dict"
    by (rule map_prod_inv) simp
  then show "prior_detector_state events k = sr_detector_state r"
    by (cases "sr_detector_state r") (simp_all add: prior_detector_state_def loads_dict_def entry)
  have "map (map_prod id (\<lambda>v. case v of JStr s \<Rightarrow> s | _ \<Rightarrow> str_of v)) (map (map_prod id JStr) d) = d" for d :: "(string, string) dict"
    by (rule map_prod_inv) simp
  then show "prior_open_flight_state str_of events k = sr_open_flight_state r"
    by (cases "sr_open_flight_state r") (simp_all add: prior_open_flight_state_def loads_dict_def entry)
qed

text \<open>A successful run, taken apart.\<close>

lemma positions_tick:
  assumes "foundry_positions_sync settings client api st = Some (Inr meta, st')" "dget meta ''skip_reason'' = None"
  obtains feed w r where "fetch_positions_live client (as_world st) = (Inr feed, w)" "meta = result_metadata r"
    "as_events st' = dset positions_key meta (as_events st)"
    "sr_detector_state r = Some (state_for (fst (observe (tick_detector api st) (dedupe_latest (plr_items feed))))
       (map pos_icao24 (dedupe_latest (plr_items feed))))"
    "sr_open_flight_state r = Some (open_flight_state_for (fst (observe (tick_detector api st) (dedupe_latest (plr_items feed))))
       (map pos_icao24 (dedupe_latest (plr_items feed))))"
    "sr_takeoffs_detected r = length (takeoffs (snd (observe (tick_detector api st) (dedupe_latest (plr_items feed)))))"
    "sr_landings_detected r = length (landings (snd (observe (tick_detector api st) (dedupe_latest (plr_items feed)))))"
proof -
  have all: "filter (in_live_scope LIVE_SCOPE_REGIONS) ps = ps" for ps
    by (simp add: in_live_scope_def LIVE_SCOPE_REGIONS_def)
  obtain r d w where job: "run_positions_sync settings client api (Some (tick_detector api st)) (as_world st) = Some (Inr (r, d), w)"
      and meta: "meta = result_metadata r" and ev: "as_events st' = dset positions_key meta (as_events st)"
    using assms
    by (auto simp: foundry_positions_sync_def tick_detector_def materialized_def Let_def skipped_entries
        split: option.splits prod.splits sum.splits job_error.splits)
  obtain fw where "settings = Inr fw" "incremental_sync_positions client api fw (Some (tick_detector api st)) (as_world st) = (Inr (r, d), w)"
    using job by (auto simp: run_positions_sync_def guarded_sync_def with_settings_def iot_raise_def lift_io_def
        split: option.splits prod.splits sum.splits if_splits)
  then show thesis
    using that[OF _ meta ev]
    by (auto simp: incremental_sync_positions_def io_bind_Inr io_return_def Let_def all run_detector_def split: prod.splits)
qed

section \<open>Runs without a skip\<close>

lemma agree_on_sym: "agree_on A d e \<Longrightarrow> agree_on A e d"
  by (simp add: agree_on_def)

lemma agree_on_any: "agree_on {a} d e \<Longrightarrow> agree_on {a} (fst (observe d ps)) (fst (observe e ps))"
proof (induction ps arbitrary: d e)
  case (Cons p ps)
  have "agree_on {a} (fst (observe_row d p)) (fst (observe_row e p))"
  proof (cases "pos_icao24 p = a")
    case True
    then show ?thesis using agree_on_row(1)[OF Cons.prems, of p] by simp
  next
    case False
    then show ?thesis
      using other_row_agrees(1)[OF False, of d] other_row_agrees(1)[OF False, of e] Cons.prems
      by (meson agree_on_trans agree_on_sym)
  qed
  then show ?case using Cons.IH by (simp add: observe_laws)
qed (simp add: observe.simps)

text \<open>Consecutive successful runs, each with aircraft \<open>a\<close> in its feed; between two runs the world may do
  anything but the materialization of this asset.\<close>

inductive ticked ::
  "(exn + FoundryWriter) \<Rightarrow> 'w afm \<Rightarrow> 'w fapi \<Rightarrow> string \<Rightarrow> 'w AssetState \<Rightarrow> PositionsLiveResponse list \<Rightarrow> 'w AssetState \<Rightarrow> bool"
  for settings client api a where
  idle: "ticked settings client api a st [] st"
| tick: "ticked settings client api a st feeds st1 \<Longrightarrow>
     dget (as_events st2) positions_key = dget (as_events st1) positions_key \<Longrightarrow>
     fst (fetch_positions_live client (as_world st2)) = Inr feed \<Longrightarrow> a \<in> pos_icao24 ` set (plr_items feed) \<Longrightarrow>
     foundry_positions_sync settings client api st2 = Some (Inr meta, st3) \<Longrightarrow> dget meta ''skip_reason'' = None \<Longrightarrow>
     ticked settings client api a st (feeds @ [feed]) st3"

lemma same_events_same_detector:
  "dget (as_events st2) positions_key = dget (as_events st1) positions_key \<Longrightarrow> tick_detector api st2 = tick_detector api st1"
  by (simp add: tick_detector_def prior_detector_state_def prior_open_flight_state_def latest_entry_def)


section \<open>A skip in between\<close>

lemma observe_unknown:
  "distinct (map pos_icao24 ps) \<Longrightarrow> \<forall>p \<in> set ps. dget (det_on_ground det) (pos_icao24 p) = None \<Longrightarrow>
   snd (observe det ps) = \<lparr>takeoffs = [], landings = []\<rparr>"
proof (induction ps arbitrary: det)
  case (Cons p ps)
  have row: "observe_row det p = (\<lparr>det_on_ground = dset (pos_icao24 p) (pos_on_ground p) (det_on_ground det),
      det_open_flight = det_open_flight det\<rparr>, [], [])"
    using Cons.prems(2) by (simp add: observe_row_def Let_def)
  have "snd (observe \<lparr>det_on_ground = dset (pos_icao24 p) (pos_on_ground p) (det_on_ground det), det_open_flight = det_open_flight det\<rparr> ps) =
      \<lparr>takeoffs = [], landings = []\<rparr>"
    by (rule Cons.IH) (use Cons.prems in \<open>auto simp: image_iff\<close>)
  then show ?case using row by (simp add: observe_laws DetectedEdges.equality)
qed (simp add: observe.simps)

lemma skip_events:
  assumes "foundry_positions_sync settings client api st = Some (Inr meta, st')" "dget meta ''skip_reason'' \<noteq> None"
  shows "\<exists>reason. dget (as_events st') positions_key = Some (skipped reason)"
  using assms
  by (auto simp: foundry_positions_sync_def materialized_def Let_def result_metadata_entries
      split: option.splits prod.splits sum.splits job_error.splits)

text \<open>C39. A skipped run forgets every open leg: its materialization carries no detector state and is the one the
  next run reads, so whatever took off or landed since the run before, the next run reports no takeoff
  and no landing at all.\<close>

theorem skip_forgets_detector:
  assumes "foundry_positions_sync settings client api st = Some (Inr meta, st1)" "dget meta ''skip_reason'' \<noteq> None"
    "dget (as_events st2) positions_key = dget (as_events st1) positions_key"
    "foundry_positions_sync settings client api st2 = Some (Inr meta2, st3)" "dget meta2 ''skip_reason'' = None"
  shows "dget meta2 ''takeoffs_detected'' = Some (JInt 0) \<and> dget meta2 ''landings_detected'' = Some (JInt 0)"
proof -
  obtain reason where "dget (as_events st2) positions_key = Some (skipped reason)"
    using skip_events[OF assms(1,2)] assms(3) by auto
  then have empty: "det_on_ground (tick_detector api st2) = []"
    by (simp add: tick_detector_def prior_detector_state_def latest_entry_def skipped_entries loads_dict_def init_detector_def)
  from assms(4,5) show ?thesis
  proof (rule positions_tick)
    fix feed w r
    assume "meta2 = result_metadata r"
      "sr_takeoffs_detected r = length (takeoffs (snd (observe (tick_detector api st2) (dedupe_latest (plr_items feed)))))"
      "sr_landings_detected r = length (landings (snd (observe (tick_detector api st2) (dedupe_latest (plr_items feed)))))"
    moreover have "snd (observe (tick_detector api st2) (dedupe_latest (plr_items feed))) = \<lparr>takeoffs = [], landings = []\<rparr>"
      by (rule observe_unknown) (simp_all add: dedupe_latest_distinct empty)
    ultimately show ?thesis by (simp add: result_metadata_entries)
  qed
qed

text \<open>The case sync loses its cursor the same way and reads every case again.\<close>

lemma skip_forgets_case_cursor:
  assumes "foundry_cases_sync settings client api fuel st = Some (Inr meta, st1)" "dget meta ''skip_reason'' \<noteq> None"
  shows "prior_cursor (as_events st1) ''foundry_cases_sync'' = None"
  using assms
  by (auto simp: foundry_cases_sync_def materialized_def cases_metadata_def opt_entry_def metadata_keys prior_cursor_def
      latest_entry_def skipped_def split: option.splits prod.splits sum.splits job_error.splits)

section \<open>Overlap\<close>

text \<open>A run that finds a sibling in progress is inert: the guarded assets touch neither the tenant nor the API,
  and the run reports zero attempts.\<close>

lemma overlap_guard_inert:
  assumes "r \<in> set in_progress" "r \<noteq> run_id"
  shows "\<exists>meta events. guarded_asset in_progress run_id asset_key to_meta job st = Some (Inr meta, st\<lparr>as_events := events\<rparr>) \<and>
    dget meta ''attempted'' = Some (JInt 0)"
  using assms by (auto simp: guarded_asset_def overlapping_def list_ex_iff Let_def skipped_def)

section \<open>Worked runs\<close>

text \<open>A feed that is a tape: each request takes the next snapshot, and an empty tape is an unreachable API.\<close>

definition tape_client :: "PositionsLiveResponse list afm" where
  "tape_client = (demo_client [])\<lparr>am_positions_live := (\<lambda>w. case w of [] \<Rightarrow> (Inl TransportError, w) | f # fs \<Rightarrow> (Inr f, fs))\<rparr>"

definition tape_api :: "PositionsLiveResponse list fapi" where
  "tape_api = \<lparr>fa_post = (\<lambda>path chunk w. (Inr (), w)), fa_get = (\<lambda>path query w. (Inr \<lparr>pg_data = [], pg_nextPageToken = None\<rparr>, w)),
     fa_repr = (\<lambda>_. [])\<rparr>"

definition shot :: "bool \<Rightarrow> instant \<Rightarrow> PositionsLiveResponse" where
  "shot ground t = demo_feed [(demo_position ''aa'' ground)\<lparr>pos_last_seen_at := t\<rparr>]"

definition shot_meta :: "nat \<Rightarrow> nat \<Rightarrow> bool \<Rightarrow> (string, string) dict \<Rightarrow> metadata" where
  "shot_meta tos las ground open_legs = result_metadata \<lparr>sr_attempted = 1, sr_succeeded = 1, sr_failed = 0, sr_cursor = Some 0,
     sr_takeoffs_detected = tos, sr_flights_written = tos, sr_landings_detected = las, sr_flights_landed = las,
     sr_detector_state = Some [(''aa'', ground)], sr_open_flight_state = Some open_legs\<rparr>"

definition tape_run :: "PositionsLiveResponse list AssetState \<Rightarrow> ((exn + metadata) \<times> PositionsLiveResponse list AssetState) option" where
  "tape_run = foundry_positions_sync (Inr (demo_writer False)) tape_client tape_api"

lemma parked_run: "tape_run \<lparr>as_world = [shot True 0], as_events = []\<rparr> =
    Some (Inr (shot_meta 0 0 True []), \<lparr>as_world = [], as_events = [(positions_key, shot_meta 0 0 True [])]\<rparr>)"
  by code_simp

lemma takeoff_run: "tape_run \<lparr>as_world = [shot False 1000000], as_events = [(positions_key, shot_meta 0 0 True [])]\<rparr> =
    Some (Inr (shot_meta 1 0 False [(''aa'', ''aa-1'')]),
      \<lparr>as_world = [], as_events = [(positions_key, shot_meta 1 0 False [(''aa'', ''aa-1'')])]\<rparr>)"
  by code_simp

lemma outage_run: "tape_run \<lparr>as_world = [], as_events = [(positions_key, shot_meta 1 0 False [(''aa'', ''aa-1'')])]\<rparr> =
    Some (Inr (skipped ''positions: foundry/api unreachable''),
      \<lparr>as_world = [], as_events = [(positions_key, skipped ''positions: foundry/api unreachable'')]\<rparr>)"
  by code_simp

lemma after_run: "tape_run \<lparr>as_world = [shot True 9000000], as_events = [(positions_key, skipped ''positions: foundry/api unreachable'')]\<rparr> =
    Some (Inr (shot_meta 0 0 True []), \<lparr>as_world = [], as_events = [(positions_key, shot_meta 0 0 True [])]\<rparr>)"
  by code_simp

lemma shot_fetched: "fst (fetch_positions_live tape_client [shot g t]) = Inr (shot g t)"
  by (simp add: fetch_positions_live_def transient_retry_def numeral_2_eq_2 tape_client_def)

lemma shot_seen: "''aa'' \<in> pos_icao24 ` set (plr_items (shot g t))"
  by (simp add: shot_def demo_feed_def demo_position_def)


lemma skip_forgets_detector_witness: "dget (shot_meta 0 0 True []) ''landings_detected'' = Some (JInt 0)"
  using skip_forgets_detector[OF outage_run[unfolded tape_run_def] _ _ after_run[unfolded tape_run_def]]
  by (simp add: skipped_entries shot_meta_def result_metadata_entries)

end
