(* ===== verification/Reference.thy ===== *)
theory Reference
  imports Query Ingestion
begin

text \<open>
  assets/reference.py and the loading half of resources/watchlist.py: the airports from the CSV and the bundled
  watchlist, the aircraft registry, the asset that loads both, and the cached watched-airport list that
  ingestion and the API read. A CSV arrives as csv.DictReader gives it, a list of records whose fields
  may be None in a short row; the file's existence and its reading are outside. A state lists both tables.
\<close>

section \<open>Reading a record\<close>

type_synonym csv_record = "(string, string option) dict"

definition raw_field :: "csv_record \<Rightarrow> string \<Rightarrow> exn + string option" where
  "raw_field record k = (case dget record k of None \<Rightarrow> Inl (OtherError ''KeyError'') | Some v \<Rightarrow> Inr v)"

definition stripped :: "csv_record \<Rightarrow> string \<Rightarrow> exn + string" where
  "stripped record k =
     rbind (raw_field record k) (\<lambda>v. case v of None \<Rightarrow> Inl (OtherError ''AttributeError'') | Some s \<Rightarrow> Inr (strip s))"

definition or_none :: "string \<Rightarrow> string option" where
  "or_none s = (if s = [] then None else Some s)"

text \<open>\<open>iso_region.split("-", 1)[1] or None\<close>.\<close>

definition parse_state :: "string option \<Rightarrow> string option" where
  "parse_state iso_region =
     (case iso_region of
        None \<Rightarrow> None
      | Some s \<Rightarrow> if CHR ''-'' \<in> set s then or_none (tl (dropWhile (\<lambda>c. c \<noteq> CHR ''-'') s)) else None)"

definition parse_int :: "string option \<Rightarrow> exn + int option" where
  "parse_int raw =
     (case raw of
        None \<Rightarrow> Inr None
      | Some s \<Rightarrow> if s = [] then Inr None else (case py_int s of None \<Rightarrow> Inl PyValueError | Some n \<Rightarrow> Inr (Some n)))"

definition float_field :: "csv_record \<Rightarrow> string \<Rightarrow> exn + real" where
  "float_field record k =
     rbind (raw_field record k) (\<lambda>v. case v of
        None \<Rightarrow> Inl (OtherError ''TypeError'')
      | Some s \<Rightarrow> (case py_float s of None \<Rightarrow> Inl PyValueError | Some x \<Rightarrow> Inr x))"

section \<open>Airports\<close>

definition ALLOWED_AIRPORT_TYPES :: "string list" where
  "ALLOWED_AIRPORT_TYPES = [''large_airport'', ''medium_airport'']"

type_synonym watchlist = "(string, string list) dict"

text \<open>The three filters; a field is looked at only when the ones before it passed.\<close>

definition scheduled_us_airport :: "csv_record \<Rightarrow> exn + bool" where
  "scheduled_us_airport record =
     rbind (raw_field record ''iso_country'') (\<lambda>country.
       if country \<noteq> Some ''US'' then Inr False
       else rbind (raw_field record ''type'') (\<lambda>kind.
         if kind \<notin> Some ` set ALLOWED_AIRPORT_TYPES then Inr False
         else rbind (raw_field record ''scheduled_service'') (\<lambda>service. Inr (service = Some ''yes''))))"

definition airport_row :: "watchlist \<Rightarrow> csv_record \<Rightarrow> string \<Rightarrow> exn + AirportRow" where
  "airport_row watchlist record icao =
     rbind (stripped record ''iata_code'') (\<lambda>iata.
     rbind (stripped record ''name'') (\<lambda>name.
     rbind (stripped record ''municipality'') (\<lambda>city.
     rbind (raw_field record ''iso_region'') (\<lambda>region.
     rbind (float_field record ''latitude_deg'') (\<lambda>lat.
     rbind (float_field record ''longitude_deg'') (\<lambda>lon.
     rbind (raw_field record ''elevation_ft'') (\<lambda>elevation.
     rbind (parse_int elevation) (\<lambda>elevation_ft.
       Inr \<lparr>ap_icao = icao, ap_iata = or_none iata, ap_name = name, ap_city = or_none city, ap_state = parse_state region,
            ap_lat = lat, ap_lon = lon, ap_elevation_ft = elevation_ft, ap_timezone = None,
            ap_is_watched = (dget watchlist icao \<noteq> None),
            ap_customer_regions = (case dget watchlist icao of None \<Rightarrow> [] | Some rs \<Rightarrow> rs)\<rparr>))))))))"

primrec build_airport_rows :: "watchlist \<Rightarrow> csv_record list \<Rightarrow> exn + AirportRow list" where
  "build_airport_rows watchlist [] = Inr []"
| "build_airport_rows watchlist (record # records) =
     rbind (scheduled_us_airport record) (\<lambda>wanted.
       if \<not> wanted then build_airport_rows watchlist records
       else rbind (stripped record ''ident'') (\<lambda>icao.
         if icao = [] then build_airport_rows watchlist records
         else rbind (airport_row watchlist record icao) (\<lambda>row.
              rbind (build_airport_rows watchlist records) (\<lambda>rows. Inr (row # rows)))))"

definition seen_watched :: "AirportRow list \<Rightarrow> string list" where
  "seen_watched rows = map ap_icao (filter ap_is_watched rows)"

record RefTables =
  ref_airports :: "(string, AirportRow) dict"
  ref_aircraft :: "(string \<times> RegistryRow \<times> string option) list"

definition put_airport :: "(string, AirportRow) dict \<Rightarrow> AirportRow \<Rightarrow> (string, AirportRow) dict" where
  "put_airport t row = dset (ap_icao row) row t"

record AirportsLoad =
  al_total :: nat
  al_watched :: nat
  al_watchlist_size :: nat

text \<open>The check of the row counts comes after the commit: a failure leaves the new rows in place.\<close>

definition load_airports :: "watchlist \<Rightarrow> csv_record list \<Rightarrow> (RefTables, AirportsLoad) io" where
  "load_airports watchlist records = (\<lambda>db.
     case build_airport_rows watchlist records of
       Inl e \<Rightarrow> (Inl e, db)
     | Inr rows \<Rightarrow>
         if \<not> set (dkeys watchlist) \<subseteq> set (seen_watched rows) then (Inl PyValueError, db)
         else case execute_values ap_icao put_airport 500 rows (ref_airports db) of
                Inl e \<Rightarrow> (Inl e, db)
              | Inr airports \<Rightarrow>
                  let watched = length (filter ap_is_watched (dvalues airports));
                      db' = db\<lparr>ref_airports := airports\<rparr>
                  in if watched \<noteq> length watchlist then (Inl (OtherError ''RuntimeError''), db')
                     else (Inr \<lparr>al_total = length airports, al_watched = watched, al_watchlist_size = length watchlist\<rparr>, db'))"

section \<open>Aircraft\<close>

record AircraftCsv =
  ac_rows :: "(string \<times> RegistryRow \<times> string option) list"
  ac_rows_read :: nat
  ac_rows_kept :: nat
  ac_duplicates_skipped :: nat

definition aircraft_row :: "csv_record \<Rightarrow> string \<Rightarrow> exn + (string \<times> RegistryRow \<times> string option)" where
  "aircraft_row record icao24 =
     rbind (stripped record ''registration'') (\<lambda>registration.
     rbind (stripped record ''typecode'') (\<lambda>typecode.
     rbind (stripped record ''model'') (\<lambda>model.
     rbind (stripped record ''operator'') (\<lambda>operator.
     rbind (stripped record ''operatoricao'') (\<lambda>operator_icao.
       Inr (icao24, \<lparr>rg_registration = or_none registration, rg_operator_icao = or_none operator_icao\<rparr>, or_none typecode))))))"

primrec stream_aircraft :: "string set \<Rightarrow> csv_record list \<Rightarrow> AircraftCsv \<Rightarrow> exn + AircraftCsv" where
  "stream_aircraft seen [] out = Inr out"
| "stream_aircraft seen (record # records) out =
     (let out = out\<lparr>ac_rows_read := Suc (ac_rows_read out)\<rparr>
      in rbind (stripped record ''icao24'') (\<lambda>raw.
           let icao24 = lower raw
           in if icao24 = [] then stream_aircraft seen records out
              else if icao24 \<in> seen
              then stream_aircraft seen records (out\<lparr>ac_duplicates_skipped := Suc (ac_duplicates_skipped out)\<rparr>)
              else rbind (aircraft_row record icao24) (\<lambda>row.
                     stream_aircraft (insert icao24 seen) records
                       (out\<lparr>ac_rows := ac_rows out @ [row], ac_rows_kept := Suc (ac_rows_kept out)\<rparr>))))"

definition stream_aircraft_csv :: "csv_record list \<Rightarrow> exn + AircraftCsv" where
  "stream_aircraft_csv records =
     stream_aircraft {} records \<lparr>ac_rows = [], ac_rows_read = 0, ac_rows_kept = 0, ac_duplicates_skipped = 0\<rparr>"

text \<open>TRUNCATE and COPY in one transaction; COPY refuses a repeated key.\<close>

definition load_aircraft :: "csv_record list \<Rightarrow> (RefTables, AircraftCsv) io" where
  "load_aircraft records = (\<lambda>db.
     case stream_aircraft_csv records of
       Inl e \<Rightarrow> (Inl e, db)
     | Inr csv \<Rightarrow>
         if \<not> distinct (map fst (ac_rows csv)) then (Inl (OtherError ''UniqueViolation''), db)
         else let db' = db\<lparr>ref_aircraft := ac_rows csv\<rparr>
              in if length (ref_aircraft db') \<noteq> ac_rows_kept csv then (Inl (OtherError ''RuntimeError''), db')
                 else (Inr csv, db'))"

definition static_reference ::
  "watchlist \<Rightarrow> csv_record list \<Rightarrow> csv_record list \<Rightarrow> (RefTables, AirportsLoad \<times> AircraftCsv) io" where
  "static_reference watchlist airports_csv aircraft_csv =
     io_bind (load_airports watchlist airports_csv) (\<lambda>airport_meta.
     io_bind (load_aircraft aircraft_csv) (\<lambda>aircraft_meta. io_return (airport_meta, aircraft_meta)))"

section \<open>The watched airports\<close>

definition watched_airport :: "AirportRow \<Rightarrow> WatchedAirport" where
  "watched_airport row = \<lparr>wa_icao = ap_icao row, wa_lat = ap_lat row, wa_lon = ap_lon row, wa_customer_regions = ap_customer_regions row\<rparr>"

definition load_watched :: "(string, AirportRow) dict \<Rightarrow> exn + WatchedAirport list" where
  "load_watched airports =
     (case sort_key ap_icao (filter ap_is_watched (dvalues airports)) of
        [] \<Rightarrow> Inl (OtherError ''RuntimeError'')
      | rows \<Rightarrow> Inr (map watched_airport rows))"

text \<open>The resource: the list is loaded once per process and then kept.\<close>

definition get_airports :: "(string, AirportRow) dict \<Rightarrow> (WatchedAirport list option, WatchedAirport list) io" where
  "get_airports airports = (\<lambda>cache.
     case cache of
       Some ws \<Rightarrow> (Inr ws, cache)
     | None \<Rightarrow> (case load_watched airports of Inl e \<Rightarrow> (Inl e, None) | Inr ws \<Rightarrow> (Inr ws, Some ws)))"

text \<open>The API's provider asks the table each time.\<close>

definition watched_icaos :: "(string, AirportRow) dict \<Rightarrow> string list" where
  "watched_icaos airports = map ap_icao (sort_key ap_icao (filter ap_is_watched (dvalues airports)))"

end
