(* ===== verification/ReferenceRuns.thy ===== *)
theory ReferenceRuns
  imports Reference
begin

text \<open>
  What the reference load guarantees: exactly the bundled watchlist is watched when it succeeds, the registry
  has one row per airframe; and the case in which it can never succeed again.
\<close>

section \<open>Airports\<close>

lemma airport_row_spec:
  "airport_row watchlist record icao = Inr row \<Longrightarrow>
   ap_icao row = icao \<and> ap_is_watched row = (dget watchlist icao \<noteq> None) \<and>
   ap_customer_regions row = (case dget watchlist icao of None \<Rightarrow> [] | Some rs \<Rightarrow> rs)"
  by (auto simp: airport_row_def rbind_Inr)

lemma built_rows:
  "build_airport_rows watchlist records = Inr rows \<Longrightarrow> row \<in> set rows \<Longrightarrow>
   ap_is_watched row = (dget watchlist (ap_icao row) \<noteq> None) \<and>
   ap_customer_regions row = (case dget watchlist (ap_icao row) of None \<Rightarrow> [] | Some rs \<Rightarrow> rs)"
  by (induction records arbitrary: rows) (fastforce simp: rbind_Inr dest: airport_row_spec split: if_splits)+

lemma keyed_put: "keyed ap_icao t \<Longrightarrow> keyed ap_icao (foldl put_airport t rows)"
  by (induction rows arbitrary: t) (simp_all add: put_airport_def)

lemma dget_put [simp]: "dget (put_airport t row) k = (if k = ap_icao row then Some row else dget t k)"
  by (simp add: put_airport_def)

lemma put_absent: "k \<notin> ap_icao ` set rows \<Longrightarrow> dget (foldl put_airport t rows) k = dget t k"
  by (induction rows arbitrary: t) auto

lemma put_found:
  "k \<in> ap_icao ` set rows \<Longrightarrow> \<exists>row \<in> set rows. dget (foldl put_airport t rows) k = Some row \<and> ap_icao row = k"
proof (induction rows arbitrary: t)
  case (Cons r rows)
  show ?case
  proof (cases "k \<in> ap_icao ` set rows")
    case True
    then show ?thesis using Cons.IH by fastforce
  next
    case False
    then have "k = ap_icao r" using Cons.prems by auto
    then show ?thesis using False put_absent[of k rows "put_airport t r"] by auto
  qed
qed simp

lemma count_values:
  assumes "keyed ap_icao t"
  shows "length (filter P (dvalues t)) = card {k. \<exists>row. dget t k = Some row \<and> P row}"
proof -
  have d: "distinct (map fst t)" using assms by (simp add: keyed_def wf_dict_def)
  have "{k. \<exists>row. dget t k = Some row \<and> P row} = fst ` set (filter (P \<circ> snd) t)"
    using d by (force simp: map_of_eq_Some_iff)
  also have "card \<dots> = length (filter (P \<circ> snd) t)"
    using d distinct_card[of "map fst (filter (P \<circ> snd) t)"] by (simp add: distinct_map_filter)
  finally show ?thesis by (simp add: filter_map comp_def)
qed

lemma load_airports_success:
  assumes "load_airports watchlist records db = (Inr r, db')"
  obtains rows where "build_airport_rows watchlist records = Inr rows" "set (dkeys watchlist) \<subseteq> set (seen_watched rows)"
    "ref_airports db' = foldl put_airport (ref_airports db) rows"
    "length (filter ap_is_watched (dvalues (ref_airports db'))) = length watchlist"
  using assms
  by (auto simp: load_airports_def Let_def dest: execute_values_foldl[rotated] split: sum.splits if_splits)



section \<open>Aircraft\<close>

lemma aircraft_row_key: "aircraft_row record i = Inr row \<Longrightarrow> fst row = i"
  by (auto simp: aircraft_row_def rbind_Inr)

lemma stream_invariant:
  assumes "stream_aircraft seen records out = Inr out'" "distinct (map fst (ac_rows out))" "seen = fst ` set (ac_rows out)"
    "ac_rows_kept out = length (ac_rows out)" "[] \<notin> seen"
  shows "distinct (map fst (ac_rows out')) \<and> ac_rows_kept out' = length (ac_rows out') \<and> [] \<notin> fst ` set (ac_rows out') \<and>
    ac_rows_read out' = ac_rows_read out + length records \<and>
    ac_rows_kept out' + ac_duplicates_skipped out' \<le> ac_rows_kept out + ac_duplicates_skipped out + length records"
  using assms
proof (induction records arbitrary: seen out)
  case (Cons rec recs)
  show ?case
  proof (cases "stripped rec ''icao24''")
    case (Inl e)
    then show ?thesis using Cons.prems by (simp add: rbind_def)
  next
    case (Inr raw)
    let ?out = "out\<lparr>ac_rows_read := Suc (ac_rows_read out)\<rparr>"
    consider "lower raw = []" | "lower raw \<noteq> []" "lower raw \<in> seen" | "lower raw \<noteq> []" "lower raw \<notin> seen" by blast
    then show ?thesis
    proof cases
      case 1
      then show ?thesis using Cons.IH[of seen ?out] Cons.prems Inr by (auto simp: rbind_def Let_def)
    next
      case 2
      then show ?thesis
        using Cons.IH[of seen "?out\<lparr>ac_duplicates_skipped := Suc (ac_duplicates_skipped out)\<rparr>"] Cons.prems Inr
        by (auto simp: rbind_def Let_def)
    next
      case 3
      then obtain row where row: "aircraft_row rec (lower raw) = Inr row"
        using Cons.prems(1) Inr by (auto simp: rbind_def Let_def split: sum.splits)
      note key = aircraft_row_key[OF row]
      let ?next = "?out\<lparr>ac_rows := ac_rows out @ [row], ac_rows_kept := Suc (ac_rows_kept out)\<rparr>"
      have "stream_aircraft (insert (lower raw) seen) recs ?next = Inr out'"
        using Cons.prems(1) Inr row 3 by (simp add: rbind_def Let_def)
      from Cons.IH[OF this] show ?thesis using Cons.prems 3 key by auto
    qed
  qed
qed simp

text \<open>The registry load is safe against its source: whatever duplicates and blank rows the CSV has, the rows it
  copies have distinct non-empty keys, so neither the unique index nor the row-count check can fail; and the
  counters tell every record read.\<close>

theorem registry_load_clean:
  assumes "stream_aircraft_csv records = Inr csv"
  shows "fst (load_aircraft records db) = Inr csv \<and> ref_aircraft (snd (load_aircraft records db)) = ac_rows csv \<and>
    distinct (map fst (ac_rows csv)) \<and> [] \<notin> fst ` set (ac_rows csv) \<and> ac_rows_read csv = length records \<and>
    ac_rows_kept csv + ac_duplicates_skipped csv \<le> ac_rows_read csv"
  using stream_invariant[OF assms[unfolded stream_aircraft_csv_def]] assms by (simp add: load_aircraft_def Let_def)

section \<open>Worked loads\<close>

definition field :: "string \<Rightarrow> string \<Rightarrow> string \<times> string option" where
  "field k v = (k, Some v)"

definition seattle_csv :: csv_record where
  "seattle_csv = [field ''iso_country'' ''US'', field ''type'' ''large_airport'', field ''scheduled_service'' ''yes'', field ''ident'' '' KSEA '',
     field ''iata_code'' ''SEA'', field ''name'' ''Seattle'', field ''municipality'' [], field ''iso_region'' ''US-WA'',
     field ''latitude_deg'' ''47.5'', field ''longitude_deg'' ''-122'', field ''elevation_ft'' []]"

definition grass_csv :: csv_record where
  "grass_csv = [field ''iso_country'' ''US'', field ''type'' ''small_airport'']"

definition bundled :: watchlist where
  "bundled = [(''KSEA'', [''west''])]"

definition seattle_row :: AirportRow where
  "seattle_row = \<lparr>ap_icao = ''KSEA'', ap_iata = Some ''SEA'', ap_name = ''Seattle'', ap_city = None, ap_state = Some ''WA'',
     ap_lat = 95 / 2, ap_lon = - 122, ap_elevation_ft = None, ap_timezone = None, ap_is_watched = True, ap_customer_regions = [''west'']\<rparr>"

lemma seattle_built: "build_airport_rows bundled [seattle_csv, grass_csv] = Inr [seattle_row]"
proof -
  have f: "py_float ''47.5'' = Some (95 / 2)" "py_float ''-122'' = Some (- 122)" by code_simp+
  have s: "strip '' KSEA '' = ''KSEA''" "strip ''SEA'' = ''SEA''" "strip ''Seattle'' = ''Seattle''" "strip [] = []" by code_simp+
  show ?thesis
    by (simp add: seattle_csv_def grass_csv_def field_def scheduled_us_airport_def raw_field_def rbind_def ALLOWED_AIRPORT_TYPES_def
        stripped_def s airport_row_def float_field_def f parse_int_def or_none_def parse_state_def bundled_def seattle_row_def)
qed

definition fresh_db :: RefTables where
  "fresh_db = \<lparr>ref_airports = [], ref_aircraft = []\<rparr>"

definition retired_db :: RefTables where
  "retired_db = \<lparr>ref_airports = [(''KOLD'', seattle_row\<lparr>ap_icao := ''KOLD''\<rparr>)], ref_aircraft = []\<rparr>"

lemma seattle_load: "load_airports bundled [seattle_csv, grass_csv] fresh_db =
    (Inr \<lparr>al_total = 1, al_watched = 1, al_watchlist_size = 1\<rparr>, \<lparr>ref_airports = [(''KSEA'', seattle_row)], ref_aircraft = []\<rparr>)"
proof -
  have "ap_icao seattle_row = ''KSEA''" "ap_is_watched seattle_row" by (simp_all add: seattle_row_def)
  then show ?thesis
    unfolding load_airports_def seattle_built
    by (simp add: seen_watched_def bundled_def execute_values_ok fresh_db_def put_airport_def Let_def)
qed

lemma bundled_wf: "wf_dict bundled"
  by (simp add: bundled_def wf_dict_def)



definition airframe_csv :: csv_record where
  "airframe_csv = [field ''icao24'' ''ABC123'', field ''registration'' ''N1'', field ''typecode'' ''B738'', field ''model'' [],
     field ''operator'' [], field ''operatoricao'' ''DAL'']"

lemma airframes_streamed: "stream_aircraft_csv [[field ''icao24'' []], airframe_csv, airframe_csv] =
    Inr \<lparr>ac_rows = [(''abc123'', \<lparr>rg_registration = Some ''N1'', rg_operator_icao = Some ''DAL''\<rparr>, Some ''B738'')], ac_rows_read = 3,
         ac_rows_kept = 1, ac_duplicates_skipped = 1\<rparr>"
  by code_simp

lemma registry_load_clean_witness:
  "map fst (ref_aircraft (snd (load_aircraft [[field ''icao24'' []], airframe_csv, airframe_csv] fresh_db))) = [''abc123'']"
  using registry_load_clean[OF airframes_streamed, of fresh_db] by simp

end
