(* ===== verification/Api.thy ===== *)
theory Api
  imports Reference
begin

text \<open>
  The HTTP surface: the exception handlers of main.py, the path and body validation of the routers and of
  models/flights.py, the request scope of dependencies.py, and the endpoints of the read routers over the
  query service. Anything the handlers do not catch is a plain 500. Request ids, logging and the JSON
  rendering are not modelled.
\<close>

section \<open>Answers\<close>

datatype 'a answer = Answer 'a | Envelope nat string | ServerError

primrec error_code :: "AFMException \<Rightarrow> string" where
  "error_code (NotFoundError m) = ''not_found''"
| "error_code (ScopeViolation m) = ''scope_insufficient''"
| "error_code (UpstreamUnavailable m) = ''upstream_unavailable''"
| "error_code (ConflictError m) = ''conflict''"
| "error_code (BadRequest m) = ''bad_request''"
| "error_code (NotImplementedYet m) = ''not_implemented''"

definition afm_exception_handler :: "AFMException \<Rightarrow> 'a answer" where
  "afm_exception_handler e = Envelope (status_code e) (error_code e)"

definition validation_exception_handler :: "'a answer" where
  "validation_exception_handler = Envelope 422 ''validation_failed''"

definition HTTP_CODE_MAP :: "(nat, string) dict" where
  "HTTP_CODE_MAP = [(404, ''not_found''), (405, ''method_not_allowed'')]"

definition http_exception_handler :: "nat \<Rightarrow> 'a answer" where
  "http_exception_handler status = Envelope status (case dget HTTP_CODE_MAP status of None \<Rightarrow> ''http_error'' | Some c \<Rightarrow> c)"

definition answered :: "query_error + 'a \<Rightarrow> 'a answer" where
  "answered r = (case r of Inl (Raised e) \<Rightarrow> afm_exception_handler e | Inl InvalidModel \<Rightarrow> ServerError | Inr a \<Rightarrow> Answer a)"

definition answered_service :: "pyexc + 'a \<Rightarrow> 'a answer" where
  "answered_service r = (case r of Inl (AFM e) \<Rightarrow> afm_exception_handler e | Inl _ \<Rightarrow> ServerError | Inr a \<Rightarrow> Answer a)"

text \<open>What an HTTP client with raise_for_status makes of an answer.\<close>

definition raise_for_status :: "'a answer \<Rightarrow> exn + 'a" where
  "raise_for_status r =
     (case r of
        Answer a \<Rightarrow> Inr a
      | Envelope status _ \<Rightarrow> Inl (HTTPStatusError status)
      | ServerError \<Rightarrow> Inl (HTTPStatusError 500))"

section \<open>Scope and validation\<close>

text \<open>The stub: every caller is internal-ops, over the watched airports.\<close>

definition get_scope :: "string list \<Rightarrow> Scope" where
  "get_scope watched = \<lparr>scp_region = AllRegions, scp_sites_in_scope = watched\<rparr>"

definition icao24_path :: "string \<Rightarrow> bool" where
  "icao24_path s \<longleftrightarrow> length s = 6 \<and> list_all (\<lambda>c. c \<in> set (HEX_CHARS @ ''ABCDEF'')) s"

definition icao_path :: "string \<Rightarrow> bool" where
  "icao_path s \<longleftrightarrow> length s = 4 \<and>
     list_all (\<lambda>c. c \<in> set ''abcdefghijklmnopqrstuvwxyzABCDEFGHIJKLMNOPQRSTUVWXYZ0123456789'') s"

text \<open>TrailBatchRequest: the length limits, then the normalizing validator.\<close>

primrec normalize_loop :: "string list \<Rightarrow> string list \<Rightarrow> string list option" where
  "normalize_loop seen [] = Some seen"
| "normalize_loop seen (raw # rest) =
     (let ic = lower (strip raw)
      in if length ic \<noteq> 6 \<or> list_ex (\<lambda>c. c \<notin> set HEX_CHARS) ic then None
         else normalize_loop (if ic \<in> set seen then seen else seen @ [ic]) rest)"

definition trail_batch_request :: "string list \<Rightarrow> string list option" where
  "trail_batch_request icao24s =
     (if length icao24s < 1 \<or> length icao24s > 20000 then None else normalize_loop [] icao24s)"

definition validated :: "bool \<Rightarrow> 'a answer \<Rightarrow> 'a answer" where
  "validated ok r = (if ok then r else validation_exception_handler)"

section \<open>Endpoints\<close>

definition list_live :: "instant \<Rightarrow> instant \<Rightarrow> positions_table \<Rightarrow> Scope \<Rightarrow> string option \<Rightarrow> CustomerRegion option \<Rightarrow> PositionsLiveResponse answer" where
  "list_live db_now now table scope bbox region =
     answered (rbind (parse_bbox bbox) (\<lambda>box. list_live_positions db_now now table scope box region))"

definition stream_stub :: "unit answer" where
  "stream_stub = afm_exception_handler (NotImplementedYet ''positions stream'')"

definition get_flight_endpoint where
  "get_flight_endpoint db_now now table registry scope icao24 =
     validated (icao24_path icao24) (answered (get_flight db_now now table registry scope icao24))"

definition get_flight_trail_endpoint where
  "get_flight_trail_endpoint lake_now table lake scope icao24 lookback =
     validated (icao24_path icao24) (answered (get_flight_trail lake_now table lake scope icao24 lookback))"

text \<open>The batch endpoint streams: its status is sent before the scan. The answer of a scan that fails is taken as empty;
  a row without coordinates in mid-scan would cut the stream after the aircraft before it.\<close>

definition get_flight_trails_batch_endpoint ::
  "instant \<Rightarrow> positions_table \<Rightarrow> Lake \<Rightarrow> Scope \<Rightarrow> string list \<Rightarrow> TrailLookback \<Rightarrow> TrailResponse list answer" where
  "get_flight_trails_batch_endpoint lake_now table lake scope icao24s lookback =
     (case trail_batch_request icao24s of
        None \<Rightarrow> validation_exception_handler
      | Some ids \<Rightarrow> Answer (case get_flight_trails_batch lake_now table lake scope ids lookback of Inl _ \<Rightarrow> [] | Inr ts \<Rightarrow> ts))"

definition get_site_endpoint where
  "get_site_endpoint db_now table airports conditions scope icao =
     validated (icao_path icao) (answered (get_site db_now table airports conditions scope icao))"

definition get_site_sla_endpoint where
  "get_site_sla_endpoint conditions scope icao period =
     validated (icao_path icao) (answered (get_site_sla conditions scope icao period))"

definition list_inbound_endpoint where
  "list_inbound_endpoint db_now table scope icao = validated (icao_path icao) (answered (list_inbound db_now table scope icao))"

definition list_outbound_endpoint where
  "list_outbound_endpoint db_now table scope icao = validated (icao_path icao) (answered (list_outbound db_now table scope icao))"

definition list_sites_endpoint :: "AirportRow list \<Rightarrow> Scope \<Rightarrow> CustomerRegion option \<Rightarrow> SiteListResponse answer" where
  "list_sites_endpoint airports scope region = answered (list_sites airports scope region)"

definition list_cases_endpoint ::
  "string option \<Rightarrow> AppDb \<Rightarrow> Scope \<Rightarrow> string list option \<Rightarrow> string option \<Rightarrow> string option \<Rightarrow> CustomerRegion option \<Rightarrow>
     CaseListResponse answer" where
  "list_cases_endpoint instance_url db scope status severity site region =
     answered (list_cases instance_url db scope status severity site region)"

definition get_case_endpoint :: "string option \<Rightarrow> AppDb \<Rightarrow> Scope \<Rightarrow> string \<Rightarrow> CaseDetail answer" where
  "get_case_endpoint instance_url db scope case_id = answered (get_case instance_url db scope case_id)"

text \<open>The session stub: the same caller for everyone.\<close>

record MeResponse =
  me_user_handle :: string
  me_salesforce_user_id :: "string option"
  me_region :: CustomerRegion
  me_custom_perms :: "string list"
  me_read_only :: bool
  me_expires_at :: instant
  me_sites_in_scope :: "string list"

definition STUB_SESSION_LIFETIME :: duration where
  "STUB_SESSION_LIFETIME = hours 24"

definition me :: "instant \<Rightarrow> Scope \<Rightarrow> MeResponse answer" where
  "me now scope = Answer
     \<lparr>me_user_handle = ''internal-ops'', me_salesforce_user_id = None, me_region = scp_region scope, me_custom_perms = [],
      me_read_only = True, me_expires_at = now + STUB_SESSION_LIFETIME, me_sites_in_scope = scp_sites_in_scope scope\<rparr>"

text \<open>The case endpoints that the pipelines drive, with their limits.\<close>

definition sync_pending ::
  "(CaseCreateInput \<Rightarrow> 's \<Rightarrow> (pyexc + SalesforceCaseRef) \<times> 's) \<Rightarrow> (json \<Rightarrow> string) \<Rightarrow> (CaseRow \<Rightarrow> instant) \<Rightarrow> nat \<Rightarrow>
     AppDb \<times> 's \<Rightarrow> CaseSyncSummary answer \<times> (AppDb \<times> 's)" where
  "sync_pending create text_of now limit st =
     (if limit < 1 \<or> limit > 500 then (validation_exception_handler, st)
      else map_prod answered_service id (push_pending create text_of now limit st))"

definition sync_from_sf ::
  "(instant \<Rightarrow> nat \<Rightarrow> 's \<Rightarrow> (pyexc + CaseSyncRecord list) \<times> 's) \<Rightarrow> instant \<Rightarrow> (CaseSyncRecord \<Rightarrow> instant) \<Rightarrow> nat \<Rightarrow>
     AppDb \<times> 's \<Rightarrow> CasePullSummary answer \<times> (AppDb \<times> 's)" where
  "sync_from_sf modified_since start now limit st =
     (if limit < 1 \<or> limit > 200 then (validation_exception_handler, st)
      else map_prod answered_service id (pull_from_sf modified_since start now limit st))"

definition all_for_sync :: "(json \<Rightarrow> string) \<Rightarrow> string option \<Rightarrow> instant option \<Rightarrow> nat \<Rightarrow> AppDb \<Rightarrow> CasesForSyncPage answer" where
  "all_for_sync text_of instance_url since limit db =
     (if limit < 1 \<or> limit > 1000 then validation_exception_handler else Answer (list_for_sync text_of instance_url since limit db))"

section \<open>Validated requests\<close>

lemma normalize_loop_spec:
  "normalize_loop seen raws = Some ids \<Longrightarrow> distinct seen \<Longrightarrow>
   distinct ids \<and> set ids = set seen \<union> (lower \<circ> strip) ` set raws \<and>
   list_all (\<lambda>r. length (lower (strip r)) = 6 \<and> list_all (\<lambda>c. c \<in> set HEX_CHARS) (lower (strip r))) raws"
  by (induction raws arbitrary: seen) (auto simp: Let_def list_all_iff list_ex_iff split: if_splits)

text \<open>Under the stub scope nothing is refused for its region.\<close>

lemma stub_scope_never_refused:
  "effective_region (get_scope watched) region \<noteq> Inl (Raised (ScopeViolation m))"
  "check_flight_scope (get_scope watched) r = Inr ()" "includes_site (get_scope watched) icao"
  by (auto simp: effective_region_def get_scope_def check_flight_scope_def includes_region_def includes_site_def split: option.splits)

end
