(* ===== verification/ApiRuns.thy ===== *)
theory ApiRuns
  imports Api QueryEdges SyncJobs
begin

text \<open>
  Across the HTTP boundary: what the Foundry jobs do with the answers of the API.
\<close>

lemma position_model_icao: "position_model now r = Inr p \<Longrightarrow> pos_icao24 p = cp_icao24 r"
  by (auto simp: position_model_def split: option.splits if_splits)

lemma rmap_map:
  assumes "\<And>x y. f x = Inr y \<Longrightarrow> g y = h x"
  shows "rmap f xs = Inr ys \<Longrightarrow> map g ys = map h xs"
  using assms by (induction xs arbitrary: ys) (auto simp: rbind_Inr)

lemma live_icaos:
  assumes "list_live db_now now table (get_scope watched) None None = Answer resp"
  shows "map pos_icao24 (plr_items resp) =
      map cp_icao24 (take LIVE_POSITION_CEILING (newest_first (filter (live_row AllRegions None db_now) (dvalues table))))"
    "plr_truncated resp \<longleftrightarrow> LIVE_POSITION_CEILING < length (filter (live_row AllRegions None db_now) (dvalues table))"
proof -
  let ?rows = "take LIVE_POSITION_CEILING (newest_first (filter (live_row AllRegions None db_now) (dvalues table)))"
  have r: "rbind (rmap (position_model now) ?rows) (\<lambda>positions.
      Inr \<lparr>plr_items = positions, plr_count = int (length positions), plr_server_time = now,
           plr_pipeline_lag_seconds = (case ?rows of [] \<Rightarrow> 0 | r # _ \<Rightarrow> unix_seconds (now - cp_last_seen_at r)),
           plr_truncated = LIVE_POSITION_CEILING < length (newest_first (filter (live_row AllRegions None db_now) (dvalues table)))\<rparr>) = Inr resp"
    using assms
    by (auto simp: list_live_def answered_def afm_exception_handler_def parse_bbox_def rbind_def[of "Inr None"] list_live_positions_def
        effective_region_def get_scope_def rbind_def[of "Inr AllRegions"] clipped_eq split: sum.splits query_error.splits)
  then obtain ps where ps: "rmap (position_model now) ?rows = Inr ps" "plr_items resp = ps"
      "plr_truncated resp = (LIVE_POSITION_CEILING < length (newest_first (filter (live_row AllRegions None db_now) (dvalues table))))"
    by (auto simp: rbind_Inr)
  show "map pos_icao24 (plr_items resp) = map cp_icao24 ?rows"
    unfolding ps(2) by (rule rmap_map[OF position_model_icao ps(1)])
  show "plr_truncated resp \<longleftrightarrow> LIVE_POSITION_CEILING < length (filter (live_row AllRegions None db_now) (dvalues table))"
    unfolding ps(3) by (simp add: newest_first_def)
qed

text \<open>The aircraft the positions table has not seen for fifteen minutes.\<close>

definition unseen :: "instant \<Rightarrow> positions_table \<Rightarrow> string \<Rightarrow> bool" where
  "unseen db_now table pk \<longleftrightarrow>
     list_all (\<lambda>row. cp_icao24 row = pk \<longrightarrow> cp_last_seen_at row < db_now - minutes 15) (dvalues table)"

lemma orphans_unseen:
  assumes "list_live db_now now table (get_scope watched) None None = Answer resp" "\<not> plr_truncated resp"
  shows "set (sorted_orphans (remdups (map pos_icao24 (filter (in_live_scope LIVE_SCOPE_REGIONS) (plr_items resp)))) tenant) =
    {pk \<in> set tenant. unseen db_now table pk}"
proof -
  have all: "filter (in_live_scope LIVE_SCOPE_REGIONS) ps = ps" for ps
    by (simp add: in_live_scope_def LIVE_SCOPE_REGIONS_def)
  have "take LIVE_POSITION_CEILING (newest_first (filter (live_row AllRegions None db_now) (dvalues table))) =
      newest_first (filter (live_row AllRegions None db_now) (dvalues table))"
    using assms(2) live_icaos(2)[OF assms(1)] by (simp add: newest_first_def)
  then have "set (map pos_icao24 (plr_items resp)) = cp_icao24 ` {r \<in> set (dvalues table). live_row AllRegions None db_now r}"
    unfolding live_icaos(1)[OF assms(1)] by (auto simp: newest_first_def)
  moreover have "live_row AllRegions None db_now r \<longleftrightarrow> \<not> cp_last_seen_at r < db_now - minutes 15" for r
    by (auto simp: live_row_def in_bbox_def LIVE_POSITION_WINDOW_def)
  ultimately show ?thesis unfolding all sorted_orphans_def by (auto simp: unseen_def list_all_iff)
qed

text \<open>C10. Eviction is exact across the API: a run of the aircraft reconcile whose live answer is not truncated finds as
  orphans exactly the tenant's aircraft that the positions table has not seen for fifteen minutes, and deletes them
  in order up to its cap - nothing else.\<close>

theorem evicts_exactly_unseen:
  assumes "list_live db_now now table (get_scope watched) None None = Answer resp" "\<not> plr_truncated resp"
    and "fetch_positions_live client w = (Inr resp, w1)"
    and "list_aircraft_pks api fw fuel w1 = Some (Inr tenant, w2)"
    and "reconcile_aircraft client api fw (in_live_scope LIVE_SCOPE_REGIONS) fuel w = Some (Inr r, w')"
    and "\<not> rr_skipped_empty_live r"
  shows "\<exists>gone batch. sorted gone \<and> distinct gone \<and> set gone = {pk \<in> set tenant. unseen db_now table pk} \<and>
    rr_orphans r = length gone \<and> rr_deleted r = succeeded batch \<and>
    delete_aircraft_batch api fw (take AIRCRAFT_RECONCILE_DELETE_CAP gone) w2 = (Inr batch, w')"
proof -
  define gone where
    "gone = sorted_orphans (remdups (map pos_icao24 (filter (in_live_scope LIVE_SCOPE_REGIONS) (plr_items resp)))) tenant"
  have "plr_items resp \<noteq> []"
    using assms(3,5,6) by (auto simp: reconcile_aircraft_def iot_laws)
  then obtain batch where "delete_aircraft_batch api fw (take AIRCRAFT_RECONCILE_DELETE_CAP gone) w2 = (Inr batch, w')"
      "rr_orphans r = length gone" "rr_deleted r = succeeded batch"
    using assms(3,4,5) by (auto simp: reconcile_aircraft_def iot_laws Let_def gone_def)
  moreover have "sorted gone" "distinct gone" by (simp_all add: gone_def sorted_orphans_def)
  moreover have "set gone = {pk \<in> set tenant. unseen db_now table pk}"
    unfolding gone_def by (rule orphans_unseen[OF assms(1,2)])
  ultimately show ?thesis by blast
qed

text \<open>One aircraft of the feed, and two objects of the tenant, one of them last seen five hours ago.\<close>

definition live_client :: "log afm" where
  "live_client = (demo_client [])\<lparr>am_positions_live := (\<lambda>w. (Inr fleet_live, w))\<rparr>"

definition two_aircraft :: "(string, json) dict list" where
  "two_aircraft = [[(''icao24'', JStr ''aa'')], [(''icao24'', JStr ''dd'')]]"

definition seen_table :: positions_table where
  "seen_table = [(''aa'', seen ''aa'' (Some West) (hours 5)), (''dd'', seen ''dd'' None 0)]"

lemma live_fetch: "fetch_positions_live live_client [] = (Inr fleet_live, [])"
  by (simp add: fetch_positions_live_def live_client_def transient_retry_def numeral_2_eq_2)

lemma two_listed: "list_aircraft_pks (log_api two_aircraft) (demo_writer False) 1 [] = Some (Inr [''dd'', ''aa''], [])"
  by code_simp

lemma distinct_singleton: "set xs = {x} \<Longrightarrow> distinct xs \<Longrightarrow> xs = [x]"
  using distinct_card[of xs] by (cases xs; cases "tl xs") auto

lemma one_deleted: "fst (delete_aircraft_batch (log_api two_aircraft) (demo_writer False) [''dd''] []) =
    Inr \<lparr>attempted = 1, succeeded = 1, failed = 0\<rparr>"
  by code_simp

lemma evicts_exactly_unseen_witness:
  "\<exists>r w'. reconcile_aircraft live_client (log_api two_aircraft) (demo_writer False) (in_live_scope LIVE_SCOPE_REGIONS) 1 [] =
      Some (Inr r, w') \<and> rr_orphans r = 1"
proof -
  have live: "list_live (hours 5) (hours 5) seen_table (get_scope []) None None = Answer fleet_live"
    by (simp add: list_live_def parse_bbox_def list_live_positions_def effective_region_def get_scope_def seen_def live_row_def in_bbox_def
        clipped_def newest_first_def rbind_def position_model_def fleet_live_def hours_def minutes_def answered_def seen_table_def
        LIVE_POSITION_WINDOW_def LIVE_POSITION_CEILING_def unix_seconds_def parse_region_def)
  have small: "\<not> plr_truncated fleet_live" "plr_items fleet_live \<noteq> []" by (simp_all add: fleet_live_def)
  let ?gone = "sorted_orphans (remdups (map pos_icao24 (filter (in_live_scope LIVE_SCOPE_REGIONS) (plr_items fleet_live)))) [''dd'', ''aa'']"
  have unseen: "{pk \<in> set [''dd'', ''aa'']. unseen (hours 5) seen_table pk} = {''dd''}"
    by (auto simp: unseen_def seen_table_def seen_def hours_def minutes_def)
  have "set ?gone = {''dd''}" using orphans_unseen[OF live small(1)] unseen by simp
  then have gone: "?gone = [''dd'']"
    by (rule distinct_singleton) (simp add: sorted_orphans_def)
  obtain batch w' where "delete_aircraft_batch (log_api two_aircraft) (demo_writer False) [''dd''] [] = (Inr batch, w')"
    using one_deleted by (cases "delete_aircraft_batch (log_api two_aircraft) (demo_writer False) [''dd''] []") simp
  then obtain r where run: "reconcile_aircraft live_client (log_api two_aircraft) (demo_writer False) (in_live_scope LIVE_SCOPE_REGIONS) 1 [] =
      Some (Inr r, w')" "\<not> rr_skipped_empty_live r"
    using live_fetch two_listed small(2) gone
    by (simp add: reconcile_aircraft_def iot_bind_def lift_io_def iot_return_def Let_def AIRCRAFT_RECONCILE_DELETE_CAP_def)
  obtain g where "distinct g" "set g = {pk \<in> set [''dd'', ''aa'']. unseen (hours 5) seen_table pk}" "rr_orphans r = length g"
    using evicts_exactly_unseen[OF live small(1) live_fetch two_listed run] by blast
  then have "rr_orphans r = 1" unfolding unseen using distinct_card[of g] by simp
  then show ?thesis using run(1) by blast
qed

end
