(* ===== verification/CaseAssets.thy ===== *)
theory CaseAssets
  imports Api FoundryAssets
begin

text \<open>
  assets/sync.py: the two assets that drive the case endpoints of the API, and the health check on recent
  pushes. The HTTP post is a parameter; it gives the parsed body, an httpx error (a transport error or a
  4xx/5xx status) or another exception. A body is a dictionary of JSON values. The reason text of a skip, the
  message of the httpx error, is reduced to the status or unreachable.
\<close>

section \<open>The assets\<close>

definition PUSH_LIMIT :: nat where "PUSH_LIMIT = 50"
definition PULL_LIMIT :: nat where "PULL_LIMIT = 200"
definition HEALTH_WINDOW_MIN :: int where "HEALTH_WINDOW_MIN = 30"
definition HEALTH_MIN_SAMPLE :: nat where "HEALTH_MIN_SAMPLE = 20"
definition HEALTH_FAIL_RATE :: real where "HEALTH_FAIL_RATE = 1 / 2"

type_synonym 'w post = "nat \<Rightarrow> 'w \<Rightarrow> (exn + (string, json) dict) \<times> 'w"

definition push_pending_cases :: "'w post \<Rightarrow> nat \<Rightarrow> 'w \<Rightarrow> (exn + (string, json) dict) \<times> 'w" where
  "push_pending_cases post limit = post limit"

definition pull_cases_from_sf :: "'w post \<Rightarrow> nat \<Rightarrow> 'w \<Rightarrow> (exn + (string, json) dict) \<times> 'w" where
  "pull_cases_from_sf post limit = post limit"

definition skipped_push :: "exn \<Rightarrow> metadata" where
  "skipped_push e = [(''skipped'', JBool True), (''skip_reason'', JStr (case e of HTTPStatusError n \<Rightarrow> show_nat n | _ \<Rightarrow> ''unreachable''))]"

text \<open>\<open>for key, value in summary.items(): metadata[key] = int(int(value))\<close>.\<close>

definition counts_metadata :: "(string, json) dict \<Rightarrow> exn + metadata" where
  "counts_metadata summary =
     rbind (rmap (\<lambda>(k, v). rbind (json_int v) (\<lambda>n. Inr (k, JInt n))) summary) (\<lambda>entries.
       Inr (foldl (\<lambda>d (k, v). dset k v d) [(''skipped'', JBool False)] entries))"

definition sf_case_push :: "'w post \<Rightarrow> ('w, metadata) io" where
  "sf_case_push post = (\<lambda>w.
     case push_pending_cases post PUSH_LIMIT w of
       (Inl e, w') \<Rightarrow> if http_error e then (Inr (skipped_push e), w') else (Inl e, w')
     | (Inr summary, w') \<Rightarrow> (counts_metadata summary, w'))"

definition sf_case_sync :: "'w post \<Rightarrow> (json \<Rightarrow> string) \<Rightarrow> ('w, metadata) io" where
  "sf_case_sync post str_of = (\<lambda>w.
     case pull_cases_from_sf post PULL_LIMIT w of
       (Inl e, w') \<Rightarrow> if http_error e then (Inr (skipped_push e), w') else (Inl e, w')
     | (Inr summary, w') \<Rightarrow>
         (rbind (rmap (\<lambda>k. rbind (let v = obj_get summary k in if truthy v then json_int v else Inr 0) (\<lambda>n. Inr (k, JInt n)))
             [''fetched'', ''updated'', ''unmatched'']) (\<lambda>entries.
            Inr ([(''skipped'', JBool False)] @ entries @
              (let v = obj_get summary ''watermark'' in if truthy v then [(''watermark'', JStr (str_of v))] else []))), w'))"

text \<open>The check: recent terminal outcomes, a minimum sample, a fail rate.\<close>

definition recent_with :: "instant \<Rightarrow> string \<Rightarrow> AppDb \<Rightarrow> nat" where
  "recent_with now status db =
     length (filter (\<lambda>r. now - minutes HEALTH_WINDOW_MIN \<le> cr_updated_at r \<and> cr_sf_sync_status r = status) (db_cases db))"

definition sf_push_not_failing :: "instant \<Rightarrow> AppDb \<Rightarrow> bool" where
  "sf_push_not_failing now db =
     (let failed = recent_with now ''failed'' db; synced = recent_with now ''synced'' db; total = failed + synced;
          rate = (if total = 0 then 0 else real failed / real total)
      in \<not> (total \<ge> HEALTH_MIN_SAMPLE \<and> rate \<ge> HEALTH_FAIL_RATE))"

section \<open>The assets over the API\<close>

text \<open>The bodies the two endpoints send.\<close>

definition push_body :: "CaseSyncSummary \<Rightarrow> (string, json) dict" where
  "push_body s = [(''attempted'', JInt (int (css_attempted s))), (''synced'', JInt (int (css_synced s))),
     (''retrying'', JInt (int (css_retrying s))), (''failed'', JInt (int (css_failed s)))]"

definition pull_body :: "CasePullSummary \<Rightarrow> (string, json) dict" where
  "pull_body s = [(''fetched'', JInt (int (cps_fetched s))), (''updated'', JInt (int (cps_updated s))),
     (''unmatched'', JInt (int (cps_unmatched s))), (''watermark'', (case cps_watermark s of None \<Rightarrow> JNull | Some t \<Rightarrow> JIso t))]"

definition push_over_api where
  "push_over_api create text_of now = (\<lambda>limit st.
     map_prod (map_sum id push_body \<circ> raise_for_status) id (sync_pending create text_of now limit st))"

definition pull_over_api where
  "pull_over_api modified_since start now = (\<lambda>limit st.
     map_prod (map_sum id pull_body \<circ> raise_for_status) id (sync_from_sf modified_since start now limit st))"

lemma raised_is_http: "raise_for_status r = Inl e \<Longrightarrow> http_error e"
  by (auto simp: raise_for_status_def http_error_def split: answer.splits)

lemma json_int_JInt [simp]: "json_int (JInt n) = Inr n"
  by (simp add: json_int_def)

text \<open>A broken Salesforce or API never fails a pipeline run: against the real endpoints both case assets always
  materialize - with the pass's own counters, or as a skip when the API answered with an error.\<close>

theorem case_assets_never_fail:
  "(case fst (sf_case_push (push_over_api create text_of now) st) of
      Inl _ \<Rightarrow> False
    | Inr meta \<Rightarrow> dget meta ''skipped'' = Some (JBool True) \<or>
        (\<exists>smry. fst (sync_pending create text_of now 50 st) = Answer smry \<and>
           meta = (''skipped'', JBool False) # push_body smry)) \<and>
   (case fst (sf_case_sync (pull_over_api modified_since start now') str_of st) of
      Inl _ \<Rightarrow> False
    | Inr meta \<Rightarrow> dget meta ''skipped'' = Some (JBool True) \<or>
        (\<exists>smry. fst (sync_from_sf modified_since start now' 200 st) = Answer smry \<and>
           dget meta ''updated'' = Some (JInt (int (cps_updated smry)))))"
proof
  obtain a st1 where a: "sync_pending create text_of now 50 st = (a, st1)" by (metis surj_pair)
  show "case fst (sf_case_push (push_over_api create text_of now) st) of
      Inl _ \<Rightarrow> False
    | Inr meta \<Rightarrow> dget meta ''skipped'' = Some (JBool True) \<or>
        (\<exists>smry. fst (sync_pending create text_of now 50 st) = Answer smry \<and> meta = (''skipped'', JBool False) # push_body smry)"
  proof (cases a)
    case (Answer smry)
    then have "counts_metadata (push_body smry) = Inr ((''skipped'', JBool False) # push_body smry)"
      by (simp add: counts_metadata_def push_body_def rbind_def)
    then show ?thesis using a Answer
      by (simp add: sf_case_push_def push_pending_cases_def push_over_api_def PUSH_LIMIT_def raise_for_status_def)
  next
    case (Envelope n c)
    then show ?thesis using a
      by (simp add: sf_case_push_def push_pending_cases_def push_over_api_def PUSH_LIMIT_def raise_for_status_def http_error_def skipped_push_def)
  next
    case ServerError
    then show ?thesis using a
      by (simp add: sf_case_push_def push_pending_cases_def push_over_api_def PUSH_LIMIT_def raise_for_status_def http_error_def skipped_push_def)
  qed
next
  obtain a st1 where a: "sync_from_sf modified_since start now' 200 st = (a, st1)" by (metis surj_pair)
  note defs = sf_case_sync_def pull_cases_from_sf_def pull_over_api_def PULL_LIMIT_def raise_for_status_def
  show "case fst (sf_case_sync (pull_over_api modified_since start now') str_of st) of
      Inl _ \<Rightarrow> False
    | Inr meta \<Rightarrow> dget meta ''skipped'' = Some (JBool True) \<or>
        (\<exists>smry. fst (sync_from_sf modified_since start now' 200 st) = Answer smry \<and>
           dget meta ''updated'' = Some (JInt (int (cps_updated smry))))"
  proof (cases a)
    case (Answer smry)
    have "rbind (let v = JInt n in if truthy v then json_int v else Inr 0) (\<lambda>n. Inr (k, JInt n)) = Inr (k, JInt n)" for n and k :: string
      by (simp add: rbind_def Let_def)
    then show ?thesis using a Answer by (simp add: defs pull_body_def obj_get_def rbind_def)
  next
    case (Envelope n c)
    then show ?thesis using a by (simp add: defs http_error_def skipped_push_def)
  next
    case ServerError
    then show ?thesis using a by (simp add: defs http_error_def skipped_push_def)
  qed
qed

section \<open>The check\<close>

lemma sf_push_not_failing_iff:
  "\<not> sf_push_not_failing now db \<longleftrightarrow>
     20 \<le> recent_with now ''failed'' db + recent_with now ''synced'' db \<and> recent_with now ''synced'' db \<le> recent_with now ''failed'' db"
proof -
  have "(1 / 2 :: real) \<le> real f / real (f + s) \<longleftrightarrow> s \<le> f" if "0 < f + s" for f s :: nat
  proof -
    have pos: "0 < real (f + s)" using that by (simp only: of_nat_0_less_iff)
    show ?thesis unfolding pos_le_divide_eq[OF pos] by (auto simp: algebra_simps)
  qed
  then show ?thesis by (auto simp: sf_push_not_failing_def Let_def HEALTH_MIN_SAMPLE_def HEALTH_FAIL_RATE_def)
qed

text \<open>What counts as a recent push is any synced case touched in the window: the pull of Salesforce edits touches
  synced cases too, so with as many edits mirrored as pushes failed, plus one, the check passes.\<close>

lemma pulls_mask_push_failures:
  "recent_with now ''failed'' db < recent_with now ''synced'' db \<Longrightarrow> sf_push_not_failing now db"
  using sf_push_not_failing_iff[of now db] by auto

end
