(* ===== verification/Observability.thy ===== *)
theory Observability
  imports PositionsTable CaseStore "HOL-Library.Multiset"
begin

text \<open>
  observability.py: the collector behind /v1/metrics/extras, as the list of gauges one scrape yields. The rows
  of a GROUP BY come in no particular order; they are listed by first appearance. A database error in the
  n-th query is the parameter \<open>down\<close>: the generator stops there, with what it has yielded before.
  Times of the run store are kept in microseconds, like every other instant, and so are the two gauges taken from them.
\<close>

record Gauge =
  g_name :: string
  g_labels :: "string list"
  g_samples :: "(string list \<times> int) list"

definition scalar :: "string \<Rightarrow> int \<Rightarrow> Gauge" where
  "scalar name v = \<lparr>g_name = name, g_labels = [], g_samples = [([], v)]\<rparr>"

definition COLLECTOR_UP :: string where "COLLECTOR_UP = ''afm_metrics_collector_up''"

text \<open>\<open>SELECT key, count( * ) GROUP BY key\<close>.\<close>

definition group_counts :: "('r \<Rightarrow> 'k) \<Rightarrow> 'r list \<Rightarrow> ('k \<times> nat) list" where
  "group_counts key rows = map (\<lambda>k. (k, length (filter (\<lambda>r. key r = k) rows))) (remdups (map key rows))"

definition grouped :: "string \<Rightarrow> string list \<Rightarrow> ('r \<Rightarrow> string list) \<Rightarrow> 'r list \<Rightarrow> Gauge" where
  "grouped name labels key rows =
     \<lparr>g_name = name, g_labels = labels, g_samples = map (map_prod id int) (group_counts key rows)\<rparr>"

text \<open>\<open>extract(epoch FROM interval)::int\<close>: the numeric cast rounds half away from zero.\<close>

definition numeric_int :: "int \<Rightarrow> int" where
  "numeric_int microseconds = sgn microseconds * ((2 * \<bar>microseconds\<bar> + 1000000) div 2000000)"

definition collect_fleet :: "instant \<Rightarrow> positions_table \<Rightarrow> Gauge list" where
  "collect_fleet now table =
     [scalar ''afm_active_aircraft'' (int (length (filter (\<lambda>r. now - minutes 15 < cp_last_seen_at r) (dvalues table)))),
      scalar ''afm_tracked_aircraft'' (int (length table)),
      scalar ''afm_pipeline_lag_seconds''
        (case map cp_last_seen_at (dvalues table) of
           [] \<Rightarrow> - 1
         | t # ts \<Rightarrow> numeric_int (now - foldl max t ts))]"

definition by_site :: "CaseRow list \<Rightarrow> Gauge" where
  "by_site cases =
     (let site_rows = sort_key (\<lambda>r. - int (snd r)) (group_counts cr_site_icao cases);
          other = sum_list (map snd (drop 20 site_rows))
      in \<lparr>g_name = ''afm_cases_by_site'', g_labels = [''site_icao''],
          g_samples = map (\<lambda>(k, n). ([k], int n)) (take 20 site_rows) @ (if other = 0 then [] else [([''other''], int other)])\<rparr>)"

definition collect_cases :: "instant \<Rightarrow> CaseRow list \<Rightarrow> Gauge list" where
  "collect_cases now cases =
     [grouped ''afm_cases'' [''severity'', ''status''] (\<lambda>r. [cr_severity r, cr_status r]) cases,
      grouped ''afm_cases_by_region'' [''region''] (\<lambda>r. [cr_customer_region r]) cases,
      grouped ''afm_cases_by_type'' [''case_type''] (\<lambda>r. [cr_case_type r]) cases,
      grouped ''afm_cases_by_type_severity'' [''case_type'', ''severity''] (\<lambda>r. [cr_case_type r, cr_severity r]) cases,
      grouped ''afm_cases_created_24h'' [''case_type''] (\<lambda>r. [cr_case_type r]) (filter (\<lambda>r. now - hours 24 < cr_created_at r) cases),
      by_site cases,
      grouped ''afm_sf_sync_backlog'' [''sync_status''] (\<lambda>r. [cr_sf_sync_status r]) cases]"

record RunRow =
  run_pipeline :: "string option"
  run_status :: "string option"
  run_created_at :: instant
  run_start_time :: "int option"
  run_end_time :: "int option"

definition or_unknown :: "string option \<Rightarrow> string" where
  "or_unknown v = (case v of None \<Rightarrow> ''unknown'' | Some s \<Rightarrow> s)"

text \<open>\<open>DISTINCT ON (pipeline_name) ... ORDER BY pipeline_name, end_time DESC\<close>: the newest completed run of each.\<close>

definition newest_runs :: "RunRow list \<Rightarrow> RunRow list" where
  "newest_runs runs =
     (let completed = filter (\<lambda>r. case run_end_time r of None \<Rightarrow> False | Some e \<Rightarrow> 0 < e) runs
      in List.map_filter (\<lambda>p. max_by (\<lambda>r. the (run_end_time r)) (filter (\<lambda>r. run_pipeline r = p) completed))
           (remdups (map run_pipeline completed)))"

definition collect_dagster :: "instant \<Rightarrow> RunRow list \<Rightarrow> Gauge list" where
  "collect_dagster now runs =
     [grouped ''afm_dagster_runs_24h'' [''pipeline'', ''status''] (\<lambda>r. [or_unknown (run_pipeline r), or_unknown (run_status r)])
        (filter (\<lambda>r. now - hours 24 < run_created_at r) runs),
      \<lparr>g_name = ''afm_dagster_job_last_duration_seconds'', g_labels = [''pipeline''],
       g_samples = List.map_filter (\<lambda>r. map_option (\<lambda>s. ([or_unknown (run_pipeline r)], the (run_end_time r) - s)) (run_start_time r)) (newest_runs runs)\<rparr>,
      \<lparr>g_name = ''afm_dagster_job_last_age_seconds'', g_labels = [''pipeline''],
       g_samples = map (\<lambda>r. ([or_unknown (run_pipeline r)], now - the (run_end_time r))) (newest_runs runs)\<rparr>]"

text \<open>One scrape. Each element of a stage list is what follows one query; a failing query ends the generator.\<close>

definition yielded :: "(nat \<Rightarrow> bool) \<Rightarrow> nat \<Rightarrow> Gauge list list \<Rightarrow> Gauge list \<times> bool" where
  "yielded down first stages =
     (let ok = takeWhile (\<lambda>(i, gs). \<not> down i) (zip [first..<first + length stages] stages)
      in (concat (map snd ok), length ok = length stages))"

definition business_stages :: "instant \<Rightarrow> positions_table \<Rightarrow> CaseRow list \<Rightarrow> Gauge list list" where
  "business_stages now table cases = collect_fleet now table # map (\<lambda>g. [g]) (collect_cases now cases)"

definition dagster_stages :: "instant \<Rightarrow> RunRow list \<Rightarrow> Gauge list list" where
  "dagster_stages now runs = [take 1 (collect_dagster now runs), drop 1 (collect_dagster now runs)]"

definition collect ::
  "(nat \<Rightarrow> bool) \<Rightarrow> instant \<Rightarrow> (positions_table \<times> CaseRow list) option \<Rightarrow> RunRow list option \<Rightarrow> Gauge list" where
  "collect down now pool dagster_pool =
     (case pool of
        None \<Rightarrow> [scalar COLLECTOR_UP 0]
      | Some (table, cases) \<Rightarrow>
          (case yielded down 0 (business_stages now table cases) of
             (gs, False) \<Rightarrow> gs @ [scalar COLLECTOR_UP 0]
           | (gs, True) \<Rightarrow>
               gs @ (case dagster_pool of None \<Rightarrow> [] | Some runs \<Rightarrow> fst (yielded down 8 (dagster_stages now runs))) @ [scalar COLLECTOR_UP 1]))"

section \<open>Nothing is miscounted\<close>

definition gauge_total :: "Gauge \<Rightarrow> int" where
  "gauge_total g = sum_list (map snd (g_samples g))"

lemma group_total: "sum_list (map snd (group_counts key rows)) = length rows"
proof -
  have "sum_list (map (\<lambda>k. length (filter (\<lambda>r. key r = k) rows)) ks) = length (filter (\<lambda>r. key r \<in> set ks) rows)"
    if "distinct ks" for ks
    using that
  proof (induction ks)
    case (Cons k ks)
    have "length (filter (\<lambda>r. key r \<in> set (k # ks)) rows) = length (filter (\<lambda>r. key r = k) rows) + length (filter (\<lambda>r. key r \<in> set ks) rows)"
      using Cons.prems by (induction rows) auto
    then show ?case using Cons by simp
  qed simp
  from this[of "remdups (map key rows)"] show ?thesis
    by (simp add: group_counts_def comp_def)
qed

lemma sum_list_int: "sum_list (map int ns) = int (sum_list ns)"
  by (induction ns) simp_all

lemma grouped_total: "gauge_total (grouped name labels key rows) = int (length rows)"
  using sum_list_int[of "map snd (group_counts key rows)"] group_total[of key rows]
  by (simp add: gauge_total_def grouped_def comp_def)

lemma sum_list_sorted: "sum_list (map snd (sort_key f xs)) = sum_list (map snd (xs :: ('a \<times> nat) list))"
  by (metis mset_map mset_sort sum_mset_sum_list)

lemma by_site_total: "gauge_total (by_site cases) = int (length cases)"
proof -
  let ?rows = "sort_key (\<lambda>r. - int (snd r)) (group_counts cr_site_icao cases)"
  have "sum_list (map snd (take 20 ?rows)) + sum_list (map snd (drop 20 ?rows)) = sum_list (map snd (take 20 ?rows @ drop 20 ?rows))"
    by (simp only: map_append sum_list_append)
  also have "\<dots> = length cases" by (simp only: append_take_drop_id sum_list_sorted group_total)
  finally have total: "sum_list (map snd (take 20 ?rows)) + sum_list (map snd (drop 20 ?rows)) = length cases" .
  have counts: "sum_list (map snd (map (\<lambda>(k, n). ([k], int n)) xs)) = int (sum_list (map snd xs))" for xs :: "(string \<times> nat) list"
    by (induction xs) auto
  have rest: "sum_list (map snd (if m = 0 then [] else [([''other''], int m)])) = int m" for m :: nat by simp
  show ?thesis
    unfolding by_site_def gauge_total_def Let_def Gauge.simps map_append sum_list_append counts rest of_nat_add[symmetric] total ..
qed

lemma by_site_series: "length (g_samples (by_site cases)) \<le> 21"
proof -
  have "length (if c then [] else [s]) \<le> 1" for c and s :: "string list \<times> int" by simp
  then show ?thesis unfolding by_site_def Let_def by (simp add: min_def)
qed

text \<open>C37. The case gauges are conservative: each way of slicing the cases - by severity and status, region, type,
  type and severity, site with its tail folded into one bucket, and sync status - counts every case once,
  and the site gauge has at most 21 series.\<close>

theorem case_gauges_conserve:
  "map gauge_total (collect_cases now cases) =
     [int (length cases), int (length cases), int (length cases), int (length cases),
      int (length (filter (\<lambda>r. now - hours 24 < cr_created_at r) cases)), int (length cases), int (length cases)] \<and>
   length (g_samples (by_site cases)) \<le> 21"
  by (simp add: collect_cases_def grouped_total by_site_total by_site_series)

text \<open>A scrape in which a later query fails has already yielded the gauges of the earlier ones.\<close>

lemma partial_scrape:
  "collect (\<lambda>i. i = 3) now (Some (table, cases)) dagster =
     collect_fleet now table @ take 2 (collect_cases now cases) @ [scalar COLLECTOR_UP 0]"
  by (simp add: collect_def yielded_def business_stages_def collect_cases_def upt_rec)

end
