(* ===== verification/IngestionRuns.thy ===== *)
theory IngestionRuns
  imports Ingestion DetectorRuns
begin

text \<open>
  What sequences of ingestion runs leave in the lake and the positions table, how many requests one run
  can cost, and the guarantee the detector takes from ingestion.
\<close>

section \<open>The snapshot\<close>

lemma write_positions_rows:
  assumes "wf_lake lake" "write_positions_snapshot rows t lake = (r, lake')"
  shows "all_rows (lk_positions lake') \<subseteq> all_rows (lk_positions lake) \<union> set (map (\<lambda>r. r\<lparr>pr_ts_polled := t\<rparr>) rows)"
proof -
  let ?rows = "map (\<lambda>r. r\<lparr>pr_ts_polled := t\<rparr>) rows" and ?d = "hour_of t"
  have md: "wf_table (hour_of \<circ> pr_ts_polled) (lk_uuid lake) (make_dir ?d (lk_positions lake))"
      "all_rows (make_dir ?d (lk_positions lake)) = all_rows (lk_positions lake)"
    using make_dir_keeps[of "hour_of \<circ> pr_ts_polled" "lk_uuid lake" "lk_positions lake" ?d] assms(1)
    by (simp_all add: wf_lake_def)
  have "all_rows (put_file ?d (lk_uuid lake) ?rows (make_dir ?d (lk_positions lake))) = all_rows (lk_positions lake) \<union> set ?rows"
    using put_file_keeps[OF md(1), of ?rows ?d] md(2) by simp
  then show ?thesis
    using assms(2) md by (auto simp: write_positions_snapshot_def Let_def split: if_splits disk_event.splits)
qed

lemma store_rows_lake:
  assumes "wf_lake (is_lake st)" "store_rows registry t rows st = (r, st')"
  shows "wf_lake (is_lake st') \<and> all_rows (lk_positions (is_lake st)) \<subseteq> all_rows (lk_positions (is_lake st')) \<and>
    all_rows (lk_positions (is_lake st')) \<subseteq> all_rows (lk_positions (is_lake st)) \<union> set (map (\<lambda>r. r\<lparr>pr_ts_polled := t\<rparr>) rows)"
proof (cases "rows = []")
  case True
  then show ?thesis using assms by (auto simp: store_rows_def upsert_current_positions_def Let_def)
next
  case False
  obtain w lake where w: "write_positions_snapshot rows t (is_lake st) = (w, lake)" by fastforce
  have "is_lake st' = lake"
    using assms(2) w False by (auto simp: store_rows_def Let_def split: sum.splits prod.splits)
  then show ?thesis
    using wf_lake_write_positions[OF assms(1) w] write_positions_rows[OF assms(1) w] by simp
qed

lemma convert_icao:
  assumes "convert_states_to_rows airports states t = Inr rows" "row \<in> set rows"
  obtains st where "st \<in> set states" "pr_icao24 row = oss_icao24 st"
proof -
  obtain st region where "st \<in> set states" "state_to_row t st region = Inr row" using convert_rows[OF assms] by metis
  then show ?thesis using that by (auto simp: state_to_row_def rbind_Inr)
qed

text \<open>The two kinds of run: nothing stored, or one conversion stored.\<close>

lemma opensky_positions_cases:
  fixes st st' :: "'w IngestState"
  assumes "opensky_positions api (Inr denied) airports registry t st = (r, st')"
  obtains (nothing) "is_lake st' = is_lake st" "is_positions st' = is_positions st" "\<And>x. r = Inr x \<Longrightarrow> ir_skipped x"
  | (stored) resp rows st1 s where
      "is_lake (st1 :: 'w IngestState) = is_lake st" "is_positions st1 = is_positions st"
      "\<And>q. q \<in> set (or_states (resp :: OpenSkyResponse)) \<Longrightarrow> oss_icao24 q \<noteq> []"
      "convert_states_to_rows airports (filter (\<lambda>q. \<not> is_denied (oss_icao24 q) denied) (or_states resp)) t = Inr rows"
      "store_rows registry t rows st1 = (s, st')"
      "\<And>x. r = Inr x \<Longrightarrow> ir_raw_state_count x = length (or_states resp) \<and> ir_aircraft_count x = length rows \<and>
         ir_filtered_denylist x = length (filter (\<lambda>q. is_denied (oss_icao24 q) denied) (or_states resp)) \<and>
         ir_filtered_no_coords x = length (filter (\<lambda>q. \<not> is_denied (oss_icao24 q) denied) (or_states resp)) - length rows"
proof -
  obtain f sky where f: "fetch_states api (is_sky st) = (f, sky)" by (meson surj_pair)
  show ?thesis
  proof (cases f)
    case (Inl e)
    show ?thesis
      by (rule nothing) (use assms f Inl in \<open>auto simp: opensky_positions_def skipped_result_def split: opensky_error.splits\<close>)
  next
    case (Inr resp)
    let ?kept = "filter (\<lambda>q. \<not> is_denied (oss_icao24 q) denied) (or_states resp)" and ?st1 = "st\<lparr>is_sky := sky\<rparr>"
    have named: "oss_icao24 q \<noteq> []" if "q \<in> set (or_states resp)" for q
      using fetch_states_parsed[of api "is_sky st" resp sky] parse_response_named that f Inr by metis
    show ?thesis
    proof (cases "convert_states_to_rows airports ?kept t")
      case (Inl e)
      show ?thesis by (rule nothing) (use assms f Inr Inl in \<open>auto simp: opensky_positions_def Let_def\<close>)
    next
      case rows: (Inr rows)
      obtain s st2 where s: "store_rows registry t rows ?st1 = (s, st2)" by fastforce
      show ?thesis
        by (rule stored[of ?st1 resp rows s])
          (use assms f Inr rows s named in \<open>auto simp: opensky_positions_def Let_def split: sum.splits\<close>)
    qed
  qed
qed

lemma convert_length:
  assumes "convert_states_to_rows airports states t = Inr rows"
  shows "length rows \<le> length states"
proof -
  obtain regions where "infer_regions airports (map oss_lat states) (map oss_lon states) = Inr regions"
    using assms by (auto simp: convert_states_to_rows_def split: sum.splits)
  then have "length rows = length (filter (\<lambda>(state, region). oss_lat state \<noteq> None \<and> oss_lon state \<noteq> None) (zip states regions))"
    using assms by (simp add: convert_states_to_rows_def rmap_length)
  also have "\<dots> \<le> length (zip states regions)" by (rule length_filter_le)
  also have "\<dots> \<le> length states" by simp
  finally show ?thesis .
qed

lemma ingested_rows_step:
  assumes "wf_lake (is_lake st)" "opensky_positions api (Inr denied) airports registry polled_at st = (r, st')"
  shows "wf_lake (is_lake st')" "all_rows (lk_positions (is_lake st)) \<subseteq> all_rows (lk_positions (is_lake st'))"
    and "row \<in> all_rows (lk_positions (is_lake st')) \<Longrightarrow> row \<notin> all_rows (lk_positions (is_lake st)) \<Longrightarrow>
       named_row row \<and> \<not> is_denied (pr_icao24 row) denied \<and> pr_ts_polled row = polled_at"
proof -
  have "wf_lake (is_lake st') \<and> all_rows (lk_positions (is_lake st)) \<subseteq> all_rows (lk_positions (is_lake st')) \<and>
    (\<forall>row \<in> all_rows (lk_positions (is_lake st')) - all_rows (lk_positions (is_lake st)).
       named_row row \<and> \<not> is_denied (pr_icao24 row) denied \<and> pr_ts_polled row = polled_at)"
    using assms(2)
  proof (cases rule: opensky_positions_cases)
    case nothing
    then show ?thesis using assms(1) by simp
  next
    case (stored resp rows st1 s)
    have row: "named_row row \<and> \<not> is_denied (pr_icao24 row) denied \<and> pr_ts_polled row = polled_at" if mem: "row \<in> set rows" for row
    proof -
      have "named_row row \<and> pr_ts_polled row = polled_at"
        by (rule converted_named[OF _ stored(4) mem]) (use stored(3) in auto)
      moreover obtain q where "q \<in> set (filter (\<lambda>q. \<not> is_denied (oss_icao24 q) denied) (or_states resp))" "pr_icao24 row = oss_icao24 q"
        using convert_icao[OF stored(4) mem] .
      ultimately show ?thesis by simp
    qed
    then have "map (\<lambda>r. r\<lparr>pr_ts_polled := polled_at\<rparr>) rows = rows" by (auto intro!: map_idI)
    then show ?thesis
      using store_rows_lake[OF _ stored(5)] assms(1) stored(1) row by auto
  qed
  then show "wf_lake (is_lake st')" "all_rows (lk_positions (is_lake st)) \<subseteq> all_rows (lk_positions (is_lake st'))"
    and "row \<in> all_rows (lk_positions (is_lake st')) \<Longrightarrow> row \<notin> all_rows (lk_positions (is_lake st)) \<Longrightarrow>
       named_row row \<and> \<not> is_denied (pr_icao24 row) denied \<and> pr_ts_polled row = polled_at"
    by blast+
qed


text \<open>The counters of an ingestion run account for every state of the poll: denied, without
  coordinates, or written.\<close>

theorem ingestion_accounts:
  assumes "opensky_positions api (Inr denied) airports registry polled_at st = (Inr r, st')" "\<not> ir_skipped r"
  shows "ir_raw_state_count r = ir_filtered_denylist r + ir_filtered_no_coords r + ir_aircraft_count r"
  using assms(1)
proof (cases rule: opensky_positions_cases)
  case nothing
  then show ?thesis using assms(2) by simp
next
  case (stored resp rows st1 s)
  let ?d = "\<lambda>q. is_denied (oss_icao24 q) denied"
  have "length rows \<le> length (filter (\<lambda>q. \<not> ?d q) (or_states resp))" by (rule convert_length[OF stored(4)])
  then show ?thesis using stored(6)[of r] length_filter_partition[of ?d "or_states resp"] by simp
qed

section \<open>From ingestion to detection\<close>

text \<open>The states ingestion can reach: any sequence of runs, with any watchlist, registry, clock and outcome,
  from an empty lake; the world and the table may change in between, and the archive's writes and purges
  leave the positions alone.\<close>

inductive ingested :: "'w os_api \<Rightarrow> string list \<Rightarrow> 'w IngestState \<Rightarrow> bool" for api denied where
  empty: "wf_lake (is_lake st) \<Longrightarrow> lk_positions (is_lake st) = [] \<Longrightarrow> ingested api denied st"
| poll: "ingested api denied st \<Longrightarrow> opensky_positions api (Inr denied) airports registry polled_at st = (r, st') \<Longrightarrow>
    ingested api denied st'"
| other: "ingested api denied st \<Longrightarrow> lk_positions (is_lake st') = lk_positions (is_lake st) \<Longrightarrow> wf_lake (is_lake st') \<Longrightarrow>
    ingested api denied st'"

lemma ingested_inv:
  "ingested api denied st \<Longrightarrow> wf_lake (is_lake st) \<and>
     (\<forall>row \<in> all_rows (lk_positions (is_lake st)). named_row row \<and> \<not> is_denied (pr_icao24 row) denied)"
proof (induction rule: ingested.induct)
  case (poll st airports registry polled_at r st')
  then show ?case using ingested_rows_step[OF _ poll.hyps(2)] by blast
qed (auto simp: all_rows_def)


section \<open>Requests\<close>

text \<open>A count of the GETs and of the token requests a world has seen.\<close>

definition counted :: "'w os_api \<Rightarrow> ('w \<Rightarrow> nat) \<Rightarrow> ('w \<Rightarrow> nat) \<Rightarrow> bool" where
  "counted api gets tokens \<longleftrightarrow>
     (\<forall>token url params w. gets (snd (os_get api token url params w)) = Suc (gets w) \<and>
        tokens (snd (os_get api token url params w)) = tokens w) \<and>
     (\<forall>w. gets (snd (os_token api w)) = gets w \<and> tokens (snd (os_token api w)) = Suc (tokens w))"

definition world :: "('e + 'a) \<times> (OpenSkyResource \<times> 'w) \<Rightarrow> 'w" where
  "world out = snd (snd out)"

lemma get_attempts_cost:
  assumes "counted api gets tokens"
  shows "gets (world (get_attempts n api token url params nf (res, w))) \<le> gets w + n \<and>
    tokens (world (get_attempts n api token url params nf (res, w))) = tokens w"
proof (induction n arbitrary: w)
  case (Suc n)
  obtain r w1 where g: "os_get api token url params w = (r, w1)" by fastforce
  have "gets w1 = Suc (gets w)" "tokens w1 = tokens w" using assms g unfolding counted_def by (metis snd_conv)+
  then show ?case using Suc[of w1] g by (cases r) (auto simp: world_def Let_def)
qed (simp add: world_def)

lemma get_token_cost:
  assumes "counted api gets tokens" "get_token api (res, w) = (r, (res1, w1))"
  shows "gets w1 = gets w \<and> tokens w1 \<le> Suc (tokens w)"
proof -
  have "w1 = w \<or> w1 = snd (os_token api w)"
    using assms(2) by (auto simp: get_token_def fetch_token_def os_bind_def Let_def split: option.splits if_splits prod.splits sum.splits json.splits)
  then show ?thesis using assms(1) unfolding counted_def by auto
qed

lemma get_with_retry_cost:
  assumes "counted api gets tokens" "get_with_retry api url params nf (res, w) = (r, (res1, w1))"
  shows "gets w1 \<le> gets w + 2 \<and> tokens w1 \<le> Suc (tokens w)"
proof -
  obtain t res2 w2 where t: "get_token api (res, w) = (t, (res2, w2))" by (metis surj_pair)
  note tc = get_token_cost[OF assms(1) t]
  show ?thesis
  proof (cases t)
    case (Inl e)
    then show ?thesis using assms(2) t tc by (simp add: get_with_retry_def os_bind_def)
  next
    case (Inr token)
    then have "w1 = world (get_attempts 2 api token url params nf (res2, w2))"
      using assms(2) t by (simp add: get_with_retry_def os_bind_def world_def)
    then show ?thesis using get_attempts_cost[OF assms(1), of 2 token url params nf res2 w2] tc by auto
  qed
qed

lemma get_authorized_cost:
  assumes "counted api gets tokens"
  shows "gets (world (get_authorized api url params nf (res, w))) \<le> gets w + 4 \<and>
    tokens (world (get_authorized api url params nf (res, w))) \<le> tokens w + 2"
proof -
  obtain r res1 w1 where f: "get_with_retry api url params nf (res, w) = (r, (res1, w1))" by (metis surj_pair)
  note fc = get_with_retry_cost[OF assms f]
  let ?res = "\<lparr>os_cached_token = None, os_cached_token_expires_at = 0\<rparr>"
  obtain r2 res2 w2 where g: "get_with_retry api url params nf (?res, w1) = (r2, (res2, w2))" by (metis surj_pair)
  note gc = get_with_retry_cost[OF assms g]
  show ?thesis
  proof (cases "r = Inl OpenSkyAuthError")
    case True
    then show ?thesis using f g fc gc by (simp add: get_authorized_def world_def)
  next
    case False
    then have "get_authorized api url params nf (res, w) = (r, (res1, w1))"
      using f by (auto simp: get_authorized_def split: sum.splits opensky_error.splits)
    then show ?thesis using fc by (simp add: world_def)
  qed
qed

lemma store_rows_sky: "store_rows registry t rows st1 = (s, st2) \<Longrightarrow> is_sky st2 = is_sky st1"
  by (auto simp: store_rows_def Let_def split: prod.splits sum.splits if_splits)

text \<open>C28. One ingestion run costs at most four requests for states and two for a token, however the server
  answers: one retry per round, and one more round after a rejected token.\<close>

theorem poll_request_budget:
  assumes "counted api gets tokens" "opensky_positions api denylist airports registry polled_at st = (r, st')"
  shows "gets (snd (is_sky st')) \<le> gets (snd (is_sky st)) + 4 \<and> tokens (snd (is_sky st')) \<le> tokens (snd (is_sky st)) + 2"
proof -
  obtain f sky where f: "fetch_states api (is_sky st) = (f, sky)" by (meson surj_pair)
  have w: "snd sky = world (get_authorized api ''/states/all''
      [(''lamin'', ''24.0''), (''lomin'', ''-125.0''), (''lamax'', ''49.0''), (''lomax'', ''-66.0'')] False (is_sky st))"
    using f by (auto simp: fetch_states_def os_bind_def world_def split: prod.splits sum.splits)
  have "is_sky st' = sky \<or> is_sky st' = is_sky st"
    using assms(2) f
    by (auto simp: opensky_positions_def Let_def dest!: store_rows_sky split: sum.splits opensky_error.splits prod.splits)
  then show ?thesis
    using w get_authorized_cost[OF assms(1), of "''/states/all''" _ False "fst (is_sky st)" "snd (is_sky st)"] by auto
qed

section \<open>Worked runs\<close>

text \<open>A world that counts requests; the poll has a kept aircraft, one without coordinates and a denied one.\<close>

definition demo_states :: "json list" where
  "demo_states = map (\<lambda>(icao24, lat, lon). JList [JStr icao24, JStr ''DAL1 '', JStr ''United States'', JInt 100, JInt 100,
     lon, lat, JNull, JBool False, JNull, JNull, JNull, JNull, JNull, JStr ''1200'', JBool False, JInt 0])
     [(''ABC123'', JInt 47, JInt (- 122)), (''bbb222'', JNull, JNull), (''ae0001'', JInt 47, JInt (- 122))]"

definition demo_sky :: "(nat \<times> nat) os_api" where
  "demo_sky = \<lparr>os_clock = (\<lambda>_. 0),
     os_token = (\<lambda>(g, t). (Some \<lparr>rs_status = 200, rs_json = Some (JObj [(''access_token'', JStr ''tok''), (''expires_in'', JInt 1800)]), rs_headers = []\<rparr>, (g, Suc t))),
     os_get = (\<lambda>_ _ _ (g, t). (Some \<lparr>rs_status = (if g = 0 then 502 else 200),
        rs_json = Some (JObj [(''time'', JInt 100), (''states'', JList demo_states)]),
        rs_headers = [(''X-Rate-Limit-Remaining'', ''3996'')]\<rparr>, (Suc g, t))),
     os_repr = (\<lambda>_. [])\<rparr>"

definition demo_airports :: "WatchedAirport list" where
  "demo_airports = [\<lparr>wa_icao = ''KSEA'', wa_lat = 47, wa_lon = - 122, wa_customer_regions = [''west'']\<rparr>]"

definition demo_ingest :: "(nat \<times> nat) IngestState" where
  "demo_ingest = \<lparr>is_sky = (\<lparr>os_cached_token = None, os_cached_token_expires_at = 0\<rparr>, (0, 0)),
     is_lake = \<lparr>lk_positions = [], lk_archive = [], lk_uuid = 0, lk_disk = []\<rparr>, is_positions = []\<rparr>"

lemma demo_fetch:
  "(case fetch_states demo_sky (is_sky demo_ingest) of
      (Inl _, _) \<Rightarrow> False
    | (Inr resp, (res, w)) \<Rightarrow> or_states resp = [\<lparr>oss_icao24 = ''abc123'', oss_callsign = Some ''DAL1'', oss_origin_country = ''United States'',
         oss_time_position = Some 100, oss_last_contact = 100, oss_lon = Some (- 122), oss_lat = Some 47, oss_baro_altitude_m = None,
         oss_on_ground = False, oss_velocity_ms = None, oss_true_track_deg = None, oss_vertical_rate_ms = None, oss_geo_altitude_m = None,
         oss_squawk = Some ''1200'', oss_spi = False, oss_position_source = 0\<rparr>,
        \<lparr>oss_icao24 = ''bbb222'', oss_callsign = Some ''DAL1'', oss_origin_country = ''United States'',
         oss_time_position = Some 100, oss_last_contact = 100, oss_lon = None, oss_lat = None, oss_baro_altitude_m = None,
         oss_on_ground = False, oss_velocity_ms = None, oss_true_track_deg = None, oss_vertical_rate_ms = None, oss_geo_altitude_m = None,
         oss_squawk = Some ''1200'', oss_spi = False, oss_position_source = 0\<rparr>,
        \<lparr>oss_icao24 = ''ae0001'', oss_callsign = Some ''DAL1'', oss_origin_country = ''United States'',
         oss_time_position = Some 100, oss_last_contact = 100, oss_lon = Some (- 122), oss_lat = Some 47, oss_baro_altitude_m = None,
         oss_on_ground = False, oss_velocity_ms = None, oss_true_track_deg = None, oss_vertical_rate_ms = None, oss_geo_altitude_m = None,
         oss_squawk = Some ''1200'', oss_spi = False, oss_position_source = 0\<rparr>] \<and>
        or_rate_limit_remaining resp = Some 3996 \<and> or_api_time resp = 100 \<and> w = (2, 1) \<and> os_cached_token res = Some ''tok'')"
  by code_simp

lemma demo_regions: "infer_regions demo_airports [Some 47, None] [Some (- 122), None] = Inr [Some [''west''], None]"
  by (simp add: infer_regions_def infer_region_def nearest_by_def min_by_def demo_airports_def airport_coord_def
      haversine_meters_def REGION_INFERENCE_RADIUS_METERS_def Let_def)

definition demo_row_written :: PositionRow where
  "demo_row_written = \<lparr>pr_icao24 = ''abc123'', pr_callsign = Some ''DAL1'', pr_origin_country = Some ''United States'',
     pr_lat = Some 47, pr_lon = Some (- 122), pr_altitude_ft = None, pr_speed_kt = None, pr_heading_deg = None,
     pr_vertical_rate_fpm = None, pr_on_ground = False, pr_squawk = Some ''1200'', pr_ts_polled = seconds 200,
     pr_ts_position = Some (seconds 100), pr_customer_region = Some ''west''\<rparr>"

definition demo_run_out :: "(opensky_error + IngestResult) \<times> (nat \<times> nat) IngestState" where
  "demo_run_out = opensky_positions demo_sky (Inr [''ae'']) demo_airports [(''abc123'', Some ''B738'')] (seconds 200) demo_ingest"

lemma demo_denied: "is_denied ''abc123'' [''ae''] = False" "is_denied ''bbb222'' [''ae''] = False" "is_denied ''ae0001'' [''ae''] = True"
  by code_simp+

lemma demo_ingested:
  "(case demo_run_out of (Inl _, _) \<Rightarrow> False
    | (Inr r, st') \<Rightarrow> ir_raw_state_count r = 3 \<and> ir_aircraft_count r = 1 \<and> ir_filtered_denylist r = 1 \<and>
        ir_filtered_no_coords r = 1 \<and> \<not> ir_skipped r \<and> rows_in (lk_positions (is_lake st')) = [demo_row_written] \<and>
        map (cp_aircraft_type \<circ> snd) (is_positions st') = [Some ''B738''])"
proof -
  obtain resp sky where f: "fetch_states demo_sky (is_sky demo_ingest) = (Inr resp, sky)"
    using demo_fetch by (auto split: prod.splits sum.splits)
  note st = demo_fetch[unfolded f, simplified]
  show ?thesis
    unfolding demo_run_out_def opensky_positions_def f
    using st by (simp add: Let_def demo_denied convert_states_to_rows_def demo_regions state_to_row_def rbind_def ts_position_of_def
        fromtimestamp_def to_unit_def denormalize_region_def store_rows_def write_positions_snapshot_def demo_ingest_def
        position_row_ok_def int32_ok_def next_disk_def make_dir_def put_file_def upsert_current_positions_def
        fetch_aircraft_types_def map_filter_simps UPSERT_PAGE_SIZE_def execute_values_ok upsert_tuple_def
        position_tuple_def rows_in_def dir_rows_def demo_row_written_def seconds_def)
qed

lemma demo_wf: "wf_lake (is_lake demo_ingest)"
  by (simp add: demo_ingest_def wf_lake_def wf_table_def)

lemma demo_out: obtains r st' where "demo_run_out = (Inr r, st')" "\<not> ir_skipped r" "ir_raw_state_count r = 3"
    "rows_in (lk_positions (is_lake st')) = [demo_row_written]"
  using demo_ingested by (auto split: prod.splits sum.splits)


lemma ingestion_accounts_witness:
  "\<exists>r st'. demo_run_out = (Inr r, st') \<and> 3 = ir_filtered_denylist r + ir_filtered_no_coords r + ir_aircraft_count r"
proof -
  obtain r st' where out: "demo_run_out = (Inr r, st')" "\<not> ir_skipped r" "ir_raw_state_count r = 3" by (rule demo_out)
  show ?thesis using ingestion_accounts[OF out(1)[unfolded demo_run_out_def] out(2)] out by auto
qed


lemma demo_counted: "counted demo_sky fst snd"
  by (simp add: counted_def demo_sky_def split_beta)

lemma poll_request_budget_witness:
  "fst (snd (is_sky (snd demo_run_out))) \<le> 4 \<and> snd (snd (is_sky (snd demo_run_out))) \<le> 2"
  using poll_request_budget[OF demo_counted, of "Inr [''ae'']" demo_airports "[(''abc123'', Some ''B738'')]" "seconds 200" demo_ingest
      "fst demo_run_out" "snd demo_run_out"]
  by (simp add: demo_run_out_def) (simp add: demo_ingest_def)

text \<open>A late poll of a known aircraft: position kept, type filled in.\<close>

definition demo_table :: positions_table where
  "demo_table = [(''abc123'', position_tuple [] 0 demo_row_written)]"

definition demo_late_row :: PositionRow where
  "demo_late_row = demo_row_written\<lparr>pr_lat := Some 48, pr_ts_position := Some (seconds 99)\<rparr>"

lemma positions_table_refines_witness:
  "map_option cp_lat (dget (abs_positions (snd (upsert_current_positions 9 [demo_late_row] [(''abc123'', ''B738'')] demo_table))) ''abc123'') = Some (Some 47)"
proof -
  obtain n t' where up: "upsert_current_positions 9 [demo_late_row] [(''abc123'', ''B738'')] demo_table = (Inr n, t')"
    by (simp add: upsert_current_positions_def UPSERT_PAGE_SIZE_def execute_values_ok)
  have "keyed_by_icao demo_table" by (simp add: keyed_by_icao_def demo_table_def position_tuple_def demo_row_written_def)
  from positions_table_refines[OF this up] show ?thesis
    unfolding up
    by (simp add: newest_step_def dget_abs demo_table_def position_tuple_def demo_late_row_def demo_row_written_def seconds_def report_of_def)
qed

lemma upsert_rowcount_witness:
  "fst (upsert_current_positions now (map (\<lambda>i. demo_row_written\<lparr>pr_icao24 := show_nat i\<rparr>) [0..<1001]) [] t) = Inr 1"
proof -
  let ?rows = "map (\<lambda>i. demo_row_written\<lparr>pr_icao24 := show_nat i\<rparr>) [0..<1001]"
  have "?rows \<noteq> []" by simp
  moreover have "map pr_icao24 ?rows = map show_nat [0..<1001]" by simp
  then have "distinct (map pr_icao24 ?rows)" by (simp only: distinct_map distinct_upt) (simp add: inj_on_def)
  ultimately have "fst (upsert_current_positions now ?rows [] t) = Inr ((length ?rows - 1) mod 1000 + 1)"
    by (rule upsert_rowcount)
  then show ?thesis by (simp del: upt.simps upt_rec_numeral)
qed

end
