(* ===== verification/Definitions.thy ===== *)
theory Definitions
  imports IngestionRuns
begin

text \<open>
  definitions.py: the jobs, schedules and sensors of the stack as data, with the names of the file. Descriptions,
  resources and their environment variables carry no behaviour and are left out. The daemon that runs them is
  Dagster's. What is used of it: a sensor's runs start at least \<open>minimum_interval_seconds\<close> apart, and a cron line
  fires in the minutes its five fields match (the forms that occur are a number, a star, a step and a weekday).
\<close>

section \<open>Jobs, schedules, sensors\<close>

datatype default_status = RUNNING | STOPPED

record AssetJob =
  aj_name :: string
  aj_selection :: "string list"

record ScheduleDefinition =
  sd_name :: string
  sd_job :: AssetJob
  sd_cron_schedule :: string
  sd_execution_timezone :: string
  sd_default_status :: default_status

record SensorDefinition =
  sn_name :: string
  sn_job :: AssetJob
  sn_minimum_interval_seconds :: int
  sn_default_status :: default_status
  sn_run_key :: "string option"

record Definitions =
  df_assets :: "string list"
  df_jobs :: "AssetJob list"
  df_schedules :: "ScheduleDefinition list"
  df_sensors :: "SensorDefinition list"
  df_asset_checks :: "string list"

definition define_asset_job :: "string \<Rightarrow> string \<Rightarrow> AssetJob" where
  "define_asset_job name asset = \<lparr>aj_name = name, aj_selection = [asset]\<rparr>"

definition utc_schedule :: "string \<Rightarrow> AssetJob \<Rightarrow> string \<Rightarrow> ScheduleDefinition" where
  "utc_schedule name job cron =
     \<lparr>sd_name = name, sd_job = job, sd_cron_schedule = cron, sd_execution_timezone = ''UTC'', sd_default_status = RUNNING\<rparr>"

text \<open>A sensor whose body is \<open>RunRequest(run_key=None)\<close>.\<close>

definition ticking_sensor :: "string \<Rightarrow> AssetJob \<Rightarrow> int \<Rightarrow> SensorDefinition" where
  "ticking_sensor name job interval =
     \<lparr>sn_name = name, sn_job = job, sn_minimum_interval_seconds = interval, sn_default_status = RUNNING, sn_run_key = None\<rparr>"

definition opensky_positions_job :: AssetJob where
  "opensky_positions_job = define_asset_job ''opensky_positions_job'' ''opensky_positions''"

definition noaa_weather_job :: AssetJob where
  "noaa_weather_job = define_asset_job ''noaa_weather_job'' ''noaa_weather''"

definition static_reference_job :: AssetJob where
  "static_reference_job = define_asset_job ''static_reference_job'' ''static_reference''"

definition foundry_positions_sync_job :: AssetJob where
  "foundry_positions_sync_job = define_asset_job ''foundry_positions_sync_job'' ''foundry_positions_sync''"

definition foundry_sites_sync_job :: AssetJob where
  "foundry_sites_sync_job = define_asset_job ''foundry_sites_sync_job'' ''foundry_sites_sync''"

definition prune_stale_positions_job :: AssetJob where
  "prune_stale_positions_job = define_asset_job ''prune_stale_positions_job'' ''prune_stale_positions''"

definition foundry_aircraft_reconcile_job :: AssetJob where
  "foundry_aircraft_reconcile_job = define_asset_job ''foundry_aircraft_reconcile_job'' ''foundry_aircraft_reconcile''"

definition foundry_flight_enrichment_job :: AssetJob where
  "foundry_flight_enrichment_job = define_asset_job ''foundry_flight_enrichment_job'' ''foundry_flight_enrichment''"

definition foundry_flight_reconcile_job :: AssetJob where
  "foundry_flight_reconcile_job = define_asset_job ''foundry_flight_reconcile_job'' ''foundry_flight_reconcile''"

definition foundry_flight_archive_job :: AssetJob where
  "foundry_flight_archive_job = define_asset_job ''foundry_flight_archive_job'' ''foundry_flight_archive''"

definition foundry_flight_archive_purge_job :: AssetJob where
  "foundry_flight_archive_purge_job = define_asset_job ''foundry_flight_archive_purge_job'' ''foundry_flight_archive_purge''"

definition foundry_cases_sync_job :: AssetJob where
  "foundry_cases_sync_job = define_asset_job ''foundry_cases_sync_job'' ''foundry_cases_sync''"

definition foundry_cases_reconcile_job :: AssetJob where
  "foundry_cases_reconcile_job = define_asset_job ''foundry_cases_reconcile_job'' ''foundry_cases_reconcile''"

definition flight_plan_enrichment_job :: AssetJob where
  "flight_plan_enrichment_job = define_asset_job ''flight_plan_enrichment_job'' ''flight_plan_enrichment''"

definition sf_case_push_job :: AssetJob where
  "sf_case_push_job = define_asset_job ''sf_case_push_job'' ''sf_case_push''"

definition sf_case_sync_job :: AssetJob where
  "sf_case_sync_job = define_asset_job ''sf_case_sync_job'' ''sf_case_sync''"

definition case_detector_job :: AssetJob where
  "case_detector_job = define_asset_job ''case_detector_job'' ''case_detector''"

definition OPENSKY_POLL_INTERVAL_SECONDS :: int where
  "OPENSKY_POLL_INTERVAL_SECONDS = 300"

definition opensky_positions_sensor :: SensorDefinition where
  "opensky_positions_sensor = ticking_sensor ''opensky_positions_sensor'' opensky_positions_job OPENSKY_POLL_INTERVAL_SECONDS"

definition foundry_positions_sync_sensor :: SensorDefinition where
  "foundry_positions_sync_sensor = ticking_sensor ''foundry_positions_sync_sensor'' foundry_positions_sync_job OPENSKY_POLL_INTERVAL_SECONDS"

definition case_sync_retry_sensor :: SensorDefinition where
  "case_sync_retry_sensor = ticking_sensor ''case_sync_retry_sensor'' sf_case_push_job 60"

definition sf_case_sync_sensor :: SensorDefinition where
  "sf_case_sync_sensor = ticking_sensor ''sf_case_sync_sensor'' sf_case_sync_job 60"

definition foundry_cases_sync_sensor :: SensorDefinition where
  "foundry_cases_sync_sensor = ticking_sensor ''foundry_cases_sync_sensor'' foundry_cases_sync_job 60"

definition noaa_weather_schedule :: ScheduleDefinition where
  "noaa_weather_schedule = utc_schedule ''noaa_weather_schedule'' noaa_weather_job ''*/5 * * * *''"

definition static_reference_schedule :: ScheduleDefinition where
  "static_reference_schedule = utc_schedule ''static_reference_schedule'' static_reference_job ''0 2 * * SUN''"

definition foundry_sites_sync_schedule :: ScheduleDefinition where
  "foundry_sites_sync_schedule = utc_schedule ''foundry_sites_sync_schedule'' foundry_sites_sync_job ''*/5 * * * *''"

definition prune_stale_positions_schedule :: ScheduleDefinition where
  "prune_stale_positions_schedule = utc_schedule ''prune_stale_positions_schedule'' prune_stale_positions_job ''0 * * * *''"

definition foundry_aircraft_reconcile_schedule :: ScheduleDefinition where
  "foundry_aircraft_reconcile_schedule = utc_schedule ''foundry_aircraft_reconcile_schedule'' foundry_aircraft_reconcile_job ''*/5 * * * *''"

definition foundry_cases_reconcile_schedule :: ScheduleDefinition where
  "foundry_cases_reconcile_schedule = utc_schedule ''foundry_cases_reconcile_schedule'' foundry_cases_reconcile_job ''20 * * * *''"

definition foundry_flight_reconcile_schedule :: ScheduleDefinition where
  "foundry_flight_reconcile_schedule = utc_schedule ''foundry_flight_reconcile_schedule'' foundry_flight_reconcile_job ''45 * * * *''"

definition foundry_flight_archive_schedule :: ScheduleDefinition where
  "foundry_flight_archive_schedule = utc_schedule ''foundry_flight_archive_schedule'' foundry_flight_archive_job ''50 * * * *''"

definition foundry_flight_archive_purge_schedule :: ScheduleDefinition where
  "foundry_flight_archive_purge_schedule = utc_schedule ''foundry_flight_archive_purge_schedule'' foundry_flight_archive_purge_job ''15 3 * * *''"

definition foundry_flight_enrichment_schedule :: ScheduleDefinition where
  "foundry_flight_enrichment_schedule = utc_schedule ''foundry_flight_enrichment_schedule'' foundry_flight_enrichment_job ''*/5 * * * *''"

definition flight_plan_enrichment_schedule :: ScheduleDefinition where
  "flight_plan_enrichment_schedule = utc_schedule ''flight_plan_enrichment_schedule'' flight_plan_enrichment_job ''15 * * * *''"

definition case_detector_schedule :: ScheduleDefinition where
  "case_detector_schedule = utc_schedule ''case_detector_schedule'' case_detector_job ''*/5 * * * *''"

definition defs :: Definitions where
  "defs =
     \<lparr>df_assets = [''noaa_weather'', ''opensky_positions'', ''static_reference'', ''foundry_positions_sync'',
         ''foundry_sites_sync'', ''foundry_aircraft_reconcile'', ''foundry_flight_enrichment'',
         ''foundry_flight_reconcile'', ''foundry_flight_archive'', ''foundry_flight_archive_purge'',
         ''foundry_cases_sync'', ''foundry_cases_reconcile'', ''flight_plan_enrichment'', ''sf_case_push'',
         ''sf_case_sync'', ''case_detector'', ''prune_stale_positions''],
      df_jobs = [opensky_positions_job, noaa_weather_job, static_reference_job, foundry_positions_sync_job,
         foundry_sites_sync_job, foundry_aircraft_reconcile_job, foundry_flight_enrichment_job,
         foundry_flight_reconcile_job, foundry_flight_archive_job, foundry_flight_archive_purge_job,
         foundry_cases_sync_job, foundry_cases_reconcile_job, flight_plan_enrichment_job, sf_case_push_job,
         sf_case_sync_job, case_detector_job, prune_stale_positions_job],
      df_schedules = [noaa_weather_schedule, static_reference_schedule, foundry_sites_sync_schedule,
         foundry_aircraft_reconcile_schedule, foundry_cases_reconcile_schedule, foundry_flight_enrichment_schedule,
         foundry_flight_reconcile_schedule, foundry_flight_archive_schedule, foundry_flight_archive_purge_schedule,
         flight_plan_enrichment_schedule, case_detector_schedule, prune_stale_positions_schedule],
      df_sensors = [opensky_positions_sensor, foundry_positions_sync_sensor, case_sync_retry_sensor, sf_case_sync_sensor,
         foundry_cases_sync_sensor],
      df_asset_checks = [''archive_and_tenant_disjoint'', ''archive_retention_enforced'', ''sf_push_not_failing'']\<rparr>"

section \<open>Cron\<close>

definition cron_field :: "string \<Rightarrow> nat \<Rightarrow> bool" where
  "cron_field field v =
     (if field = ''*'' then True
      else if starts_with field ''*/'' then (case read_nat (drop 2 field) of None \<Rightarrow> False | Some n \<Rightarrow> v mod n = 0)
      else if field = ''SUN'' then v = 0
      else read_nat field = Some v)"

text \<open>Minute, hour and weekday (Sunday is 0); the schedules of this file put no condition on the date.\<close>

definition cron_fires :: "string \<Rightarrow> nat \<Rightarrow> nat \<Rightarrow> nat \<Rightarrow> bool" where
  "cron_fires cron minute hour weekday =
     (case split_on CHR '' '' cron of
        [m, h, mday, month, wday] \<Rightarrow> cron_field m minute \<and> cron_field h hour \<and> mday = ''*'' \<and> month = ''*'' \<and> cron_field wday weekday
      | _ \<Rightarrow> False)"

definition minutes_of :: "ScheduleDefinition \<Rightarrow> nat \<Rightarrow> nat \<Rightarrow> nat list" where
  "minutes_of s hour weekday = filter (\<lambda>m. cron_fires (sd_cron_schedule s) m hour weekday) [0..<60]"

section \<open>Everything runs, and runs once\<close>

definition triggers :: "Definitions \<Rightarrow> AssetJob list" where
  "triggers d = map sd_job (df_schedules d) @ map sn_job (df_sensors d)"

definition wired :: "Definitions \<Rightarrow> bool" where
  "wired d \<longleftrightarrow>
     distinct (df_assets d) \<and> distinct (map aj_name (df_jobs d)) \<and>
     distinct (map sd_name (df_schedules d) @ map sn_name (df_sensors d)) \<and>
     list_all (\<lambda>a. length (filter (\<lambda>j. a \<in> set (aj_selection j)) (df_jobs d)) = 1) (df_assets d) \<and>
     list_all (\<lambda>j. list_all (\<lambda>a. a \<in> set (df_assets d)) (aj_selection j)) (df_jobs d) \<and>
     list_all (\<lambda>j. length (filter (\<lambda>t. t = j) (triggers d)) = 1) (df_jobs d) \<and>
     list_all (\<lambda>t. t \<in> set (df_jobs d)) (triggers d) \<and>
     list_all (\<lambda>s. sd_default_status s = RUNNING) (df_schedules d) \<and>
     list_all (\<lambda>s. sn_default_status s = RUNNING \<and> sn_run_key s = None) (df_sensors d)"

text \<open>The stack is wired completely: every asset is selected by exactly one registered job, every job has exactly one
  registered trigger and every trigger a registered job, all of them running from startup and no sensor tick deduplicated.\<close>

theorem stack_wired: "wired defs"
  by code_simp

text \<open>The hourly tenant jobs, the prune and the plan refresh never start in one minute, in any hour of the week.\<close>

definition hourly_jobs :: "ScheduleDefinition list" where
  "hourly_jobs = [prune_stale_positions_schedule, flight_plan_enrichment_schedule, foundry_cases_reconcile_schedule,
     foundry_flight_reconcile_schedule, foundry_flight_archive_schedule]"

lemma hourly_jobs_staggered: "map (\<lambda>s. minutes_of s 3 0) hourly_jobs = [[0], [15], [20], [45], [50]]"
  by code_simp

text \<open>The comments place the enrichment at :30 and stagger the plan refresh and the reconcile around it; it fires with
  every one of them.\<close>

lemma enrichment_meets_every_hourly_job:
  "list_all (\<lambda>s. list_all (\<lambda>m. m \<in> set (minutes_of foundry_flight_enrichment_schedule 3 0)) (minutes_of s 3 0)) hourly_jobs"
  by code_simp

section \<open>The credit budget\<close>

definition spaced :: "duration \<Rightarrow> instant list \<Rightarrow> bool" where
  "spaced gap ticks \<longleftrightarrow> sorted_wrt (\<lambda>a b. a + gap \<le> b) ticks"

lemma spaced_length:
  assumes "spaced gap ticks" "\<forall>t\<in>set ticks. start \<le> t \<and> t < start + int n * gap" "0 < gap"
  shows "length ticks \<le> n"
  using assms(1,2)
proof (induction ticks arbitrary: start n)
  case (Cons t ticks)
  have t: "start \<le> t" "t < start + int n * gap" using Cons.prems(2) by auto
  then have "0 < int n * gap" by linarith
  then obtain m where n: "n = Suc m" by (cases n) auto
  have "length ticks \<le> m"
  proof (rule Cons.IH[where start = "start + gap"])
    show "spaced gap ticks" using Cons.prems(1) by (simp add: spaced_def)
    show "\<forall>u\<in>set ticks. start + gap \<le> u \<and> u < start + gap + int m * gap"
      using Cons.prems t n by (force simp: spaced_def algebra_simps)
  qed
  then show ?case by (simp add: n)
qed simp

lemma parse_response_credits: "parse_response repr r = Inr resp \<Longrightarrow> or_credits_used resp = 4"
  by (cases "rs_json r") (auto simp: parse_response_def rbind_Inr Let_def split: option.splits json.splits sum.splits if_split_asm)

lemma poll_credits:
  assumes "opensky_positions api denylist airports registry polled_at st = (Inr r, st')"
  shows "ir_opensky_credits_used r \<le> 4"
proof -
  obtain f sky where f: "fetch_states api (is_sky st) = (f, sky)" by (meson surj_pair)
  show ?thesis
  proof (cases f)
    case (Inl e)
    then show ?thesis using assms f
      by (cases e) (auto simp: opensky_positions_def skipped_result_def split: sum.splits)
  next
    case (Inr resp)
    obtain rs where "parse_response (os_repr api) rs = Inr resp" using f Inr by (auto elim: fetch_states_parsed)
    then have "or_credits_used resp = 4" by (rule parse_response_credits)
    then show ?thesis using assms f Inr
      by (auto simp: opensky_positions_def Let_def split: sum.splits prod.splits)
  qed
qed

text \<open>What one day of runs reports: the credits of the polls that started at the sensor's ticks.\<close>

definition day_of_polls ::
  "'w os_api \<Rightarrow> (exn + string list) \<Rightarrow> WatchedAirport list \<Rightarrow> (string \<times> string option) list \<Rightarrow>
     instant list \<Rightarrow> IngestResult list \<Rightarrow> bool" where
  "day_of_polls api denylist airports registry ticks results \<longleftrightarrow>
     list_all2 (\<lambda>t r. \<exists>st st'. opensky_positions api denylist airports registry t st = (Inr r, st')) ticks results"

text \<open>C38. The poll keeps within its credit plan: at the sensor's minimum interval, whatever the polls meet, no day of 24 hours
  reports more than 288 polls and 1,152 credits, which leaves 2,848 of the account's 4,000.\<close>

theorem poll_credit_budget:
  assumes "spaced (seconds (sn_minimum_interval_seconds opensky_positions_sensor)) ticks"
    and "\<forall>t\<in>set ticks. start \<le> t \<and> t < start + hours 24"
    and "day_of_polls api denylist airports registry ticks results"
  shows "length results \<le> 288 \<and> sum_list (map ir_opensky_credits_used results) \<le> 1152"
proof -
  have "length ticks \<le> 288"
    by (rule spaced_length[OF assms(1)])
      (use assms(2) in \<open>simp_all add: opensky_positions_sensor_def ticking_sensor_def OPENSKY_POLL_INTERVAL_SECONDS_def seconds_def hours_def\<close>)
  then have count: "length results \<le> 288"
    using assms(3) by (simp add: day_of_polls_def list_all2_lengthD[symmetric])
  have "\<forall>r\<in>set results. ir_opensky_credits_used r \<le> 4"
    using assms(3) poll_credits by (fastforce simp: day_of_polls_def list_all2_conv_all_nth in_set_conv_nth)
  then have "sum_list (map ir_opensky_credits_used results) \<le> 4 * int (length results)"
    by (induction results) auto
  then show ?thesis using count by linarith
qed

lemma poll_credit_budget_witness:
  "sum_list (map ir_opensky_credits_used [case fst demo_run_out of Inl _ \<Rightarrow> undefined | Inr r \<Rightarrow> r]) \<le> 1152"
proof -
  obtain r st' where out: "demo_run_out = (Inr r, st')" by (rule demo_out)
  have "sum_list (map ir_opensky_credits_used [r]) \<le> 1152"
    by (rule conjunct2[OF poll_credit_budget[where ticks = "[seconds 200]" and start = 0 and api = demo_sky and denylist = "Inr [''ae'']"
          and airports = demo_airports and registry = "[(''abc123'', Some ''B738'')]"]])
      (use out in \<open>auto simp: spaced_def seconds_def hours_def day_of_polls_def demo_run_out_def\<close>)
  then show ?thesis by (simp add: out)
qed

end
