(* ===== verification/DetectedTypes.thy ===== *)
theory DetectedTypes
  imports DetectorRuns
begin

text \<open>
  What the rest of the program may assume of a case the detector wrote: its type, severity, status and region.
\<close>

definition CASE_SEVERITIES :: "string list" where
  "CASE_SEVERITIES = [''medium'', ''high'']"

definition detected_case_ok :: "PositionRow list \<Rightarrow> CaseRow \<Rightarrow> bool" where
  "detected_case_ok feed c \<longleftrightarrow>
     cr_case_type c \<in> set (map case_type ALL_RULES) \<and> cr_severity c \<in> set CASE_SEVERITIES \<and> cr_status c = ''open'' \<and>
     cr_sf_sync_status c = (if cr_severity c = ''high'' then ''pending'' else ''skipped'') \<and>
     (cr_customer_region c = ''all'' \<or> Some (cr_customer_region c) \<in> set (map pr_customer_region feed)) \<and>
     cr_sf_sync_attempts c = 0 \<and> cr_resolved_at c = None \<and> cr_salesforce_id c = None"

section \<open>What a rule reports\<close>

definition hint_ok :: "Anomaly \<Rightarrow> bool" where
  "hint_ok a \<longleftrightarrow> an_severity_hint a \<in> set (map Some CASE_SEVERITIES)"

definition region_ok :: "EnrichedRow list \<Rightarrow> Anomaly \<Rightarrow> bool" where
  "region_ok rows a \<longleftrightarrow> an_customer_region a = ''all'' \<or> Some (an_customer_region a) \<in> set (map pr_customer_region rows)"

lemma latest_row_in: "latest_row grp = Some r \<Longrightarrow> r \<in> set grp"
  unfolding latest_row_def by (rule max_by_Some(1))

lemma region_of_ok: "r \<in> set rows \<Longrightarrow> region_of r = ''all'' \<or> Some (region_of r) \<in> set (map pr_customer_region rows)"
  by (cases "pr_customer_region r") (auto simp: region_of_def intro: image_eqI[of _ _ r])

lemma classify_severity_tiers: "classify_severity cells alt gap la lo \<in> set SEVERITY_TIERS"
proof -
  have shift: "shift_tier s d \<in> set SEVERITY_TIERS" for s d
    unfolding shift_tier_def by (rule nth_mem) (simp add: SEVERITY_TIERS_def)
  have base: "{''low'', ''medium'', ''high''} \<subseteq> set SEVERITY_TIERS" by (simp add: SEVERITY_TIERS_def)
  show ?thesis unfolding classify_severity_def Let_def
    using shift base by (auto split: option.splits)
qed

locale reporting_rule = grouped_rule +
  assumes reports: "check (k, grp) = Some a \<Longrightarrow> hint_ok a \<and> (\<exists>r \<in> set grp. an_customer_region a = region_of r)"
begin

lemma found_typed: "a \<in> set (found positions) \<Longrightarrow> hint_ok a \<and> region_ok positions a"
  using found_group[of a positions] reports region_of_ok[of _ positions] unfolding region_ok_def by fastforce

end

lemma latest_region: "latest_row grp = Some r \<Longrightarrow> \<exists>s \<in> set grp. region_of r = region_of s"
  using latest_row_in by blast

interpretation lost_report: reporting_rule "lost_signal_group cells now" LostSignalRule for cells now
proof
  show "hint_ok a \<and> (\<exists>r \<in> set grp. an_customer_region a = region_of r)" if "lost_signal_group cells now (k, grp) = Some a" for k grp a
    using that latest_region[of grp] classify_severity_tiers[of cells]
    by (fastforce simp: lost_signal_group_def Let_def hint_ok_def CASE_SEVERITIES_def SEVERITY_TIERS_def split: option.splits if_splits)
qed

interpretation diversion_report: reporting_rule diversion_group DiversionRule
proof
  show "hint_ok a \<and> (\<exists>r \<in> set grp. an_customer_region a = region_of r)" if "diversion_group (k, grp) = Some a" for k grp a
    using that latest_region[of grp]
    by (auto simp: diversion_group_def Let_def hint_ok_def CASE_SEVERITIES_def split: option.splits if_splits)
qed

interpretation hold_report: reporting_rule excessive_hold_group ExcessiveHoldRule
proof
  show "hint_ok a \<and> (\<exists>r \<in> set grp. an_customer_region a = region_of r)" if "excessive_hold_group (k, grp) = Some a" for k grp a
    using that latest_region[of "hold_near grp"]
    by (auto simp: excessive_hold_group_def Let_def hint_ok_def CASE_SEVERITIES_def hold_near_def split: option.splits if_splits)
qed

interpretation go_around_report: reporting_rule go_around_group GoAroundRule
proof
  show "hint_ok a \<and> (\<exists>r \<in> set grp. an_customer_region a = region_of r)" if "go_around_group (k, grp) = Some a" for k grp a
    using that latest_region[of "go_around_near grp"]
    by (auto simp: go_around_group_def Let_def hint_ok_def CASE_SEVERITIES_def go_around_near_def split: option.splits if_splits prod.splits)
qed

interpretation delay_report: reporting_rule "delay_group baseline now" DelayRule for baseline now
proof
  show "hint_ok a \<and> (\<exists>r \<in> set grp. an_customer_region a = region_of r)" if "delay_group baseline now (k, grp) = Some a" for k grp a
    using that latest_region[of grp]
    by (auto simp: delay_group_def Let_def hint_ok_def CASE_SEVERITIES_def split: option.splits if_splits)
qed

lemma weather_impact_typed: "a \<in> set (weather_impact_detect weather) \<Longrightarrow> hint_ok a \<and> region_ok rows a"
  by (auto simp: weather_impact_detect_def map_filter_in_set hint_ok_def CASE_SEVERITIES_def region_ok_def split: if_splits)

lemma detect_typed: "a \<in> set (detect i rule) \<Longrightarrow> hint_ok a \<and> region_ok (ri_positions i) a"
proof (cases rule)
  case WeatherImpactRule
  then show "a \<in> set (detect i rule) \<Longrightarrow> hint_ok a \<and> region_ok (ri_positions i) a"
    using weather_impact_typed[of a "ri_weather i"] by simp
qed (auto simp: detect_found simp del: detect.simps
      dest: lost_report.found_typed diversion_report.found_typed hold_report.found_typed go_around_report.found_typed
        delay_report.found_typed split: if_splits)

section \<open>What a run writes\<close>

lemma detector_input_regions:
  "set (map pr_customer_region (ri_positions (detector_input cells db positions))) \<subseteq> set (map pr_customer_region positions)"
  by (auto simp: detector_input_def Let_def attach_feed_last_def enrich_positions_def to_enriched_def
      PositionRow.defs EnrichedRow.defs intro: rev_image_eqI)

lemma surviving_detected:
  assumes "a \<in> set (surviving_anomalies cells clock lake db)"
  obtains rule where "rule \<in> set ALL_RULES"
    "a \<in> set (detect (detector_input cells db (read_recent_positions LOOKBACK_MINUTES clock lake)) rule)"
proof -
  define i where "i = detector_input cells db (read_recent_positions LOOKBACK_MINUTES clock lake)"
  have "a \<in> set (deduplicate (paired_anomalies i ALL_RULES) (load_open_cases db) (newest_ts (ri_positions i)))"
    using assms by (auto simp: surviving_anomalies_def i_def Let_def detect_and_dedup_def split: if_splits)
  then obtain p where "p \<in> set (paired_anomalies i ALL_RULES)" "a = fst p"
    using dedup_loop_spec[of "paired_anomalies i ALL_RULES" "load_open_cases db" "newest_ts (ri_positions i)" "[]" "[]"] subseq_in_set
    unfolding deduplicate_def by fastforce
  then show ?thesis using that by (auto simp: paired_anomalies_def i_def)
qed

lemma surviving_typed:
  assumes "a \<in> set (surviving_anomalies cells clock lake db)"
  shows "an_rule a \<in> set (map case_type ALL_RULES) \<and> hint_ok a \<and>
    (an_customer_region a = ''all'' \<or>
     Some (an_customer_region a) \<in> set (map pr_customer_region (read_recent_positions LOOKBACK_MINUTES clock lake)))"
proof -
  obtain rule where rule: "rule \<in> set ALL_RULES"
      "a \<in> set (detect (detector_input cells db (read_recent_positions LOOKBACK_MINUTES clock lake)) rule)"
    using surviving_detected[OF assms] .
  then show ?thesis
    using detect_rule[OF rule(2)] detect_typed[OF rule(2)] detector_input_regions[of cells db "read_recent_positions LOOKBACK_MINUTES clock lake"]
    unfolding region_ok_def by auto
qed

text \<open>C13. Every case a detector run writes is well typed: one of the six case types, medium or high severity, open and
  untouched by the sync, queued for Salesforce exactly when its severity is high, and of region all or a region tag of the
  rows the run read; the cases before it stay.\<close>

theorem detected_cases_typed:
  assumes "run_case_detection cells year clock now lake db = (r, db')"
  shows "\<exists>rows. db_cases (dd_app db') = db_cases (dd_app db) @ rows \<and>
    list_all (detected_case_ok (read_recent_positions LOOKBACK_MINUTES clock lake)) rows"
proof -
  define as where "as = surviving_anomalies cells clock lake db"
  obtain rows where rows: "db_cases (dd_app db') = db_cases (dd_app db) @ rows" "length rows = length as"
      "\<forall>i < length as. \<exists>refs. rows ! i = new_case (now (as ! i)) (as ! i) (next_case_id year (dd_seq db + Suc i)) refs"
    using insert_cases_rows[OF conjunct1[OF run_case_detection_inserts[OF assms]]] as_def by blast
  have "detected_case_ok (read_recent_positions LOOKBACK_MINUTES clock lake) (rows ! i)" if i: "i < length rows" for i
  proof -
    obtain refs where row: "rows ! i = new_case (now (as ! i)) (as ! i) (next_case_id year (dd_seq db + Suc i)) refs"
      using rows(2,3) i by auto
    have "as ! i \<in> set as" using i rows(2) by simp
    then have "as ! i \<in> set (surviving_anomalies cells clock lake db)" by (simp add: as_def)
    from surviving_typed[OF this] show ?thesis
      unfolding row by (auto simp: detected_case_ok_def new_case_def case_severity_def opt_str_def hint_ok_def CASE_SEVERITIES_def SF_PUSH_SEVERITIES_def)
  qed
  then show ?thesis using rows(1) by (auto simp: list_all_length)
qed

lemma detected_cases_typed_witness:
  "list_all (detected_case_ok [demo_position ''cc'' (minutes 15) (Some ''west'')])
     (db_cases (dd_app (snd (run_case_detection [] 2026 (minutes 16) (\<lambda>_. minutes 16) demo_lake demo_db))))"
proof -
  obtain r db' where run: "run_case_detection [] 2026 (minutes 16) (\<lambda>_. minutes 16) demo_lake demo_db = (r, db')"
    by fastforce
  have "db_cases (dd_app demo_db) = []" by (simp add: demo_db_def)
  then show ?thesis using detected_cases_typed[OF run] unfolding run demo_read by simp
qed

end
