(* ===== verification/Streams.thy ===== *)
theory Streams
  imports QueryEdges Api "HOL-Library.Sublist"
begin

text \<open>
  The streamed batch trails: services/lakehouse.py query_stream, the generator of get_flight_trails_batch over it
  and the NDJSON response of routers/flights.py. DuckDB is a parameter: the rows it delivers before it ends, and
  whether it ends by an IO error, by another error, or with the result exhausted. The status line is sent before
  the first row, so a failing stream is a cut answer, not an error status.
\<close>

datatype db_error = IOException | OtherDbError string

record 'r stream =
  st_rows :: "'r list"
  st_end :: "query_error option"

definition query_stream :: "'r list \<times> db_error option \<Rightarrow> 'r stream" where
  "query_stream result =
     (case result of
        (rows, None) \<Rightarrow> \<lparr>st_rows = rows, st_end = None\<rparr>
      | (rows, Some IOException) \<Rightarrow> \<lparr>st_rows = rows, st_end = Some (Raised (UpstreamUnavailable ''DuckDB lakehouse read failed''))\<rparr>
      | (rows, Some (OtherDbError m)) \<Rightarrow> \<lparr>st_rows = rows, st_end = Some InvalidModel\<rparr>)"

text \<open>The loop of the generator: what it has yielded, and the error that ends it. A row without coordinates fails in
  TrailPoint.\<close>

primrec trail_stream ::
  "TrailLookback \<Rightarrow> string option \<Rightarrow> TrailPoint list \<Rightarrow> PositionRow list \<Rightarrow> query_error option \<Rightarrow> TrailResponse stream" where
  "trail_stream lookback current points [] fault =
     \<lparr>st_rows = (case (fault, current) of (None, Some c) \<Rightarrow> [trail_response lookback c points] | _ \<Rightarrow> []), st_end = fault\<rparr>"
| "trail_stream lookback current points (row # rows) fault =
     (let closed = (if Some (pr_icao24 row) \<noteq> current then (case current of None \<Rightarrow> [] | Some c \<Rightarrow> [trail_response lookback c points]) else []);
          kept = (if Some (pr_icao24 row) \<noteq> current then [] else points)
      in case trail_point row of
           Inl e \<Rightarrow> \<lparr>st_rows = closed, st_end = Some e\<rparr>
         | Inr p \<Rightarrow>
             let rest = trail_stream lookback (Some (pr_icao24 row)) (kept @ [p]) rows fault
             in rest\<lparr>st_rows := closed @ st_rows rest\<rparr>)"

definition trail_batch_stream ::
  "instant \<Rightarrow> positions_table \<Rightarrow> (string list \<Rightarrow> PositionRow list \<times> db_error option) \<Rightarrow> Scope \<Rightarrow> string list \<Rightarrow> TrailLookback \<Rightarrow>
     TrailResponse stream" where
  "trail_batch_stream lake_now table scan scope icao24s lookback =
     (let requested = unique_in_order (map lower icao24s);
          allowed = filter (\<lambda>i. flight_in_scope scope (Option.bind (dget table i) cp_customer_region)) requested
      in if requested = [] \<or> allowed = [] then \<lparr>st_rows = [], st_end = None\<rparr>
         else let answer = query_stream (scan allowed) in trail_stream lookback None [] (st_rows answer) (st_end answer))"

text \<open>The endpoint: 422 for a bad body, otherwise the trails as far as the stream goes.\<close>

definition trails_endpoint ::
  "instant \<Rightarrow> positions_table \<Rightarrow> (string list \<Rightarrow> PositionRow list \<times> db_error option) \<Rightarrow> Scope \<Rightarrow> string list \<Rightarrow> TrailLookback \<Rightarrow>
     TrailResponse stream answer" where
  "trails_endpoint lake_now table scan scope icao24s lookback =
     (case trail_batch_request icao24s of
        None \<Rightarrow> validation_exception_handler
      | Some ids \<Rightarrow> Answer (trail_batch_stream lake_now table scan scope ids lookback))"

section \<open>A cut stream\<close>

abbreviation pair_of :: "PositionRow \<Rightarrow> string \<times> TrailPoint" where
  "pair_of r \<equiv> (pr_icao24 r, projr (trail_point r))"

lemma trail_stream_complete:
  "list_all (\<lambda>r. trail_point r \<noteq> Inl InvalidModel) rows \<Longrightarrow>
   trail_stream lookback current points rows None =
     \<lparr>st_rows = trail_runs lookback current points (map pair_of rows), st_end = None\<rparr>"
proof (induction rows arbitrary: current points)
  case (Cons row rows)
  obtain p where p: "trail_point row = Inr p"
    using Cons.prems by (auto simp: trail_point_def split: option.splits)
  show ?case using Cons p by (auto simp: Let_def split: option.splits)
qed (auto split: option.splits)

text \<open>However a stream ends - cut by the lake, or by a row it cannot show - what it has yielded is an initial segment
  of the full answer.\<close>

lemma trail_stream_prefix:
  "list_all (\<lambda>r. trail_point r \<noteq> Inl InvalidModel) rows \<Longrightarrow>
   prefix (st_rows (trail_stream lookback current points (take n rows) (Some e)))
     (trail_runs lookback current points (map pair_of rows))"
proof (induction rows arbitrary: current points n)
  case (Cons row rows)
  obtain p where p: "trail_point row = Inr p"
    using Cons.prems by (auto simp: trail_point_def split: option.splits)
  show ?case using Cons p by (cases n) (auto simp: Let_def split: option.splits)
qed simp

text \<open>The scan of the lake: the rows the query asks for in its order, as far as DuckDB gets.\<close>

definition lake_scan ::
  "instant \<Rightarrow> TrailLookback \<Rightarrow> PositionRow list \<Rightarrow> nat \<Rightarrow> db_error option \<Rightarrow> string list \<Rightarrow> PositionRow list \<times> db_error option" where
  "lake_scan lake_now lookback rows n fault allowed =
     (case fault of
        None \<Rightarrow> (batch_rows lake_now lookback allowed rows, None)
      | Some e \<Rightarrow> (take n (batch_rows lake_now lookback allowed rows), Some e))"

lemma query_stream_rows [simp]: "st_rows (query_stream (rows, e)) = rows" "st_end (query_stream (rows, None)) = None"
  by (auto simp: query_stream_def split: option.splits db_error.splits)

lemma query_stream_fault: "\<exists>q. st_end (query_stream (rows, Some e)) = Some q"
  by (auto simp: query_stream_def split: db_error.splits)



end
