(* ===== verification/SparseCells.thy ===== *)
theory SparseCells
  imports DetectedTypes PyJson
begin

text \<open>
  pipelines/rules/_build_sparse_cells.py, which rebuilds the table of cells where lost signals are routine from
  app.cases, and \<open>_load_sparse_cells\<close> of lost_signal.py, which reads it at import. The two conversions Postgres
  makes between text and other values are arguments: \<open>render\<close>, the text of a jsonb value that is not text, and
  \<open>read_float\<close>, the cast of a text; the detector stores numbers and nulls. A file is missing, unreadable as JSON, or JSON.
\<close>

section \<open>The query\<close>

definition CELL_DEGREES :: int where "CELL_DEGREES = 1"
definition MIN_FIRES :: nat where "MIN_FIRES = 8"
definition MIN_DISTINCT_CALLSIGNS :: nat where "MIN_DISTINCT_CALLSIGNS = 6"

definition data_error :: exn where
  "data_error = OtherError ''DataError''"

definition fact_text :: "(json \<Rightarrow> string) \<Rightarrow> (string, json) dict \<Rightarrow> string \<Rightarrow> string option" where
  "fact_text render facts k =
     (case dget facts k of None \<Rightarrow> None | Some JNull \<Rightarrow> None | Some (JStr s) \<Rightarrow> Some s | Some v \<Rightarrow> Some (render v))"

definition fact_float :: "(string \<Rightarrow> real option) \<Rightarrow> (string, json) dict \<Rightarrow> string \<Rightarrow> exn + real option" where
  "fact_float read_float facts k =
     (case dget facts k of
        None \<Rightarrow> Inr None
      | Some JNull \<Rightarrow> Inr None
      | Some (JNum x) \<Rightarrow> Inr (Some x)
      | Some (JInt i) \<Rightarrow> Inr (Some (of_int i))
      | Some (JStr s) \<Rightarrow> (case read_float s of None \<Rightarrow> Inl data_error | Some x \<Rightarrow> Inr (Some x))
      | Some v \<Rightarrow> Inl data_error)"

definition floor_int :: "real option \<Rightarrow> exn + int option" where
  "floor_int x = (if int32_ok (map_option floor x) then Inr (map_option floor x) else Inl data_error)"

definition is_fire :: "CaseRow \<Rightarrow> bool" where
  "is_fire c \<longleftrightarrow> cr_case_type c = ''lost_signal'' \<and>
     dget (cr_detection_facts c) ''last_lat'' \<noteq> None \<and> dget (cr_detection_facts c) ''last_lon'' \<noteq> None"

definition cell_of :: "(string \<Rightarrow> real option) \<Rightarrow> CaseRow \<Rightarrow> exn + int option \<times> int option" where
  "cell_of read_float c =
     rbind (rbind (fact_float read_float (cr_detection_facts c) ''last_lat'') floor_int) (\<lambda>lat.
     rbind (rbind (fact_float read_float (cr_detection_facts c) ''last_lon'') floor_int) (\<lambda>lon. Inr (lat, lon)))"

text \<open>HAVING, over the (cell, callsign) rows; a null callsign is not counted.\<close>

definition callsigns_of :: "('c \<times> string option) list \<Rightarrow> 'c \<Rightarrow> string list" where
  "callsigns_of rows cell = remdups (List.map_filter snd (filter (\<lambda>r. fst r = cell) rows))"

definition having :: "('c \<times> string option) list \<Rightarrow> 'c \<Rightarrow> bool" where
  "having rows cell \<longleftrightarrow>
     MIN_FIRES \<le> length (filter (\<lambda>r. fst r = cell) rows) \<and> MIN_DISTINCT_CALLSIGNS \<le> length (callsigns_of rows cell)"

text \<open>ORDER BY lat, lon: a stable sort by the last key first, nulls at the end.\<close>

definition nulls_last :: "('c \<Rightarrow> int option) \<Rightarrow> 'c list \<Rightarrow> 'c list" where
  "nulls_last key cells =
     sort_key (\<lambda>c. the (key c)) (filter (\<lambda>c. key c \<noteq> None) cells) @ filter (\<lambda>c. key c = None) cells"

definition fire_rows :: "(json \<Rightarrow> string) \<Rightarrow> (string \<Rightarrow> real option) \<Rightarrow> CaseRow list \<Rightarrow>
    exn + ((int option \<times> int option) \<times> string option) list" where
  "fire_rows render read_float cases =
     rmap (\<lambda>c. rbind (cell_of read_float c) (\<lambda>cell. Inr (cell, fact_text render (cr_detection_facts c) ''callsign'')))
       (filter is_fire cases)"

definition sparse_query :: "(json \<Rightarrow> string) \<Rightarrow> (string \<Rightarrow> real option) \<Rightarrow> CaseRow list \<Rightarrow> exn + (int option \<times> int option) list" where
  "sparse_query render read_float cases =
     rbind (fire_rows render read_float cases) (\<lambda>rows.
       Inr (nulls_last fst (nulls_last snd (filter (having rows) (remdups (map fst rows))))))"

section \<open>The file\<close>

record SparseFile =
  sp_schema_version :: int
  sp_cell_degrees :: int
  sp_min_fires :: nat
  sp_min_distinct_callsigns :: nat
  sp_cells :: "(int \<times> int) list"

definition dump_file :: "SparseFile \<Rightarrow> json" where
  "dump_file f =
     JObj [(''schema_version'', JInt (sp_schema_version f)), (''cell_degrees'', JInt (sp_cell_degrees f)),
           (''min_fires'', JInt (int (sp_min_fires f))),
           (''min_distinct_callsigns'', JInt (int (sp_min_distinct_callsigns f))),
           (''cells'', JList (map (\<lambda>(lat, lon). JList [JInt lat, JInt lon]) (sp_cells f)))]"

text \<open>\<open>[[int(lat), int(lon)] for lat, lon in cur.fetchall()]\<close>: int(None) raises.\<close>

definition int_cell :: "int option \<times> int option \<Rightarrow> exn + int \<times> int" where
  "int_cell c = (case c of (Some lat, Some lon) \<Rightarrow> Inr (lat, lon) | _ \<Rightarrow> Inl type_error)"

definition build_sparse_cells :: "(json \<Rightarrow> string) \<Rightarrow> (string \<Rightarrow> real option) \<Rightarrow> CaseRow list \<Rightarrow> exn + SparseFile" where
  "build_sparse_cells render read_float cases =
     rbind (sparse_query render read_float cases) (\<lambda>result.
     rbind (rmap int_cell result) (\<lambda>cells.
       Inr \<lparr>sp_schema_version = 2, sp_cell_degrees = CELL_DEGREES, sp_min_fires = MIN_FIRES,
            sp_min_distinct_callsigns = MIN_DISTINCT_CALLSIGNS, sp_cells = cells\<rparr>))"

datatype cells_file = Missing | NotJson | Holds json

text \<open>main: \<open>cases\<close> is what the connection delivers; the file is written last, so every failure leaves the old one.\<close>

definition build_main ::
  "(json \<Rightarrow> string) \<Rightarrow> (string \<Rightarrow> real option) \<Rightarrow> string option \<Rightarrow> (exn + CaseRow list) \<Rightarrow> cells_file \<Rightarrow> (exn + unit) \<times> cells_file" where
  "build_main render read_float database_url cases file =
     (if database_url = None \<or> database_url = Some [] then (Inl (OtherError ''SystemExit''), file)
      else case rbind cases (build_sparse_cells render read_float) of
             Inl e \<Rightarrow> (Inl e, file)
           | Inr f \<Rightarrow> (Inr (), Holds (dump_file f)))"

section \<open>Reading it back\<close>

text \<open>Iterating and unpacking decoded JSON: a dict gives its keys, a text its characters.\<close>

definition iterate :: "json \<Rightarrow> exn + json list" where
  "iterate v =
     (case v of JList xs \<Rightarrow> Inr xs | JObj kvs \<Rightarrow> Inr (map (JStr \<circ> fst) kvs) | JStr s \<Rightarrow> Inr (map (\<lambda>c. JStr [c]) s)
      | _ \<Rightarrow> Inl type_error)"

definition unpack_pair :: "json \<Rightarrow> exn + json \<times> json" where
  "unpack_pair v = rbind (iterate v) (\<lambda>xs. case xs of [a, b] \<Rightarrow> Inr (a, b) | _ \<Rightarrow> Inl PyValueError)"

definition read_cell :: "json \<Rightarrow> exn + int \<times> int" where
  "read_cell v = rbind (unpack_pair v) (\<lambda>(lat, lon). rbind (json_int lat) (\<lambda>a. rbind (json_int lon) (\<lambda>b. Inr (a, b))))"

text \<open>\<open>payload.get\<close> on anything but a dict raises AttributeError, which the handler does not name.\<close>

definition load_sparse_cells :: "cells_file \<Rightarrow> exn + (int \<times> int) list" where
  "load_sparse_cells file =
     (case file of
        Missing \<Rightarrow> Inr []
      | NotJson \<Rightarrow> Inr []
      | Holds (JObj payload) \<Rightarrow>
          (case rbind (iterate (case dget payload ''cells'' of None \<Rightarrow> JList [] | Some v \<Rightarrow> v)) (rmap read_cell) of
             Inr cells \<Rightarrow> Inr cells
           | Inl e \<Rightarrow> Inr [])
      | Holds _ \<Rightarrow> Inl (OtherError ''AttributeError''))"

lemma load_not_an_object: "load_sparse_cells (Holds (JList xs)) = Inl (OtherError ''AttributeError'')"
  by (simp add: load_sparse_cells_def)

lemma read_dumped_cell: "read_cell (JList [JInt lat, JInt lon]) = Inr (lat, lon)"
  by (simp add: read_cell_def unpack_pair_def iterate_def rbind_def json_int_def)

lemma load_dumped: "load_sparse_cells (Holds (dump_file f)) = Inr (sp_cells f)"
proof -
  have "rmap read_cell (map (\<lambda>(lat, lon). JList [JInt lat, JInt lon]) (sp_cells f)) = Inr (sp_cells f)"
    by (simp add: rmap_Inr read_dumped_cell split_def)
  then show ?thesis by (simp add: load_sparse_cells_def dump_file_def iterate_def rbind_def)
qed

section \<open>What the table holds\<close>

lemma rmap_append: "rmap f (xs @ ys) = rbind (rmap f xs) (\<lambda>as. rbind (rmap f ys) (\<lambda>bs. Inr (as @ bs)))"
  by (induction xs) (auto simp: rbind_def split: sum.splits)

lemma rmap_each: "(\<And>x. x \<in> set xs \<Longrightarrow> \<exists>y. f x = Inr y \<and> P y) \<Longrightarrow> \<exists>ys. rmap f xs = Inr ys \<and> list_all P ys"
proof (induction xs)
  case (Cons x xs)
  obtain y where "f x = Inr y" "P y" using Cons.prems[of x] by auto
  moreover obtain ys where "rmap f xs = Inr ys" "list_all P ys" using Cons by auto
  ultimately show ?case by (simp add: rbind_def)
qed simp

lemma nulls_last_set [simp]: "set (nulls_last key cells) = set cells"
  by (auto simp: nulls_last_def)

lemma having_occurs: "having rows cell \<Longrightarrow> cell \<in> set (map fst rows)"
proof -
  assume "having rows cell"
  then have "filter (\<lambda>r. fst r = cell) rows \<noteq> []" by (auto simp: having_def MIN_FIRES_def)
  then show "cell \<in> set (map fst rows)" by (auto simp: filter_empty_conv)
qed

lemma callsigns_of_card: "length (callsigns_of rows cell) = card {s. (cell, Some s) \<in> set rows}"
proof -
  have "set (callsigns_of rows cell) = {s. (cell, Some s) \<in> set rows}"
    by (force simp: callsigns_of_def map_filter_in_set)
  then show ?thesis by (metis callsigns_of_def distinct_card distinct_remdups)
qed

lemma query_cells:
  "fire_rows render read_float cases = Inr rows \<Longrightarrow>
   \<exists>result. sparse_query render read_float cases = Inr result \<and> (\<forall>cell. cell \<in> set result \<longleftrightarrow> having rows cell)"
  using having_occurs[of rows] by (auto simp: sparse_query_def rbind_def)

lemma int_cell_Inr: "int_cell c = Inr p \<longleftrightarrow> c = (Some (fst p), Some (snd p))"
  by (cases p) (auto simp: int_cell_def split: option.splits prod.splits)

lemma rmap_int_cells: "rmap int_cell xs = Inr ps \<longleftrightarrow> xs = map (\<lambda>p. (Some (fst p), Some (snd p))) ps"
proof (induction xs arbitrary: ps)
  case (Cons x xs)
  then show ?case by (cases ps) (auto simp: rbind_Inr int_cell_Inr)
qed auto

text \<open>The rebuild succeeds when the rows convert and no null cell reaches the thresholds; it then holds the cells that do.\<close>

lemma build_Inr:
  "build_sparse_cells render read_float cases = Inr f \<Longrightarrow>
   \<exists>rows. fire_rows render read_float cases = Inr rows \<and> (\<forall>cell. having rows cell \<longrightarrow> fst cell \<noteq> None \<and> snd cell \<noteq> None) \<and>
     (\<forall>a b. (a, b) \<in> set (sp_cells f) \<longleftrightarrow> having rows (Some a, Some b))"
proof -
  assume built: "build_sparse_cells render read_float cases = Inr f"
  then obtain rows where rows: "fire_rows render read_float cases = Inr rows"
    by (auto simp: build_sparse_cells_def sparse_query_def rbind_Inr)
  obtain result where result: "sparse_query render read_float cases = Inr result" "\<And>cell. cell \<in> set result \<longleftrightarrow> having rows cell"
    using query_cells[OF rows] by blast
  have "result = map (\<lambda>p. (Some (fst p), Some (snd p))) (sp_cells f)"
    using built result(1) by (auto simp: build_sparse_cells_def rbind_Inr rmap_int_cells)
  then have "having rows cell \<longleftrightarrow> (\<exists>p \<in> set (sp_cells f). cell = (Some (fst p), Some (snd p)))" for cell
    unfolding result(2)[symmetric] by auto
  then show ?thesis using rows by force
qed

lemma build_ok:
  assumes "fire_rows render read_float cases = Inr rows"
    and "\<And>cell. having rows cell \<Longrightarrow> fst cell \<noteq> None \<and> snd cell \<noteq> None"
  shows "\<exists>f. build_sparse_cells render read_float cases = Inr f"
proof -
  obtain result where result: "sparse_query render read_float cases = Inr result" "\<And>cell. cell \<in> set result \<longleftrightarrow> having rows cell"
    using query_cells[OF assms(1)] by blast
  have "map (\<lambda>c. (Some (the (fst c)), Some (the (snd c)))) result = result"
    using result(2) assms(2) by (intro map_idI prod_eqI) auto
  then have "result = map (\<lambda>p. (Some (fst p), Some (snd p))) (map (\<lambda>c. (the (fst c), the (snd c))) result)"
    by (simp add: comp_def)
  then have "\<exists>ps. rmap int_cell result = Inr ps" unfolding rmap_int_cells by blast
  then show ?thesis using result(1) by (auto simp: build_sparse_cells_def rbind_def)
qed

lemma having_mono: "having rows cell \<Longrightarrow> having (rows @ extra) cell"
proof -
  have "{s. (cell, Some s) \<in> set (rows @ extra)} \<subseteq> Some -` (snd ` set (rows @ extra))" by force
  then have "finite {s. (cell, Some s) \<in> set (rows @ extra)}"
    by (rule finite_subset) (auto intro: finite_vimageI)
  then have "length (callsigns_of rows cell) \<le> length (callsigns_of (rows @ extra) cell)"
    unfolding callsigns_of_card by (rule card_mono) auto
  then show "having rows cell \<Longrightarrow> having (rows @ extra) cell" by (auto simp: having_def)
qed

lemma having_other: "list_all (\<lambda>r. fst r \<noteq> cell) extra \<Longrightarrow> having (rows @ extra) cell = having rows cell"
proof -
  assume "list_all (\<lambda>r. fst r \<noteq> cell) extra"
  then have "filter (\<lambda>r. fst r = cell) extra = []" by (simp add: list_all_iff filter_empty_conv)
  then show ?thesis by (simp add: having_def callsigns_of_def)
qed

section \<open>The fires a detector run adds\<close>

definition on_globe :: "PositionRow \<Rightarrow> bool" where
  "on_globe r \<longleftrightarrow> (\<exists>lat lon. pr_lat r = Some lat \<and> pr_lon r = Some lon \<and> \<bar>lat\<bar> \<le> 90 \<and> \<bar>lon\<bar> \<le> 180)"

definition placed :: "CaseRow \<Rightarrow> bool" where
  "placed c \<longleftrightarrow> (\<exists>lat lon. dget (cr_detection_facts c) ''last_lat'' = Some (JNum lat) \<and>
     dget (cr_detection_facts c) ''last_lon'' = Some (JNum lon) \<and> \<bar>lat\<bar> \<le> 90 \<and> \<bar>lon\<bar> \<le> 180)"

lemma small_floor: "\<bar>x\<bar> \<le> 180 \<Longrightarrow> floor_int (Some x) = Inr (Some \<lfloor>x\<rfloor>)"
proof -
  assume "\<bar>x\<bar> \<le> 180"
  then have "- 180 \<le> \<lfloor>x\<rfloor>" "\<lfloor>x\<rfloor> \<le> 180" by linarith+
  then show ?thesis by (simp add: floor_int_def int32_ok_def)
qed

lemma placed_cell: "placed c \<Longrightarrow> \<exists>a b. cell_of read_float c = Inr (Some a, Some b)"
  by (auto simp: placed_def cell_of_def fact_float_def rbind_def small_floor)

lemma lost_signal_facts:
  "lost_signal_group cells now (k, grp) = Some a \<Longrightarrow>
   \<exists>r \<in> set grp. dget (an_detection_facts a) ''last_lat'' = Some (opt_json JNum (pr_lat r)) \<and>
     dget (an_detection_facts a) ''last_lon'' = Some (opt_json JNum (pr_lon r))"
  using latest_row_in[of grp] by (auto simp: lost_signal_group_def Let_def split: option.splits if_splits)

lemma input_rows:
  "e \<in> set (ri_positions (detector_input cells db positions)) \<Longrightarrow>
   \<exists>r \<in> set positions. pr_lat e = pr_lat r \<and> pr_lon e = pr_lon r"
  by (auto simp: detector_input_def Let_def attach_feed_last_def enrich_positions_def to_enriched_def
      PositionRow.defs EnrichedRow.defs)

lemma detected_fire_placed:
  assumes "run_case_detection cells year clock now lake db = (r, db')"
    and "list_all on_globe (read_recent_positions LOOKBACK_MINUTES clock lake)"
  shows "\<exists>rows. db_cases (dd_app db') = db_cases (dd_app db) @ rows \<and> (\<forall>c \<in> set rows. is_fire c \<longrightarrow> placed c)"
proof -
  define as where "as = surviving_anomalies cells clock lake db"
  obtain rows where rows: "db_cases (dd_app db') = db_cases (dd_app db) @ rows" "length rows = length as"
      "\<forall>i < length as. \<exists>refs. rows ! i = new_case (now (as ! i)) (as ! i) (next_case_id year (dd_seq db + Suc i)) refs"
    using insert_cases_rows[OF conjunct1[OF run_case_detection_inserts[OF assms(1)]]] as_def by blast
  have "placed (rows ! i)" if i: "i < length rows" "is_fire (rows ! i)" for i
  proof -
    obtain refs where row: "rows ! i = new_case (now (as ! i)) (as ! i) (next_case_id year (dd_seq db + Suc i)) refs"
      using rows(2,3) i(1) by auto
    have "as ! i \<in> set (surviving_anomalies cells clock lake db)" using i(1) rows(2) by (simp flip: as_def)
    then obtain rule where rule: "as ! i \<in> set (detect (detector_input cells db (read_recent_positions LOOKBACK_MINUTES clock lake)) rule)"
      using surviving_detected by blast
    have "an_rule (as ! i) = ''lost_signal''" using i(2) by (simp add: row is_fire_def new_case_def)
    then have "rule = LostSignalRule" using detect_rule[OF rule] by (cases rule) simp_all
    then obtain e where e: "e \<in> set (ri_positions (detector_input cells db (read_recent_positions LOOKBACK_MINUTES clock lake)))"
        "dget (an_detection_facts (as ! i)) ''last_lat'' = Some (opt_json JNum (pr_lat e))"
        "dget (an_detection_facts (as ! i)) ''last_lon'' = Some (opt_json JNum (pr_lon e))"
      using rule lost_signal.found_group[of "as ! i"] lost_signal_facts
      by (fastforce simp: detect_found simp del: detect.simps split: if_splits)
    show ?thesis using input_rows[OF e(1)] assms(2) e(2,3)
      by (fastforce simp: placed_def row new_case_def list_all_iff on_globe_def opt_json_def)
  qed
  then show ?thesis using rows(1) by (auto simp: in_set_conv_nth)
qed

text \<open>A lost-signal case of any severity whose last fix lies in the cell.\<close>

definition fires_in :: "(string \<Rightarrow> real option) \<Rightarrow> int \<times> int \<Rightarrow> CaseRow \<Rightarrow> bool" where
  "fires_in read_float cell c \<longleftrightarrow>
     cr_case_type c = ''lost_signal'' \<and> cell_of read_float c = Inr (Some (fst cell), Some (snd cell))"

lemma fires_in_fire: "fires_in read_float cell c \<Longrightarrow> is_fire c"
  by (auto simp: fires_in_def is_fire_def cell_of_def fact_float_def floor_int_def rbind_Inr split: option.splits if_splits)

lemma fire_rows_cases:
  "fire_rows render read_float cases = Inr rows \<Longrightarrow>
   length (filter (\<lambda>f. fst f = (Some a, Some b)) rows) = length (filter (fires_in read_float (a, b)) cases) \<and>
   {s. ((Some a, Some b), Some s) \<in> set rows} =
     {s. \<exists>c \<in> set cases. fires_in read_float (a, b) c \<and> fact_text render (cr_detection_facts c) ''callsign'' = Some s}"
proof (induction cases arbitrary: rows)
  case (Cons c cs)
  show ?case
  proof (cases "is_fire c")
    case True
    then obtain cell rest where rest: "cell_of read_float c = Inr cell" "fire_rows render read_float cs = Inr rest"
        "rows = (cell, fact_text render (cr_detection_facts c) ''callsign'') # rest"
      using Cons.prems by (auto simp: fire_rows_def rbind_Inr)
    moreover have "cell = (Some a, Some b) \<longleftrightarrow> fires_in read_float (a, b) c"
      using True rest(1) by (auto simp: fires_in_def is_fire_def)
    ultimately show ?thesis using Cons.IH[OF rest(2)] by auto
  next
    case False
    then have "fire_rows render read_float cs = Inr rows" "\<not> fires_in read_float (a, b) c"
      using Cons.prems fires_in_fire by (auto simp: fire_rows_def)
    then show ?thesis using Cons.IH by auto
  qed
qed (simp add: fire_rows_def)

text \<open>C26. Demotion never erases its own evidence: after a detector run, under whatever cell table, over a lake of
  positions on the globe, the table can be rebuilt and reloaded, it keeps every cell it had, and it holds exactly the cells
  with at least 8 lost-signal cases of any severity from at least 6 callsigns.\<close>

theorem sparse_cells_survive_detection:
  assumes "build_sparse_cells render read_float (db_cases (dd_app db)) = Inr before"
    and "run_case_detection cells year clock now lake db = (r, db')"
    and "list_all on_globe (read_recent_positions LOOKBACK_MINUTES clock lake)"
  shows "\<exists>after. build_sparse_cells render read_float (db_cases (dd_app db')) = Inr after \<and>
    load_sparse_cells (Holds (dump_file after)) = Inr (sp_cells after) \<and> set (sp_cells before) \<subseteq> set (sp_cells after) \<and>
    (\<forall>cell. cell \<in> set (sp_cells after) \<longleftrightarrow>
      8 \<le> length (filter (fires_in read_float cell) (db_cases (dd_app db'))) \<and>
      6 \<le> card {callsign. \<exists>c \<in> set (db_cases (dd_app db')). fires_in read_float cell c \<and>
             fact_text render (cr_detection_facts c) ''callsign'' = Some callsign})"
proof -
  obtain rows where rows: "fire_rows render read_float (db_cases (dd_app db)) = Inr rows"
      "\<And>cell. having rows cell \<Longrightarrow> fst cell \<noteq> None \<and> snd cell \<noteq> None"
      "\<And>a b. (a, b) \<in> set (sp_cells before) \<longleftrightarrow> having rows (Some a, Some b)"
    using build_Inr[OF assms(1)] by blast
  obtain new where new: "db_cases (dd_app db') = db_cases (dd_app db) @ new" "\<forall>c \<in> set new. is_fire c \<longrightarrow> placed c"
    using detected_fire_placed[OF assms(2,3)] by blast
  have "\<exists>extra. fire_rows render read_float new = Inr extra \<and> list_all (\<lambda>f. fst (fst f) \<noteq> None \<and> snd (fst f) \<noteq> None) extra"
    unfolding fire_rows_def
  proof (rule rmap_each)
    fix c
    assume "c \<in> set (filter is_fire new)"
    then have "placed c" using new(2) by simp
    then obtain a b where "cell_of read_float c = Inr (Some a, Some b)" using placed_cell by blast
    then show "\<exists>f. rbind (cell_of read_float c) (\<lambda>cell. Inr (cell, fact_text render (cr_detection_facts c) ''callsign'')) = Inr f \<and>
        fst (fst f) \<noteq> None \<and> snd (fst f) \<noteq> None" by (simp add: rbind_def)
  qed
  then obtain extra where extra: "fire_rows render read_float new = Inr extra"
      "list_all (\<lambda>f. fst (fst f) \<noteq> None \<and> snd (fst f) \<noteq> None) extra" by blast
  have fires: "fire_rows render read_float (db_cases (dd_app db')) = Inr (rows @ extra)"
    using rows(1) extra(1) by (simp add: fire_rows_def new(1) rmap_append rbind_def)
  have "fst cell \<noteq> None \<and> snd cell \<noteq> None" if "having (rows @ extra) cell" for cell
  proof (rule ccontr)
    assume null: "\<not> (fst cell \<noteq> None \<and> snd cell \<noteq> None)"
    then have "list_all (\<lambda>f. fst f \<noteq> cell) extra" using extra(2) by (auto simp: list_all_iff)
    then have "having rows cell" using that by (simp add: having_other)
    from rows(2)[OF this] null show False by simp
  qed
  then obtain after where after: "build_sparse_cells render read_float (db_cases (dd_app db')) = Inr after"
    using build_ok[OF fires] by blast
  have holds: "(a, b) \<in> set (sp_cells after) \<longleftrightarrow> having (rows @ extra) (Some a, Some b)" for a b
  proof -
    obtain fs where "fire_rows render read_float (db_cases (dd_app db')) = Inr fs"
        "\<forall>a b. (a, b) \<in> set (sp_cells after) \<longleftrightarrow> having fs (Some a, Some b)"
      using build_Inr[OF after] by blast
    then show ?thesis unfolding fires by simp
  qed
  have exact: "(a, b) \<in> set (sp_cells after) \<longleftrightarrow>
      8 \<le> length (filter (fires_in read_float (a, b)) (db_cases (dd_app db'))) \<and>
      6 \<le> card {callsign. \<exists>c \<in> set (db_cases (dd_app db')). fires_in read_float (a, b) c \<and>
             fact_text render (cr_detection_facts c) ''callsign'' = Some callsign}" for a b
    using fire_rows_cases[OF fires, of a b] unfolding holds
    by (simp only: having_def callsigns_of_card MIN_FIRES_def MIN_DISTINCT_CALLSIGNS_def)
  have kept: "set (sp_cells before) \<subseteq> set (sp_cells after)" using rows(3) holds having_mono by auto
  show ?thesis using after load_dumped kept exact by (intro exI[of _ after]) (simp only: split_paired_all simp_thms HOL.all_simps split_paired_All)
qed

text \<open>Eight cases in one cell, and a run over it.\<close>

definition demo_fire :: "string \<Rightarrow> CaseRow" where
  "demo_fire callsign = new_case 0
     \<lparr>an_rule = ''lost_signal'', an_icao24 = callsign, an_site_icao = None, an_customer_region = ''west'',
      an_detection_facts = [(''callsign'', JStr callsign), (''last_lat'', JNum (95/2)), (''last_lon'', JNum (- 1 / 2))],
      an_severity_hint = Some ''medium''\<rparr> callsign []"

definition demo_history :: DetectorDb where
  "demo_history = demo_db\<lparr>dd_app := (dd_app demo_db)\<lparr>db_cases :=
     map demo_fire [''a'', ''b'', ''c'', ''d'', ''e'', ''f'', ''a'', ''a'']\<rparr>\<rparr>"

definition demo_cells :: SparseFile where
  "demo_cells = \<lparr>sp_schema_version = 2, sp_cell_degrees = 1, sp_min_fires = 8, sp_min_distinct_callsigns = 6, sp_cells = [(47, - 1)]\<rparr>"

lemma demo_built: "build_sparse_cells (\<lambda>_. []) (\<lambda>_. None) (db_cases (dd_app demo_history)) = Inr demo_cells"
proof -
  have "cell_of (\<lambda>_. None) (demo_fire k) = Inr (Some 47, Some (- 1))" for k
    by (simp add: cell_of_def demo_fire_def new_case_def fact_float_def rbind_def floor_int_def int32_ok_def)
  moreover have "is_fire (demo_fire k)" "fact_text (\<lambda>_. []) (cr_detection_facts (demo_fire k)) ''callsign'' = Some k" for k
    by (simp_all add: is_fire_def demo_fire_def new_case_def fact_text_def)
  ultimately have "fire_rows (\<lambda>_. []) (\<lambda>_. None) (db_cases (dd_app demo_history)) =
      Inr (map (Pair (Some 47, Some (- 1)) \<circ> Some) [''a'', ''b'', ''c'', ''d'', ''e'', ''f'', ''a'', ''a''])"
    by (simp add: fire_rows_def demo_history_def rbind_def)
  then show ?thesis
    by (simp add: build_sparse_cells_def sparse_query_def rbind_def having_def callsigns_of_def map_filter_simps MIN_FIRES_def
        MIN_DISTINCT_CALLSIGNS_def nulls_last_def int_cell_def CELL_DEGREES_def demo_cells_def)
qed

lemma sparse_cells_survive_detection_witness:
  "\<exists>after. build_sparse_cells (\<lambda>_. []) (\<lambda>_. None)
       (db_cases (dd_app (snd (run_case_detection [(47, - 1)] 2026 (minutes 16) (\<lambda>_. minutes 16) demo_lake demo_history)))) = Inr after \<and>
     (47, - 1) \<in> set (sp_cells after)"
proof -
  obtain r db' where run: "run_case_detection [(47, - 1)] 2026 (minutes 16) (\<lambda>_. minutes 16) demo_lake demo_history = (r, db')"
    by fastforce
  have "list_all on_globe (read_recent_positions LOOKBACK_MINUTES (minutes 16) demo_lake)"
    by (simp add: demo_read on_globe_def demo_position_def)
  from sparse_cells_survive_detection[OF demo_built run this] show ?thesis
    unfolding run by (auto simp: demo_cells_def)
qed

end
