(* ===== verification/Runtime.thy ===== *)
theory Runtime
  imports CaseSync Archive
begin

text \<open>
  Configuration, start-up and the admin route: foundry/sync settings.py and how the jobs read it, api/app/settings.py's
  DSN of the Dagster store, the connection pool of services/postgres.py, the lifespan and health of main.py, the
  custom permissions of services/salesforce.py and routers/admin.py. An environment is the merged map of the process
  environment and the .env file; pydantic's URL check and the psycopg2 driver are parameters.
\<close>

section \<open>Foundry settings\<close>

record FoundrySettings =
  FOUNDRY_TENANT_URL :: string
  FOUNDRY_TOKEN :: string
  FOUNDRY_ONTOLOGY_API_NAME :: string
  FOUNDRY_ONTOLOGY_RID :: string
  FOUNDRY_ACTION_UPSERT_AIRCRAFT :: string
  FOUNDRY_ACTION_UPSERT_SITE :: string
  FOUNDRY_ACTION_UPSERT_FLIGHT :: string
  FOUNDRY_ACTION_DELETE_AIRCRAFT :: string
  FOUNDRY_ACTION_DELETE_FLIGHT :: string
  FOUNDRY_ACTION_UPSERT_CASE :: string
  FOUNDRY_ACTION_DELETE_CASE :: string
  FOUNDRY_FLIGHT_ISLIVE_ENABLED :: bool
  AFM_API_BASE :: string

type_synonym env = "(string, string) dict"

text \<open>The fields with \<open>min_length=1\<close>, and the value of one of them; the check reads them before.\<close>

definition REQUIRED_TEXTS :: "string list" where
  "REQUIRED_TEXTS =
     [''FOUNDRY_TOKEN'', ''FOUNDRY_ONTOLOGY_API_NAME'', ''FOUNDRY_ONTOLOGY_RID'', ''FOUNDRY_ACTION_UPSERT_AIRCRAFT'',
      ''FOUNDRY_ACTION_UPSERT_SITE'', ''FOUNDRY_ACTION_UPSERT_FLIGHT'', ''FOUNDRY_ACTION_DELETE_AIRCRAFT'',
      ''FOUNDRY_ACTION_DELETE_FLIGHT'', ''FOUNDRY_ACTION_UPSERT_CASE'', ''FOUNDRY_ACTION_DELETE_CASE'']"

definition env_text :: "env \<Rightarrow> string \<Rightarrow> string" where
  "env_text env k = (case dget env k of None \<Rightarrow> [] | Some v \<Rightarrow> v)"

text \<open>A pydantic bool read from text.\<close>

definition parse_bool :: "string \<Rightarrow> bool option" where
  "parse_bool s =
     (if lower s \<in> {''1'', ''true'', ''t'', ''yes'', ''y'', ''on''} then Some True
      else if lower s \<in> {''0'', ''false'', ''f'', ''no'', ''n'', ''off''} then Some False else None)"

definition load_foundry_settings :: "(string \<Rightarrow> string option) \<Rightarrow> env \<Rightarrow> exn + FoundrySettings" where
  "load_foundry_settings http_url env =
     (case (Option.bind (dget env ''FOUNDRY_TENANT_URL'') http_url,
            case dget env ''FOUNDRY_FLIGHT_ISLIVE_ENABLED'' of None \<Rightarrow> Some False | Some s \<Rightarrow> parse_bool s) of
        (Some url, Some islive) \<Rightarrow>
          if list_ex (\<lambda>k. env_text env k = []) REQUIRED_TEXTS then Inl PydanticValidationError
          else Inr \<lparr>FOUNDRY_TENANT_URL = url,
                    FOUNDRY_TOKEN = env_text env ''FOUNDRY_TOKEN'',
                    FOUNDRY_ONTOLOGY_API_NAME = env_text env ''FOUNDRY_ONTOLOGY_API_NAME'',
                    FOUNDRY_ONTOLOGY_RID = env_text env ''FOUNDRY_ONTOLOGY_RID'',
                    FOUNDRY_ACTION_UPSERT_AIRCRAFT = env_text env ''FOUNDRY_ACTION_UPSERT_AIRCRAFT'',
                    FOUNDRY_ACTION_UPSERT_SITE = env_text env ''FOUNDRY_ACTION_UPSERT_SITE'',
                    FOUNDRY_ACTION_UPSERT_FLIGHT = env_text env ''FOUNDRY_ACTION_UPSERT_FLIGHT'',
                    FOUNDRY_ACTION_DELETE_AIRCRAFT = env_text env ''FOUNDRY_ACTION_DELETE_AIRCRAFT'',
                    FOUNDRY_ACTION_DELETE_FLIGHT = env_text env ''FOUNDRY_ACTION_DELETE_FLIGHT'',
                    FOUNDRY_ACTION_UPSERT_CASE = env_text env ''FOUNDRY_ACTION_UPSERT_CASE'',
                    FOUNDRY_ACTION_DELETE_CASE = env_text env ''FOUNDRY_ACTION_DELETE_CASE'',
                    FOUNDRY_FLIGHT_ISLIVE_ENABLED = islive,
                    AFM_API_BASE = (case dget env ''AFM_API_BASE'' of None \<Rightarrow> ''http://localhost:8000'' | Some u \<Rightarrow> u)\<rparr>
      | _ \<Rightarrow> Inl PydanticValidationError)"

definition foundry_writer :: "FoundrySettings \<Rightarrow> FoundryWriter" where
  "foundry_writer s =
     \<lparr>fw_ontology = FOUNDRY_ONTOLOGY_API_NAME s,
      fw_action_aircraft = FOUNDRY_ACTION_UPSERT_AIRCRAFT s,
      fw_action_site = FOUNDRY_ACTION_UPSERT_SITE s,
      fw_action_flight = FOUNDRY_ACTION_UPSERT_FLIGHT s,
      fw_action_delete_aircraft = FOUNDRY_ACTION_DELETE_AIRCRAFT s,
      fw_action_delete_flight = FOUNDRY_ACTION_DELETE_FLIGHT s,
      fw_action_case = FOUNDRY_ACTION_UPSERT_CASE s,
      fw_action_delete_case = FOUNDRY_ACTION_DELETE_CASE s,
      islive_enabled = FOUNDRY_FLIGHT_ISLIVE_ENABLED s\<rparr>"

definition open_writer :: "(string \<Rightarrow> string option) \<Rightarrow> env \<Rightarrow> exn + FoundryWriter" where
  "open_writer http_url env = map_sum id foundry_writer (load_foundry_settings http_url env)"

lemma missing_setting:
  assumes "k \<in> set (''FOUNDRY_TENANT_URL'' # REQUIRED_TEXTS)"
    and "dget env k = None \<or> k \<in> set REQUIRED_TEXTS \<and> dget env k = Some []"
  shows "open_writer http_url env = Inl PydanticValidationError"
proof -
  have "load_foundry_settings http_url env = Inl PydanticValidationError"
  proof (cases "k \<in> set REQUIRED_TEXTS")
    case True
    then have "list_ex (\<lambda>k. env_text env k = []) REQUIRED_TEXTS"
      using assms(2) by (auto simp: list_ex_iff env_text_def intro!: bexI[of _ k])
    then show ?thesis by (simp add: load_foundry_settings_def split: option.splits)
  next
    case False
    then have "dget env ''FOUNDRY_TENANT_URL'' = None" using assms by simp
    then show ?thesis by (simp add: load_foundry_settings_def)
  qed
  then show ?thesis by (simp add: open_writer_def)
qed

lemma unconfigured_guard:
  "guarded_sync job (with_settings (Inl PydanticValidationError) body) w =
     Some (Inl (FoundrySyncSkipped (job @ '': foundry config absent'')), w)"
  by (simp add: guarded_sync_def with_settings_def iot_raise_def)



text \<open>A response of the API that no longer fits the model raises the same exception inside the same guard, so a
  configured stack reports it in the same words.\<close>

lemma drift_looks_unconfigured:
  assumes "am_sites client w = (Inl PydanticValidationError, w')" "open_writer http_url env = Inr fw"
  shows "\<exists>w'. run_sites_sync (open_writer http_url env) client api w =
    Some (Inl (FoundrySyncSkipped ''sites: foundry config absent''), w')"
  using assms by (simp add: run_sites_sync_def guarded_sync_def with_settings_def full_sync_sites_def lift_io_def io_bind_def
      fetch_sites_def transient_retry_def numeral_2_eq_2)

section \<open>The DSN of the Dagster store\<close>

text \<open>urllib.parse's urlsplit and urlunsplit, for a url without control characters or brackets; a scheme that is known to
  use a network location only matters without one.\<close>

record SplitResult =
  scheme :: string
  netloc :: string
  path :: string
  query :: string
  fragment :: string

definition up_to :: "char list \<Rightarrow> string \<Rightarrow> string" where
  "up_to stops s = takeWhile (\<lambda>c. c \<notin> set stops) s"

definition from_first :: "char list \<Rightarrow> string \<Rightarrow> string" where
  "from_first stops s = dropWhile (\<lambda>c. c \<notin> set stops) s"

definition is_letter :: "char \<Rightarrow> bool" where
  "is_letter c \<longleftrightarrow> to_lower c \<in> set ''abcdefghijklmnopqrstuvwxyz''"

definition scheme_ok :: "string \<Rightarrow> bool" where
  "scheme_ok s \<longleftrightarrow> s \<noteq> [] \<and> is_letter (hd s) \<and> list_all (\<lambda>c. is_letter c \<or> is_digit c \<or> c \<in> set ''+-.'') s"

definition urlsplit :: "string \<Rightarrow> SplitResult" where
  "urlsplit url =
     (let before = up_to '':'' url;
          (sch, rest) = (if CHR '':'' \<in> set url \<and> scheme_ok before then (lower before, drop (Suc (length before)) url) else ([], url));
          (loc, rest) = (if take 2 rest = ''//'' then (up_to ''/?#'' (drop 2 rest), from_first ''/?#'' (drop 2 rest)) else ([], rest));
          body = up_to ''#'' rest
      in \<lparr>scheme = sch, netloc = loc, path = up_to ''?'' body, query = drop 1 (from_first ''?'' body),
          fragment = drop 1 (from_first ''#'' rest)\<rparr>)"

definition USES_NETLOC :: "string list" where
  "USES_NETLOC = [''ftp'', ''http'', ''gopher'', ''nntp'', ''telnet'', ''imap'', ''wais'', ''file'', ''mms'', ''https'', ''shttp'',
     ''snews'', ''prospero'', ''rtsp'', ''rtsps'', ''rtspu'', ''rsync'', ''svn'', ''svn+ssh'', ''sftp'', ''nfs'', ''git'',
     ''git+ssh'', ''ws'', ''wss'']"

definition urlunsplit :: "SplitResult \<Rightarrow> string" where
  "urlunsplit p =
     (let url = (if netloc p \<noteq> [] \<or> (scheme p \<in> set USES_NETLOC \<and> take 2 (path p) \<noteq> ''//'')
                 then ''//'' @ netloc p @ (if path p \<noteq> [] \<and> hd (path p) \<noteq> CHR ''/'' then ''/'' @ path p else path p)
                 else path p);
          url = (if scheme p \<noteq> [] then scheme p @ '':'' @ url else url);
          url = (if query p \<noteq> [] then url @ ''?'' @ query p else url)
      in if fragment p \<noteq> [] then url @ ''#'' @ fragment p else url)"

definition dagster_dsn :: "string \<Rightarrow> string option \<Rightarrow> string" where
  "dagster_dsn database_url dagster_database_url =
     (case dagster_database_url of
        Some (c # cs) \<Rightarrow> c # cs
      | _ \<Rightarrow> urlunsplit ((urlsplit database_url)\<lparr>path := ''/dagster''\<rparr>))"

text \<open>The derived DSN reads back as the database's own, with another path: same scheme, user, host and options.\<close>

lemma to_lower_idem [simp]: "to_lower (to_lower c) = to_lower c"
  by (auto simp: to_lower_def Let_def)

lemma scheme_ok_lower: "scheme_ok s \<Longrightarrow> scheme_ok (lower s) \<and> lower (lower s) = lower s"
proof -
  assume s: "scheme_ok s"
  have "to_lower c = c" if "is_digit c \<or> c \<in> set ''+-.''" for c
    using that by (auto simp: to_lower_def is_digit_iff Let_def)
  then have "list_all (\<lambda>c. is_letter (to_lower c) \<or> is_digit (to_lower c) \<or> to_lower c \<in> set ''+-.'') s"
    using s unfolding scheme_ok_def list_all_iff is_letter_def by (metis to_lower_idem)
  then show ?thesis
    using s by (auto simp: scheme_ok_def lower_def list_all_iff hd_map is_letter_def comp_def)
qed

lemma up_to_append: "set s \<inter> set stops = {} \<Longrightarrow> c \<in> set stops \<Longrightarrow> up_to stops (s @ c # r) = s"
  by (simp add: up_to_def takeWhile_append2 disjoint_iff)

lemma from_first_append: "set s \<inter> set stops = {} \<Longrightarrow> c \<in> set stops \<Longrightarrow> from_first stops (s @ c # r) = c # r"
  by (simp add: from_first_def dropWhile_append2 disjoint_iff)

lemma up_to_all: "set s \<inter> set stops = {} \<Longrightarrow> up_to stops s = s"
  by (auto simp: up_to_def takeWhile_eq_all_conv)

lemma from_first_none: "set s \<inter> set stops = {} \<Longrightarrow> from_first stops s = []"
  by (auto simp: from_first_def dropWhile_eq_Nil_conv)

lemma up_to_stops: "set (up_to stops s) \<inter> set stops = {}"
  by (auto simp: up_to_def dest: set_takeWhileD)

lemma from_first_subset: "set (drop n (from_first stops s)) \<subseteq> set s"
  unfolding from_first_def using set_drop_subset set_dropWhileD by fastforce

lemma scheme_no_colon: "scheme_ok s \<Longrightarrow> set s \<inter> set '':'' = {}"
  by (auto simp: scheme_ok_def list_all_iff is_letter_def is_digit_iff to_lower_def)

lemma split_scheme:
  "scheme_ok s \<Longrightarrow> urlsplit (s @ CHR '':'' # r) = (urlsplit (''//'' @ drop 2 r))\<lparr>scheme := lower s\<rparr>" if "take 2 r = ''//''"
proof -
  assume s: "scheme_ok s"
  have "\<not> scheme_ok (up_to '':'' (CHR ''/'' # x))" for x
    by (simp add: up_to_def scheme_ok_def is_letter_def to_lower_def)
  then show ?thesis
    using that s scheme_no_colon[OF s] by (simp add: urlsplit_def up_to_append Let_def)
qed

lemma split_location:
  assumes "set n \<inter> set ''/?#'' = {}" "CHR ''#'' \<notin> set q"
  shows "urlsplit (''//'' @ n @ ''/dagster'' @ (if q \<noteq> [] then ''?'' @ q else []) @ (if f \<noteq> [] then ''#'' @ f else [])) =
    \<lparr>scheme = [], netloc = n, path = ''/dagster'', query = q, fragment = f\<rparr>"
proof -
  let ?q = "if q \<noteq> [] then ''?'' @ q else []" and ?f = "if f \<noteq> [] then ''#'' @ f else []"
  have "\<not> scheme_ok (up_to '':'' (CHR ''/'' # x))" for x
    by (simp add: up_to_def scheme_ok_def is_letter_def to_lower_def)
  moreover have "up_to ''/?#'' (n @ CHR ''/'' # x) = n" "from_first ''/?#'' (n @ CHR ''/'' # x) = CHR ''/'' # x" for x
    using up_to_append[OF assms(1), of "CHR ''/''" x] from_first_append[OF assms(1), of "CHR ''/''" x] by simp_all
  moreover have d: "set (''/dagster'' @ ?q) \<inter> set ''#'' = {}" using assms(2) by simp
  then have "up_to ''#'' (''/dagster'' @ ?q @ ?f) = ''/dagster'' @ ?q" "drop 1 (from_first ''#'' (''/dagster'' @ ?q @ ?f)) = f"
    using up_to_append[OF d, of "CHR ''#''" f] from_first_append[OF d, of "CHR ''#''" f] up_to_all[OF d] from_first_none[OF d] by auto
  moreover have "up_to ''?'' (''/dagster'' @ ?q) = ''/dagster''" "drop 1 (from_first ''?'' (''/dagster'' @ ?q)) = q"
    by (simp_all add: up_to_def from_first_def)
  ultimately show ?thesis by (simp add: urlsplit_def Let_def)
qed

lemma dagster_dsn_same_server:
  assumes "netloc (urlsplit url) \<noteq> []"
  shows "urlsplit (dagster_dsn url None) = (urlsplit url)\<lparr>path := ''/dagster''\<rparr>"
proof -
  obtain s n p q f where parts: "urlsplit url = \<lparr>scheme = s, netloc = n, path = p, query = q, fragment = f\<rparr>"
    by (cases "urlsplit url") auto
  have s: "s = [] \<or> scheme_ok s \<and> lower s = s"
    using parts scheme_ok_lower by (auto simp: urlsplit_def Let_def split: if_splits prod.splits)
  have n: "set n \<inter> set ''/?#'' = {}"
    using parts up_to_stops[of "''/?#''"] by (auto simp: urlsplit_def Let_def split: if_splits)
  have q: "CHR ''#'' \<notin> set q"
  proof -
    obtain rest where "q = drop 1 (from_first ''?'' (up_to ''#'' rest))"
      using parts by (auto simp: urlsplit_def Let_def split: if_splits)
    then show ?thesis using from_first_subset[of 1 "''?''" "up_to ''#'' rest"] up_to_stops[of "''#''" rest] by auto
  qed
  let ?loc = "''//'' @ n @ ''/dagster'' @ (if q \<noteq> [] then ''?'' @ q else []) @ (if f \<noteq> [] then ''#'' @ f else [])"
  have "dagster_dsn url None = (if s \<noteq> [] then s @ CHR '':'' # ?loc else ?loc)"
    using assms by (simp add: dagster_dsn_def parts urlunsplit_def Let_def)
  then show ?thesis using s split_location[OF n q] split_scheme[of ?loc s] by (auto simp: parts)
qed

section \<open>The connection pool\<close>

text \<open>The driver: opening and closing a pool, and what a pool does with its connections.\<close>

datatype db_failure = OperationalError | OtherDbFailure string

record ('p, 'c, 'w) pgdriver =
  pd_open :: "nat \<Rightarrow> nat \<Rightarrow> string \<Rightarrow> 'w \<Rightarrow> (db_failure + 'p) \<times> 'w"
  pd_closeall :: "'p \<Rightarrow> 'w \<Rightarrow> 'w"
  pd_getconn :: "'p \<Rightarrow> 'w \<Rightarrow> (db_failure + 'c) \<times> 'w"
  pd_putconn :: "'p \<Rightarrow> 'c \<Rightarrow> 'w \<Rightarrow> 'w"

definition translated :: "string \<Rightarrow> db_failure \<Rightarrow> pyexc" where
  "translated message f = (case f of OperationalError \<Rightarrow> AFM (UpstreamUnavailable message) | OtherDbFailure m \<Rightarrow> OtherExc m)"

definition open_pool :: "('p, 'c, 'w) pgdriver \<Rightarrow> string \<Rightarrow> nat \<Rightarrow> nat \<Rightarrow> 'w \<Rightarrow> (pyexc + 'p) \<times> 'w" where
  "open_pool pg dsn min_conns max_conns w =
     (case pd_open pg min_conns max_conns dsn w of (r, w') \<Rightarrow> (map_sum (translated ''Postgres pool initialization failed'') id r, w'))"

definition connection ::
  "('p, 'c, 'w) pgdriver \<Rightarrow> 'p \<Rightarrow> ('c \<Rightarrow> 'w \<Rightarrow> (db_failure + 'a) \<times> 'w) \<Rightarrow> 'w \<Rightarrow> (db_failure + 'a) \<times> 'w" where
  "connection pg pool body w =
     (case pd_getconn pg pool w of
        (Inl f, w1) \<Rightarrow> (Inl f, w1)
      | (Inr conn, w1) \<Rightarrow> (case body conn w1 of (r, w2) \<Rightarrow> (r, pd_putconn pg pool conn w2)))"

definition pool_fetchall ::
  "('p, 'c, 'w) pgdriver \<Rightarrow> 'p \<Rightarrow> ('c \<Rightarrow> 'w \<Rightarrow> (db_failure + 'r list) \<times> 'w) \<Rightarrow> 'w \<Rightarrow> (pyexc + 'r list) \<times> 'w" where
  "pool_fetchall pg pool select w =
     (case connection pg pool select w of (r, w') \<Rightarrow> (map_sum (translated ''Postgres query failed'') id r, w'))"

definition pool_fetchone ::
  "('p, 'c, 'w) pgdriver \<Rightarrow> 'p \<Rightarrow> ('c \<Rightarrow> 'w \<Rightarrow> (db_failure + 'r list) \<times> 'w) \<Rightarrow> 'w \<Rightarrow> (pyexc + 'r option) \<times> 'w" where
  "pool_fetchone pg pool select w =
     (case connection pg pool select w of
        (r, w') \<Rightarrow> (map_sum (translated ''Postgres query failed'') (\<lambda>rows. case rows of [] \<Rightarrow> None | x # _ \<Rightarrow> Some x) r, w'))"

text \<open>Whatever the query does, its connection goes back: a count of the connections out that the driver keeps is the
  same after as before.\<close>

lemma connection_returned:
  assumes "\<And>p w c w'. pd_getconn pg p w = (Inr c, w') \<Longrightarrow> out w' = Suc (out w)"
    and "\<And>p w f w'. pd_getconn pg p w = (Inl f, w') \<Longrightarrow> out w' = out w"
    and "\<And>p c w. out (pd_putconn pg p c w) = out w - 1"
    and "\<And>c w r w'. select c w = (r, w') \<Longrightarrow> out w' = out w"
  shows "out (snd (pool_fetchall pg pool select w)) = (out w :: nat)"
  using assms(2)[of pool w] assms(1)[of pool w] assms(4)
  by (auto simp: pool_fetchall_def connection_def assms(3) split: prod.splits sum.splits)

section \<open>The lifespan\<close>

record ApiSettings =
  set_service_name :: string
  set_service_version :: string
  set_environment :: string
  set_log_level :: string
  set_log_format :: string
  set_database_url :: string
  set_dagster_database_url :: "string option"
  set_lake_path :: string
  set_expose_docs :: bool
  set_salesforce :: SfSettings

text \<open>Names are matched without regard to case; a missing optional text is the empty one, as the services test it.\<close>

definition setting :: "env \<Rightarrow> string \<Rightarrow> string option" where
  "setting env k = map_option snd (List.find (\<lambda>kv. lower (fst kv) = k) env)"

definition setting_or :: "env \<Rightarrow> string \<Rightarrow> string \<Rightarrow> string" where
  "setting_or env k dflt = (case setting env k of None \<Rightarrow> dflt | Some v \<Rightarrow> v)"

definition load_api_settings :: "env \<Rightarrow> exn + ApiSettings" where
  "load_api_settings env =
     (case (setting env ''database_url'', case setting env ''expose_docs'' of None \<Rightarrow> Some False | Some s \<Rightarrow> parse_bool s) of
        (Some url, Some docs) \<Rightarrow>
          if setting_or env ''environment'' ''dev'' \<notin> {''dev'', ''prod''}
             \<or> setting_or env ''log_level'' ''INFO'' \<notin> {''DEBUG'', ''INFO'', ''WARNING'', ''ERROR'', ''CRITICAL''}
             \<or> setting_or env ''log_format'' ''console'' \<notin> {''json'', ''console''}
          then Inl PydanticValidationError
          else Inr \<lparr>set_service_name = setting_or env ''service_name'' ''afm-api'',
                    set_service_version = setting_or env ''service_version'' ''1.0.0'',
                    set_environment = setting_or env ''environment'' ''dev'',
                    set_log_level = setting_or env ''log_level'' ''INFO'',
                    set_log_format = setting_or env ''log_format'' ''console'',
                    set_database_url = url,
                    set_dagster_database_url = setting env ''dagster_database_url'',
                    set_lake_path = setting_or env ''afm_lake_path'' ''/lake'',
                    set_expose_docs = docs,
                    set_salesforce = \<lparr>ss_instance_url = setting_or env ''salesforce_instance_url'' [],
                      ss_client_id = setting_or env ''salesforce_client_id'' [],
                      ss_client_secret = setting_or env ''salesforce_client_secret'' [],
                      ss_record_type_dev_name = setting_or env ''salesforce_case_record_type'' ''Fleet_Operations''\<rparr>\<rparr>
      | _ \<Rightarrow> Inl PydanticValidationError)"

record 'p AppState =
  app_postgres :: 'p
  app_dagster_postgres :: "'p option"
  app_lake_path :: string
  app_watched_airports :: 'p
  app_salesforce :: "SfSettings \<times> SfState"

definition lifespan_startup :: "('p, 'c, 'w) pgdriver \<Rightarrow> ApiSettings \<Rightarrow> 'w \<Rightarrow> (pyexc + 'p AppState) \<times> 'w" where
  "lifespan_startup pg settings w =
     (case open_pool pg (set_database_url settings) 1 10 w of
        (Inl e, w1) \<Rightarrow> (Inl e, w1)
      | (Inr pool, w1) \<Rightarrow>
          (let ready = (\<lambda>dagster. \<lparr>app_postgres = pool, app_dagster_postgres = dagster, app_lake_path = set_lake_path settings,
                 app_watched_airports = pool,
                 app_salesforce = (set_salesforce settings, \<lparr>sf_client = None, sf_record_type_id = None\<rparr>)\<rparr>)
           in case open_pool pg (dagster_dsn (set_database_url settings) (set_dagster_database_url settings)) 1 3 w1 of
                (Inr dagster, w2) \<Rightarrow> (Inr (ready (Some dagster)), w2)
              | (Inl (AFM (UpstreamUnavailable m)), w2) \<Rightarrow> (Inr (ready None), w2)
              | (Inl e, w2) \<Rightarrow> (Inl e, w2)))"

definition lifespan_shutdown :: "('p, 'c, 'w) pgdriver \<Rightarrow> 'p AppState \<Rightarrow> 'w \<Rightarrow> 'w" where
  "lifespan_shutdown pg st w =
     (let w1 = pd_closeall pg (app_postgres st) w
      in case app_dagster_postgres st of None \<Rightarrow> w1 | Some dagster \<Rightarrow> pd_closeall pg dagster w1)"

text \<open>The docs routes exist on request only.\<close>

definition docs_routes :: "ApiSettings \<Rightarrow> string list" where
  "docs_routes settings = (if set_expose_docs settings then [''/docs'', ''/redoc'', ''/openapi.json''] else [])"

text \<open>Admin routes exist in dev only.\<close>

definition admin_mounted :: "ApiSettings \<Rightarrow> bool" where
  "admin_mounted settings \<longleftrightarrow> set_environment settings = ''dev''"

lemma loaded_environment: "load_api_settings env = Inr settings \<Longrightarrow> set_environment settings = setting_or env ''environment'' ''dev''"
  unfolding load_api_settings_def by (simp split: option.splits if_split_asm del: insert_iff) (auto simp del: insert_iff)

lemma unset_environment_mounts_admin:
  "load_api_settings env = Inr settings \<Longrightarrow> setting env ''environment'' = None \<Longrightarrow> admin_mounted settings"
  using loaded_environment[of env settings] by (simp add: admin_mounted_def setting_or_def)

record HealthResponse =
  hr_status :: string
  hr_service :: string
  hr_version :: string

definition health :: "ApiSettings \<Rightarrow> HealthResponse" where
  "health settings = \<lparr>hr_status = ''ok'', hr_service = set_service_name settings, hr_version = set_service_version settings\<rparr>"

text \<open>A driver's count of open pools: a shutdown closes what the start-up opened, and a Dagster store that cannot be
  reached never stops the start-up.\<close>

lemma lifespan_balanced:
  assumes "\<And>lo hi dsn w p w'. pd_open pg lo hi dsn w = (Inr p, w') \<Longrightarrow> pools w' = Suc (pools w)"
    and "\<And>lo hi dsn w f w'. pd_open pg lo hi dsn w = (Inl f, w') \<Longrightarrow> pools w' = pools w"
    and "\<And>p w. pools (pd_closeall pg p w) = pools w - 1"
    and "lifespan_startup pg settings w = (Inr st, w')"
  shows "pools (lifespan_shutdown pg st w') = (pools w :: nat)"
proof -
  obtain r1 w1 where first: "pd_open pg 1 10 (set_database_url settings) w = (r1, w1)" by fastforce
  then obtain pool where pool: "r1 = Inr pool"
    using assms(4) by (cases r1) (auto simp: lifespan_startup_def open_pool_def)
  obtain r2 w2 where second: "pd_open pg 1 3 (dagster_dsn (set_database_url settings) (set_dagster_database_url settings)) w1 = (r2, w2)"
    by fastforce
  have one: "pools w1 = Suc (pools w)" using assms(1) first pool by blast
  show ?thesis
  proof (cases r2)
    case (Inl f)
    then have "pools w2 = pools w1" using assms(2) second by blast
    then show ?thesis using assms(4) first second pool one Inl
      by (auto simp: lifespan_startup_def open_pool_def lifespan_shutdown_def assms(3) translated_def split: db_failure.splits)
  next
    case (Inr dagster)
    then have "pools w2 = Suc (pools w1)" using assms(1) second by blast
    then show ?thesis using assms(4) first second pool one Inr
      by (auto simp: lifespan_startup_def open_pool_def lifespan_shutdown_def assms(3))
  qed
qed

section \<open>Permissions and the admin smoke test\<close>

definition text_field :: "string \<Rightarrow> (string, json) dict \<Rightarrow> string option" where
  "text_field k rec = (case dget rec k of Some (JStr s) \<Rightarrow> Some s | _ \<Rightarrow> None)"

definition text_fields :: "string \<Rightarrow> (string, json) dict list \<Rightarrow> ('x, string list) sfm" where
  "text_fields k recs = (case those (map (text_field k) recs) of None \<Rightarrow> sf_raise (OtherExc ''KeyError'') | Some ts \<Rightarrow> sf_return ts)"

primrec join_ids :: "string list \<Rightarrow> string" where
  "join_ids [] = []"
| "join_ids (i # is) = quoted i @ (if is = [] then [] else '', '' @ join_ids is)"

definition get_user_custom_perms :: "SfSettings \<Rightarrow> 'x sfrest \<Rightarrow> string \<Rightarrow> ('x, string list) sfm" where
  "get_user_custom_perms cfg rest user_id =
     sf_bind (soql_query cfg rest
        (''SELECT SetupEntityId FROM SetupEntityAccess WHERE SetupEntityType='' @ quoted ''CustomPermission''
           @ '' AND ParentId IN (SELECT PermissionSetId FROM PermissionSetAssignment WHERE AssigneeId = '' @ quoted user_id @ '')''))
       (\<lambda>access. sf_bind (text_fields ''SetupEntityId'' access) (\<lambda>cp_ids.
          if cp_ids = [] then sf_return []
          else sf_bind (soql_query cfg rest
                 (''SELECT DeveloperName FROM CustomPermission WHERE Id IN ('' @ join_ids cp_ids @ '')''))
                 (text_fields ''DeveloperName'')))"

record SfTestCaseResult =
  tc_created :: SalesforceCaseRef
  tc_deleted :: bool
  tc_sf_fields_sent :: "(string, json) dict"

text \<open>\<open>hex\<close>: the twelve digits of the uuid; \<open>generated_at\<close>: the clock.\<close>

definition smoke_payload :: "string \<Rightarrow> instant \<Rightarrow> CaseCreateInput" where
  "smoke_payload hex generated_at =
     (let external_id = ''CASE-TEST-'' @ hex
      in \<lparr>ci_external_id = external_id,
          ci_subject = ''AFM SF write smoke '' @ em_dash @ '' lost signal during cruise '' @ em_dash @ '' TEST near KSFO ('' @ external_id @ '')'',
          ci_status = ''New'', ci_priority = Some ''Medium'', ci_flight_id = Some ''abc123'', ci_site_icao = Some ''KSFO'',
          ci_customer_region = Some ''west'', ci_case_type = Some ''lost_signal'',
          ci_detection_facts = [(''rule'', JStr ''lost_signal''), (''smoke'', JBool True), (''generated_at'', JIso generated_at)],
          ci_severity_justification = Some ''Synthetic Phase-04 smoke-test case; safe to delete.'',
          ci_runbook_refs = [''lost-signal-cruise'', ''diversion-divert''],
          ci_internal_url = Some (''https://example.invalid/afm/cases/'' @ external_id)\<rparr>)"

definition sf_test_case :: "SfSettings \<Rightarrow> 'x sfrest \<Rightarrow> string \<Rightarrow> instant \<Rightarrow> ('x, SfTestCaseResult) sfm" where
  "sf_test_case cfg rest hex generated_at =
     sf_bind (to_sf_fields cfg rest (smoke_payload hex generated_at)) (\<lambda>sent.
     sf_bind (create_case cfg rest (smoke_payload hex generated_at)) (\<lambda>ref s.
       case delete_case cfg rest (ref_salesforce_id ref) s of
         (Inr _, s') \<Rightarrow> (Inr \<lparr>tc_created = ref, tc_deleted = True, tc_sf_fields_sent = sent\<rparr>, s')
       | (Inl (AFM e), s') \<Rightarrow> (Inr \<lparr>tc_created = ref, tc_deleted = False, tc_sf_fields_sent = sent\<rparr>, s')
       | (Inl e, s') \<Rightarrow> (Inl e, s')))"

text \<open>An error of the delete itself is a SalesforceError, which the handler does not name: the route fails and the created
  case is not reported.\<close>

lemma smoke_delete_error_escapes:
  assumes "to_sf_fields cfg rest (smoke_payload hex t) s = (Inr sent, s1)"
    and "create_case cfg rest (smoke_payload hex t) s1 = (Inr ref, s2)"
    and "delete_case cfg rest (ref_salesforce_id ref) s2 = (Inl (SFError err), s3)"
  shows "sf_test_case cfg rest hex t s = (Inl (SFError err), s3)"
  using assms by (simp add: sf_test_case_def sf_bind_def)

end
