(* ===== verification/Schema.thy ===== *)
theory Schema
  imports Main
begin

text \<open>
  The migrations under api/alembic/versions as statements over a database catalogue, and the write statements of the
  program against the tables they make. A statement fails on a name in use, a missing table, column, key or sequence; a
  migration is one transaction. The catalogue holds what the migrations name; the index of a primary key and the
  sequence of a serial column live and die with their table. Column types and defaults are data.
\<close>

section \<open>Catalogues and statements\<close>

datatype column_type =
    T_TEXT | T_INT | T_BOOLEAN | T_NUMERIC nat nat | T_TIMESTAMPTZ | T_JSONB | T_TEXT_ARRAY | T_BIGSERIAL | T_DATE

record Column =
  co_name :: string
  co_type :: column_type
  co_not_null :: bool
  co_default :: "string option"

definition column :: "string \<Rightarrow> column_type \<Rightarrow> bool \<Rightarrow> string option \<Rightarrow> Column" where
  "column n t not_null dflt = \<lparr>co_name = n, co_type = t, co_not_null = not_null, co_default = dflt\<rparr>"

text \<open>A reference is a column, the table it points to and the key there.\<close>

record Table =
  ta_name :: string
  ta_columns :: "Column list"
  ta_primary_key :: "string list"
  ta_uniques :: "string list list"
  ta_references :: "(string \<times> string \<times> string) list"

text \<open>An index has a method, columns with their descending flag, and perhaps a predicate.\<close>

datatype statement =
    CreateTable Table
  | CreateIndex string string string "(string \<times> bool) list" "string option"
  | CreateSequence string
  | CreateFunction string "string list"
  | DropTable string
  | DropFunction string
  | DropSequence string

record Catalog =
  cat_tables :: "Table list"
  cat_indexes :: "(string \<times> string) list"
  cat_sequences :: "string list"
  cat_functions :: "string list"

definition EMPTY_CATALOG :: Catalog where
  "EMPTY_CATALOG = \<lparr>cat_tables = [], cat_indexes = [], cat_sequences = [], cat_functions = []\<rparr>"

definition relations :: "Catalog \<Rightarrow> string list" where
  "relations c = map ta_name (cat_tables c) @ map fst (cat_indexes c) @ cat_sequences c"

definition find_table :: "Catalog \<Rightarrow> string \<Rightarrow> Table option" where
  "find_table c n = List.find (\<lambda>t. ta_name t = n) (cat_tables c)"

definition column_names :: "Table \<Rightarrow> string list" where
  "column_names t = map co_name (ta_columns t)"

definition keys_of :: "Table \<Rightarrow> string list list" where
  "keys_of t = ta_primary_key t # ta_uniques t"

text \<open>An index is made in the schema of its table.\<close>

definition in_schema_of :: "string \<Rightarrow> string \<Rightarrow> string" where
  "in_schema_of table n = takeWhile (\<lambda>ch. ch \<noteq> CHR ''.'') table @ ''.'' @ n"

definition table_ok :: "Catalog \<Rightarrow> Table \<Rightarrow> bool" where
  "table_ok c t \<longleftrightarrow>
     distinct (column_names t) \<and> list_all (\<lambda>k. set k \<subseteq> set (column_names t)) (keys_of t) \<and>
     list_all (\<lambda>(col, target, key). col \<in> set (column_names t) \<and>
       (case find_table c target of None \<Rightarrow> False | Some u \<Rightarrow> [key] \<in> set (keys_of u))) (ta_references t)"

primrec exec :: "statement \<Rightarrow> Catalog \<Rightarrow> Catalog option" where
  "exec (CreateTable t) c =
     (if ta_name t \<in> set (relations c) \<or> \<not> table_ok c t then None else Some (c\<lparr>cat_tables := cat_tables c @ [t]\<rparr>))"
| "exec (CreateIndex n table meth cols pred) c =
     (case find_table c table of
        None \<Rightarrow> None
      | Some t \<Rightarrow>
          if in_schema_of table n \<in> set (relations c) \<or> \<not> fst ` set cols \<subseteq> set (column_names t) then None
          else Some (c\<lparr>cat_indexes := cat_indexes c @ [(in_schema_of table n, table)]\<rparr>))"
| "exec (CreateSequence n) c =
     (if n \<in> set (relations c) then None else Some (c\<lparr>cat_sequences := cat_sequences c @ [n]\<rparr>))"
| "exec (CreateFunction n seqs) c =
     (if n \<in> set (cat_functions c) \<or> \<not> set seqs \<subseteq> set (cat_sequences c) then None
      else Some (c\<lparr>cat_functions := cat_functions c @ [n]\<rparr>))"
| "exec (DropTable n) c =
     Some (c\<lparr>cat_tables := map (\<lambda>t. t\<lparr>ta_references := filter (\<lambda>(_, target, _). target \<noteq> n) (ta_references t)\<rparr>)
                             (filter (\<lambda>t. ta_name t \<noteq> n) (cat_tables c)),
             cat_indexes := filter (\<lambda>(_, table). table \<noteq> n) (cat_indexes c)\<rparr>)"
| "exec (DropFunction n) c = Some (c\<lparr>cat_functions := filter (\<lambda>f. f \<noteq> n) (cat_functions c)\<rparr>)"
| "exec (DropSequence n) c = Some (c\<lparr>cat_sequences := filter (\<lambda>s. s \<noteq> n) (cat_sequences c)\<rparr>)"

text \<open>One transaction: a failing statement leaves nothing behind.\<close>

primrec migrate :: "statement list \<Rightarrow> Catalog \<Rightarrow> Catalog option" where
  "migrate [] c = Some c"
| "migrate (s # ss) c = Option.bind (exec s c) (migrate ss)"

section \<open>The migrations\<close>

definition airports_table :: Table where
  "airports_table =
     \<lparr>ta_name = ''ref.airports'',
      ta_columns =
        [column ''icao'' T_TEXT False None,
         column ''iata'' T_TEXT False None,
         column ''name'' T_TEXT True None,
         column ''city'' T_TEXT False None,
         column ''state'' T_TEXT False None,
         column ''country'' T_TEXT True (Some ''US''),
         column ''lat'' (T_NUMERIC 8 5) True None,
         column ''lon'' (T_NUMERIC 9 5) True None,
         column ''elevation_ft'' T_INT False None,
         column ''timezone'' T_TEXT False None,
         column ''is_watched'' T_BOOLEAN True (Some ''FALSE''),
         column ''customer_regions'' T_TEXT_ARRAY True (Some ''{}'')],
      ta_primary_key = [''icao''],
      ta_uniques = [],
      ta_references = []\<rparr>"

definition aircraft_registry_table :: Table where
  "aircraft_registry_table =
     \<lparr>ta_name = ''ref.aircraft_registry'',
      ta_columns =
        [column ''icao24'' T_TEXT False None,
         column ''registration'' T_TEXT False None,
         column ''type_code'' T_TEXT False None,
         column ''type_name'' T_TEXT False None,
         column ''operator'' T_TEXT False None,
         column ''operator_icao'' T_TEXT False None,
         column ''country'' T_TEXT False None],
      ta_primary_key = [''icao24''],
      ta_uniques = [],
      ta_references = []\<rparr>"

definition runbook_index_table :: Table where
  "runbook_index_table =
     \<lparr>ta_name = ''ref.runbook_index'',
      ta_columns =
        [column ''runbook_id'' T_TEXT False None,
         column ''title'' T_TEXT True None,
         column ''case_types'' T_TEXT_ARRAY True None,
         column ''severity_floor'' T_TEXT True None,
         column ''tags'' T_TEXT_ARRAY True (Some ''{}''),
         column ''salesforce_record_type'' T_TEXT False None,
         column ''salesforce_template_id'' T_TEXT False None,
         column ''salesforce_deeplink'' T_TEXT False None,
         column ''notion_page_id'' T_TEXT False None,
         column ''notion_url'' T_TEXT False None,
         column ''body_markdown'' T_TEXT True None,
         column ''last_synced_at'' T_TIMESTAMPTZ True (Some ''NOW()''),
         column ''git_sha'' T_TEXT True None],
      ta_primary_key = [''runbook_id''],
      ta_uniques = [],
      ta_references = []\<rparr>"

definition cases_table :: Table where
  "cases_table =
     \<lparr>ta_name = ''app.cases'',
      ta_columns =
        [column ''case_id'' T_TEXT False None,
         column ''salesforce_id'' T_TEXT False None,
         column ''flight_id'' T_TEXT True None,
         column ''site_icao'' T_TEXT True None,
         column ''customer_region'' T_TEXT True None,
         column ''case_type'' T_TEXT True None,
         column ''status'' T_TEXT True (Some ''open''),
         column ''severity'' T_TEXT True (Some ''low''),
         column ''summary'' T_TEXT False None,
         column ''severity_justification'' T_TEXT False None,
         column ''detection_facts'' T_JSONB True None,
         column ''runbook_refs'' T_TEXT_ARRAY True (Some ''{}''),
         column ''created_at'' T_TIMESTAMPTZ True (Some ''NOW()''),
         column ''updated_at'' T_TIMESTAMPTZ True (Some ''NOW()''),
         column ''resolved_at'' T_TIMESTAMPTZ False None,
         column ''sf_sync_status'' T_TEXT True (Some ''pending''),
         column ''sf_sync_attempts'' T_INT True (Some ''0''),
         column ''sf_sync_last_error'' T_TEXT False None],
      ta_primary_key = [''case_id''],
      ta_uniques = [[''salesforce_id'']],
      ta_references = []\<rparr>"

definition case_timeline_table :: Table where
  "case_timeline_table =
     \<lparr>ta_name = ''app.case_timeline'',
      ta_columns =
        [column ''event_id'' T_BIGSERIAL False None,
         column ''case_id'' T_TEXT True None,
         column ''event_type'' T_TEXT True None,
         column ''detail'' T_JSONB True (Some ''{}''),
         column ''source'' T_TEXT True None,
         column ''actor'' T_TEXT False None,
         column ''occurred_at'' T_TIMESTAMPTZ True (Some ''NOW()'')],
      ta_primary_key = [''event_id''],
      ta_uniques = [],
      ta_references = [(''case_id'', ''app.cases'', ''case_id'')]\<rparr>"

definition site_metrics_table :: Table where
  "site_metrics_table =
     \<lparr>ta_name = ''app.site_metrics'',
      ta_columns =
        [column ''site_icao'' T_TEXT True None,
         column ''period'' T_TEXT True None,
         column ''inbound_count'' T_INT True (Some ''0''),
         column ''outbound_count'' T_INT True (Some ''0''),
         column ''on_time_arrival_pct'' (T_NUMERIC 5 2) False None,
         column ''on_time_departure_pct'' (T_NUMERIC 5 2) False None,
         column ''avg_arrival_delay_min'' (T_NUMERIC 6 2) False None,
         column ''avg_departure_delay_min'' (T_NUMERIC 6 2) False None,
         column ''weather_impact'' T_TEXT False None,
         column ''flight_category'' T_TEXT False None,
         column ''active_cases'' T_INT True (Some ''0''),
         column ''refreshed_at'' T_TIMESTAMPTZ True (Some ''NOW()'')],
      ta_primary_key = [''site_icao'', ''period''],
      ta_uniques = [],
      ta_references = []\<rparr>"

definition airport_conditions_table :: Table where
  "airport_conditions_table =
     \<lparr>ta_name = ''app.airport_conditions'',
      ta_columns =
        [column ''site_icao'' T_TEXT False None,
         column ''metar_raw'' T_TEXT False None,
         column ''metar_parsed'' T_JSONB False None,
         column ''taf_raw'' T_TEXT False None,
         column ''flight_category'' T_TEXT False None,
         column ''wind_kt'' T_INT False None,
         column ''wind_dir_deg'' T_INT False None,
         column ''visibility_sm'' (T_NUMERIC 4 1) False None,
         column ''ceiling_ft'' T_INT False None,
         column ''temperature_c'' (T_NUMERIC 4 1) False None,
         column ''altimeter_in_hg'' (T_NUMERIC 5 2) False None,
         column ''metar_observed_at'' T_TIMESTAMPTZ False None,
         column ''fetched_at'' T_TIMESTAMPTZ True (Some ''NOW()'')],
      ta_primary_key = [''site_icao''],
      ta_uniques = [],
      ta_references = []\<rparr>"

definition current_positions_table :: Table where
  "current_positions_table =
     \<lparr>ta_name = ''app.current_positions'',
      ta_columns =
        [column ''icao24'' T_TEXT False None,
         column ''callsign'' T_TEXT False None,
         column ''lat'' (T_NUMERIC 8 5) False None,
         column ''lon'' (T_NUMERIC 9 5) False None,
         column ''altitude_ft'' T_INT False None,
         column ''speed_kt'' T_INT False None,
         column ''heading_deg'' T_INT False None,
         column ''vertical_rate_fpm'' T_INT False None,
         column ''on_ground'' T_BOOLEAN False None,
         column ''squawk'' T_TEXT False None,
         column ''origin_icao'' T_TEXT False None,
         column ''destination_icao'' T_TEXT False None,
         column ''aircraft_type'' T_TEXT False None,
         column ''customer_region'' T_TEXT False None,
         column ''last_seen_at'' T_TIMESTAMPTZ True None,
         column ''updated_at'' T_TIMESTAMPTZ True (Some ''NOW()'')],
      ta_primary_key = [''icao24''],
      ta_uniques = [],
      ta_references = []\<rparr>"

definition briefs_table :: Table where
  "briefs_table =
     \<lparr>ta_name = ''app.briefs'',
      ta_columns =
        [column ''brief_id'' T_BIGSERIAL False None,
         column ''region'' T_TEXT True None,
         column ''brief_date'' T_DATE True None,
         column ''timezone'' T_TEXT True None,
         column ''generated_at'' T_TIMESTAMPTZ True (Some ''NOW()''),
         column ''summary_md'' T_TEXT True None,
         column ''key_metrics'' T_JSONB True None,
         column ''notable_cases'' T_TEXT_ARRAY True (Some ''{}''),
         column ''chatter_post_id'' T_TEXT False None,
         column ''email_sent_count'' T_INT True (Some ''0'')],
      ta_primary_key = [''brief_id''],
      ta_uniques = [[''region'', ''brief_date'']],
      ta_references = []\<rparr>"

definition app_logs_table :: Table where
  "app_logs_table =
     \<lparr>ta_name = ''app.app_logs'',
      ta_columns =
        [column ''log_id'' T_BIGSERIAL False None,
         column ''level'' T_TEXT True None,
         column ''actor'' T_TEXT False None,
         column ''action'' T_TEXT True None,
         column ''target_type'' T_TEXT False None,
         column ''target_id'' T_TEXT False None,
         column ''detail'' T_JSONB True (Some ''{}''),
         column ''occurred_at'' T_TIMESTAMPTZ True (Some ''NOW()'')],
      ta_primary_key = [''log_id''],
      ta_uniques = [],
      ta_references = []\<rparr>"

definition subscribers_table :: Table where
  "subscribers_table =
     \<lparr>ta_name = ''app.subscribers'',
      ta_columns =
        [column ''subscriber_id'' T_BIGSERIAL False None,
         column ''email'' T_TEXT True None,
         column ''region'' T_TEXT True None,
         column ''timezone'' T_TEXT True None,
         column ''enabled'' T_BOOLEAN True (Some ''TRUE''),
         column ''created_at'' T_TIMESTAMPTZ True (Some ''NOW()'')],
      ta_primary_key = [''subscriber_id''],
      ta_uniques = [[''email'', ''region'']],
      ta_references = []\<rparr>"

definition user_sessions_table :: Table where
  "user_sessions_table =
     \<lparr>ta_name = ''app.user_sessions'',
      ta_columns =
        [column ''session_id'' T_TEXT False None,
         column ''user_handle'' T_TEXT True None,
         column ''salesforce_user_id'' T_TEXT False None,
         column ''region'' T_TEXT True None,
         column ''custom_perms'' T_TEXT_ARRAY True (Some ''{}''),
         column ''issued_at'' T_TIMESTAMPTZ True (Some ''NOW()''),
         column ''expires_at'' T_TIMESTAMPTZ True None,
         column ''last_activity_at'' T_TIMESTAMPTZ True (Some ''NOW()'')],
      ta_primary_key = [''session_id''],
      ta_uniques = [],
      ta_references = []\<rparr>"

definition sync_watermarks_table :: Table where
  "sync_watermarks_table =
     \<lparr>ta_name = ''app.sync_watermarks'',
      ta_columns =
        [column ''sync_name'' T_TEXT False None,
         column ''last_sync_at'' T_TIMESTAMPTZ True None,
         column ''updated_at'' T_TIMESTAMPTZ True (Some ''NOW()'')],
      ta_primary_key = [''sync_name''],
      ta_uniques = [],
      ta_references = []\<rparr>"

definition flight_plans_table :: Table where
  "flight_plans_table =
     \<lparr>ta_name = ''app.flight_plans'',
      ta_columns =
        [column ''icao24'' T_TEXT False None,
         column ''origin_icao'' T_TEXT False None,
         column ''destination_icao'' T_TEXT False None,
         column ''callsign'' T_TEXT False None,
         column ''departure_time'' T_TIMESTAMPTZ False None,
         column ''arrival_time'' T_TIMESTAMPTZ False None,
         column ''refreshed_at'' T_TIMESTAMPTZ True (Some ''NOW()''),
         column ''fetch_status'' T_TEXT True (Some ''success'')],
      ta_primary_key = [''icao24''],
      ta_uniques = [],
      ta_references = []\<rparr>"

definition upgrade_0001 :: "statement list" where
  "upgrade_0001 =
     [CreateTable airports_table,
      CreateIndex ''idx_airports_state'' ''ref.airports'' ''btree'' [(''state'', False)] None,
      CreateIndex ''idx_airports_watched'' ''ref.airports'' ''btree'' [(''is_watched'', False)] (Some (''is_watched = TRUE'')),
      CreateIndex ''idx_airports_iata'' ''ref.airports'' ''btree'' [(''iata'', False)] None,
      CreateTable aircraft_registry_table,
      CreateIndex ''idx_registry_op'' ''ref.aircraft_registry'' ''btree'' [(''operator_icao'', False)] None,
      CreateTable runbook_index_table,
      CreateIndex ''idx_runbooks_case_types'' ''ref.runbook_index'' ''gin'' [(''case_types'', False)] None,
      CreateSequence ''app.case_id_seq'',
      CreateFunction ''app.next_case_id'' [''app.case_id_seq''],
      CreateTable cases_table,
      CreateIndex ''idx_cases_status_severity'' ''app.cases'' ''btree'' [(''status'', False), (''severity'', False)] None,
      CreateIndex ''idx_cases_site'' ''app.cases'' ''btree'' [(''site_icao'', False)] None,
      CreateIndex ''idx_cases_flight'' ''app.cases'' ''btree'' [(''flight_id'', False)] None,
      CreateIndex ''idx_cases_region_status'' ''app.cases'' ''btree'' [(''customer_region'', False), (''status'', False)] None,
      CreateIndex ''idx_cases_created_at'' ''app.cases'' ''btree'' [(''created_at'', True)] None,
      CreateIndex ''idx_cases_sf_sync'' ''app.cases'' ''btree'' [(''sf_sync_status'', False)] (Some (''sf_sync_status != '' @ [CHR 0x27] @ ''synced'' @ [CHR 0x27])),
      CreateTable case_timeline_table,
      CreateIndex ''idx_timeline_case_time'' ''app.case_timeline'' ''btree'' [(''case_id'', False), (''occurred_at'', False)] None,
      CreateTable site_metrics_table,
      CreateIndex ''idx_site_metrics_refreshed'' ''app.site_metrics'' ''btree'' [(''refreshed_at'', True)] None,
      CreateTable airport_conditions_table,
      CreateTable current_positions_table,
      CreateIndex ''idx_positions_region'' ''app.current_positions'' ''btree'' [(''customer_region'', False)] None,
      CreateIndex ''idx_positions_dest'' ''app.current_positions'' ''btree'' [(''destination_icao'', False)] (Some (''destination_icao IS NOT NULL'')),
      CreateIndex ''idx_positions_last_seen'' ''app.current_positions'' ''btree'' [(''last_seen_at'', True)] None,
      CreateTable briefs_table,
      CreateIndex ''idx_briefs_region_date'' ''app.briefs'' ''btree'' [(''region'', False), (''brief_date'', True)] None,
      CreateTable app_logs_table,
      CreateIndex ''idx_app_logs_target_time'' ''app.app_logs'' ''btree'' [(''target_type'', False), (''target_id'', False), (''occurred_at'', True)] None,
      CreateIndex ''idx_app_logs_actor_time'' ''app.app_logs'' ''btree'' [(''actor'', False), (''occurred_at'', True)] None,
      CreateTable subscribers_table,
      CreateTable user_sessions_table,
      CreateIndex ''idx_sessions_user'' ''app.user_sessions'' ''btree'' [(''user_handle'', False)] None,
      CreateIndex ''idx_sessions_expiry'' ''app.user_sessions'' ''btree'' [(''expires_at'', False)] None,
      CreateTable sync_watermarks_table]"

definition downgrade_0001 :: "statement list" where
  "downgrade_0001 =
     [DropTable ''app.sync_watermarks'',
      DropTable ''app.user_sessions'',
      DropTable ''app.subscribers'',
      DropTable ''app.app_logs'',
      DropTable ''app.briefs'',
      DropTable ''app.current_positions'',
      DropTable ''app.airport_conditions'',
      DropTable ''app.site_metrics'',
      DropTable ''app.case_timeline'',
      DropTable ''app.cases'',
      DropFunction ''app.next_case_id'',
      DropSequence ''app.case_id_seq'',
      DropTable ''ref.runbook_index'',
      DropTable ''ref.aircraft_registry'',
      DropTable ''ref.airports'']"

definition upgrade_0002 :: "statement list" where
  "upgrade_0002 =
     [CreateTable flight_plans_table,
      CreateIndex ''idx_flight_plans_refreshed'' ''app.flight_plans'' ''btree'' [(''refreshed_at'', False)] None]"

definition downgrade_0002 :: "statement list" where
  "downgrade_0002 =
     [DropTable ''app.flight_plans'']"

section \<open>What the program writes\<close>

text \<open>An INSERT, or a COPY: its table, its columns, its conflict target if it has one, and the columns it then sets.\<close>

record Insert =
  in_table :: string
  in_columns :: "string list"
  in_conflict :: "string list option"
  in_updates :: "string list"

definition insert_airports :: Insert where
  "insert_airports =
     \<lparr>in_table = ''ref.airports'',
      in_columns = [''icao'', ''iata'', ''name'', ''city'', ''state'', ''country'', ''lat'', ''lon'', ''elevation_ft'', ''timezone'',
        ''is_watched'', ''customer_regions''],
      in_conflict = Some [''icao''],
      in_updates = [''iata'', ''name'', ''city'', ''state'', ''country'', ''lat'', ''lon'', ''elevation_ft'', ''timezone'',
        ''is_watched'', ''customer_regions'']\<rparr>"

definition copy_aircraft :: Insert where
  "copy_aircraft =
     \<lparr>in_table = ''ref.aircraft_registry'',
      in_columns = [''icao24'', ''registration'', ''type_code'', ''type_name'', ''operator'', ''operator_icao'', ''country''],
      in_conflict = None, in_updates = []\<rparr>"

definition insert_positions :: Insert where
  "insert_positions =
     \<lparr>in_table = ''app.current_positions'',
      in_columns = [''icao24'', ''callsign'', ''lat'', ''lon'', ''altitude_ft'', ''speed_kt'', ''heading_deg'', ''vertical_rate_fpm'',
        ''on_ground'', ''squawk'', ''customer_region'', ''last_seen_at'', ''aircraft_type''],
      in_conflict = Some [''icao24''],
      in_updates = [''callsign'', ''lat'', ''lon'', ''altitude_ft'', ''speed_kt'', ''heading_deg'', ''vertical_rate_fpm'', ''on_ground'',
        ''squawk'', ''customer_region'', ''last_seen_at'', ''aircraft_type'', ''updated_at'']\<rparr>"

definition insert_conditions :: Insert where
  "insert_conditions =
     \<lparr>in_table = ''app.airport_conditions'',
      in_columns = [''site_icao'', ''metar_raw'', ''metar_parsed'', ''taf_raw'', ''flight_category'', ''wind_kt'', ''wind_dir_deg'',
        ''visibility_sm'', ''ceiling_ft'', ''temperature_c'', ''altimeter_in_hg'', ''metar_observed_at'', ''fetched_at''],
      in_conflict = Some [''site_icao''],
      in_updates = [''metar_raw'', ''metar_parsed'', ''taf_raw'', ''flight_category'', ''wind_kt'', ''wind_dir_deg'', ''visibility_sm'',
        ''ceiling_ft'', ''temperature_c'', ''altimeter_in_hg'', ''metar_observed_at'', ''fetched_at'']\<rparr>"

definition insert_plan :: Insert where
  "insert_plan =
     \<lparr>in_table = ''app.flight_plans'',
      in_columns = [''icao24'', ''origin_icao'', ''destination_icao'', ''callsign'', ''departure_time'', ''arrival_time'', ''refreshed_at'',
        ''fetch_status''],
      in_conflict = Some [''icao24''],
      in_updates = [''origin_icao'', ''destination_icao'', ''callsign'', ''departure_time'', ''arrival_time'', ''refreshed_at'',
        ''fetch_status'']\<rparr>"

definition insert_case_row :: Insert where
  "insert_case_row =
     \<lparr>in_table = ''app.cases'',
      in_columns = [''case_id'', ''flight_id'', ''site_icao'', ''customer_region'', ''case_type'', ''status'', ''severity'',
        ''detection_facts'', ''runbook_refs'', ''sf_sync_status''],
      in_conflict = None, in_updates = []\<rparr>"

definition insert_detected_event :: Insert where
  "insert_detected_event =
     \<lparr>in_table = ''app.case_timeline'', in_columns = [''case_id'', ''event_type'', ''detail'', ''source''],
      in_conflict = None, in_updates = []\<rparr>"

text \<open>The four timeline inserts of the case sync name the same columns.\<close>

definition insert_sync_event :: Insert where
  "insert_sync_event =
     \<lparr>in_table = ''app.case_timeline'', in_columns = [''case_id'', ''event_type'', ''detail'', ''source''],
      in_conflict = None, in_updates = []\<rparr>"

definition insert_watermark :: Insert where
  "insert_watermark =
     \<lparr>in_table = ''app.sync_watermarks'', in_columns = [''sync_name'', ''last_sync_at'', ''updated_at''],
      in_conflict = Some [''sync_name''], in_updates = [''last_sync_at'', ''updated_at'']\<rparr>"

definition PROGRAM_WRITES :: "Insert list" where
  "PROGRAM_WRITES = [insert_airports, copy_aircraft, insert_positions, insert_conditions, insert_plan, insert_case_row,
     insert_detected_event, insert_sync_event, insert_watermark]"

text \<open>Postgres accepts the shape of a write: its columns exist, each once; every column that may not be null and has no
  default is supplied; the conflict target is a key; what it sets exists.\<close>

definition required :: "Table \<Rightarrow> string list" where
  "required t =
     map co_name (filter (\<lambda>c. (co_not_null c \<or> co_name c \<in> set (ta_primary_key t)) \<and> co_default c = None \<and> co_type c \<noteq> T_BIGSERIAL)
       (ta_columns t))"

definition accepts :: "Catalog \<Rightarrow> Insert \<Rightarrow> bool" where
  "accepts c i \<longleftrightarrow>
     (case find_table c (in_table i) of
        None \<Rightarrow> False
      | Some t \<Rightarrow>
          distinct (in_columns i) \<and> set (in_columns i) \<subseteq> set (column_names t) \<and> set (required t) \<subseteq> set (in_columns i) \<and>
          (case in_conflict i of None \<Rightarrow> True | Some k \<Rightarrow> k \<in> set (keys_of t)) \<and> set (in_updates i) \<subseteq> set (column_names t))"

section \<open>Migrating beside other objects\<close>

text \<open>A statement that runs alone runs the same beside a catalogue with none of its names.\<close>

definition beside :: "Catalog \<Rightarrow> Catalog \<Rightarrow> Catalog" where
  "beside c d = \<lparr>cat_tables = cat_tables c @ cat_tables d, cat_indexes = cat_indexes c @ cat_indexes d,
     cat_sequences = cat_sequences c @ cat_sequences d, cat_functions = cat_functions c @ cat_functions d\<rparr>"

primrec names_of :: "statement \<Rightarrow> string list" where
  "names_of (CreateTable t) = ta_name t # map (fst \<circ> snd) (ta_references t)"
| "names_of (CreateIndex n table meth cols pred) = [in_schema_of table n, table]"
| "names_of (CreateSequence n) = [n]"
| "names_of (CreateFunction n seqs) = [n]"
| "names_of (DropTable n) = [n]"
| "names_of (DropFunction n) = [n]"
| "names_of (DropSequence n) = [n]"

definition unrelated :: "Catalog \<Rightarrow> string list \<Rightarrow> bool" where
  "unrelated c names \<longleftrightarrow>
     (\<forall>n \<in> set names. n \<notin> set (relations c) \<and> n \<notin> set (cat_functions c) \<and> n \<notin> snd ` set (cat_indexes c) \<and>
        (\<forall>t \<in> set (cat_tables c). n \<notin> (fst \<circ> snd) ` set (ta_references t)))"

lemma find_beside: "n \<notin> set (map ta_name (cat_tables c)) \<Longrightarrow> find_table (beside c d) n = find_table d n"
proof -
  have "List.find P (xs @ ys) = (case List.find P xs of None \<Rightarrow> List.find P ys | Some x \<Rightarrow> Some x)" for P :: "Table \<Rightarrow> bool" and xs ys
    by (induction xs) auto
  moreover assume "n \<notin> set (map ta_name (cat_tables c))"
  then have "List.find (\<lambda>t. ta_name t = n) (cat_tables c) = None" by (auto simp: find_None_iff)
  ultimately show ?thesis by (simp add: find_table_def beside_def)
qed

lemma relations_beside [simp]: "set (relations (beside c d)) = set (relations c) \<union> set (relations d)"
  by (auto simp: relations_def beside_def)

lemma accepts_beside: "in_table i \<notin> set (relations c) \<Longrightarrow> accepts (beside c d) i = accepts d i"
  by (simp add: accepts_def find_beside relations_def)

lemma drop_other:
  assumes "unrelated c [n]"
  shows "filter (\<lambda>t. ta_name t \<noteq> n) (cat_tables c) = cat_tables c"
    "map (\<lambda>t. t\<lparr>ta_references := filter (\<lambda>(_, target, _). target \<noteq> n) (ta_references t)\<rparr>) (cat_tables c) = cat_tables c"
    "filter (\<lambda>(_, table). table \<noteq> n) (cat_indexes c) = cat_indexes c"
    "filter (\<lambda>f. f \<noteq> n) (cat_functions c) = cat_functions c" "filter (\<lambda>s. s \<noteq> n) (cat_sequences c) = cat_sequences c"
proof -
  have "filter (\<lambda>(_, target, _). target \<noteq> n) (ta_references t) = ta_references t" if "t \<in> set (cat_tables c)" for t
    using assms that by (intro filter_True) (force simp: unrelated_def)
  then show "map (\<lambda>t. t\<lparr>ta_references := filter (\<lambda>(_, target, _). target \<noteq> n) (ta_references t)\<rparr>) (cat_tables c) = cat_tables c"
    by (intro map_idI) simp
qed (use assms in \<open>force simp: unrelated_def relations_def intro!: filter_True\<close>)+

lemma beside_add:
  "(beside c d)\<lparr>cat_tables := cat_tables (beside c d) @ ts\<rparr> = beside c (d\<lparr>cat_tables := cat_tables d @ ts\<rparr>)"
  "(beside c d)\<lparr>cat_indexes := cat_indexes (beside c d) @ is\<rparr> = beside c (d\<lparr>cat_indexes := cat_indexes d @ is\<rparr>)"
  "(beside c d)\<lparr>cat_sequences := cat_sequences (beside c d) @ ns\<rparr> = beside c (d\<lparr>cat_sequences := cat_sequences d @ ns\<rparr>)"
  "(beside c d)\<lparr>cat_functions := cat_functions (beside c d) @ ns\<rparr> = beside c (d\<lparr>cat_functions := cat_functions d @ ns\<rparr>)"
  "set (cat_sequences (beside c d)) = set (cat_sequences c) \<union> set (cat_sequences d)"
  "set (cat_functions (beside c d)) = set (cat_functions c) \<union> set (cat_functions d)"
  by (simp_all add: beside_def)

lemma exec_beside:
  assumes "unrelated c (names_of s)" "exec s d = Some d'"
  shows "exec s (beside c d) = Some (beside c d')"
proof (cases s)
  case (CreateTable t)
  have "find_table (beside c d) target = find_table d target" if "(col, target, key) \<in> set (ta_references t)" for col target key
    using assms(1) that by (intro find_beside) (force simp: CreateTable unrelated_def relations_def)
  then have "table_ok (beside c d) t = table_ok d t" by (fastforce simp: table_ok_def list_all_iff)
  then show ?thesis using assms by (auto simp: CreateTable unrelated_def beside_add split: if_splits)
next
  case (CreateIndex n table meth cols pred)
  then have "find_table (beside c d) table = find_table d table" "in_schema_of table n \<notin> set (relations c)"
    using assms(1) by (auto simp: unrelated_def relations_def intro!: find_beside)
  then show ?thesis using assms(2) by (auto simp: CreateIndex beside_add split: option.splits if_splits)
next
  case (DropTable n)
  then show ?thesis using assms drop_other[of c n] by (auto simp: beside_def)
next
  case (DropFunction n)
  then show ?thesis using assms drop_other[of c n] by (auto simp: beside_def)
next
  case (DropSequence n)
  then show ?thesis using assms drop_other[of c n] by (auto simp: beside_def)
qed (use assms in \<open>auto simp: unrelated_def beside_add split: if_splits\<close>)

lemma migrate_beside:
  "unrelated c (concat (map names_of ss)) \<Longrightarrow> migrate ss d = Some d' \<Longrightarrow> migrate ss (beside c d) = Some (beside c d')"
proof (induction ss arbitrary: d)
  case (Cons s ss)
  obtain e where "exec s d = Some e" "migrate ss e = Some d'" using Cons.prems(2) by (auto simp: bind_eq_Some_conv)
  moreover have "unrelated c (names_of s)" "unrelated c (concat (map names_of ss))" using Cons.prems(1) by (auto simp: unrelated_def)
  ultimately show ?case using Cons.IH exec_beside by simp
qed simp

lemma beside_empty [simp]: "beside c EMPTY_CATALOG = c"
  by (simp add: beside_def EMPTY_CATALOG_def)

definition MIGRATIONS :: "statement list" where
  "MIGRATIONS = upgrade_0001 @ upgrade_0002"

definition ROLLBACK :: "statement list" where
  "ROLLBACK = downgrade_0002 @ downgrade_0001"

lemma migrations_alone:
  "case migrate MIGRATIONS EMPTY_CATALOG of
     None \<Rightarrow> False
   | Some d \<Rightarrow> list_all (accepts d) PROGRAM_WRITES \<and> migrate ROLLBACK d = Some EMPTY_CATALOG"
  by code_simp

lemma rollback_names: "set (concat (map names_of ROLLBACK)) \<subseteq> set (concat (map names_of MIGRATIONS))"
  by code_simp

lemma writes_names: "set (map in_table PROGRAM_WRITES) \<subseteq> set (concat (map names_of MIGRATIONS))"
  by code_simp


definition ledger :: Catalog where
  "ledger = EMPTY_CATALOG\<lparr>cat_tables := [\<lparr>ta_name = ''app.alembic_version'', ta_columns = [column ''version_num'' T_TEXT True None],
     ta_primary_key = [''version_num''], ta_uniques = [], ta_references = []\<rparr>]\<rparr>"


end
