(* ===== verification/Spec2Isabelle.thy ===== *)
theory Spec2Isabelle
  imports Transforms CasePaging Archive QueryEdges FlightPlanRuns FoundryTicks ReferenceRuns ApiRuns CaseAssets
    Observability Definitions DetectedTypes Streams SparseCells Runtime Schema
begin

text \<open>
  Aerial Fleet Monitor: a verification of the Python program under src/.

  The system. Pipelines (src/pipelines, run by Dagster) poll OpenSky and NOAA, write position snapshots to a
  Parquet lake and the newest report per aircraft to app.current_positions, load the airport and aircraft
  reference tables, cache flight plans, and run six anomaly rules over the last half hour of the lake; what
  they find becomes rows of app.cases. The API (src/api) serves these tables under a regional scope, pushes
  pending cases to Salesforce and pulls Salesforce edits back. The Foundry sync (src/foundry/sync) reads the
  API and mirrors aircraft, sites, flights and cases into an Ontology tenant: it detects takeoffs and
  landings, upserts, evicts what has left the live set and keeps the live flag of flights; completed flights
  are archived in the lake before they are deleted from the tenant.

  Conventions. A datetime or timedelta is an integer number of microseconds, a float a real number (values,
  not rounding), an int an int, a str a char list, a Literal a datatype, a dataclass or pydantic model a
  record, a dict or a table with a primary key an association list in insertion order. An exception is the
  left value of a sum; a step over state returns the state beside its result, so what was written before an
  exception stays written. Other programs are parameters: the HTTP endpoints of OpenSky, NOAA, Salesforce, the
  API and Foundry are functions from a world to an answer and the next world, and clocks are functions of the
  world or arguments. SQL statements, Parquet files and pandas groupings are written out as what they do to
  the table, list or partition they touch.

  Theories, each with the source it models.
    Prelude, PyString, PyJson   instants, ordered dictionaries, newest-per-key, first maximum; str, int, float
    Models, Transforms, ActionParams   foundry/sync models.py, transforms.py, the serializers of ontology_writers.py
    FlightId, Lifecycle   sync_jobs.py: the flight key; the takeoff and landing detector
    Writer, ApiReaders   retry.py and FoundryWriter; the API client and its page loop
    Reconcile, SyncJobs   sync_jobs.py: the reconciles and the liveness sweep; the syncs, the enrichment, the guard
    FoundryAssets, FoundryTicks   assets/foundry_sync.py and runs of it in sequence
    Lakehouse, Archive   resources/lakehouse.py; assets/flight_archival.py
    CaseStore, Salesforce, CaseSync, CasePaging   the case tables; services/salesforce.py; services/case_sync.py; both
      ends of the paged case read
    Geo, Rules, Detector, DetectorRuns, DetectedTypes   distances and regions; pipelines/rules; assets/detection.py; what
      a run can and cannot report
    OpenSky, Ingestion, PositionsTable, Weather, IngestionRuns, Sql   the two feeds, assets/ingestion.py,
      assets/maintenance.py and the paged insert
    FlightPlans, FlightPlanRuns   assets/flight_plan_enrichment.py
    Reference, ReferenceRuns   assets/reference.py and the loading of resources/watchlist.py
    Query, QueryProps, QueryEdges   services/query_service.py, its promises, and where readers and writers meet
    Streams   the streamed batch trails: the API's services/lakehouse.py under its NDJSON endpoint
    Api, ApiRuns, CaseAssets   main.py, dependencies.py and the routers; the jobs across them; assets/sync.py
    Observability, Definitions   observability.py; definitions.py
    SparseCells   rules/_build_sparse_cells.py and the loading of its table by lost_signal.py
    Runtime   both settings.py, services/postgres.py, the lifespan of main.py, routers/admin.py
    Schema   the migrations under alembic/versions, and the writes of the program against their tables

  Interfaces stated as locales, each interpreted on the model: \<open>batch_operation\<close> (every write of the Foundry
  client), \<open>capped_drain\<close> (a reconcile that deletes at most a cap per run), \<open>grouped_rule\<close> and its extension
  \<open>reporting_rule\<close> (a rule over one aircraft at a time), \<open>baseline_provider\<close> (what the delay rule asks of a baseline).

  What is shown. Safety of deletion: a reconcile deletes no live, young or completed flight, an empty feed ends
  it, the archive deletes only what reads back, the purge drops exactly the days before the cutoff. Exactness:
  legs opened equal legs stamped plus legs open, the live flags are exactly the newest uncompleted legs, an
  eviction over the API removes exactly the unseen aircraft, the paged drain returns every case once, the batch
  trails equal the single ones. Refinement: the batch upsert refines a newest-report table, and the orchestrated
  positions ticks refine one long-lived detector. Accounting: every push, enrichment, plan cycle and reconcile
  disposes of every item it picked. Isolation: no read shows a caller the other region. Liveness and
  termination: capped drains converge, pushes use up their retry budget, a plan cycle leaves its aircraft
  fresh. Bounds: requests per poll, credits per day. Some properties state what goes wrong, by an input on
  which it does: shared traffic missing from regional maps, holds that no window can show, ties lost at a
  page boundary, a skip that forgets the detector, a retired airport that blocks every load.

  Fuel. Two loops depend on an outside page token: the object scan of the writer and the case drain of the
  client. They take fuel and give None when it runs out; on a finite chain of pages one unit per page is enough
  (Writer), and for the drain over the real server any fuel above the number of rows (CasePaging). Jobs over
  them inherit the argument, and properties of their results are accompanied by these two facts. Retry loops
  are structural in the number of attempts left.

  Configuration and schema. With a required Foundry setting missing every Foundry job is skipped and touches
  nothing; the connections of the pool and the pools of the lifespan are given back; the table of sparse cells
  keeps its cells under the demotion it causes; a streamed answer that is cut shows whole trails only; the
  migrations run beside any other objects, accept every write of the program and are undone exactly.

  Not modelled, and why. Log configuration and rendering, and the pipelines' one-connection context manager: no
  behaviour beyond their libraries'. The JSON rendering and request ids of the API and the RED metrics of the
  instrumentator: likewise. pydantic's URL check, psycopg2 and Postgres's text conversions are parameters.
  Dagster's scheduler: what is used of it is stated in FoundryAssets and Definitions. Rounding of floats and of
  NUMERIC columns, except where it decides (seconds of a timestamp, whole units of a row, minutes of a delay).
  Concurrency between jobs beyond the push's advisory lock and the overlap guard: jobs are taken one after the
  other.
\<close>

end
